(* ===== verification/Go_Prelude.thy ===== *)
theory Go_Prelude
  imports Main "HOL-Library.Word" "HOL-Library.Sublist"
begin

text \<open>
  Shared vocabulary of the development: the machine integers the Go sources use, the
  result type that separates an error return from a run-time panic, and the functions
  of Go's \<^verbatim>\<open>strings\<close>, \<^verbatim>\<open>unicode\<close> and \<^verbatim>\<open>unicode/utf8\<close> packages that the sources call.

  A Go string is a sequence of bytes, and so is an Isabelle \<^typ>\<open>string\<close>: a \<^typ>\<open>char\<close> is one
  of 256 values. Where Go iterates over runes (\<^verbatim>\<open>for i, r := range s\<close>,
  \<^verbatim>\<open>strings.TrimSpace\<close>, \<^verbatim>\<open>strings.Fields\<close>) the model decodes UTF-8 with \<open>decode_rune\<close>,
  which returns \<^verbatim>\<open>utf8.RuneError\<close> with width 1 for an invalid byte exactly as the Go
  decoder does.
\<close>

section \<open>Types\<close>

type_synonym u8 = "8 word"
type_synonym u16 = "16 word"
type_synonym u32 = "32 word"
type_synonym u64 = "64 word"
type_synonym bytes = "u8 list"
type_synonym rune = nat

datatype runtime_panic = IndexOutOfRange | SliceOutOfRange | NilDereference

text \<open>The outcome of a Go call: a value, a non-nil error, or a run-time panic.\<close>

datatype ('e, 'a) outcome = Ok 'a | Err 'e | Panic runtime_panic

primrec bind_outcome :: "('e, 'a) outcome \<Rightarrow> ('a \<Rightarrow> ('e, 'b) outcome) \<Rightarrow> ('e, 'b) outcome" where
  "bind_outcome (Ok a) f = f a"
| "bind_outcome (Err e) f = Err e"
| "bind_outcome (Panic p) f = Panic p"

primrec is_Ok :: "('e, 'a) outcome \<Rightarrow> bool" where
  "is_Ok (Ok a) = True"
| "is_Ok (Err e) = False"
| "is_Ok (Panic p) = False"

named_theorems wire_simps \<open>length and inverse laws of the binary encodings\<close>
named_theorems str_simps \<open>computation rules for the string primitives\<close>

abbreviation code :: "char \<Rightarrow> nat" where
  "code c \<equiv> of_char c"

section \<open>Bytes and strings\<close>

definition byte_of_char :: "char \<Rightarrow> u8" where
  "byte_of_char c = of_nat (code c)"

definition char_of_byte :: "u8 \<Rightarrow> char" where
  "char_of_byte b = char_of (unat b)"

definition bytes_of_string :: "string \<Rightarrow> bytes" where
  "bytes_of_string s = map byte_of_char s"

definition string_of_bytes :: "bytes \<Rightarrow> string" where
  "string_of_bytes b = map char_of_byte b"

text \<open>Go's slice expressions: \<^verbatim>\<open>s[a:b]\<close> panics unless \<open>a \<le> b \<le> len s\<close>.\<close>

definition slice :: "'a list \<Rightarrow> nat \<Rightarrow> nat \<Rightarrow> ('e, 'a list) outcome" where
  "slice s a b = (if a \<le> b \<and> b \<le> length s then Ok (take (b - a) (drop a s))
                  else Panic SliceOutOfRange)"

section \<open>The strings package on bytes\<close>

primrec index_where :: "('a \<Rightarrow> bool) \<Rightarrow> 'a list \<Rightarrow> nat option" where
  "index_where P [] = None"
| "index_where P (x # xs) = (if P x then Some 0 else map_option Suc (index_where P xs))"

text \<open>\<^verbatim>\<open>strings.IndexByte\<close>; also \<^verbatim>\<open>strings.IndexRune\<close> for an ASCII rune. \<open>None\<close> stands for -1.\<close>

definition index_byte :: "char \<Rightarrow> string \<Rightarrow> nat option" where
  "index_byte c s = index_where (\<lambda>x. x = c) s"

text \<open>\<^verbatim>\<open>strings.Index\<close>.\<close>

primrec str_index :: "string \<Rightarrow> string \<Rightarrow> nat option" where
  "str_index sub [] = (if sub = [] then Some 0 else None)"
| "str_index sub (c # cs) =
     (if prefix sub (c # cs) then Some 0 else map_option Suc (str_index sub cs))"

text \<open>\<^verbatim>\<open>strings.Split\<close> with a separator of one byte.\<close>

primrec split_byte :: "char \<Rightarrow> string \<Rightarrow> string list" where
  "split_byte sep [] = [[]]"
| "split_byte sep (c # cs) =
     (if c = sep then [] # split_byte sep cs
      else (case split_byte sep cs of [] \<Rightarrow> [[c]] | w # ws \<Rightarrow> (c # w) # ws))"

text \<open>\<^verbatim>\<open>strings.SplitN\<close> with a separator of one byte and \<open>n > 0\<close>: at most \<open>n\<close> parts.\<close>

fun splitn_byte :: "nat \<Rightarrow> char \<Rightarrow> string \<Rightarrow> string list" where
  "splitn_byte 0 sep s = []"
| "splitn_byte (Suc 0) sep s = [s]"
| "splitn_byte (Suc (Suc n)) sep s =
     (case index_byte sep s of
        None \<Rightarrow> [s]
      | Some i \<Rightarrow> take i s # splitn_byte (Suc n) sep (drop (Suc i) s))"

text \<open>\<^verbatim>\<open>strings.Join\<close>.\<close>

fun str_join :: "string \<Rightarrow> string list \<Rightarrow> string" where
  "str_join sep [] = []"
| "str_join sep [w] = w"
| "str_join sep (w # v # ws) = w @ sep @ str_join sep (v # ws)"

text \<open>\<^verbatim>\<open>strings.Replace(s, old, new, n)\<close> for a non-empty \<open>old\<close>.\<close>

fun str_replace :: "nat \<Rightarrow> string \<Rightarrow> string \<Rightarrow> string \<Rightarrow> string" where
  "str_replace 0 old new s = s"
| "str_replace (Suc n) old new s =
     (case str_index old s of
        None \<Rightarrow> s
      | Some i \<Rightarrow> take i s @ new @ str_replace n old new (drop (i + length old) s))"

definition has_suffix :: "string \<Rightarrow> string \<Rightarrow> bool" where
  "has_suffix s suf = suffix suf s"

definition has_prefix :: "string \<Rightarrow> string \<Rightarrow> bool" where
  "has_prefix s pre = prefix pre s"

section \<open>Runes\<close>

definition rune_error :: rune where
  "rune_error = 0xFFFD"

definition cont_byte :: "nat \<Rightarrow> nat \<Rightarrow> nat \<Rightarrow> bool" where
  "cont_byte lo hi b = (lo \<le> b \<and> b \<le> hi)"

definition decode2 :: "nat \<Rightarrow> string \<Rightarrow> rune \<times> nat" where
  "decode2 b0 s = (case s of
     c1 # _ \<Rightarrow>
       if cont_byte 0x80 0xBF (code c1)
       then ((b0 - 0xC0) * 0x40 + (code c1 - 0x80), 2) else (rune_error, 1)
   | _ \<Rightarrow> (rune_error, 1))"

definition decode3 :: "nat \<Rightarrow> nat \<Rightarrow> nat \<Rightarrow> string \<Rightarrow> rune \<times> nat" where
  "decode3 lo hi b0 s = (case s of
     c1 # c2 # _ \<Rightarrow>
       if cont_byte lo hi (code c1) \<and> cont_byte 0x80 0xBF (code c2)
       then ((b0 - 0xE0) * 0x1000 + (code c1 - 0x80) * 0x40 + (code c2 - 0x80), 3)
       else (rune_error, 1)
   | _ \<Rightarrow> (rune_error, 1))"

definition decode4 :: "nat \<Rightarrow> nat \<Rightarrow> nat \<Rightarrow> string \<Rightarrow> rune \<times> nat" where
  "decode4 lo hi b0 s = (case s of
     c1 # c2 # c3 # _ \<Rightarrow>
       if cont_byte lo hi (code c1) \<and> cont_byte 0x80 0xBF (code c2) \<and> cont_byte 0x80 0xBF (code c3)
       then ((b0 - 0xF0) * 0x40000 + (code c1 - 0x80) * 0x1000 + (code c2 - 0x80) * 0x40
               + (code c3 - 0x80), 4)
       else (rune_error, 1)
   | _ \<Rightarrow> (rune_error, 1))"

text \<open>\<^verbatim>\<open>utf8.DecodeRuneInString\<close>: the rune at the front of the string and its width.\<close>

definition decode_rune :: "string \<Rightarrow> rune \<times> nat" where
  "decode_rune s = (case s of
     [] \<Rightarrow> (rune_error, 0)
   | c # cs \<Rightarrow>
      (let b = code c in
       if b < 0x80 then (b, 1)
       else if b < 0xC2 then (rune_error, 1)
       else if b \<le> 0xDF then decode2 b cs
       else if b = 0xE0 then decode3 0xA0 0xBF b cs
       else if b = 0xED then decode3 0x80 0x9F b cs
       else if b \<le> 0xEF then decode3 0x80 0xBF b cs
       else if b = 0xF0 then decode4 0x90 0xBF b cs
       else if b \<le> 0xF3 then decode4 0x80 0xBF b cs
       else if b = 0xF4 then decode4 0x80 0x8F b cs
       else (rune_error, 1)))"

text \<open>\<^verbatim>\<open>utf8.RuneStart\<close> and \<^verbatim>\<open>utf8.DecodeLastRuneInString\<close>: the last rune starts at the last of
  the final four bytes that can start a rune, and must end where the string ends.\<close>

definition rune_start :: "char \<Rightarrow> bool" where
  "rune_start c = (code c < 0x80 \<or> 0xC0 \<le> code c)"

definition last_rune_at :: "string \<Rightarrow> nat \<Rightarrow> rune \<times> nat" where
  "last_rune_at s k = (case decode_rune (drop (length s - k) s) of
     (r, w) \<Rightarrow> if w = k then (r, w) else (rune_error, 1))"

definition decode_last_rune :: "string \<Rightarrow> rune \<times> nat" where
  "decode_last_rune s =
     (let n = length s; start = (\<lambda>k. k \<le> n \<and> rune_start (s ! (n - k))) in
      if s = [] then (rune_error, 0)
      else if code (last s) < 0x80 then (code (last s), 1)
      else if start 2 then last_rune_at s 2
      else if start 3 then last_rune_at s 3
      else if start 4 then last_rune_at s 4
      else (rune_error, 1))"

text \<open>\<^verbatim>\<open>unicode.IsSpace\<close>.\<close>

definition is_space :: "rune \<Rightarrow> bool" where
  "is_space r = ((9 \<le> r \<and> r \<le> 13) \<or> r = 32 \<or> r = 0x85 \<or> r = 0xA0 \<or> r = 0x1680
     \<or> (0x2000 \<le> r \<and> r \<le> 0x200A) \<or> r = 0x2028 \<or> r = 0x2029 \<or> r = 0x202F \<or> r = 0x205F
     \<or> r = 0x3000)"

section \<open>Lemmas on runes\<close>

lemma decode_rune_ascii [str_simps]:
  "code c < 0x80 \<Longrightarrow> decode_rune (c # cs) = (code c, 1)"
  by (simp add: decode_rune_def)

lemma decode_rune_width:
  assumes "s \<noteq> []"
  shows "0 < snd (decode_rune s) \<and> snd (decode_rune s) \<le> length s"
  using assms
  by (cases s)
     (auto simp: decode_rune_def decode2_def decode3_def decode4_def Let_def split: list.splits)

lemma decode_rune_width_le4: "snd (decode_rune s) \<le> 4"
  by (cases s)
     (auto simp: decode_rune_def decode2_def decode3_def decode4_def Let_def split: list.splits)

lemma decode_last_rune_width:
  assumes "s \<noteq> []"
  shows "0 < snd (decode_last_rune s)"
  using assms by (auto simp: decode_last_rune_def last_rune_at_def Let_def split: prod.splits)

section \<open>Iterating over the runes of a string\<close>

text \<open>
  \<^verbatim>\<open>for i, r := range s\<close>: the byte offsets and runes of a string, in order. The offset of
  the first rune is the parameter, so the function can be applied to a suffix.
\<close>

function runes_from :: "nat \<Rightarrow> string \<Rightarrow> (nat \<times> rune) list" where
  "runes_from i [] = []"
| "runes_from i (c # cs) =
     (let rw = decode_rune (c # cs) in (i, fst rw) # runes_from (i + snd rw) (drop (snd rw) (c # cs)))"
  by pat_completeness auto
termination
  using decode_rune_width by (relation "measure (\<lambda>(i, s). length s)") auto

text \<open>\<^verbatim>\<open>strings.TrimSpace\<close>: \<^verbatim>\<open>TrimLeftFunc\<close>, then \<^verbatim>\<open>TrimRightFunc\<close>, with \<^verbatim>\<open>unicode.IsSpace\<close>.\<close>

function trim_left_space :: "string \<Rightarrow> string" where
  "trim_left_space [] = []"
| "trim_left_space (c # cs) =
     (let rw = decode_rune (c # cs) in
      if is_space (fst rw) then trim_left_space (drop (snd rw) (c # cs)) else c # cs)"
  by pat_completeness auto
termination
  using decode_rune_width by (relation "measure length") auto

function trim_right_space :: "string \<Rightarrow> string" where
  "trim_right_space s =
     (if s = [] then []
      else (let rw = decode_last_rune s in
            if is_space (fst rw) then trim_right_space (take (length s - snd rw) s) else s))"
  by pat_completeness auto
termination
  using decode_last_rune_width by (relation "measure length") auto

declare trim_right_space.simps [simp del]

definition trim_space :: "string \<Rightarrow> string" where
  "trim_space s = trim_right_space (trim_left_space s)"

text \<open>\<^verbatim>\<open>strings.Fields\<close>: the maximal runs of runes that are not white space.\<close>

function fields_aux :: "string \<Rightarrow> string \<Rightarrow> string list" where
  "fields_aux acc [] = (if acc = [] then [] else [acc])"
| "fields_aux acc (c # cs) =
     (let rw = decode_rune (c # cs); rest = drop (snd rw) (c # cs) in
      if is_space (fst rw) then (if acc = [] then fields_aux [] rest else acc # fields_aux [] rest)
      else fields_aux (acc @ take (snd rw) (c # cs)) rest)"
  by pat_completeness auto
termination
  using decode_rune_width by (relation "measure (\<lambda>(acc, s). length s)") (auto simp: Let_def)

definition str_fields :: "string \<Rightarrow> string list" where
  "str_fields s = fields_aux [] s"

section \<open>Case mapping\<close>

text \<open>
  \<^verbatim>\<open>strings.ToUpper\<close> and \<^verbatim>\<open>strings.ToLower\<close>. ASCII letters are mapped as Go does, and so are
  the only runes outside ASCII whose image is an ASCII letter (U+0131 and U+017F upwards,
  U+0130 and U+212A downwards). Every other rune outside ASCII is mapped by Go to a rune
  outside ASCII and is left as it is here: the sources only compare the result with ASCII
  constants or search it for ASCII bytes, which cannot tell the two apart.
\<close>

definition ascii_upper :: "char \<Rightarrow> char" where
  "ascii_upper c = (if 97 \<le> code c \<and> code c \<le> 122 then char_of (code c - 32) else c)"

definition ascii_lower :: "char \<Rightarrow> char" where
  "ascii_lower c = (if 65 \<le> code c \<and> code c \<le> 90 then char_of (code c + 32) else c)"

fun to_upper :: "string \<Rightarrow> string" where
  "to_upper [] = []"
| "to_upper (c # cs) =
     (if code c = 0xC4 \<and> cs \<noteq> [] \<and> code (hd cs) = 0xB1 then CHR ''I'' # to_upper (tl cs)
      else if code c = 0xC5 \<and> cs \<noteq> [] \<and> code (hd cs) = 0xBF then CHR ''S'' # to_upper (tl cs)
      else ascii_upper c # to_upper cs)"

fun to_lower :: "string \<Rightarrow> string" where
  "to_lower [] = []"
| "to_lower (c # cs) =
     (if code c = 0xC4 \<and> cs \<noteq> [] \<and> code (hd cs) = 0xB0 then CHR ''i'' # to_lower (tl cs)
      else if code c = 0xE2 \<and> 2 \<le> length cs \<and> code (hd cs) = 0x84 \<and> code (cs ! 1) = 0xAA
        then CHR ''k'' # to_lower (drop 2 cs)
      else ascii_lower c # to_lower cs)"

section \<open>Lemmas on strings\<close>

lemma bytes_string_inverse [simp]: "string_of_bytes (bytes_of_string s) = s"
  by (induction s)
     (simp_all add: bytes_of_string_def string_of_bytes_def byte_of_char_def char_of_byte_def
        unat_of_nat take_bit_eq_mod)

lemma string_bytes_inverse [simp]: "bytes_of_string (string_of_bytes b) = b"
proof (induction b)
  case (Cons x b)
  have "unat x < 256" using unsigned_less [of x, where ?'a = nat] by simp
  with Cons show ?case
    by (simp add: bytes_of_string_def string_of_bytes_def byte_of_char_def char_of_byte_def
        of_char_of)
qed (simp add: bytes_of_string_def string_of_bytes_def)

lemma length_bytes_of_string [simp]: "length (bytes_of_string s) = length s"
  by (simp add: bytes_of_string_def)

lemma index_where_Some_iff:
  "index_where P xs = Some i \<longleftrightarrow> i < length xs \<and> P (xs ! i) \<and> (\<forall>j < i. \<not> P (xs ! j))"
proof (induction xs arbitrary: i)
  case (Cons x xs)
  then show ?case by (cases i) (auto simp: nth_Cons' less_Suc_eq_0_disj split: if_splits)
qed simp

lemma index_where_None_iff: "index_where P xs = None \<longleftrightarrow> (\<forall>x \<in> set xs. \<not> P x)"
  by (induction xs) auto

lemma index_where_append:
  "(\<forall>x \<in> set xs. \<not> P x) \<Longrightarrow> index_where P (xs @ ys) = map_option (\<lambda>i. length xs + i) (index_where P ys)"
  by (induction xs) (auto simp: option.map_comp comp_def fun_eq_iff split: option.splits
      intro: option.map_cong option.map_ident_strong [symmetric])

lemma index_byte_append:
  "c \<notin> set xs \<Longrightarrow> index_byte c (xs @ c # ys) = Some (length xs)"
  by (induction xs) (auto simp: index_byte_def)

section \<open>Lemmas on ASCII strings\<close>

definition ascii :: "string \<Rightarrow> bool" where
  "ascii s = list_all (\<lambda>c. code c < 0x80) s"

lemma code_of_char: "(of_char c :: int) = int (code c)"
  by (metis of_nat_of_char)

lemma ascii_Nil [simp]: "ascii []"
  by (simp add: ascii_def)

lemma ascii_Cons [simp]: "ascii (c # s) \<longleftrightarrow> code c < 0x80 \<and> ascii s"
  by (simp add: ascii_def)

lemma ascii_append [simp]: "ascii (s @ t) \<longleftrightarrow> ascii s \<and> ascii t"
  by (simp add: ascii_def)

lemma to_upper_ascii: "ascii s \<Longrightarrow> to_upper s = map ascii_upper s"
  by (induction s) simp_all

lemma to_lower_ascii: "ascii s \<Longrightarrow> to_lower s = map ascii_lower s"
  by (induction s) simp_all

lemma code_ascii_lower:
  "code (ascii_lower c) = (if 65 \<le> code c \<and> code c \<le> 90 then code c + 32 else code c)"
  by (simp add: ascii_lower_def of_char_of)

lemma ascii_upper_lower: "ascii_upper (ascii_lower c) = ascii_upper c"
  by (simp add: ascii_upper_def code_ascii_lower) (simp add: ascii_lower_def)

lemma ascii_to_lower: "ascii s \<Longrightarrow> ascii (to_lower s)"
  by (induction s) (simp_all add: code_ascii_lower)

lemma to_upper_to_lower: "ascii s \<Longrightarrow> to_upper (to_lower s) = to_upper s"
  by (simp add: to_upper_ascii to_lower_ascii [symmetric] ascii_to_lower)
     (simp add: to_lower_ascii comp_def ascii_upper_lower)

lemma runes_from_ascii:
  "ascii s \<Longrightarrow> runes_from i s = zip [i..<i + length s] (map code s)"
proof (induction s arbitrary: i)
  case (Cons c s)
  then have "runes_from (Suc i) s = zip [Suc i..<Suc i + length s] (map code s)" by simp
  with Cons.prems show ?case
    by (simp add: decode_rune_ascii upt_conv_Cons del: upt_Suc)
qed simp

lemma bind_outcome_Ok: "bind_outcome m f = Ok b \<longleftrightarrow> (\<exists>a. m = Ok a \<and> f a = Ok b)"
  by (cases m) auto

section \<open>Words between white space\<close>

text \<open>A word of ASCII characters without white space.\<close>

definition plain :: "string \<Rightarrow> bool" where
  "plain w = (w \<noteq> [] \<and> list_all (\<lambda>c. code c < 0x80 \<and> \<not> is_space (code c)) w)"

lemma trim_space_id:
  assumes "s \<noteq> []" and "code (hd s) < 0x80" and "\<not> is_space (code (hd s))"
    and "code (last s) < 0x80" and "\<not> is_space (code (last s))"
  shows "trim_space s = s"
proof -
  obtain c cs where s: "s = c # cs" using assms(1) by (cases s) auto
  have "trim_left_space s = s" using assms(2,3) s by (simp add: decode_rune_ascii)
  moreover have "trim_right_space s = s"
    using assms(1,4,5) by (subst trim_right_space.simps) (simp add: decode_last_rune_def Let_def)
  ultimately show ?thesis by (simp add: trim_space_def)
qed

lemma plain_trim: "plain w \<Longrightarrow> trim_space w = w"
  using last_in_set [of w] hd_in_set [of w] by (intro trim_space_id) (auto simp: plain_def list_all_iff)

lemma fields_aux_plain:
  "list_all (\<lambda>c. code c < 0x80 \<and> \<not> is_space (code c)) w \<Longrightarrow> fields_aux acc (w @ rest) = fields_aux (acc @ w) rest"
  by (induction w arbitrary: acc) (simp_all add: decode_rune_ascii)

text \<open>The words of a line are found again.\<close>

lemma str_fields_join: "list_all plain ws \<Longrightarrow> str_fields (str_join '' '' ws) = ws"
proof (induction "'' '' :: string" ws rule: str_join.induct)
  case (2 w)
  then show ?case using fields_aux_plain [of w "[]" "[]"] by (simp add: str_fields_def plain_def)
next
  case (3 w v ws)
  then have "fields_aux [] (str_join '' '' (v # ws)) = v # ws" by (simp add: str_fields_def)
  moreover have "w \<noteq> []" using 3 by (simp add: plain_def)
  ultimately show ?case
    using 3 fields_aux_plain [of w "[]"] by (simp add: str_fields_def plain_def decode_rune_ascii is_space_def)
qed (simp add: str_fields_def)

lemma split_byte_append: "sep \<notin> set w \<Longrightarrow> split_byte sep (w @ sep # rest) = w # split_byte sep rest"
  by (induction w) auto

lemma split_byte_single: "sep \<notin> set w \<Longrightarrow> split_byte sep w = [w]"
  by (induction w) auto

text \<open>Splitting undoes joining.\<close>

lemma split_byte_join:
  "ws \<noteq> [] \<Longrightarrow> list_all (\<lambda>w. sep \<notin> set w) ws \<Longrightarrow> split_byte sep (str_join [sep] ws) = ws"
  by (induction "[sep]" ws rule: str_join.induct) (auto simp: split_byte_append split_byte_single)

end
