(* ===== verification/Go_Strconv.thy ===== *)
theory Go_Strconv
  imports Go_Prelude
begin

text \<open>
  The \<^verbatim>\<open>strconv\<close> functions the sources call: \<^verbatim>\<open>ParseUint\<close>, \<^verbatim>\<open>ParseInt\<close>, \<^verbatim>\<open>Atoi\<close>, \<^verbatim>\<open>Itoa\<close> and
  \<^verbatim>\<open>FormatUint\<close>. A parse returns the pair of Go: the value (which is meaningful on a range
  error too, and which some callers use while ignoring the error) and the error.
  The machine arithmetic of the parse loop is exact here: Go's cutoff test detects the
  overflow of the 64-bit accumulator, so it reports a range error exactly when the
  mathematical value exceeds the limit.
\<close>

section \<open>Parsing\<close>

datatype num_error = ErrSyntax | ErrRange

definition is_digit :: "char \<Rightarrow> bool" where
  "is_digit c = (48 \<le> code c \<and> code c \<le> 57)"

definition digit_val :: "char \<Rightarrow> nat option" where
  "digit_val c =
     (if is_digit c then Some (code c - 48)
      else if 97 \<le> code c \<and> code c \<le> 122 then Some (code c - 87)
      else if 65 \<le> code c \<and> code c \<le> 90 then Some (code c - 55)
      else None)"

text \<open>The digit loop of \<^verbatim>\<open>ParseUint\<close>, from the accumulator \<open>n\<close>.\<close>

fun parse_digits :: "bool \<Rightarrow> nat \<Rightarrow> nat \<Rightarrow> nat \<Rightarrow> string \<Rightarrow> nat \<times> num_error option" where
  "parse_digits base0 base maxVal n [] = (n, None)"
| "parse_digits base0 base maxVal n (c # cs) =
     (if c = CHR ''_'' \<and> base0 then parse_digits base0 base maxVal n cs
      else (case digit_val c of
              None \<Rightarrow> (0, Some ErrSyntax)
            | Some d \<Rightarrow>
                if base \<le> d then (0, Some ErrSyntax)
                else if maxVal < n * base + d then (maxVal, Some ErrRange)
                else parse_digits base0 base maxVal (n * base + d) cs))"

text \<open>The prefix that selects the base when the base argument is 0.\<close>

definition base_prefix :: "string \<Rightarrow> nat \<times> string" where
  "base_prefix s =
     (if s \<noteq> [] \<and> hd s = CHR ''0'' then
        (if 3 \<le> length s \<and> ascii_lower (s ! 1) = CHR ''b'' then (2, drop 2 s)
         else if 3 \<le> length s \<and> ascii_lower (s ! 1) = CHR ''o'' then (8, drop 2 s)
         else if 3 \<le> length s \<and> ascii_lower (s ! 1) = CHR ''x'' then (16, drop 2 s)
         else (8, drop 1 s))
      else (10, s))"

text \<open>\<^verbatim>\<open>underscoreOK\<close>: an underscore must stand between digits or after the base prefix. The
  state is what was seen last.\<close>

datatype underscore_state = USStart | USDigit | USUnderscore | USOther

fun underscores_ok_from :: "bool \<Rightarrow> underscore_state \<Rightarrow> string \<Rightarrow> bool" where
  "underscores_ok_from hex st [] = (st \<noteq> USUnderscore)"
| "underscores_ok_from hex st (c # cs) =
     (if is_digit c \<or> hex \<and> 97 \<le> code (ascii_lower c) \<and> code (ascii_lower c) \<le> 102
        then underscores_ok_from hex USDigit cs
      else if c = CHR ''_'' then st = USDigit \<and> underscores_ok_from hex USUnderscore cs
      else st \<noteq> USUnderscore \<and> underscores_ok_from hex USOther cs)"

definition underscore_ok :: "string \<Rightarrow> bool" where
  "underscore_ok s0 =
     (let s = (if s0 \<noteq> [] \<and> (hd s0 = CHR ''-'' \<or> hd s0 = CHR ''+'') then tl s0 else s0) in
      if 2 \<le> length s \<and> hd s = CHR ''0'' \<and> ascii_lower (s ! 1) \<in> {CHR ''b'', CHR ''o'', CHR ''x''}
      then underscores_ok_from (ascii_lower (s ! 1) = CHR ''x'') USDigit (drop 2 s)
      else underscores_ok_from False USStart s)"

definition parse_uint :: "string \<Rightarrow> nat \<Rightarrow> nat \<Rightarrow> nat \<times> num_error option" where
  "parse_uint s base bitSize =
     (if s = [] then (0, Some ErrSyntax)
      else
        (let bs = (if base = 0 then base_prefix s else (base, s));
             r = parse_digits (base = 0) (fst bs) (2 ^ bitSize - 1) 0 (snd bs)
         in if snd r = None \<and> base = 0 \<and> CHR ''_'' \<in> set (snd bs) \<and> \<not> underscore_ok s
            then (0, Some ErrSyntax) else r))"

definition parse_int :: "string \<Rightarrow> nat \<Rightarrow> nat \<Rightarrow> int \<times> num_error option" where
  "parse_int s base bitSize =
     (if s = [] then (0, Some ErrSyntax)
      else
        (let neg = (hd s = CHR ''-'');
             t = (if neg \<or> hd s = CHR ''+'' then tl s else s);
             r = parse_uint t base bitSize; un = fst r; cutoff = 2 ^ (bitSize - 1)
         in if snd r = Some ErrSyntax then (0, Some ErrSyntax)
            else if \<not> neg \<and> cutoff \<le> un then (int cutoff - 1, Some ErrRange)
            else if neg \<and> cutoff < un then (- int cutoff, Some ErrRange)
            else (if neg then - int un else int un, None)))"

text \<open>\<^verbatim>\<open>strconv.Atoi\<close> on a 64-bit platform: \<^verbatim>\<open>ParseInt(s, 10, 0)\<close>, the fast path agreeing with it.\<close>

definition atoi :: "string \<Rightarrow> int \<times> num_error option" where
  "atoi s = parse_int s 10 64"

section \<open>Formatting\<close>

definition digit_char :: "nat \<Rightarrow> char" where
  "digit_char d = char_of (if d < 10 then 48 + d else 87 + d)"

function format_base :: "nat \<Rightarrow> nat \<Rightarrow> string" where
  "format_base b n =
     (if b < 2 \<or> n < b then [digit_char n] else format_base b (n div b) @ [digit_char (n mod b)])"
  by pat_completeness auto
termination
  by (relation "measure snd") (auto intro: div_less_dividend)

declare format_base.simps [simp del]

definition format_uint :: "nat \<Rightarrow> string" where
  "format_uint n = format_base 10 n"

definition itoa :: "int \<Rightarrow> string" where
  "itoa i = (if i < 0 then CHR ''-'' # format_uint (nat (- i)) else format_uint (nat i))"

section \<open>Laws\<close>

lemma digit_val_digit_char: "d < 36 \<Longrightarrow> digit_val (digit_char d) = Some d"
  by (auto simp: digit_val_def digit_char_def is_digit_def of_char_of)

lemma digit_char_not_underscore: "d < 36 \<Longrightarrow> digit_char d \<noteq> CHR ''_''"
  using digit_val_digit_char [of d] by (auto simp: digit_val_def is_digit_def)

lemma parse_digits_append:
  "parse_digits base0 base mx n (xs @ ys) =
     (case parse_digits base0 base mx n xs of
        (m, None) \<Rightarrow> parse_digits base0 base mx m ys
      | (m, Some e) \<Rightarrow> (m, Some e))"
  by (induction base0 base mx n xs rule: parse_digits.induct) (auto split: option.splits)

lemma parse_format_base:
  assumes "2 \<le> b" and "b \<le> 36" and "n \<le> mx"
  shows "parse_digits base0 b mx 0 (format_base b n) = (n, None)"
  using assms
proof (induction b n rule: format_base.induct)
  case (1 b n)
  show ?case
  proof (cases "n < b")
    case True
    with 1 show ?thesis
      by (subst format_base.simps)
         (simp add: digit_val_digit_char digit_char_not_underscore)
  next
    case False
    with 1 have IH: "parse_digits base0 b mx 0 (format_base b (n div b)) = (n div b, None)"
      using div_le_dividend [of n b] by (auto intro: le_trans)
    have d: "n mod b < b" using 1 by auto
    with 1 have "n mod b < 36" by linarith
    then have dv: "digit_val (digit_char (n mod b)) = Some (n mod b)"
      and nu: "digit_char (n mod b) \<noteq> CHR ''_''"
      by (simp_all add: digit_val_digit_char digit_char_not_underscore)
    have "n div b * b + n mod b = n" by simp
    moreover from d have "\<not> b \<le> n mod b" by linarith
    ultimately show ?thesis using False 1
      by (subst format_base.simps) (simp add: parse_digits_append IH dv nu)
  qed
qed

lemma format_base_not_Nil [simp]: "format_base b n \<noteq> []"
  by (subst format_base.simps) simp

lemma format_base_digits:
  assumes "2 \<le> b" and "b \<le> 36"
  shows "c \<in> set (format_base b n) \<Longrightarrow> \<exists>d < b. c = digit_char d"
  using assms
proof (induction b n rule: format_base.induct)
  case (1 b n)
  then show ?case
  proof (cases "n < b")
    case True
    with "1.prems" show ?thesis by (subst (asm) format_base.simps) auto
  next
    case False
    with "1.prems" have "c \<in> set (format_base b (n div b)) \<or> c = digit_char (n mod b)"
      by (subst (asm) format_base.simps) auto
    moreover have "\<exists>d < b. digit_char (n mod b) = digit_char d"
      using "1.prems" by (intro exI [of _ "n mod b"]) simp
    ultimately show ?thesis using "1.IH" False "1.prems" by auto
  qed
qed

lemma format_uint_digit: "c \<in> set (format_uint n) \<Longrightarrow> is_digit c"
  unfolding format_uint_def
  by (drule format_base_digits [rotated -1]) (auto simp: digit_char_def is_digit_def of_char_of)

lemma format_uint_not_Nil [simp]: "format_uint n \<noteq> []"
  by (simp add: format_uint_def)

lemma parse_uint_format_uint:
  "n < 2 ^ bits \<Longrightarrow> parse_uint (format_uint n) 10 bits = (n, None)"
  by (simp add: parse_uint_def format_uint_def parse_format_base)

lemma hd_format_uint_digit: "is_digit (hd (format_uint n))"
  by (rule format_uint_digit [of _ n]) simp

lemma parse_int_itoa:
  assumes "- (2 ^ (bits - 1)) \<le> i" and "i < 2 ^ (bits - 1)" and "0 < bits"
  shows "parse_int (itoa i) 10 bits = (i, None)"
proof -
  have half: "(2::nat) ^ (bits - 1) < 2 ^ bits" using assms(3) by simp
  show ?thesis
  proof (cases "i < 0")
    case True
    with assms have le: "nat (- i) \<le> 2 ^ (bits - 1)" by (simp add: nat_le_iff)
    with half have "nat (- i) < 2 ^ bits" by linarith
    with True le show ?thesis
      by (simp add: parse_int_def itoa_def parse_uint_format_uint Let_def)
  next
    case False
    with assms have lt: "nat i < 2 ^ (bits - 1)" by (simp add: nat_less_iff)
    with half have "nat i < 2 ^ bits" by linarith
    moreover have "hd (format_uint (nat i)) \<noteq> CHR ''-''" "hd (format_uint (nat i)) \<noteq> CHR ''+''"
      using hd_format_uint_digit [of "nat i"] by (auto simp: is_digit_def)
    ultimately show ?thesis using False lt
      by (simp add: parse_int_def itoa_def parse_uint_format_uint Let_def)
  qed
qed

lemma parse_digits_bound:
  "n \<le> mx \<Longrightarrow> fst (parse_digits base0 base mx n s) \<le> mx"
  by (induction base0 base mx n s rule: parse_digits.induct) (auto split: option.splits)

lemma parse_uint_bound: "fst (parse_uint s base bits) < 2 ^ bits"
proof -
  have "fst (parse_digits b0 b (2 ^ bits - 1) 0 t) \<le> 2 ^ bits - 1" for b0 b t
    by (rule parse_digits_bound) simp
  moreover have "(2::nat) ^ bits - 1 < 2 ^ bits" by simp
  ultimately have "fst (parse_digits b0 b (2 ^ bits - 1) 0 t) < 2 ^ bits" for b0 b t
    by (meson le_less_trans)
  then show ?thesis by (auto simp: parse_uint_def Let_def)
qed

end
