(* ===== verification/Go_Tables.thy ===== *)
theory Go_Tables
  imports Go_Prelude "HOL-Library.Multiset"
begin

text \<open>
  Association lists standing for Go map literals. The keys of a literal are distinct (the
  Go compiler refuses duplicates), which makes the order of the list irrelevant; the lemmas
  here let the simplifier establish it for the long tables by sorting integer keys, and
  give what follows for lookups in a table and in its reverse.
\<close>

section \<open>A checker for distinctness\<close>

primrec str_key :: "string \<Rightarrow> int" where
  "str_key [] = 0"
| "str_key (c # cs) = of_char c + 256 * str_key cs"

fun merge_int :: "int list \<Rightarrow> int list \<Rightarrow> int list" where
  "merge_int [] ys = ys"
| "merge_int (x # xs) [] = x # xs"
| "merge_int (x # xs) (y # ys) =
     (if x \<le> y then x # merge_int xs (y # ys) else y # merge_int (x # xs) ys)"

fun merge_pairs :: "int list list \<Rightarrow> int list list" where
  "merge_pairs (xs # ys # zss) = merge_int xs ys # merge_pairs zss"
| "merge_pairs xss = xss"

lemma length_merge_pairs: "length (merge_pairs xss) \<le> length xss"
  by (induction xss rule: merge_pairs.induct) auto

function merge_all :: "int list list \<Rightarrow> int list" where
  "merge_all [] = []"
| "merge_all [xs] = xs"
| "merge_all (xs # ys # zss) = merge_all (merge_int xs ys # merge_pairs zss)"
  by pat_completeness auto
termination
  by (relation "measure length") (auto simp: length_merge_pairs less_Suc_eq_le)

text \<open>\<open>ascending xs\<close> holds when every element is strictly below the next.\<close>

fun ascending :: "int list \<Rightarrow> bool" where
  "ascending (x # y # zs) = (x < y \<and> ascending (y # zs))"
| "ascending xs = True"

definition all_distinct :: "int list \<Rightarrow> bool" where
  "all_distinct xs = ascending (merge_all (map (\<lambda>x. [x]) xs))"

section \<open>Correctness of the checker\<close>

lemma mset_merge_int: "mset (merge_int xs ys) = mset xs + mset ys"
  by (induction xs ys rule: merge_int.induct) auto

lemma mset_merge_pairs: "mset (concat (merge_pairs xss)) = mset (concat xss)"
  by (induction xss rule: merge_pairs.induct) (auto simp: mset_merge_int)

lemma mset_merge_all: "mset (merge_all xss) = mset (concat xss)"
  by (induction xss rule: merge_all.induct) (auto simp: mset_merge_int mset_merge_pairs)

lemma ascending_strict: "ascending xs \<Longrightarrow> sorted_wrt (<) xs"
  by (induction xs rule: ascending.induct) (auto simp: less_trans)

lemma all_distinct_distinct: "all_distinct xs \<Longrightarrow> distinct xs"
proof -
  assume "all_distinct xs"
  then have "distinct (merge_all (map (\<lambda>x. [x]) xs))"
    unfolding all_distinct_def by (auto dest!: ascending_strict simp: strict_sorted_iff)
  moreover have "mset (merge_all (map (\<lambda>x. [x]) xs)) = mset xs"
    by (simp add: mset_merge_all concat_map_singleton)
  ultimately show ?thesis by (metis mset_eq_imp_distinct_iff)
qed

lemma distinct_by_key: "all_distinct (map f xs) \<Longrightarrow> distinct xs"
  by (auto dest!: all_distinct_distinct simp: distinct_map)

section \<open>Lookups in a table and in its reverse\<close>

definition swap_table :: "('a \<times> 'b) list \<Rightarrow> ('b \<times> 'a) list" where
  "swap_table xs = map (\<lambda>(a, b). (b, a)) xs"

lemma map_of_swap:
  assumes "distinct (map fst xs)" and "distinct (map snd xs)"
  shows "map_of (swap_table xs) b = Some a \<longleftrightarrow> map_of xs a = Some b"
proof -
  have "map fst (swap_table xs) = map snd xs"
    by (simp add: swap_table_def comp_def case_prod_unfold)
  with assms have "map_of (swap_table xs) b = Some a \<longleftrightarrow> (b, a) \<in> set (swap_table xs)"
    by (intro map_of_eq_Some_iff) simp
  also have "\<dots> \<longleftrightarrow> (a, b) \<in> set xs" by (auto simp: swap_table_def)
  also have "\<dots> \<longleftrightarrow> map_of xs a = Some b" using assms(1) by (simp add: map_of_eq_Some_iff)
  finally show ?thesis .
qed

lemma map_of_list_all: "list_all P (map snd xs) \<Longrightarrow> map_of xs a = Some b \<Longrightarrow> P b"
  by (auto dest!: map_of_SomeD simp: list_all_iff)

lemma map_of_None_by: "list_all P (map fst xs) \<Longrightarrow> \<not> P a \<Longrightarrow> map_of xs a = None"
  by (auto simp: list_all_iff map_of_eq_None_iff)

end
