(* ===== verification/Audit_Msg_Types.thy ===== *)
theory Audit_Msg_Types
  imports Go_Strconv Go_Tables
begin

text \<open>
  \<^verbatim>\<open>auparse/zaudit_msg_types.go\<close>: the audit message types, their names and the conversions
  between the two. The constants are abbreviations of 16-bit words, the two Go maps are
  association lists in the order of the map literals (their keys are distinct, so the
  order does not matter).
\<close>

section \<open>Constants\<close>

type_synonym AuditMessageType = u16

abbreviation AUDIT_GET :: u16 where "AUDIT_GET \<equiv> 1000"
abbreviation AUDIT_SET :: u16 where "AUDIT_SET \<equiv> 1001"
abbreviation AUDIT_LIST :: u16 where "AUDIT_LIST \<equiv> 1002"
abbreviation AUDIT_ADD :: u16 where "AUDIT_ADD \<equiv> 1003"
abbreviation AUDIT_DEL :: u16 where "AUDIT_DEL \<equiv> 1004"
abbreviation AUDIT_USER :: u16 where "AUDIT_USER \<equiv> 1005"
abbreviation AUDIT_LOGIN :: u16 where "AUDIT_LOGIN \<equiv> 1006"
abbreviation AUDIT_WATCH_INS :: u16 where "AUDIT_WATCH_INS \<equiv> 1007"
abbreviation AUDIT_WATCH_REM :: u16 where "AUDIT_WATCH_REM \<equiv> 1008"
abbreviation AUDIT_WATCH_LIST :: u16 where "AUDIT_WATCH_LIST \<equiv> 1009"
abbreviation AUDIT_SIGNAL_INFO :: u16 where "AUDIT_SIGNAL_INFO \<equiv> 1010"
abbreviation AUDIT_ADD_RULE :: u16 where "AUDIT_ADD_RULE \<equiv> 1011"
abbreviation AUDIT_DEL_RULE :: u16 where "AUDIT_DEL_RULE \<equiv> 1012"
abbreviation AUDIT_LIST_RULES :: u16 where "AUDIT_LIST_RULES \<equiv> 1013"
abbreviation AUDIT_TRIM :: u16 where "AUDIT_TRIM \<equiv> 1014"
abbreviation AUDIT_MAKE_EQUIV :: u16 where "AUDIT_MAKE_EQUIV \<equiv> 1015"
abbreviation AUDIT_TTY_GET :: u16 where "AUDIT_TTY_GET \<equiv> 1016"
abbreviation AUDIT_TTY_SET :: u16 where "AUDIT_TTY_SET \<equiv> 1017"
abbreviation AUDIT_SET_FEATURE :: u16 where "AUDIT_SET_FEATURE \<equiv> 1018"
abbreviation AUDIT_GET_FEATURE :: u16 where "AUDIT_GET_FEATURE \<equiv> 1019"
abbreviation AUDIT_USER_AUTH :: u16 where "AUDIT_USER_AUTH \<equiv> 1100"
abbreviation AUDIT_USER_ACCT :: u16 where "AUDIT_USER_ACCT \<equiv> 1101"
abbreviation AUDIT_USER_MGMT :: u16 where "AUDIT_USER_MGMT \<equiv> 1102"
abbreviation AUDIT_CRED_ACQ :: u16 where "AUDIT_CRED_ACQ \<equiv> 1103"
abbreviation AUDIT_CRED_DISP :: u16 where "AUDIT_CRED_DISP \<equiv> 1104"
abbreviation AUDIT_USER_START :: u16 where "AUDIT_USER_START \<equiv> 1105"
abbreviation AUDIT_USER_END :: u16 where "AUDIT_USER_END \<equiv> 1106"
abbreviation AUDIT_USER_AVC :: u16 where "AUDIT_USER_AVC \<equiv> 1107"
abbreviation AUDIT_USER_CHAUTHTOK :: u16 where "AUDIT_USER_CHAUTHTOK \<equiv> 1108"
abbreviation AUDIT_USER_ERR :: u16 where "AUDIT_USER_ERR \<equiv> 1109"
abbreviation AUDIT_CRED_REFR :: u16 where "AUDIT_CRED_REFR \<equiv> 1110"
abbreviation AUDIT_USYS_CONFIG :: u16 where "AUDIT_USYS_CONFIG \<equiv> 1111"
abbreviation AUDIT_USER_LOGIN :: u16 where "AUDIT_USER_LOGIN \<equiv> 1112"
abbreviation AUDIT_USER_LOGOUT :: u16 where "AUDIT_USER_LOGOUT \<equiv> 1113"
abbreviation AUDIT_ADD_USER :: u16 where "AUDIT_ADD_USER \<equiv> 1114"
abbreviation AUDIT_DEL_USER :: u16 where "AUDIT_DEL_USER \<equiv> 1115"
abbreviation AUDIT_ADD_GROUP :: u16 where "AUDIT_ADD_GROUP \<equiv> 1116"
abbreviation AUDIT_DEL_GROUP :: u16 where "AUDIT_DEL_GROUP \<equiv> 1117"
abbreviation AUDIT_DAC_CHECK :: u16 where "AUDIT_DAC_CHECK \<equiv> 1118"
abbreviation AUDIT_CHGRP_ID :: u16 where "AUDIT_CHGRP_ID \<equiv> 1119"
abbreviation AUDIT_TEST :: u16 where "AUDIT_TEST \<equiv> 1120"
abbreviation AUDIT_TRUSTED_APP :: u16 where "AUDIT_TRUSTED_APP \<equiv> 1121"
abbreviation AUDIT_USER_SELINUX_ERR :: u16 where "AUDIT_USER_SELINUX_ERR \<equiv> 1122"
abbreviation AUDIT_USER_CMD :: u16 where "AUDIT_USER_CMD \<equiv> 1123"
abbreviation AUDIT_USER_TTY :: u16 where "AUDIT_USER_TTY \<equiv> 1124"
abbreviation AUDIT_CHUSER_ID :: u16 where "AUDIT_CHUSER_ID \<equiv> 1125"
abbreviation AUDIT_GRP_AUTH :: u16 where "AUDIT_GRP_AUTH \<equiv> 1126"
abbreviation AUDIT_SYSTEM_BOOT :: u16 where "AUDIT_SYSTEM_BOOT \<equiv> 1127"
abbreviation AUDIT_SYSTEM_SHUTDOWN :: u16 where "AUDIT_SYSTEM_SHUTDOWN \<equiv> 1128"
abbreviation AUDIT_SYSTEM_RUNLEVEL :: u16 where "AUDIT_SYSTEM_RUNLEVEL \<equiv> 1129"
abbreviation AUDIT_SERVICE_START :: u16 where "AUDIT_SERVICE_START \<equiv> 1130"
abbreviation AUDIT_SERVICE_STOP :: u16 where "AUDIT_SERVICE_STOP \<equiv> 1131"
abbreviation AUDIT_GRP_MGMT :: u16 where "AUDIT_GRP_MGMT \<equiv> 1132"
abbreviation AUDIT_GRP_CHAUTHTOK :: u16 where "AUDIT_GRP_CHAUTHTOK \<equiv> 1133"
abbreviation AUDIT_MAC_CHECK :: u16 where "AUDIT_MAC_CHECK \<equiv> 1134"
abbreviation AUDIT_ACCT_LOCK :: u16 where "AUDIT_ACCT_LOCK \<equiv> 1135"
abbreviation AUDIT_ACCT_UNLOCK :: u16 where "AUDIT_ACCT_UNLOCK \<equiv> 1136"
abbreviation AUDIT_USER_DEVICE :: u16 where "AUDIT_USER_DEVICE \<equiv> 1137"
abbreviation AUDIT_SOFTWARE_UPDATE :: u16 where "AUDIT_SOFTWARE_UPDATE \<equiv> 1138"
abbreviation AUDIT_LAST_USER_MSG :: u16 where "AUDIT_LAST_USER_MSG \<equiv> 1199"
abbreviation AUDIT_DAEMON_START :: u16 where "AUDIT_DAEMON_START \<equiv> 1200"
abbreviation AUDIT_DAEMON_END :: u16 where "AUDIT_DAEMON_END \<equiv> 1201"
abbreviation AUDIT_DAEMON_ABORT :: u16 where "AUDIT_DAEMON_ABORT \<equiv> 1202"
abbreviation AUDIT_DAEMON_CONFIG :: u16 where "AUDIT_DAEMON_CONFIG \<equiv> 1203"
abbreviation AUDIT_DAEMON_RECONFIG :: u16 where "AUDIT_DAEMON_RECONFIG \<equiv> 1204"
abbreviation AUDIT_DAEMON_ROTATE :: u16 where "AUDIT_DAEMON_ROTATE \<equiv> 1205"
abbreviation AUDIT_DAEMON_RESUME :: u16 where "AUDIT_DAEMON_RESUME \<equiv> 1206"
abbreviation AUDIT_DAEMON_ACCEPT :: u16 where "AUDIT_DAEMON_ACCEPT \<equiv> 1207"
abbreviation AUDIT_DAEMON_CLOSE :: u16 where "AUDIT_DAEMON_CLOSE \<equiv> 1208"
abbreviation AUDIT_DAEMON_ERR :: u16 where "AUDIT_DAEMON_ERR \<equiv> 1209"
abbreviation AUDIT_LAST_DAEMON :: u16 where "AUDIT_LAST_DAEMON \<equiv> 1299"
abbreviation AUDIT_SYSCALL :: u16 where "AUDIT_SYSCALL \<equiv> 1300"
abbreviation AUDIT_PATH :: u16 where "AUDIT_PATH \<equiv> 1302"
abbreviation AUDIT_IPC :: u16 where "AUDIT_IPC \<equiv> 1303"
abbreviation AUDIT_SOCKETCALL :: u16 where "AUDIT_SOCKETCALL \<equiv> 1304"
abbreviation AUDIT_CONFIG_CHANGE :: u16 where "AUDIT_CONFIG_CHANGE \<equiv> 1305"
abbreviation AUDIT_SOCKADDR :: u16 where "AUDIT_SOCKADDR \<equiv> 1306"
abbreviation AUDIT_CWD :: u16 where "AUDIT_CWD \<equiv> 1307"
abbreviation AUDIT_EXECVE :: u16 where "AUDIT_EXECVE \<equiv> 1309"
abbreviation AUDIT_IPC_SET_PERM :: u16 where "AUDIT_IPC_SET_PERM \<equiv> 1311"
abbreviation AUDIT_MQ_OPEN :: u16 where "AUDIT_MQ_OPEN \<equiv> 1312"
abbreviation AUDIT_MQ_SENDRECV :: u16 where "AUDIT_MQ_SENDRECV \<equiv> 1313"
abbreviation AUDIT_MQ_NOTIFY :: u16 where "AUDIT_MQ_NOTIFY \<equiv> 1314"
abbreviation AUDIT_MQ_GETSETATTR :: u16 where "AUDIT_MQ_GETSETATTR \<equiv> 1315"
abbreviation AUDIT_KERNEL_OTHER :: u16 where "AUDIT_KERNEL_OTHER \<equiv> 1316"
abbreviation AUDIT_FD_PAIR :: u16 where "AUDIT_FD_PAIR \<equiv> 1317"
abbreviation AUDIT_OBJ_PID :: u16 where "AUDIT_OBJ_PID \<equiv> 1318"
abbreviation AUDIT_TTY :: u16 where "AUDIT_TTY \<equiv> 1319"
abbreviation AUDIT_EOE :: u16 where "AUDIT_EOE \<equiv> 1320"
abbreviation AUDIT_BPRM_FCAPS :: u16 where "AUDIT_BPRM_FCAPS \<equiv> 1321"
abbreviation AUDIT_CAPSET :: u16 where "AUDIT_CAPSET \<equiv> 1322"
abbreviation AUDIT_MMAP :: u16 where "AUDIT_MMAP \<equiv> 1323"
abbreviation AUDIT_NETFILTER_PKT :: u16 where "AUDIT_NETFILTER_PKT \<equiv> 1324"
abbreviation AUDIT_NETFILTER_CFG :: u16 where "AUDIT_NETFILTER_CFG \<equiv> 1325"
abbreviation AUDIT_SECCOMP :: u16 where "AUDIT_SECCOMP \<equiv> 1326"
abbreviation AUDIT_PROCTITLE :: u16 where "AUDIT_PROCTITLE \<equiv> 1327"
abbreviation AUDIT_FEATURE_CHANGE :: u16 where "AUDIT_FEATURE_CHANGE \<equiv> 1328"
abbreviation AUDIT_REPLACE :: u16 where "AUDIT_REPLACE \<equiv> 1329"
abbreviation AUDIT_KERN_MODULE :: u16 where "AUDIT_KERN_MODULE \<equiv> 1330"
abbreviation AUDIT_FANOTIFY :: u16 where "AUDIT_FANOTIFY \<equiv> 1331"
abbreviation AUDIT_LAST_EVENT :: u16 where "AUDIT_LAST_EVENT \<equiv> 1399"
abbreviation AUDIT_AVC :: u16 where "AUDIT_AVC \<equiv> 1400"
abbreviation AUDIT_SELINUX_ERR :: u16 where "AUDIT_SELINUX_ERR \<equiv> 1401"
abbreviation AUDIT_AVC_PATH :: u16 where "AUDIT_AVC_PATH \<equiv> 1402"
abbreviation AUDIT_MAC_POLICY_LOAD :: u16 where "AUDIT_MAC_POLICY_LOAD \<equiv> 1403"
abbreviation AUDIT_MAC_STATUS :: u16 where "AUDIT_MAC_STATUS \<equiv> 1404"
abbreviation AUDIT_MAC_CONFIG_CHANGE :: u16 where "AUDIT_MAC_CONFIG_CHANGE \<equiv> 1405"
abbreviation AUDIT_MAC_UNLBL_ALLOW :: u16 where "AUDIT_MAC_UNLBL_ALLOW \<equiv> 1406"
abbreviation AUDIT_MAC_CIPSOV4_ADD :: u16 where "AUDIT_MAC_CIPSOV4_ADD \<equiv> 1407"
abbreviation AUDIT_MAC_CIPSOV4_DEL :: u16 where "AUDIT_MAC_CIPSOV4_DEL \<equiv> 1408"
abbreviation AUDIT_MAC_MAP_ADD :: u16 where "AUDIT_MAC_MAP_ADD \<equiv> 1409"
abbreviation AUDIT_MAC_MAP_DEL :: u16 where "AUDIT_MAC_MAP_DEL \<equiv> 1410"
abbreviation AUDIT_MAC_IPSEC_ADDSA :: u16 where "AUDIT_MAC_IPSEC_ADDSA \<equiv> 1411"
abbreviation AUDIT_MAC_IPSEC_DELSA :: u16 where "AUDIT_MAC_IPSEC_DELSA \<equiv> 1412"
abbreviation AUDIT_MAC_IPSEC_ADDSPD :: u16 where "AUDIT_MAC_IPSEC_ADDSPD \<equiv> 1413"
abbreviation AUDIT_MAC_IPSEC_DELSPD :: u16 where "AUDIT_MAC_IPSEC_DELSPD \<equiv> 1414"
abbreviation AUDIT_MAC_IPSEC_EVENT :: u16 where "AUDIT_MAC_IPSEC_EVENT \<equiv> 1415"
abbreviation AUDIT_MAC_UNLBL_STCADD :: u16 where "AUDIT_MAC_UNLBL_STCADD \<equiv> 1416"
abbreviation AUDIT_MAC_UNLBL_STCDEL :: u16 where "AUDIT_MAC_UNLBL_STCDEL \<equiv> 1417"
abbreviation AUDIT_MAC_CALIPSO_ADD :: u16 where "AUDIT_MAC_CALIPSO_ADD \<equiv> 1418"
abbreviation AUDIT_MAC_CALIPSO_DEL :: u16 where "AUDIT_MAC_CALIPSO_DEL \<equiv> 1419"
abbreviation AUDIT_LAST_SELINUX :: u16 where "AUDIT_LAST_SELINUX \<equiv> 1499"
abbreviation AUDIT_AA :: u16 where "AUDIT_AA \<equiv> 1500"
abbreviation AUDIT_APPARMOR_AUDIT :: u16 where "AUDIT_APPARMOR_AUDIT \<equiv> 1501"
abbreviation AUDIT_APPARMOR_ALLOWED :: u16 where "AUDIT_APPARMOR_ALLOWED \<equiv> 1502"
abbreviation AUDIT_APPARMOR_DENIED :: u16 where "AUDIT_APPARMOR_DENIED \<equiv> 1503"
abbreviation AUDIT_APPARMOR_HINT :: u16 where "AUDIT_APPARMOR_HINT \<equiv> 1504"
abbreviation AUDIT_APPARMOR_STATUS :: u16 where "AUDIT_APPARMOR_STATUS \<equiv> 1505"
abbreviation AUDIT_APPARMOR_ERROR :: u16 where "AUDIT_APPARMOR_ERROR \<equiv> 1506"
abbreviation AUDIT_LAST_APPARMOR :: u16 where "AUDIT_LAST_APPARMOR \<equiv> 1599"
abbreviation AUDIT_FIRST_KERN_CRYPTO_MSG :: u16 where "AUDIT_FIRST_KERN_CRYPTO_MSG \<equiv> 1600"
abbreviation AUDIT_LAST_KERN_CRYPTO_MSG :: u16 where "AUDIT_LAST_KERN_CRYPTO_MSG \<equiv> 1699"
abbreviation AUDIT_ANOM_PROMISCUOUS :: u16 where "AUDIT_ANOM_PROMISCUOUS \<equiv> 1700"
abbreviation AUDIT_ANOM_ABEND :: u16 where "AUDIT_ANOM_ABEND \<equiv> 1701"
abbreviation AUDIT_ANOM_LINK :: u16 where "AUDIT_ANOM_LINK \<equiv> 1702"
abbreviation AUDIT_LAST_KERN_ANOM_MSG :: u16 where "AUDIT_LAST_KERN_ANOM_MSG \<equiv> 1799"
abbreviation AUDIT_INTEGRITY_DATA :: u16 where "AUDIT_INTEGRITY_DATA \<equiv> 1800"
abbreviation AUDIT_INTEGRITY_METADATA :: u16 where "AUDIT_INTEGRITY_METADATA \<equiv> 1801"
abbreviation AUDIT_INTEGRITY_STATUS :: u16 where "AUDIT_INTEGRITY_STATUS \<equiv> 1802"
abbreviation AUDIT_INTEGRITY_HASH :: u16 where "AUDIT_INTEGRITY_HASH \<equiv> 1803"
abbreviation AUDIT_INTEGRITY_PCR :: u16 where "AUDIT_INTEGRITY_PCR \<equiv> 1804"
abbreviation AUDIT_INTEGRITY_RULE :: u16 where "AUDIT_INTEGRITY_RULE \<equiv> 1805"
abbreviation AUDIT_INTEGRITY_LAST_MSG :: u16 where "AUDIT_INTEGRITY_LAST_MSG \<equiv> 1899"
abbreviation AUDIT_KERNEL :: u16 where "AUDIT_KERNEL \<equiv> 2000"
abbreviation AUDIT_ANOM_LOGIN_FAILURES :: u16 where "AUDIT_ANOM_LOGIN_FAILURES \<equiv> 2100"
abbreviation AUDIT_ANOM_LOGIN_TIME :: u16 where "AUDIT_ANOM_LOGIN_TIME \<equiv> 2101"
abbreviation AUDIT_ANOM_LOGIN_SESSIONS :: u16 where "AUDIT_ANOM_LOGIN_SESSIONS \<equiv> 2102"
abbreviation AUDIT_ANOM_LOGIN_ACCT :: u16 where "AUDIT_ANOM_LOGIN_ACCT \<equiv> 2103"
abbreviation AUDIT_ANOM_LOGIN_LOCATION :: u16 where "AUDIT_ANOM_LOGIN_LOCATION \<equiv> 2104"
abbreviation AUDIT_ANOM_MAX_DAC :: u16 where "AUDIT_ANOM_MAX_DAC \<equiv> 2105"
abbreviation AUDIT_ANOM_MAX_MAC :: u16 where "AUDIT_ANOM_MAX_MAC \<equiv> 2106"
abbreviation AUDIT_ANOM_AMTU_FAIL :: u16 where "AUDIT_ANOM_AMTU_FAIL \<equiv> 2107"
abbreviation AUDIT_ANOM_RBAC_FAIL :: u16 where "AUDIT_ANOM_RBAC_FAIL \<equiv> 2108"
abbreviation AUDIT_ANOM_RBAC_INTEGRITY_FAIL :: u16 where "AUDIT_ANOM_RBAC_INTEGRITY_FAIL \<equiv> 2109"
abbreviation AUDIT_ANOM_CRYPTO_FAIL :: u16 where "AUDIT_ANOM_CRYPTO_FAIL \<equiv> 2110"
abbreviation AUDIT_ANOM_ACCESS_FS :: u16 where "AUDIT_ANOM_ACCESS_FS \<equiv> 2111"
abbreviation AUDIT_ANOM_EXEC :: u16 where "AUDIT_ANOM_EXEC \<equiv> 2112"
abbreviation AUDIT_ANOM_MK_EXEC :: u16 where "AUDIT_ANOM_MK_EXEC \<equiv> 2113"
abbreviation AUDIT_ANOM_ADD_ACCT :: u16 where "AUDIT_ANOM_ADD_ACCT \<equiv> 2114"
abbreviation AUDIT_ANOM_DEL_ACCT :: u16 where "AUDIT_ANOM_DEL_ACCT \<equiv> 2115"
abbreviation AUDIT_ANOM_MOD_ACCT :: u16 where "AUDIT_ANOM_MOD_ACCT \<equiv> 2116"
abbreviation AUDIT_ANOM_ROOT_TRANS :: u16 where "AUDIT_ANOM_ROOT_TRANS \<equiv> 2117"
abbreviation AUDIT_ANOM_LOGIN_SERVICE :: u16 where "AUDIT_ANOM_LOGIN_SERVICE \<equiv> 2118"
abbreviation AUDIT_LAST_ANOM_MSG :: u16 where "AUDIT_LAST_ANOM_MSG \<equiv> 2199"
abbreviation AUDIT_RESP_ANOMALY :: u16 where "AUDIT_RESP_ANOMALY \<equiv> 2200"
abbreviation AUDIT_RESP_ALERT :: u16 where "AUDIT_RESP_ALERT \<equiv> 2201"
abbreviation AUDIT_RESP_KILL_PROC :: u16 where "AUDIT_RESP_KILL_PROC \<equiv> 2202"
abbreviation AUDIT_RESP_TERM_ACCESS :: u16 where "AUDIT_RESP_TERM_ACCESS \<equiv> 2203"
abbreviation AUDIT_RESP_ACCT_REMOTE :: u16 where "AUDIT_RESP_ACCT_REMOTE \<equiv> 2204"
abbreviation AUDIT_RESP_ACCT_LOCK_TIMED :: u16 where "AUDIT_RESP_ACCT_LOCK_TIMED \<equiv> 2205"
abbreviation AUDIT_RESP_ACCT_UNLOCK_TIMED :: u16 where "AUDIT_RESP_ACCT_UNLOCK_TIMED \<equiv> 2206"
abbreviation AUDIT_RESP_ACCT_LOCK :: u16 where "AUDIT_RESP_ACCT_LOCK \<equiv> 2207"
abbreviation AUDIT_RESP_TERM_LOCK :: u16 where "AUDIT_RESP_TERM_LOCK \<equiv> 2208"
abbreviation AUDIT_RESP_SEBOOL :: u16 where "AUDIT_RESP_SEBOOL \<equiv> 2209"
abbreviation AUDIT_RESP_EXEC :: u16 where "AUDIT_RESP_EXEC \<equiv> 2210"
abbreviation AUDIT_RESP_SINGLE :: u16 where "AUDIT_RESP_SINGLE \<equiv> 2211"
abbreviation AUDIT_RESP_HALT :: u16 where "AUDIT_RESP_HALT \<equiv> 2212"
abbreviation AUDIT_RESP_ORIGIN_BLOCK :: u16 where "AUDIT_RESP_ORIGIN_BLOCK \<equiv> 2213"
abbreviation AUDIT_RESP_ORIGIN_BLOCK_TIMED :: u16 where "AUDIT_RESP_ORIGIN_BLOCK_TIMED \<equiv> 2214"
abbreviation AUDIT_LAST_ANOM_RESP :: u16 where "AUDIT_LAST_ANOM_RESP \<equiv> 2299"
abbreviation AUDIT_USER_ROLE_CHANGE :: u16 where "AUDIT_USER_ROLE_CHANGE \<equiv> 2300"
abbreviation AUDIT_ROLE_ASSIGN :: u16 where "AUDIT_ROLE_ASSIGN \<equiv> 2301"
abbreviation AUDIT_ROLE_REMOVE :: u16 where "AUDIT_ROLE_REMOVE \<equiv> 2302"
abbreviation AUDIT_LABEL_OVERRIDE :: u16 where "AUDIT_LABEL_OVERRIDE \<equiv> 2303"
abbreviation AUDIT_LABEL_LEVEL_CHANGE :: u16 where "AUDIT_LABEL_LEVEL_CHANGE \<equiv> 2304"
abbreviation AUDIT_USER_LABELED_EXPORT :: u16 where "AUDIT_USER_LABELED_EXPORT \<equiv> 2305"
abbreviation AUDIT_USER_UNLABELED_EXPORT :: u16 where "AUDIT_USER_UNLABELED_EXPORT \<equiv> 2306"
abbreviation AUDIT_DEV_ALLOC :: u16 where "AUDIT_DEV_ALLOC \<equiv> 2307"
abbreviation AUDIT_DEV_DEALLOC :: u16 where "AUDIT_DEV_DEALLOC \<equiv> 2308"
abbreviation AUDIT_FS_RELABEL :: u16 where "AUDIT_FS_RELABEL \<equiv> 2309"
abbreviation AUDIT_USER_MAC_POLICY_LOAD :: u16 where "AUDIT_USER_MAC_POLICY_LOAD \<equiv> 2310"
abbreviation AUDIT_ROLE_MODIFY :: u16 where "AUDIT_ROLE_MODIFY \<equiv> 2311"
abbreviation AUDIT_USER_MAC_CONFIG_CHANGE :: u16 where "AUDIT_USER_MAC_CONFIG_CHANGE \<equiv> 2312"
abbreviation AUDIT_LAST_USER_LSPP_MSG :: u16 where "AUDIT_LAST_USER_LSPP_MSG \<equiv> 2399"
abbreviation AUDIT_CRYPTO_TEST_USER :: u16 where "AUDIT_CRYPTO_TEST_USER \<equiv> 2400"
abbreviation AUDIT_CRYPTO_PARAM_CHANGE_USER :: u16 where "AUDIT_CRYPTO_PARAM_CHANGE_USER \<equiv> 2401"
abbreviation AUDIT_CRYPTO_LOGIN :: u16 where "AUDIT_CRYPTO_LOGIN \<equiv> 2402"
abbreviation AUDIT_CRYPTO_LOGOUT :: u16 where "AUDIT_CRYPTO_LOGOUT \<equiv> 2403"
abbreviation AUDIT_CRYPTO_KEY_USER :: u16 where "AUDIT_CRYPTO_KEY_USER \<equiv> 2404"
abbreviation AUDIT_CRYPTO_FAILURE_USER :: u16 where "AUDIT_CRYPTO_FAILURE_USER \<equiv> 2405"
abbreviation AUDIT_CRYPTO_REPLAY_USER :: u16 where "AUDIT_CRYPTO_REPLAY_USER \<equiv> 2406"
abbreviation AUDIT_CRYPTO_SESSION :: u16 where "AUDIT_CRYPTO_SESSION \<equiv> 2407"
abbreviation AUDIT_CRYPTO_IKE_SA :: u16 where "AUDIT_CRYPTO_IKE_SA \<equiv> 2408"
abbreviation AUDIT_CRYPTO_IPSEC_SA :: u16 where "AUDIT_CRYPTO_IPSEC_SA \<equiv> 2409"
abbreviation AUDIT_LAST_CRYPTO_MSG :: u16 where "AUDIT_LAST_CRYPTO_MSG \<equiv> 2499"
abbreviation AUDIT_VIRT_CONTROL :: u16 where "AUDIT_VIRT_CONTROL \<equiv> 2500"
abbreviation AUDIT_VIRT_RESOURCE :: u16 where "AUDIT_VIRT_RESOURCE \<equiv> 2501"
abbreviation AUDIT_VIRT_MACHINE_ID :: u16 where "AUDIT_VIRT_MACHINE_ID \<equiv> 2502"
abbreviation AUDIT_VIRT_INTEGRITY_CHECK :: u16 where "AUDIT_VIRT_INTEGRITY_CHECK \<equiv> 2503"
abbreviation AUDIT_VIRT_CREATE :: u16 where "AUDIT_VIRT_CREATE \<equiv> 2504"
abbreviation AUDIT_VIRT_DESTROY :: u16 where "AUDIT_VIRT_DESTROY \<equiv> 2505"
abbreviation AUDIT_VIRT_MIGRATE_IN :: u16 where "AUDIT_VIRT_MIGRATE_IN \<equiv> 2506"
abbreviation AUDIT_VIRT_MIGRATE_OUT :: u16 where "AUDIT_VIRT_MIGRATE_OUT \<equiv> 2507"
abbreviation AUDIT_LAST_VIRT_MSG :: u16 where "AUDIT_LAST_VIRT_MSG \<equiv> 2599"
abbreviation AUDIT_LAST_USER_MSG2 :: u16 where "AUDIT_LAST_USER_MSG2 \<equiv> 2999"

section \<open>Tables\<close>

definition auditMessageTypeToName :: "(AuditMessageType \<times> string) list" where
  "auditMessageTypeToName = [
    (AUDIT_AA, ''APPARMOR''), (AUDIT_ACCT_LOCK, ''ACCT_LOCK''),
    (AUDIT_ACCT_UNLOCK, ''ACCT_UNLOCK''), (AUDIT_ADD, ''ADD''), (AUDIT_ADD_GROUP, ''ADD_GROUP''),
    (AUDIT_ADD_RULE, ''ADD_RULE''), (AUDIT_ADD_USER, ''ADD_USER''),
    (AUDIT_ANOM_ABEND, ''ANOM_ABEND''), (AUDIT_ANOM_ACCESS_FS, ''ANOM_ACCESS_FS''),
    (AUDIT_ANOM_ADD_ACCT, ''ANOM_ADD_ACCT''), (AUDIT_ANOM_AMTU_FAIL, ''ANOM_AMTU_FAIL''),
    (AUDIT_ANOM_CRYPTO_FAIL, ''ANOM_CRYPTO_FAIL''), (AUDIT_ANOM_DEL_ACCT, ''ANOM_DEL_ACCT''),
    (AUDIT_ANOM_EXEC, ''ANOM_EXEC''), (AUDIT_ANOM_LINK, ''ANOM_LINK''),
    (AUDIT_ANOM_LOGIN_ACCT, ''ANOM_LOGIN_ACCT''),
    (AUDIT_ANOM_LOGIN_FAILURES, ''ANOM_LOGIN_FAILURES''),
    (AUDIT_ANOM_LOGIN_LOCATION, ''ANOM_LOGIN_LOCATION''),
    (AUDIT_ANOM_LOGIN_SERVICE, ''ANOM_LOGIN_SERVICE''),
    (AUDIT_ANOM_LOGIN_SESSIONS, ''ANOM_LOGIN_SESSIONS''),
    (AUDIT_ANOM_LOGIN_TIME, ''ANOM_LOGIN_TIME''), (AUDIT_ANOM_MAX_DAC, ''ANOM_MAX_DAC''),
    (AUDIT_ANOM_MAX_MAC, ''ANOM_MAX_MAC''), (AUDIT_ANOM_MK_EXEC, ''ANOM_MK_EXEC''),
    (AUDIT_ANOM_MOD_ACCT, ''ANOM_MOD_ACCT''), (AUDIT_ANOM_PROMISCUOUS, ''ANOM_PROMISCUOUS''),
    (AUDIT_ANOM_RBAC_FAIL, ''ANOM_RBAC_FAIL''),
    (AUDIT_ANOM_RBAC_INTEGRITY_FAIL, ''ANOM_RBAC_INTEGRITY_FAIL''),
    (AUDIT_ANOM_ROOT_TRANS, ''ANOM_ROOT_TRANS''), (AUDIT_APPARMOR_ALLOWED, ''APPARMOR_ALLOWED''),
    (AUDIT_APPARMOR_AUDIT, ''APPARMOR_AUDIT''), (AUDIT_APPARMOR_DENIED, ''APPARMOR_DENIED''),
    (AUDIT_APPARMOR_ERROR, ''APPARMOR_ERROR''), (AUDIT_APPARMOR_HINT, ''APPARMOR_HINT''),
    (AUDIT_APPARMOR_STATUS, ''APPARMOR_STATUS''), (AUDIT_AVC, ''AVC''),
    (AUDIT_AVC_PATH, ''AVC_PATH''), (AUDIT_BPRM_FCAPS, ''BPRM_FCAPS''),
    (AUDIT_CAPSET, ''CAPSET''), (AUDIT_CHGRP_ID, ''CHGRP_ID''), (AUDIT_CHUSER_ID, ''CHUSER_ID''),
    (AUDIT_CONFIG_CHANGE, ''CONFIG_CHANGE''), (AUDIT_CRED_ACQ, ''CRED_ACQ''),
    (AUDIT_CRED_DISP, ''CRED_DISP''), (AUDIT_CRED_REFR, ''CRED_REFR''),
    (AUDIT_CRYPTO_FAILURE_USER, ''CRYPTO_FAILURE_USER''),
    (AUDIT_CRYPTO_IKE_SA, ''CRYPTO_IKE_SA''), (AUDIT_CRYPTO_IPSEC_SA, ''CRYPTO_IPSEC_SA''),
    (AUDIT_CRYPTO_KEY_USER, ''CRYPTO_KEY_USER''), (AUDIT_CRYPTO_LOGIN, ''CRYPTO_LOGIN''),
    (AUDIT_CRYPTO_LOGOUT, ''CRYPTO_LOGOUT''),
    (AUDIT_CRYPTO_PARAM_CHANGE_USER, ''CRYPTO_PARAM_CHANGE_USER''),
    (AUDIT_CRYPTO_REPLAY_USER, ''CRYPTO_REPLAY_USER''),
    (AUDIT_CRYPTO_SESSION, ''CRYPTO_SESSION''), (AUDIT_CRYPTO_TEST_USER, ''CRYPTO_TEST_USER''),
    (AUDIT_CWD, ''CWD''), (AUDIT_DAC_CHECK, ''DAC_CHECK''),
    (AUDIT_DAEMON_ABORT, ''DAEMON_ABORT''), (AUDIT_DAEMON_ACCEPT, ''DAEMON_ACCEPT''),
    (AUDIT_DAEMON_CLOSE, ''DAEMON_CLOSE''), (AUDIT_DAEMON_CONFIG, ''DAEMON_CONFIG''),
    (AUDIT_DAEMON_END, ''DAEMON_END''), (AUDIT_DAEMON_ERR, ''DAEMON_ERR''),
    (AUDIT_DAEMON_RECONFIG, ''DAEMON_RECONFIG''), (AUDIT_DAEMON_RESUME, ''DAEMON_RESUME''),
    (AUDIT_DAEMON_ROTATE, ''DAEMON_ROTATE''), (AUDIT_DAEMON_START, ''DAEMON_START''),
    (AUDIT_DEL, ''DEL''), (AUDIT_DEL_GROUP, ''DEL_GROUP''), (AUDIT_DEL_RULE, ''DEL_RULE''),
    (AUDIT_DEL_USER, ''DEL_USER''), (AUDIT_DEV_ALLOC, ''DEV_ALLOC''),
    (AUDIT_DEV_DEALLOC, ''DEV_DEALLOC''), (AUDIT_EOE, ''EOE''), (AUDIT_EXECVE, ''EXECVE''),
    (AUDIT_FANOTIFY, ''FANOTIFY''), (AUDIT_FD_PAIR, ''FD_PAIR''),
    (AUDIT_FEATURE_CHANGE, ''FEATURE_CHANGE''),
    (AUDIT_FIRST_KERN_CRYPTO_MSG, ''FIRST_KERN_CRYPTO_MSG''), (AUDIT_FS_RELABEL, ''FS_RELABEL''),
    (AUDIT_GET, ''GET''), (AUDIT_GET_FEATURE, ''GET_FEATURE''), (AUDIT_GRP_AUTH, ''GRP_AUTH''),
    (AUDIT_GRP_CHAUTHTOK, ''GRP_CHAUTHTOK''), (AUDIT_GRP_MGMT, ''GRP_MGMT''),
    (AUDIT_INTEGRITY_DATA, ''INTEGRITY_DATA''), (AUDIT_INTEGRITY_HASH, ''INTEGRITY_HASH''),
    (AUDIT_INTEGRITY_LAST_MSG, ''INTEGRITY_LAST_MSG''),
    (AUDIT_INTEGRITY_METADATA, ''INTEGRITY_METADATA''), (AUDIT_INTEGRITY_PCR, ''INTEGRITY_PCR''),
    (AUDIT_INTEGRITY_RULE, ''INTEGRITY_RULE''), (AUDIT_INTEGRITY_STATUS, ''INTEGRITY_STATUS''),
    (AUDIT_IPC, ''IPC''), (AUDIT_IPC_SET_PERM, ''IPC_SET_PERM''), (AUDIT_KERNEL, ''KERNEL''),
    (AUDIT_KERNEL_OTHER, ''KERNEL_OTHER''), (AUDIT_KERN_MODULE, ''KERN_MODULE''),
    (AUDIT_LABEL_LEVEL_CHANGE, ''LABEL_LEVEL_CHANGE''),
    (AUDIT_LABEL_OVERRIDE, ''LABEL_OVERRIDE''), (AUDIT_LAST_ANOM_MSG, ''LAST_ANOM_MSG''),
    (AUDIT_LAST_ANOM_RESP, ''LAST_ANOM_RESP''), (AUDIT_LAST_APPARMOR, ''LAST_APPARMOR''),
    (AUDIT_LAST_CRYPTO_MSG, ''LAST_CRYPTO_MSG''), (AUDIT_LAST_DAEMON, ''LAST_DAEMON''),
    (AUDIT_LAST_EVENT, ''LAST_EVENT''), (AUDIT_LAST_KERN_ANOM_MSG, ''LAST_KERN_ANOM_MSG''),
    (AUDIT_LAST_KERN_CRYPTO_MSG, ''LAST_KERN_CRYPTO_MSG''),
    (AUDIT_LAST_SELINUX, ''LAST_SELINUX''), (AUDIT_LAST_USER_LSPP_MSG, ''LAST_USER_LSPP_MSG''),
    (AUDIT_LAST_USER_MSG, ''LAST_USER_MSG''), (AUDIT_LAST_USER_MSG2, ''LAST_USER_MSG2''),
    (AUDIT_LAST_VIRT_MSG, ''LAST_VIRT_MSG''), (AUDIT_LIST, ''LIST''),
    (AUDIT_LIST_RULES, ''LIST_RULES''), (AUDIT_LOGIN, ''LOGIN''),
    (AUDIT_MAC_CALIPSO_ADD, ''MAC_CALIPSO_ADD''), (AUDIT_MAC_CALIPSO_DEL, ''MAC_CALIPSO_DEL''),
    (AUDIT_MAC_CHECK, ''MAC_CHECK''), (AUDIT_MAC_CIPSOV4_ADD, ''MAC_CIPSOV4_ADD''),
    (AUDIT_MAC_CIPSOV4_DEL, ''MAC_CIPSOV4_DEL''),
    (AUDIT_MAC_CONFIG_CHANGE, ''MAC_CONFIG_CHANGE''),
    (AUDIT_MAC_IPSEC_ADDSA, ''MAC_IPSEC_ADDSA''), (AUDIT_MAC_IPSEC_ADDSPD, ''MAC_IPSEC_ADDSPD''),
    (AUDIT_MAC_IPSEC_DELSA, ''MAC_IPSEC_DELSA''), (AUDIT_MAC_IPSEC_DELSPD, ''MAC_IPSEC_DELSPD''),
    (AUDIT_MAC_IPSEC_EVENT, ''MAC_IPSEC_EVENT''), (AUDIT_MAC_MAP_ADD, ''MAC_MAP_ADD''),
    (AUDIT_MAC_MAP_DEL, ''MAC_MAP_DEL''), (AUDIT_MAC_POLICY_LOAD, ''MAC_POLICY_LOAD''),
    (AUDIT_MAC_STATUS, ''MAC_STATUS''), (AUDIT_MAC_UNLBL_ALLOW, ''MAC_UNLBL_ALLOW''),
    (AUDIT_MAC_UNLBL_STCADD, ''MAC_UNLBL_STCADD''),
    (AUDIT_MAC_UNLBL_STCDEL, ''MAC_UNLBL_STCDEL''), (AUDIT_MAKE_EQUIV, ''MAKE_EQUIV''),
    (AUDIT_MMAP, ''MMAP''), (AUDIT_MQ_GETSETATTR, ''MQ_GETSETATTR''),
    (AUDIT_MQ_NOTIFY, ''MQ_NOTIFY''), (AUDIT_MQ_OPEN, ''MQ_OPEN''),
    (AUDIT_MQ_SENDRECV, ''MQ_SENDRECV''), (AUDIT_NETFILTER_CFG, ''NETFILTER_CFG''),
    (AUDIT_NETFILTER_PKT, ''NETFILTER_PKT''), (AUDIT_OBJ_PID, ''OBJ_PID''),
    (AUDIT_PATH, ''PATH''), (AUDIT_PROCTITLE, ''PROCTITLE''), (AUDIT_REPLACE, ''REPLACE''),
    (AUDIT_RESP_ACCT_LOCK, ''RESP_ACCT_LOCK''),
    (AUDIT_RESP_ACCT_LOCK_TIMED, ''RESP_ACCT_LOCK_TIMED''),
    (AUDIT_RESP_ACCT_REMOTE, ''RESP_ACCT_REMOTE''),
    (AUDIT_RESP_ACCT_UNLOCK_TIMED, ''RESP_ACCT_UNLOCK_TIMED''),
    (AUDIT_RESP_ALERT, ''RESP_ALERT''), (AUDIT_RESP_ANOMALY, ''RESP_ANOMALY''),
    (AUDIT_RESP_EXEC, ''RESP_EXEC''), (AUDIT_RESP_HALT, ''RESP_HALT''),
    (AUDIT_RESP_KILL_PROC, ''RESP_KILL_PROC''), (AUDIT_RESP_ORIGIN_BLOCK, ''RESP_ORIGIN_BLOCK''),
    (AUDIT_RESP_ORIGIN_BLOCK_TIMED, ''RESP_ORIGIN_BLOCK_TIMED''),
    (AUDIT_RESP_SEBOOL, ''RESP_SEBOOL''), (AUDIT_RESP_SINGLE, ''RESP_SINGLE''),
    (AUDIT_RESP_TERM_ACCESS, ''RESP_TERM_ACCESS''), (AUDIT_RESP_TERM_LOCK, ''RESP_TERM_LOCK''),
    (AUDIT_ROLE_ASSIGN, ''ROLE_ASSIGN''), (AUDIT_ROLE_MODIFY, ''ROLE_MODIFY''),
    (AUDIT_ROLE_REMOVE, ''ROLE_REMOVE''), (AUDIT_SECCOMP, ''SECCOMP''),
    (AUDIT_SELINUX_ERR, ''SELINUX_ERR''), (AUDIT_SERVICE_START, ''SERVICE_START''),
    (AUDIT_SERVICE_STOP, ''SERVICE_STOP''), (AUDIT_SET, ''SET''),
    (AUDIT_SET_FEATURE, ''SET_FEATURE''), (AUDIT_SIGNAL_INFO, ''SIGNAL_INFO''),
    (AUDIT_SOCKADDR, ''SOCKADDR''), (AUDIT_SOCKETCALL, ''SOCKETCALL''),
    (AUDIT_SOFTWARE_UPDATE, ''SOFTWARE_UPDATE''), (AUDIT_SYSCALL, ''SYSCALL''),
    (AUDIT_SYSTEM_BOOT, ''SYSTEM_BOOT''), (AUDIT_SYSTEM_RUNLEVEL, ''SYSTEM_RUNLEVEL''),
    (AUDIT_SYSTEM_SHUTDOWN, ''SYSTEM_SHUTDOWN''), (AUDIT_TEST, ''TEST''), (AUDIT_TRIM, ''TRIM''),
    (AUDIT_TRUSTED_APP, ''TRUSTED_APP''), (AUDIT_TTY, ''TTY''), (AUDIT_TTY_GET, ''TTY_GET''),
    (AUDIT_TTY_SET, ''TTY_SET''), (AUDIT_USER, ''USER''), (AUDIT_USER_ACCT, ''USER_ACCT''),
    (AUDIT_USER_AUTH, ''USER_AUTH''), (AUDIT_USER_AVC, ''USER_AVC''),
    (AUDIT_USER_CHAUTHTOK, ''USER_CHAUTHTOK''), (AUDIT_USER_CMD, ''USER_CMD''),
    (AUDIT_USER_DEVICE, ''USER_DEVICE''), (AUDIT_USER_END, ''USER_END''),
    (AUDIT_USER_ERR, ''USER_ERR''), (AUDIT_USER_LABELED_EXPORT, ''USER_LABELED_EXPORT''),
    (AUDIT_USER_LOGIN, ''USER_LOGIN''), (AUDIT_USER_LOGOUT, ''USER_LOGOUT''),
    (AUDIT_USER_MAC_CONFIG_CHANGE, ''USER_MAC_CONFIG_CHANGE''),
    (AUDIT_USER_MAC_POLICY_LOAD, ''USER_MAC_POLICY_LOAD''), (AUDIT_USER_MGMT, ''USER_MGMT''),
    (AUDIT_USER_ROLE_CHANGE, ''USER_ROLE_CHANGE''),
    (AUDIT_USER_SELINUX_ERR, ''USER_SELINUX_ERR''), (AUDIT_USER_START, ''USER_START''),
    (AUDIT_USER_TTY, ''USER_TTY''), (AUDIT_USER_UNLABELED_EXPORT, ''USER_UNLABELED_EXPORT''),
    (AUDIT_USYS_CONFIG, ''USYS_CONFIG''), (AUDIT_VIRT_CONTROL, ''VIRT_CONTROL''),
    (AUDIT_VIRT_CREATE, ''VIRT_CREATE''), (AUDIT_VIRT_DESTROY, ''VIRT_DESTROY''),
    (AUDIT_VIRT_INTEGRITY_CHECK, ''VIRT_INTEGRITY_CHECK''),
    (AUDIT_VIRT_MACHINE_ID, ''VIRT_MACHINE_ID''), (AUDIT_VIRT_MIGRATE_IN, ''VIRT_MIGRATE_IN''),
    (AUDIT_VIRT_MIGRATE_OUT, ''VIRT_MIGRATE_OUT''), (AUDIT_VIRT_RESOURCE, ''VIRT_RESOURCE''),
    (AUDIT_WATCH_INS, ''WATCH_INS''), (AUDIT_WATCH_LIST, ''WATCH_LIST''),
    (AUDIT_WATCH_REM, ''WATCH_REM'')]"

definition auditMessageNameToType :: "(string \<times> AuditMessageType) list" where
  "auditMessageNameToType = [
    (''APPARMOR'', AUDIT_AA), (''ACCT_LOCK'', AUDIT_ACCT_LOCK),
    (''ACCT_UNLOCK'', AUDIT_ACCT_UNLOCK), (''ADD'', AUDIT_ADD), (''ADD_GROUP'', AUDIT_ADD_GROUP),
    (''ADD_RULE'', AUDIT_ADD_RULE), (''ADD_USER'', AUDIT_ADD_USER),
    (''ANOM_ABEND'', AUDIT_ANOM_ABEND), (''ANOM_ACCESS_FS'', AUDIT_ANOM_ACCESS_FS),
    (''ANOM_ADD_ACCT'', AUDIT_ANOM_ADD_ACCT), (''ANOM_AMTU_FAIL'', AUDIT_ANOM_AMTU_FAIL),
    (''ANOM_CRYPTO_FAIL'', AUDIT_ANOM_CRYPTO_FAIL), (''ANOM_DEL_ACCT'', AUDIT_ANOM_DEL_ACCT),
    (''ANOM_EXEC'', AUDIT_ANOM_EXEC), (''ANOM_LINK'', AUDIT_ANOM_LINK),
    (''ANOM_LOGIN_ACCT'', AUDIT_ANOM_LOGIN_ACCT),
    (''ANOM_LOGIN_FAILURES'', AUDIT_ANOM_LOGIN_FAILURES),
    (''ANOM_LOGIN_LOCATION'', AUDIT_ANOM_LOGIN_LOCATION),
    (''ANOM_LOGIN_SERVICE'', AUDIT_ANOM_LOGIN_SERVICE),
    (''ANOM_LOGIN_SESSIONS'', AUDIT_ANOM_LOGIN_SESSIONS),
    (''ANOM_LOGIN_TIME'', AUDIT_ANOM_LOGIN_TIME), (''ANOM_MAX_DAC'', AUDIT_ANOM_MAX_DAC),
    (''ANOM_MAX_MAC'', AUDIT_ANOM_MAX_MAC), (''ANOM_MK_EXEC'', AUDIT_ANOM_MK_EXEC),
    (''ANOM_MOD_ACCT'', AUDIT_ANOM_MOD_ACCT), (''ANOM_PROMISCUOUS'', AUDIT_ANOM_PROMISCUOUS),
    (''ANOM_RBAC_FAIL'', AUDIT_ANOM_RBAC_FAIL),
    (''ANOM_RBAC_INTEGRITY_FAIL'', AUDIT_ANOM_RBAC_INTEGRITY_FAIL),
    (''ANOM_ROOT_TRANS'', AUDIT_ANOM_ROOT_TRANS), (''APPARMOR_ALLOWED'', AUDIT_APPARMOR_ALLOWED),
    (''APPARMOR_AUDIT'', AUDIT_APPARMOR_AUDIT), (''APPARMOR_DENIED'', AUDIT_APPARMOR_DENIED),
    (''APPARMOR_ERROR'', AUDIT_APPARMOR_ERROR), (''APPARMOR_HINT'', AUDIT_APPARMOR_HINT),
    (''APPARMOR_STATUS'', AUDIT_APPARMOR_STATUS), (''AVC'', AUDIT_AVC),
    (''AVC_PATH'', AUDIT_AVC_PATH), (''BPRM_FCAPS'', AUDIT_BPRM_FCAPS),
    (''CAPSET'', AUDIT_CAPSET), (''CHGRP_ID'', AUDIT_CHGRP_ID), (''CHUSER_ID'', AUDIT_CHUSER_ID),
    (''CONFIG_CHANGE'', AUDIT_CONFIG_CHANGE), (''CRED_ACQ'', AUDIT_CRED_ACQ),
    (''CRED_DISP'', AUDIT_CRED_DISP), (''CRED_REFR'', AUDIT_CRED_REFR),
    (''CRYPTO_FAILURE_USER'', AUDIT_CRYPTO_FAILURE_USER),
    (''CRYPTO_IKE_SA'', AUDIT_CRYPTO_IKE_SA), (''CRYPTO_IPSEC_SA'', AUDIT_CRYPTO_IPSEC_SA),
    (''CRYPTO_KEY_USER'', AUDIT_CRYPTO_KEY_USER), (''CRYPTO_LOGIN'', AUDIT_CRYPTO_LOGIN),
    (''CRYPTO_LOGOUT'', AUDIT_CRYPTO_LOGOUT),
    (''CRYPTO_PARAM_CHANGE_USER'', AUDIT_CRYPTO_PARAM_CHANGE_USER),
    (''CRYPTO_REPLAY_USER'', AUDIT_CRYPTO_REPLAY_USER),
    (''CRYPTO_SESSION'', AUDIT_CRYPTO_SESSION), (''CRYPTO_TEST_USER'', AUDIT_CRYPTO_TEST_USER),
    (''CWD'', AUDIT_CWD), (''DAC_CHECK'', AUDIT_DAC_CHECK),
    (''DAEMON_ABORT'', AUDIT_DAEMON_ABORT), (''DAEMON_ACCEPT'', AUDIT_DAEMON_ACCEPT),
    (''DAEMON_CLOSE'', AUDIT_DAEMON_CLOSE), (''DAEMON_CONFIG'', AUDIT_DAEMON_CONFIG),
    (''DAEMON_END'', AUDIT_DAEMON_END), (''DAEMON_ERR'', AUDIT_DAEMON_ERR),
    (''DAEMON_RECONFIG'', AUDIT_DAEMON_RECONFIG), (''DAEMON_RESUME'', AUDIT_DAEMON_RESUME),
    (''DAEMON_ROTATE'', AUDIT_DAEMON_ROTATE), (''DAEMON_START'', AUDIT_DAEMON_START),
    (''DEL'', AUDIT_DEL), (''DEL_GROUP'', AUDIT_DEL_GROUP), (''DEL_RULE'', AUDIT_DEL_RULE),
    (''DEL_USER'', AUDIT_DEL_USER), (''DEV_ALLOC'', AUDIT_DEV_ALLOC),
    (''DEV_DEALLOC'', AUDIT_DEV_DEALLOC), (''EOE'', AUDIT_EOE), (''EXECVE'', AUDIT_EXECVE),
    (''FANOTIFY'', AUDIT_FANOTIFY), (''FD_PAIR'', AUDIT_FD_PAIR),
    (''FEATURE_CHANGE'', AUDIT_FEATURE_CHANGE),
    (''FIRST_KERN_CRYPTO_MSG'', AUDIT_FIRST_KERN_CRYPTO_MSG), (''FS_RELABEL'', AUDIT_FS_RELABEL),
    (''GET'', AUDIT_GET), (''GET_FEATURE'', AUDIT_GET_FEATURE), (''GRP_AUTH'', AUDIT_GRP_AUTH),
    (''GRP_CHAUTHTOK'', AUDIT_GRP_CHAUTHTOK), (''GRP_MGMT'', AUDIT_GRP_MGMT),
    (''INTEGRITY_DATA'', AUDIT_INTEGRITY_DATA), (''INTEGRITY_HASH'', AUDIT_INTEGRITY_HASH),
    (''INTEGRITY_LAST_MSG'', AUDIT_INTEGRITY_LAST_MSG),
    (''INTEGRITY_METADATA'', AUDIT_INTEGRITY_METADATA), (''INTEGRITY_PCR'', AUDIT_INTEGRITY_PCR),
    (''INTEGRITY_RULE'', AUDIT_INTEGRITY_RULE), (''INTEGRITY_STATUS'', AUDIT_INTEGRITY_STATUS),
    (''IPC'', AUDIT_IPC), (''IPC_SET_PERM'', AUDIT_IPC_SET_PERM), (''KERNEL'', AUDIT_KERNEL),
    (''KERNEL_OTHER'', AUDIT_KERNEL_OTHER), (''KERN_MODULE'', AUDIT_KERN_MODULE),
    (''LABEL_LEVEL_CHANGE'', AUDIT_LABEL_LEVEL_CHANGE),
    (''LABEL_OVERRIDE'', AUDIT_LABEL_OVERRIDE), (''LAST_ANOM_MSG'', AUDIT_LAST_ANOM_MSG),
    (''LAST_ANOM_RESP'', AUDIT_LAST_ANOM_RESP), (''LAST_APPARMOR'', AUDIT_LAST_APPARMOR),
    (''LAST_CRYPTO_MSG'', AUDIT_LAST_CRYPTO_MSG), (''LAST_DAEMON'', AUDIT_LAST_DAEMON),
    (''LAST_EVENT'', AUDIT_LAST_EVENT), (''LAST_KERN_ANOM_MSG'', AUDIT_LAST_KERN_ANOM_MSG),
    (''LAST_KERN_CRYPTO_MSG'', AUDIT_LAST_KERN_CRYPTO_MSG),
    (''LAST_SELINUX'', AUDIT_LAST_SELINUX), (''LAST_USER_LSPP_MSG'', AUDIT_LAST_USER_LSPP_MSG),
    (''LAST_USER_MSG'', AUDIT_LAST_USER_MSG), (''LAST_USER_MSG2'', AUDIT_LAST_USER_MSG2),
    (''LAST_VIRT_MSG'', AUDIT_LAST_VIRT_MSG), (''LIST'', AUDIT_LIST),
    (''LIST_RULES'', AUDIT_LIST_RULES), (''LOGIN'', AUDIT_LOGIN),
    (''MAC_CALIPSO_ADD'', AUDIT_MAC_CALIPSO_ADD), (''MAC_CALIPSO_DEL'', AUDIT_MAC_CALIPSO_DEL),
    (''MAC_CHECK'', AUDIT_MAC_CHECK), (''MAC_CIPSOV4_ADD'', AUDIT_MAC_CIPSOV4_ADD),
    (''MAC_CIPSOV4_DEL'', AUDIT_MAC_CIPSOV4_DEL),
    (''MAC_CONFIG_CHANGE'', AUDIT_MAC_CONFIG_CHANGE),
    (''MAC_IPSEC_ADDSA'', AUDIT_MAC_IPSEC_ADDSA), (''MAC_IPSEC_ADDSPD'', AUDIT_MAC_IPSEC_ADDSPD),
    (''MAC_IPSEC_DELSA'', AUDIT_MAC_IPSEC_DELSA), (''MAC_IPSEC_DELSPD'', AUDIT_MAC_IPSEC_DELSPD),
    (''MAC_IPSEC_EVENT'', AUDIT_MAC_IPSEC_EVENT), (''MAC_MAP_ADD'', AUDIT_MAC_MAP_ADD),
    (''MAC_MAP_DEL'', AUDIT_MAC_MAP_DEL), (''MAC_POLICY_LOAD'', AUDIT_MAC_POLICY_LOAD),
    (''MAC_STATUS'', AUDIT_MAC_STATUS), (''MAC_UNLBL_ALLOW'', AUDIT_MAC_UNLBL_ALLOW),
    (''MAC_UNLBL_STCADD'', AUDIT_MAC_UNLBL_STCADD),
    (''MAC_UNLBL_STCDEL'', AUDIT_MAC_UNLBL_STCDEL), (''MAKE_EQUIV'', AUDIT_MAKE_EQUIV),
    (''MMAP'', AUDIT_MMAP), (''MQ_GETSETATTR'', AUDIT_MQ_GETSETATTR),
    (''MQ_NOTIFY'', AUDIT_MQ_NOTIFY), (''MQ_OPEN'', AUDIT_MQ_OPEN),
    (''MQ_SENDRECV'', AUDIT_MQ_SENDRECV), (''NETFILTER_CFG'', AUDIT_NETFILTER_CFG),
    (''NETFILTER_PKT'', AUDIT_NETFILTER_PKT), (''OBJ_PID'', AUDIT_OBJ_PID),
    (''PATH'', AUDIT_PATH), (''PROCTITLE'', AUDIT_PROCTITLE), (''REPLACE'', AUDIT_REPLACE),
    (''RESP_ACCT_LOCK'', AUDIT_RESP_ACCT_LOCK),
    (''RESP_ACCT_LOCK_TIMED'', AUDIT_RESP_ACCT_LOCK_TIMED),
    (''RESP_ACCT_REMOTE'', AUDIT_RESP_ACCT_REMOTE),
    (''RESP_ACCT_UNLOCK_TIMED'', AUDIT_RESP_ACCT_UNLOCK_TIMED),
    (''RESP_ALERT'', AUDIT_RESP_ALERT), (''RESP_ANOMALY'', AUDIT_RESP_ANOMALY),
    (''RESP_EXEC'', AUDIT_RESP_EXEC), (''RESP_HALT'', AUDIT_RESP_HALT),
    (''RESP_KILL_PROC'', AUDIT_RESP_KILL_PROC), (''RESP_ORIGIN_BLOCK'', AUDIT_RESP_ORIGIN_BLOCK),
    (''RESP_ORIGIN_BLOCK_TIMED'', AUDIT_RESP_ORIGIN_BLOCK_TIMED),
    (''RESP_SEBOOL'', AUDIT_RESP_SEBOOL), (''RESP_SINGLE'', AUDIT_RESP_SINGLE),
    (''RESP_TERM_ACCESS'', AUDIT_RESP_TERM_ACCESS), (''RESP_TERM_LOCK'', AUDIT_RESP_TERM_LOCK),
    (''ROLE_ASSIGN'', AUDIT_ROLE_ASSIGN), (''ROLE_MODIFY'', AUDIT_ROLE_MODIFY),
    (''ROLE_REMOVE'', AUDIT_ROLE_REMOVE), (''SECCOMP'', AUDIT_SECCOMP),
    (''SELINUX_ERR'', AUDIT_SELINUX_ERR), (''SERVICE_START'', AUDIT_SERVICE_START),
    (''SERVICE_STOP'', AUDIT_SERVICE_STOP), (''SET'', AUDIT_SET),
    (''SET_FEATURE'', AUDIT_SET_FEATURE), (''SIGNAL_INFO'', AUDIT_SIGNAL_INFO),
    (''SOCKADDR'', AUDIT_SOCKADDR), (''SOCKETCALL'', AUDIT_SOCKETCALL),
    (''SOFTWARE_UPDATE'', AUDIT_SOFTWARE_UPDATE), (''SYSCALL'', AUDIT_SYSCALL),
    (''SYSTEM_BOOT'', AUDIT_SYSTEM_BOOT), (''SYSTEM_RUNLEVEL'', AUDIT_SYSTEM_RUNLEVEL),
    (''SYSTEM_SHUTDOWN'', AUDIT_SYSTEM_SHUTDOWN), (''TEST'', AUDIT_TEST), (''TRIM'', AUDIT_TRIM),
    (''TRUSTED_APP'', AUDIT_TRUSTED_APP), (''TTY'', AUDIT_TTY), (''TTY_GET'', AUDIT_TTY_GET),
    (''TTY_SET'', AUDIT_TTY_SET), (''USER'', AUDIT_USER), (''USER_ACCT'', AUDIT_USER_ACCT),
    (''USER_AUTH'', AUDIT_USER_AUTH), (''USER_AVC'', AUDIT_USER_AVC),
    (''USER_CHAUTHTOK'', AUDIT_USER_CHAUTHTOK), (''USER_CMD'', AUDIT_USER_CMD),
    (''USER_DEVICE'', AUDIT_USER_DEVICE), (''USER_END'', AUDIT_USER_END),
    (''USER_ERR'', AUDIT_USER_ERR), (''USER_LABELED_EXPORT'', AUDIT_USER_LABELED_EXPORT),
    (''USER_LOGIN'', AUDIT_USER_LOGIN), (''USER_LOGOUT'', AUDIT_USER_LOGOUT),
    (''USER_MAC_CONFIG_CHANGE'', AUDIT_USER_MAC_CONFIG_CHANGE),
    (''USER_MAC_POLICY_LOAD'', AUDIT_USER_MAC_POLICY_LOAD), (''USER_MGMT'', AUDIT_USER_MGMT),
    (''USER_ROLE_CHANGE'', AUDIT_USER_ROLE_CHANGE),
    (''USER_SELINUX_ERR'', AUDIT_USER_SELINUX_ERR), (''USER_START'', AUDIT_USER_START),
    (''USER_TTY'', AUDIT_USER_TTY), (''USER_UNLABELED_EXPORT'', AUDIT_USER_UNLABELED_EXPORT),
    (''USYS_CONFIG'', AUDIT_USYS_CONFIG), (''VIRT_CONTROL'', AUDIT_VIRT_CONTROL),
    (''VIRT_CREATE'', AUDIT_VIRT_CREATE), (''VIRT_DESTROY'', AUDIT_VIRT_DESTROY),
    (''VIRT_INTEGRITY_CHECK'', AUDIT_VIRT_INTEGRITY_CHECK),
    (''VIRT_MACHINE_ID'', AUDIT_VIRT_MACHINE_ID), (''VIRT_MIGRATE_IN'', AUDIT_VIRT_MIGRATE_IN),
    (''VIRT_MIGRATE_OUT'', AUDIT_VIRT_MIGRATE_OUT), (''VIRT_RESOURCE'', AUDIT_VIRT_RESOURCE),
    (''WATCH_INS'', AUDIT_WATCH_INS), (''WATCH_LIST'', AUDIT_WATCH_LIST),
    (''WATCH_REM'', AUDIT_WATCH_REM)]"

section \<open>Conversions\<close>

datatype msg_type_error = ErrInvalidAuditMessageTypName

text \<open>\<^verbatim>\<open>AuditMessageType.String\<close>.\<close>

definition type_String :: "AuditMessageType \<Rightarrow> string" where
  "type_String t = (case map_of auditMessageTypeToName t of
     Some name \<Rightarrow> name
   | None \<Rightarrow> ''UNKNOWN['' @ format_uint (unat t) @ '']'')"

text \<open>\<^verbatim>\<open>GetAuditMessageType\<close>.\<close>

definition GetAuditMessageType :: "string \<Rightarrow> (msg_type_error, AuditMessageType) outcome" where
  "GetAuditMessageType name0 =
     (let name = to_upper name0 in
      case map_of auditMessageNameToType name of
        Some typ \<Rightarrow> Ok typ
      | None \<Rightarrow>
         (case index_byte (CHR ''['') name of
            None \<Rightarrow> Err ErrInvalidAuditMessageTypName
          | Some start \<Rightarrow>
             (let name1 = drop (start + 1) name in
              case index_byte (CHR '']'') name1 of
                None \<Rightarrow> Err ErrInvalidAuditMessageTypName
              | Some end \<Rightarrow>
                 (case parse_uint (take end name1) 10 16 of
                    (num, None) \<Rightarrow> Ok (of_nat num)
                  | (_, Some _) \<Rightarrow> Err ErrInvalidAuditMessageTypName))))"

definition MarshalText :: "AuditMessageType \<Rightarrow> bytes" where
  "MarshalText t = bytes_of_string (to_lower (type_String t))"

definition UnmarshalText :: "bytes \<Rightarrow> (msg_type_error, AuditMessageType) outcome" where
  "UnmarshalText text = GetAuditMessageType (string_of_bytes text)"

section \<open>The tables are inverse to each other\<close>

lemma nameToType_swap: "auditMessageNameToType = swap_table auditMessageTypeToName"
  by (simp add: auditMessageNameToType_def auditMessageTypeToName_def swap_table_def)

lemma distinct_types: "distinct (map fst auditMessageTypeToName)"
  by (rule distinct_by_key [where f = uint]) code_simp

lemma distinct_names: "distinct (map snd auditMessageTypeToName)"
  by (rule distinct_by_key [where f = str_key]) code_simp

section \<open>Names and numbers convert back and forth\<close>

definition canonical_name :: "string \<Rightarrow> bool" where
  "canonical_name n = list_all (\<lambda>c. of_char c < (91 :: int) \<or> of_char c = (95 :: int)) n"

lemma table_names_canonical: "list_all canonical_name (map snd auditMessageTypeToName)"
  by code_simp

lemma canonical_char:
  fixes c :: char
  assumes "of_char c < (91 :: int) \<or> of_char c = (95 :: int)"
  shows "code c < 0x80 \<and> ascii_upper c = c \<and> c \<noteq> CHR ''[''"
proof -
  have "code c < 91 \<or> code c = 95"
    using assms by (metis of_nat_less_numeral_iff of_nat_eq_numeral_iff of_nat_of_char)
  then show ?thesis by (auto simp: ascii_upper_def)
qed

lemma canonical_nameD:
  assumes "canonical_name n"
  shows "ascii n" and "map ascii_upper n = n" and "CHR ''['' \<notin> set n"
proof -
  have each: "code c < 0x80 \<and> ascii_upper c = c \<and> c \<noteq> CHR ''[''" if "c \<in> set n" for c
    using assms that by (intro canonical_char) (simp add: canonical_name_def list_all_iff)
  then show "ascii n" and "map ascii_upper n = n" and "CHR ''['' \<notin> set n"
    by (auto simp: ascii_def list_all_iff intro: map_idI)
qed

lemma map_of_nameToType:
  "map_of auditMessageNameToType n = Some t \<longleftrightarrow> map_of auditMessageTypeToName t = Some n"
  unfolding nameToType_swap by (rule map_of_swap [OF distinct_types distinct_names])

lemma nameToType_bracket: "CHR ''['' \<in> set n \<Longrightarrow> map_of auditMessageNameToType n = None"
  using table_names_canonical
  by (intro map_of_None_by [where P = canonical_name])
     (auto simp: nameToType_swap swap_table_def list_all_iff dest: canonical_nameD)

lemma format_uint_no_letter: "map ascii_upper (format_uint n) = format_uint n"
  by (rule map_idI) (auto dest!: format_uint_digit simp: is_digit_def ascii_upper_def)

lemma ascii_format_uint: "ascii (format_uint n)"
  by (auto simp: ascii_def list_all_iff is_digit_def dest!: format_uint_digit)

lemma type_String_ascii: "ascii (type_String t)"
  using map_of_list_all [OF table_names_canonical]
  by (auto simp: type_String_def ascii_format_uint split: option.splits dest: canonical_nameD)

lemma type_String_upper: "to_upper (type_String t) = type_String t"
proof -
  have "map ascii_upper (type_String t) = type_String t"
    using map_of_list_all [OF table_names_canonical]
    by (auto simp: type_String_def format_uint_no_letter
        split: option.splits dest: canonical_nameD) (simp_all add: ascii_upper_def)
  then show ?thesis by (simp add: to_upper_ascii type_String_ascii)
qed

lemma GetAuditMessageType_unknown:
  assumes "map_of auditMessageTypeToName t = None"
  shows "GetAuditMessageType (''UNKNOWN['' @ format_uint (unat t) @ '']'') = Ok t"
    (is "GetAuditMessageType ?s = _")
proof -
  have up: "to_upper ?s = ?s"
    using type_String_upper [of t] assms by (simp add: type_String_def)
  have notin: "map_of auditMessageNameToType ?s = None"
    by (rule nameToType_bracket) simp
  have open_b: "index_byte (CHR ''['') ?s = Some 7"
    by (simp add: index_byte_def)
  have "CHR '']'' \<notin> set (format_uint (unat t))"
    by (auto dest!: format_uint_digit simp: is_digit_def)
  then have close_b:
    "index_byte (CHR '']'') (format_uint (unat t) @ '']'') = Some (length (format_uint (unat t)))"
    by (rule index_byte_append)
  have "unat t < 2 ^ 16"
    using unsigned_less [of t, where ?'a = nat] by simp
  then have num: "parse_uint (format_uint (unat t)) 10 16 = (unat t, None)"
    by (rule parse_uint_format_uint)
  show ?thesis
    unfolding GetAuditMessageType_def Let_def up notin open_b
    by (simp add: close_b num)
qed

lemma GetAuditMessageType_String: "GetAuditMessageType (type_String t) = Ok t"
proof (cases "map_of auditMessageTypeToName t")
  case None
  then have "type_String t = ''UNKNOWN['' @ format_uint (unat t) @ '']''"
    by (simp add: type_String_def)
  with GetAuditMessageType_unknown [OF None] show ?thesis by (simp only:)
next
  case (Some n)
  then have "map_of auditMessageNameToType (to_upper (type_String t)) = Some t"
    unfolding type_String_upper by (simp add: type_String_def map_of_nameToType)
  then show ?thesis by (simp add: GetAuditMessageType_def)
qed

lemma GetAuditMessageType_cong:
  "to_upper n = to_upper m \<Longrightarrow> GetAuditMessageType n = GetAuditMessageType m"
  by (simp add: GetAuditMessageType_def)

lemma Unmarshal_Marshal: "UnmarshalText (MarshalText t) = Ok t"
proof -
  have "to_upper (to_lower (type_String t)) = to_upper (type_String t)"
    by (rule to_upper_to_lower) (rule type_String_ascii)
  then have "GetAuditMessageType (to_lower (type_String t)) = GetAuditMessageType (type_String t)"
    by (rule GetAuditMessageType_cong)
  then show ?thesis
    by (simp add: UnmarshalText_def MarshalText_def GetAuditMessageType_String)
qed

lemma to_upper_folded:
  assumes "map ascii_lower n = map ascii_lower m" and "ascii m"
  shows "to_upper n = to_upper m"
proof -
  have "list_all (\<lambda>c. code c < 0x80) (map ascii_lower m)"
    using assms(2) by (induction m) (simp_all add: code_ascii_lower)
  then have "ascii n"
    unfolding assms(1) [symmetric] by (induction n) (auto simp: code_ascii_lower split: if_splits)
  moreover have "map ascii_upper n = map ascii_upper m"
    using arg_cong [OF assms(1), of "map ascii_upper"] by (simp add: comp_def ascii_upper_lower)
  ultimately show ?thesis using assms(2) by (simp add: to_upper_ascii)
qed

text \<open>
  (C39) A message type, known or not, is recovered from its name written with any mixture of upper and lower case letters, also when
  it is read as JSON or YAML text; in particular from the text that \<^verbatim>\<open>MarshalText\<close> writes.
\<close>

theorem msg_type_text_roundtrip:
  assumes "map ascii_lower n = map ascii_lower (type_String t)"
  shows "GetAuditMessageType n = Ok t \<and> UnmarshalText (bytes_of_string n) = Ok t \<and> UnmarshalText (MarshalText t) = Ok t"
proof -
  have "GetAuditMessageType n = Ok t"
    using GetAuditMessageType_cong [OF to_upper_folded [OF assms type_String_ascii]] GetAuditMessageType_String by simp
  then show ?thesis using Unmarshal_Marshal [of t] by (simp add: UnmarshalText_def)
qed

theorem msg_type_text_roundtrip_witness:
  "GetAuditMessageType ''SysCall'' = Ok AUDIT_SYSCALL \<and> UnmarshalText (bytes_of_string ''unKnown[4711]'') = Ok 4711"
proof -
  have "map ascii_lower ''SysCall'' = map ascii_lower (type_String AUDIT_SYSCALL)"
    "map ascii_lower ''unKnown[4711]'' = map ascii_lower (type_String 4711)" by code_simp+
  then show ?thesis using msg_type_text_roundtrip [of "''SysCall''"] msg_type_text_roundtrip [of "''unKnown[4711]''"] by blast
qed

end
