(* ===== verification/Auparse_Message.thy ===== *)
theory Auparse_Message
  imports Audit_Msg_Types
begin

text \<open>
  \<^verbatim>\<open>auparse/auparse.go\<close>, first part: the message type and the parsing of the audit header
  (\<^verbatim>\<open>ParseLogLine\<close>, \<^verbatim>\<open>Parse\<close>, \<^verbatim>\<open>parseAuditHeader\<close>, \<^verbatim>\<open>indexOfMessage\<close>). The key-value pairs of the
  body are parsed on demand; see \<^verbatim>\<open>Auparse_Fields\<close> and \<^verbatim>\<open>Auparse_Enrich\<close>.
\<close>

section \<open>Times\<close>

text \<open>
  A \<^verbatim>\<open>time.Time\<close> in UTC: the seconds since the epoch (an \<^verbatim>\<open>int64\<close>) and the nanoseconds within
  the second. \<open>time_Unix\<close> is \<^verbatim>\<open>time.Unix\<close>, whose normalisation is division rounding down.
\<close>

type_synonym gotime = "int \<times> int"

definition wrap64 :: "int \<Rightarrow> int" where
  "wrap64 i = (i + 2 ^ 63) mod 2 ^ 64 - 2 ^ 63"

definition time_Unix :: "int \<Rightarrow> int \<Rightarrow> gotime" where
  "time_Unix sec nsec = (wrap64 (sec + nsec div 1000000000), nsec mod 1000000000)"

section \<open>Messages\<close>

datatype parse_error =
    ErrInvalidAuditHeader | ErrParseFailure | ErrMessageWithoutData
  | ErrArchKeyNotFound | ErrSyscallKeyNotFound | ErrArchKeyNotFoundInSyscall
  | ErrSigKeyNotFound | ErrSaddrKeyNotFound | ErrArgcKeyNotFound
  | ErrSuccessResKeysNotFound | ErrExitKeyNotFound | ErrSELinuxKeyNotFound
  | ErrSELinuxContextFieldSplit | ErrHexEncodeKeyNotFound
  | ErrMsgType msg_type_error
  | ErrNum string num_error
  | ErrHex string
  | ErrArgNotFound string
  | ErrWithMessage parse_error string
  | ErrInvalidSize

record Field =
  orig :: string
  fval :: string

record AuditMessage =
  RecordType :: AuditMessageType
  Timestamp :: gotime
  Sequence :: u32
  RawData :: string
  msg_data :: "(string \<rightharpoonup> string) option"
  offset :: int
  tags :: "string list"
  msg_error :: "parse_error option"

text \<open>The zero value \<^verbatim>\<open>AuditMessage{}\<close>; the zero time is the first instant of the year 1.\<close>

definition zero_time :: gotime where
  "zero_time = (-62135596800, 0)"

definition zero_message :: AuditMessage where
  "zero_message = \<lparr>RecordType = 0, Timestamp = zero_time, Sequence = 0, RawData = [],
     msg_data = None, offset = 0, tags = [], msg_error = None\<rparr>"

section \<open>Parsing the header\<close>

definition typeToken :: string where "typeToken = ''type=''"

definition msgToken :: string where "msgToken = ''msg=''"

text \<open>The positions of the four tokens of \<^verbatim>\<open>audit(1490137971.011:50406)\<close>, searched in order.\<close>

definition index_byte_from :: "char \<Rightarrow> nat \<Rightarrow> string \<Rightarrow> nat option" where
  "index_byte_from c i s = map_option (\<lambda>k. k + i) (index_byte c (drop i s))"

definition header_tokens :: "string \<Rightarrow> (nat \<times> nat \<times> nat \<times> nat) option" where
  "header_tokens line =
     (case index_byte (CHR ''('') line of None \<Rightarrow> None | Some start \<Rightarrow>
      case index_byte_from (CHR ''.'') start line of None \<Rightarrow> None | Some dot \<Rightarrow>
      case index_byte_from (CHR '':'') dot line of None \<Rightarrow> None | Some sep \<Rightarrow>
      case index_byte_from (CHR '')'') sep line of None \<Rightarrow> None | Some end \<Rightarrow>
      Some (start, dot, sep, end))"

definition between :: "nat \<Rightarrow> nat \<Rightarrow> 'a list \<Rightarrow> 'a list" where
  "between a b s = take (b - a) (drop a s)"

definition parseAuditHeader :: "string \<Rightarrow> (parse_error, gotime \<times> u32 \<times> nat) outcome" where
  "parseAuditHeader line =
     (case header_tokens line of
        None \<Rightarrow> Err ErrInvalidAuditHeader
      | Some (start, dot, sep, end) \<Rightarrow>
         (case parse_int (between (start + 1) dot line) 10 64 of
            (_, Some _) \<Rightarrow> Err ErrInvalidAuditHeader
          | (sec, None) \<Rightarrow>
             (case parse_int (between (dot + 1) sep line) 10 64 of
                (_, Some _) \<Rightarrow> Err ErrInvalidAuditHeader
              | (msec, None) \<Rightarrow>
                 (let tm = time_Unix sec (wrap64 (msec * 1000000)) in
                  case parse_uint (between (sep + 1) end line) 10 32 of
                    (_, Some _) \<Rightarrow> Err ErrInvalidAuditHeader
                  | (sequence, None) \<Rightarrow> Ok (tm, of_nat sequence, end)))))"

definition indexOfMessage :: "string \<Rightarrow> int" where
  "indexOfMessage msg =
     (case index_where (\<lambda>c. c = CHR '':'' \<or> c = CHR '' '') msg of None \<Rightarrow> -1 | Some i \<Rightarrow> int i)"

definition Parse :: "AuditMessageType \<Rightarrow> string \<Rightarrow> (parse_error, AuditMessage) outcome" where
  "Parse typ message0 =
     (let message = trim_space message0 in
      case parseAuditHeader message of
        Err e \<Rightarrow> Err e
      | Panic p \<Rightarrow> Panic p
      | Ok (timestamp, seq, end) \<Rightarrow>
          Ok (zero_message\<lparr>RecordType := typ, Timestamp := timestamp, Sequence := seq,
                offset := indexOfMessage (drop end message), RawData := message\<rparr>))"

definition ParseLogLine :: "string \<Rightarrow> (parse_error, AuditMessage) outcome" where
  "ParseLogLine line =
     (case str_index msgToken line of
        None \<Rightarrow> Err ErrInvalidAuditHeader
      | Some msgIndex \<Rightarrow>
         if msgIndex < length typeToken + 1 then Err ErrInvalidAuditHeader
         else
           (let typName = between (length typeToken) (msgIndex - 1) line in
            case GetAuditMessageType typName of
              Err e \<Rightarrow> Err (ErrMsgType e)
            | Panic p \<Rightarrow> Panic p
            | Ok typ \<Rightarrow> Parse typ (drop (msgIndex + length msgToken) line)))"

section \<open>Laws\<close>

lemma wrap64_id: "- (2 ^ 63) \<le> i \<Longrightarrow> i < 2 ^ 63 \<Longrightarrow> wrap64 i = i"
  by (simp add: wrap64_def)

lemma index_byte_from_append:
  "c \<notin> set ys \<Longrightarrow> i = length xs \<Longrightarrow> index_byte_from c i (xs @ ys @ c # zs) = Some (i + length ys)"
  by (simp add: index_byte_from_def index_byte_append)

lemma between_append: "a = length xs \<Longrightarrow> b = a + length ys \<Longrightarrow> between a b (xs @ ys @ zs) = ys"
  by (simp add: between_def)

text \<open>An audit header made of three given numerals, with any text before the parenthesis.\<close>

definition header_text :: "string \<Rightarrow> string \<Rightarrow> string \<Rightarrow> string \<Rightarrow> string" where
  "header_text pre s m q = pre @ ''('' @ s @ ''.'' @ m @ '':'' @ q @ '')''"

lemma header_tokens_text:
  assumes "CHR ''('' \<notin> set pre" "CHR ''.'' \<notin> set s" "CHR '':'' \<notin> set m" "CHR '')'' \<notin> set q"
  shows "header_tokens (header_text pre s m q @ rest) =
    Some (length pre, length pre + 1 + length s, length pre + 1 + length s + 1 + length m,
          length pre + 1 + length s + 1 + length m + 1 + length q)"
proof -
  let ?line = "header_text pre s m q @ rest"
  have p1: "index_byte (CHR ''('') ?line = Some (length pre)"
    using assms by (simp add: header_text_def index_byte_append)
  have p2: "index_byte_from (CHR ''.'') (length pre) ?line = Some (length pre + 1 + length s)"
    using index_byte_from_append [of "CHR ''.''" "CHR ''('' # s" "length pre" pre "m @ '':'' @ q @ '')'' @ rest"]
      assms by (simp add: header_text_def)
  have p3: "index_byte_from (CHR '':'') (length pre + 1 + length s) ?line
      = Some (length pre + 1 + length s + 1 + length m)"
    using index_byte_from_append [of "CHR '':''" "CHR ''.'' # m" "length pre + 1 + length s"
        "pre @ ''('' @ s" "q @ '')'' @ rest"]
      assms by (simp add: header_text_def)
  have p4: "index_byte_from (CHR '')'') (length pre + 1 + length s + 1 + length m) ?line
      = Some (length pre + 1 + length s + 1 + length m + 1 + length q)"
    using index_byte_from_append [of "CHR '')''" "CHR '':'' # q" "length pre + 1 + length s + 1 + length m"
        "pre @ ''('' @ s @ ''.'' @ m" rest]
      assms by (simp add: header_text_def)
  show ?thesis unfolding header_tokens_def p1 option.case p2 p3 p4 ..
qed

lemma parseAuditHeader_text:
  assumes "CHR ''('' \<notin> set pre" "CHR ''.'' \<notin> set s" "CHR '':'' \<notin> set m" "CHR '')'' \<notin> set q"
    and sec: "parse_int s 10 64 = (sec, None)" and msec: "parse_int m 10 64 = (msec, None)"
    and seq: "parse_uint q 10 32 = (seq, None)"
  shows "parseAuditHeader (header_text pre s m q @ rest) =
    Ok (time_Unix sec (wrap64 (msec * 1000000)), of_nat seq, length (header_text pre s m q) - 1)"
proof -
  let ?line = "header_text pre s m q @ rest"
  have b1: "between (length pre + 1) (length pre + 1 + length s) ?line = s"
    using between_append [of "length pre + 1" "pre @ ''(''" "length pre + 1 + length s" s]
    by (simp add: header_text_def)
  have b2: "between (length pre + 1 + length s + 1) (length pre + 1 + length s + 1 + length m) ?line = m"
    using between_append [of "length pre + 1 + length s + 1" "pre @ ''('' @ s @ ''.''"
        "length pre + 1 + length s + 1 + length m" m]
    by (simp add: header_text_def)
  have b3: "between (length pre + 1 + length s + 1 + length m + 1)
      (length pre + 1 + length s + 1 + length m + 1 + length q) ?line = q"
    using between_append [of "length pre + 1 + length s + 1 + length m + 1"
        "pre @ ''('' @ s @ ''.'' @ m @ '':''" "length pre + 1 + length s + 1 + length m + 1 + length q" q]
    by (simp add: header_text_def)
  have len: "length (header_text pre s m q) - 1
      = length pre + 1 + length s + 1 + length m + 1 + length q"
    by (simp add: header_text_def)
  show ?thesis
    unfolding parseAuditHeader_def header_tokens_text [OF assms(1-4)] Let_def len
    by (simp only: option.case prod.case b1 b2 b3 sec msec seq)
qed

text \<open>The kernel prints the seconds, the milliseconds on three digits and the serial number.\<close>

definition pad3 :: "nat \<Rightarrow> string" where
  "pad3 n = replicate (3 - length (format_uint n)) (CHR ''0'') @ format_uint n"

definition audit_header :: "string \<Rightarrow> nat \<Rightarrow> nat \<Rightarrow> u32 \<Rightarrow> string" where
  "audit_header pre sec msec seq = header_text pre (format_uint sec) (pad3 msec) (format_uint (unat seq))"

lemma parse_digits_zeros:
  "0 < base \<Longrightarrow> parse_digits base0 base mx 0 (replicate k (CHR ''0'') @ ds) = parse_digits base0 base mx 0 ds"
  by (induction k) (simp_all add: digit_val_def is_digit_def)

lemma all_digits_parse_int:
  assumes "\<forall>c \<in> set s. is_digit c" and "parse_uint s 10 64 = (n, None)" and "n < 2 ^ 63"
  shows "parse_int s 10 64 = (int n, None)"
proof -
  have ne: "s \<noteq> []" using assms(2) by (auto simp: parse_uint_def)
  then have "is_digit (hd s)" using assms(1) by simp
  then have "hd s \<noteq> CHR ''-''" "hd s \<noteq> CHR ''+''" by (auto simp: is_digit_def)
  with ne assms(2,3) show ?thesis by (simp add: parse_int_def Let_def)
qed

lemma parse_uint_pad3: "n < 2 ^ bits \<Longrightarrow> parse_uint (pad3 n) 10 bits = (n, None)"
  by (simp add: parse_uint_def pad3_def parse_digits_zeros format_uint_def parse_format_base)

lemma pad3_digits: "\<forall>c \<in> set (pad3 n). is_digit c"
  using format_uint_digit by (auto simp: pad3_def is_digit_def)

lemma digits_no_token:
  "\<forall>c \<in> set s. is_digit c \<Longrightarrow> \<not> is_digit d \<Longrightarrow> d \<notin> set s"
  by auto

lemma parseAuditHeader_header:
  assumes "CHR ''('' \<notin> set pre" and "sec < 2 ^ 63" and "msec < 1000"
  shows "parseAuditHeader (audit_header pre sec msec seq @ rest) =
    Ok ((int sec, int msec * 1000000), seq, length (audit_header pre sec msec seq) - 1)"
proof -
  have dig: "\<forall>c \<in> set (format_uint k). is_digit c" for k using format_uint_digit by blast
  have "(2::nat) ^ 63 < 2 ^ 64" by simp
  with assms(2) have "sec < 2 ^ 64" by linarith
  then have s: "parse_int (format_uint sec) 10 64 = (int sec, None)"
    using assms(2) dig by (intro all_digits_parse_int) (simp_all add: parse_uint_format_uint)
  have m: "parse_int (pad3 msec) 10 64 = (int msec, None)"
    using assms(3) pad3_digits by (intro all_digits_parse_int) (simp_all add: parse_uint_pad3)
  have q: "parse_uint (format_uint (unat seq)) 10 32 = (unat seq, None)"
    using unsigned_less [of seq, where ?'a = nat] by (simp add: parse_uint_format_uint)
  have tm: "time_Unix (int sec) (wrap64 (int msec * 1000000)) = (int sec, int msec * 1000000)"
    using assms(2,3) by (simp add: wrap64_id time_Unix_def)
  have "parseAuditHeader (audit_header pre sec msec seq @ rest) =
    Ok (time_Unix (int sec) (wrap64 (int msec * 1000000)), of_nat (unat seq),
        length (audit_header pre sec msec seq) - 1)"
    unfolding audit_header_def
    by (rule parseAuditHeader_text [OF assms(1) _ _ _ s m q])
       (simp_all add: digits_no_token [OF dig] digits_no_token [OF pad3_digits] is_digit_def)
  then show ?thesis unfolding tm by simp
qed

end
