(* ===== verification/Go_Heap.thy ===== *)
theory Go_Heap
  imports Go_Prelude "HOL-Library.Multiset"
begin

text \<open>
  Go's \<^verbatim>\<open>container/heap\<close> on a slice: \<^verbatim>\<open>up\<close>, \<^verbatim>\<open>down\<close>, \<^verbatim>\<open>Push\<close> and \<^verbatim>\<open>Pop\<close>, with the client's \<^verbatim>\<open>Less\<close> as a
  parameter. That the contents are kept holds for every \<^verbatim>\<open>Less\<close>; that the root is least is
  proved in the locale \<open>keyed_less\<close>, for a \<^verbatim>\<open>Less\<close> that compares a key on the elements held.
\<close>

section \<open>Definitions\<close>

definition heap_Swap :: "nat \<Rightarrow> nat \<Rightarrow> 'a list \<Rightarrow> 'a list" where
  "heap_Swap i j xs = xs[i := xs ! j, j := xs ! i]"

definition parent :: "nat \<Rightarrow> nat" where
  "parent j = (j - 1) div 2"

function heap_up :: "('a \<Rightarrow> 'a \<Rightarrow> bool) \<Rightarrow> 'a list \<Rightarrow> nat \<Rightarrow> 'a list" where
  "heap_up lt xs j =
     (let i = parent j in
      if i = j \<or> \<not> lt (xs ! j) (xs ! i) then xs else heap_up lt (heap_Swap i j xs) i)"
  by pat_completeness auto
termination
  by (relation "measure (\<lambda>(lt, xs, j). j)") (auto simp: parent_def)

definition smaller_child :: "('a \<Rightarrow> 'a \<Rightarrow> bool) \<Rightarrow> 'a list \<Rightarrow> nat \<Rightarrow> nat \<Rightarrow> nat" where
  "smaller_child lt xs i n =
     (let j1 = 2 * i + 1; j2 = j1 + 1 in
      if j2 < n \<and> lt (xs ! j2) (xs ! j1) then j2 else j1)"

function heap_down :: "('a \<Rightarrow> 'a \<Rightarrow> bool) \<Rightarrow> 'a list \<Rightarrow> nat \<Rightarrow> nat \<Rightarrow> 'a list" where
  "heap_down lt xs i n =
     (if n \<le> 2 * i + 1 then xs
      else (let j = smaller_child lt xs i n in
            if \<not> lt (xs ! j) (xs ! i) then xs else heap_down lt (heap_Swap i j xs) j n))"
  by pat_completeness auto
termination
  by (relation "measure (\<lambda>(lt, xs, i, n). n - i)") (auto simp: smaller_child_def Let_def)

declare heap_up.simps [simp del] heap_down.simps [simp del]

definition heap_Push :: "('a \<Rightarrow> 'a \<Rightarrow> bool) \<Rightarrow> 'a \<Rightarrow> 'a list \<Rightarrow> 'a list" where
  "heap_Push lt x xs = (let ys = xs @ [x] in heap_up lt ys (length ys - 1))"

text \<open>\<^verbatim>\<open>heap.Pop\<close>: the element removed and the rest; the caller ensures the heap is not empty.\<close>

definition heap_Pop :: "('a \<Rightarrow> 'a \<Rightarrow> bool) \<Rightarrow> 'a list \<Rightarrow> 'a \<times> 'a list" where
  "heap_Pop lt xs =
     (let n = length xs - 1; ys = heap_down lt (heap_Swap 0 n xs) 0 n in (last ys, butlast ys))"

section \<open>Contents\<close>

lemma length_heap_Swap [simp]: "length (heap_Swap i j xs) = length xs"
  by (simp add: heap_Swap_def)

lemma mset_swap_idx: "i < length xs \<Longrightarrow> j < length xs \<Longrightarrow> mset (heap_Swap i j xs) = mset xs"
  by (simp add: heap_Swap_def mset_swap)

lemma heap_Swap_nth:
  "i < length xs \<Longrightarrow> j < length xs \<Longrightarrow> k < length xs \<Longrightarrow>
     heap_Swap i j xs ! k = (if k = i then xs ! j else if k = j then xs ! i else xs ! k)"
  by (auto simp: heap_Swap_def nth_list_update)

lemma parent_less: "parent j < j \<longleftrightarrow> 0 < j"
  by (auto simp: parent_def)

lemma parent_le: "parent j \<le> j"
  by (auto simp: parent_def)

lemma smaller_child_bounds:
  "2 * i + 1 < n \<Longrightarrow> i < smaller_child lt xs i n \<and> smaller_child lt xs i n < n
     \<and> parent (smaller_child lt xs i n) = i"
  by (auto simp: smaller_child_def Let_def parent_def)

lemma mset_heap_up: "j < length xs \<Longrightarrow> mset (heap_up lt xs j) = mset xs"
proof (induction lt xs j rule: heap_up.induct)
  case (1 lt xs j)
  then show ?case
    using parent_le [of j]
    by (subst heap_up.simps) (auto simp: Let_def mset_swap_idx)
qed

lemma mset_heap_down: "n \<le> length xs \<Longrightarrow> mset (heap_down lt xs i n) = mset xs"
proof (induction lt xs i n rule: heap_down.induct)
  case (1 lt xs i n)
  then show ?case
    using smaller_child_bounds [of i n lt xs]
    by (subst heap_down.simps) (auto simp: Let_def mset_swap_idx)
qed

lemma length_heap_down [simp]: "n \<le> length xs \<Longrightarrow> length (heap_down lt xs i n) = length xs"
  using mset_heap_down [of n xs lt i] by (metis size_mset)

text \<open>\<open>down\<close> restricted to the first \<open>n\<close> positions leaves the others alone.\<close>

lemma heap_down_beyond: "n \<le> k \<Longrightarrow> k < length xs \<Longrightarrow> heap_down lt xs i n ! k = xs ! k"
proof (induction lt xs i n rule: heap_down.induct)
  case (1 lt xs i n)
  then show ?case
    using smaller_child_bounds [of i n lt xs]
    by (subst heap_down.simps) (auto simp: Let_def heap_Swap_nth)
qed

lemma mset_heap_Push: "mset (heap_Push lt x xs) = add_mset x (mset xs)"
  by (simp add: heap_Push_def mset_heap_up)

lemma heap_Pop_fst: "xs \<noteq> [] \<Longrightarrow> fst (heap_Pop lt xs) = hd xs"
proof -
  let ?n = "length xs - 1"
  assume ne: "xs \<noteq> []"
  let ?ys = "heap_down lt (heap_Swap 0 ?n xs) 0 ?n"
  have len: "length ?ys = length xs" by simp
  then have "?ys \<noteq> []" using ne by (metis length_0_conv)
  then have "last ?ys = ?ys ! ?n" by (simp add: last_conv_nth len)
  also have "\<dots> = heap_Swap 0 ?n xs ! ?n" using ne by (intro heap_down_beyond) simp_all
  also have "\<dots> = hd xs" using ne by (simp add: heap_Swap_nth hd_conv_nth)
  finally show ?thesis by (simp add: heap_Pop_def Let_def)
qed

lemma heap_Pop_mset:
  assumes "xs \<noteq> []"
  shows "add_mset (hd xs) (mset (snd (heap_Pop lt xs))) = mset xs"
proof -
  let ?n = "length xs - 1"
  let ?ys = "heap_down lt (heap_Swap 0 ?n xs) 0 ?n"
  have "length ?ys = length xs" by simp
  then have ne: "?ys \<noteq> []" using assms by (metis length_0_conv)
  have "mset ?ys = mset xs" using assms by (simp add: mset_heap_down mset_swap_idx)
  moreover have "mset ?ys = add_mset (last ?ys) (mset (butlast ?ys))"
    using ne by (metis append_butlast_last_id mset_append add_mset_add_single mset.simps(1,2))
  moreover have "last ?ys = hd xs"
    using heap_Pop_fst [OF assms, of lt] by (simp add: heap_Pop_def Let_def)
  ultimately show ?thesis by (simp add: heap_Pop_def Let_def)
qed

lemma length_heap_Push [simp]: "length (heap_Push lt x xs) = Suc (length xs)"
  by (metis mset_heap_Push size_mset size_add_mset)

lemma length_heap_Pop [simp]: "length (snd (heap_Pop lt xs)) = length xs - 1"
  by (simp add: heap_Pop_def Let_def)

lemma set_heap_Push [simp]: "set (heap_Push lt x xs) = insert x (set xs)"
  by (metis mset_heap_Push set_mset_add_mset_insert set_mset_mset)

section \<open>Order\<close>

text \<open>Every element but the root is not below its parent.\<close>

definition heap_ordered :: "('a \<Rightarrow> 'k::linorder) \<Rightarrow> 'a list \<Rightarrow> bool" where
  "heap_ordered key xs = (\<forall>k < length xs. 0 < k \<longrightarrow> key (xs ! parent k) \<le> key (xs ! k))"

lemma heap_root_least:
  assumes "heap_ordered key xs" and "k < length xs"
  shows "key (xs ! 0) \<le> key (xs ! k)"
  using assms(2)
proof (induction k rule: less_induct)
  case (less k)
  show ?case
  proof (cases "k = 0")
    case False
    then have "parent k < k" by (simp add: parent_less)
    with less have "key (xs ! 0) \<le> key (xs ! parent k)" by auto
    also have "\<dots> \<le> key (xs ! k)" using assms(1) less.prems False by (simp add: heap_ordered_def)
    finally show ?thesis .
  qed simp
qed

text \<open>Ordered but for the edge above \<open>j\<close>, with the parent of \<open>j\<close> still below the children of \<open>j\<close>.\<close>

definition ordered_but_up :: "('a \<Rightarrow> 'k::linorder) \<Rightarrow> 'a list \<Rightarrow> nat \<Rightarrow> bool" where
  "ordered_but_up key xs j =
     ((\<forall>k < length xs. 0 < k \<longrightarrow> k \<noteq> j \<longrightarrow> key (xs ! parent k) \<le> key (xs ! k)) \<and>
      (\<forall>k < length xs. 0 < k \<longrightarrow> parent k = j \<longrightarrow> 0 < j \<longrightarrow> key (xs ! parent j) \<le> key (xs ! k)))"

text \<open>Ordered on the first \<open>n\<close> positions but for the edges below \<open>i\<close>.\<close>

definition ordered_but_down :: "('a \<Rightarrow> 'k::linorder) \<Rightarrow> 'a list \<Rightarrow> nat \<Rightarrow> nat \<Rightarrow> bool" where
  "ordered_but_down key xs i n =
     ((\<forall>k < n. 0 < k \<longrightarrow> parent k \<noteq> i \<longrightarrow> key (xs ! parent k) \<le> key (xs ! k)) \<and>
      (\<forall>k < n. 0 < k \<longrightarrow> parent k = i \<longrightarrow> 0 < i \<longrightarrow> key (xs ! parent i) \<le> key (xs ! k)))"

lemma ordered_but_up_step:
  assumes "ordered_but_up key xs j" and "j < length xs" and "0 < j"
    and "key (xs ! j) < key (xs ! parent j)"
  shows "ordered_but_up key (heap_Swap (parent j) j xs) (parent j)"
proof -
  have pj: "parent j < j" using assms(3) by (simp add: parent_less)
  have nth: "k < length xs \<Longrightarrow> heap_Swap (parent j) j xs ! k =
      (if k = parent j then xs ! j else if k = j then xs ! parent j else xs ! k)" for k
    using pj assms(2) by (simp add: heap_Swap_nth)
  have le: "parent k < length xs" if "k < length xs" for k
    using that parent_le [of k] by linarith
  have edge: "k < length xs \<Longrightarrow> 0 < k \<Longrightarrow> k \<noteq> j \<Longrightarrow> key (xs ! parent k) \<le> key (xs ! k)"
    and grand: "k < length xs \<Longrightarrow> 0 < k \<Longrightarrow> parent k = j \<Longrightarrow> key (xs ! parent j) \<le> key (xs ! k)" for k
    using assms(1,3) by (auto simp: ordered_but_up_def)
  show ?thesis
    unfolding ordered_but_up_def length_heap_Swap
  proof (intro conjI allI impI)
    fix k assume k: "k < length xs" "0 < k" "k \<noteq> parent j"
    show "key (heap_Swap (parent j) j xs ! parent k) \<le> key (heap_Swap (parent j) j xs ! k)"
    proof (cases "k = j")
      case True
      then show ?thesis using nth [OF k(1)] nth [OF le [OF k(1)]] assms(4) pj by simp
    next
      case False
      then consider "parent k = parent j" | "parent k = j" | "parent k \<noteq> parent j" "parent k \<noteq> j"
        by blast
      then show ?thesis
        using nth [OF k(1)] nth [OF le [OF k(1)]] edge [OF k(1,2) False] grand [OF k(1,2)] assms(4) False k(3)
        by cases auto
    qed
  next
    fix k assume k: "k < length xs" "0 < k" "parent k = parent j" "0 < parent j"
    have pp: "parent (parent j) < length xs" "parent (parent j) < parent j"
      using pj assms(2) k(4) parent_less [of "parent j"] by auto
    have pe: "key (xs ! parent (parent j)) \<le> key (xs ! parent j)"
      using edge [of "parent j"] pj assms(2) k(4) by simp
    show "key (heap_Swap (parent j) j xs ! parent (parent j)) \<le> key (heap_Swap (parent j) j xs ! k)"
    proof (cases "k = j")
      case True
      then show ?thesis using nth [OF k(1)] nth [OF pp(1)] pp pj pe by simp
    next
      case False
      have "key (xs ! parent j) \<le> key (xs ! k)" using edge [OF k(1,2) False] k(3) by simp
      moreover have "k \<noteq> parent j" using k parent_less [of "parent j"] by auto
      ultimately show ?thesis using nth [OF k(1)] nth [OF pp(1)] pp pj pe False by simp
    qed
  qed
qed

lemma ordered_but_down_step:
  assumes "ordered_but_down key xs i n" and "n \<le> length xs"
    and c: "parent c = i" "i < c" "c < n"
    and least: "\<forall>k < n. 0 < k \<longrightarrow> parent k = i \<longrightarrow> key (xs ! c) \<le> key (xs ! k)"
    and below: "key (xs ! c) < key (xs ! i)"
  shows "ordered_but_down key (heap_Swap i c xs) c n"
proof -
  have nth: "k < n \<Longrightarrow> heap_Swap i c xs ! k = (if k = i then xs ! c else if k = c then xs ! i else xs ! k)" for k
    using assms by (simp add: heap_Swap_nth)
  have le: "parent k < n" if "k < n" for k using that parent_le [of k] by linarith
  have edge: "k < n \<Longrightarrow> 0 < k \<Longrightarrow> parent k \<noteq> i \<Longrightarrow> key (xs ! parent k) \<le> key (xs ! k)"
    and grand: "k < n \<Longrightarrow> 0 < k \<Longrightarrow> parent k = i \<Longrightarrow> 0 < i \<Longrightarrow> key (xs ! parent i) \<le> key (xs ! k)" for k
    using assms(1) by (auto simp: ordered_but_down_def)
  show ?thesis
    unfolding ordered_but_down_def
  proof (intro conjI allI impI)
    fix k assume k: "k < n" "0 < k" "parent k \<noteq> c"
    show "key (heap_Swap i c xs ! parent k) \<le> key (heap_Swap i c xs ! k)"
    proof (cases "parent k = i")
      case True
      then have "k \<noteq> i" using parent_less [of k] k by auto
      with True show ?thesis using nth [OF k(1)] nth [OF le [OF k(1)]] least k below c by auto
    next
      case False
      then have "k \<noteq> c" using c by auto
      show ?thesis
      proof (cases "k = i")
        case True
        with k have "0 < i" by simp
        moreover have "parent i \<noteq> i" "parent i \<noteq> c" using parent_less [of i] True k c by auto
        moreover have "key (xs ! parent i) \<le> key (xs ! c)" using grand [of c] c True k by simp
        ultimately show ?thesis using True nth [OF k(1)] nth [OF le [OF k(1)]] by simp
      next
        case False
        with \<open>k \<noteq> c\<close> \<open>parent k \<noteq> i\<close> k show ?thesis
          using nth [OF k(1)] nth [OF le [OF k(1)]] edge [OF k(1,2)] by simp
      qed
    qed
  next
    fix k assume k: "k < n" "0 < k" "parent k = c" "0 < c"
    have "k \<noteq> i" "k \<noteq> c" using k c parent_less [of k] by auto
    moreover have "key (xs ! c) \<le> key (xs ! k)" using edge [OF k(1,2)] k c by simp
    moreover have "i < n" using c by simp
    ultimately show "key (heap_Swap i c xs ! parent c) \<le> key (heap_Swap i c xs ! k)"
      using nth [OF k(1)] nth [of i] c by simp
  qed
qed

text \<open>
  The interface a client of the heap provides: on the elements in play, its \<^verbatim>\<open>Less\<close>
  compares a key.
\<close>

locale keyed_less =
  fixes lt :: "'a \<Rightarrow> 'a \<Rightarrow> bool" and key :: "'a \<Rightarrow> 'k::linorder" and dom_ok :: "'a set \<Rightarrow> bool"
  assumes less_key: "dom_ok A \<Longrightarrow> x \<in> A \<Longrightarrow> y \<in> A \<Longrightarrow> lt x y \<longleftrightarrow> key x < key y"
begin

lemma heap_up_ordered:
  "dom_ok (set xs) \<Longrightarrow> j < length xs \<Longrightarrow> ordered_but_up key xs j \<Longrightarrow> heap_ordered key (heap_up lt xs j)"
proof (induction j arbitrary: xs rule: less_induct)
  case (less j)
  have lk: "lt (xs ! j) (xs ! parent j) \<longleftrightarrow> key (xs ! j) < key (xs ! parent j)"
    using less_key [OF less.prems(1)] less.prems(2) parent_le [of j] by simp
  show ?case
  proof (cases "parent j = j \<or> \<not> lt (xs ! j) (xs ! parent j)")
    case True
    have "heap_ordered key xs"
      unfolding heap_ordered_def
    proof (intro allI impI)
      fix k assume "k < length xs" "0 < k"
      then show "key (xs ! parent k) \<le> key (xs ! k)"
        using less.prems(3) True lk parent_less [of j]
        by (cases "k = j") (auto simp: ordered_but_up_def not_less)
    qed
    with True show ?thesis by (subst heap_up.simps) (auto simp: Let_def)
  next
    case False
    then have j: "0 < j" by (cases j) (auto simp: parent_def)
    then have pj: "parent j < j" by (simp add: parent_less)
    have "set (heap_Swap (parent j) j xs) = set xs"
      using less.prems(2) pj by (metis mset_swap_idx set_mset_mset less_trans)
    moreover have "ordered_but_up key (heap_Swap (parent j) j xs) (parent j)"
      using ordered_but_up_step [OF less.prems(3,2) j] False lk by simp
    ultimately have "heap_ordered key (heap_up lt (heap_Swap (parent j) j xs) (parent j))"
      using less.IH [OF pj, of "heap_Swap (parent j) j xs"] less.prems pj by simp
    with False show ?thesis by (subst heap_up.simps) (auto simp: Let_def)
  qed
qed

lemma smaller_child_least:
  assumes "dom_ok (set xs)" and "n \<le> length xs" and "2 * i + 1 < n"
    and "k < n" and "0 < k" and "parent k = i"
  shows "key (xs ! smaller_child lt xs i n) \<le> key (xs ! k)"
proof -
  have "k = 2 * i + 1 \<or> k = 2 * i + 2" using assms(5,6) by (auto simp: parent_def)
  moreover have "lt (xs ! (2 * i + 2)) (xs ! (2 * i + 1)) \<longleftrightarrow> key (xs ! (2 * i + 2)) < key (xs ! (2 * i + 1))"
    if "2 * i + 2 < n"
    using less_key [OF assms(1)] assms(2,3) that by simp
  ultimately show ?thesis
    using assms(3,4) by (auto simp: smaller_child_def Let_def not_less)
qed

lemma heap_down_ordered:
  "dom_ok (set xs) \<Longrightarrow> n \<le> length xs \<Longrightarrow> ordered_but_down key xs i n \<Longrightarrow>
     heap_ordered key (take n (heap_down lt xs i n))"
proof (induction "n - i" arbitrary: xs i rule: less_induct)
  case less
  let ?c = "smaller_child lt xs i n"
  have done_if: "heap_ordered key (take n xs)"
    if "\<And>k. k < n \<Longrightarrow> 0 < k \<Longrightarrow> parent k = i \<Longrightarrow> key (xs ! i) \<le> key (xs ! k)"
    unfolding heap_ordered_def
  proof (intro allI impI)
    fix k assume "k < length (take n xs)" and "0 < k"
    then have k: "k < n" "0 < k" and "parent k < n" using less.prems(2) parent_le [of k] by auto
    moreover have "key (xs ! parent k) \<le> key (xs ! k)"
      using that [OF k] less.prems(3) k by (cases "parent k = i") (auto simp: ordered_but_down_def)
    ultimately show "key (take n xs ! parent k) \<le> key (take n xs ! k)" by simp
  qed
  show ?case
  proof (cases "n \<le> 2 * i + 1")
    case True
    then have "heap_ordered key (take n xs)" by (intro done_if) (auto simp: parent_def)
    with True show ?thesis by (subst heap_down.simps) simp
  next
    case False
    then have c: "i < ?c" "?c < n" "parent ?c = i" using smaller_child_bounds [of i n lt xs] by auto
    have least: "\<forall>k < n. 0 < k \<longrightarrow> parent k = i \<longrightarrow> key (xs ! ?c) \<le> key (xs ! k)"
      using smaller_child_least [OF less.prems(1,2)] False by auto
    have lk: "lt (xs ! ?c) (xs ! i) \<longleftrightarrow> key (xs ! ?c) < key (xs ! i)"
      using less_key [OF less.prems(1)] less.prems(2) c by simp
    show ?thesis
    proof (cases "lt (xs ! ?c) (xs ! i)")
      case True
      then have "ordered_but_down key (heap_Swap i ?c xs) ?c n"
        using ordered_but_down_step [OF less.prems(3,2) c(3,1,2) least] lk by simp
      moreover have "set (heap_Swap i ?c xs) = set xs"
        using less.prems(2) c by (metis mset_swap_idx set_mset_mset less_trans less_le_trans)
      ultimately have "heap_ordered key (take n (heap_down lt (heap_Swap i ?c xs) ?c n))"
        using less.hyps [of ?c "heap_Swap i ?c xs"] less.prems c by simp
      with True False show ?thesis by (subst heap_down.simps) (simp add: Let_def)
    next
      case nl: False
      then have "heap_ordered key (take n xs)" using least lk by (intro done_if) (force simp: not_less)
      with nl False show ?thesis by (subst heap_down.simps) (simp add: Let_def)
    qed
  qed
qed

lemma Push_ordered:
  assumes "heap_ordered key xs" and "dom_ok (insert x (set xs))"
  shows "heap_ordered key (heap_Push lt x xs)"
proof -
  have "ordered_but_up key (xs @ [x]) (length xs)"
    unfolding ordered_but_up_def
  proof (intro conjI allI impI)
    fix k assume "k < length (xs @ [x])" "0 < k" "k \<noteq> length xs"
    then have k: "k < length xs" "0 < k" and "parent k < length xs" using parent_le [of k] by auto
    then show "key ((xs @ [x]) ! parent k) \<le> key ((xs @ [x]) ! k)"
      using assms(1) by (simp add: heap_ordered_def nth_append)
  next
    fix k assume "k < length (xs @ [x])" "0 < k" "parent k = length xs"
    then show "key ((xs @ [x]) ! parent (length xs)) \<le> key ((xs @ [x]) ! k)"
      using parent_less [of k] by simp
  qed
  then show ?thesis
    using heap_up_ordered [of "xs @ [x]" "length xs"] assms(2) by (simp add: heap_Push_def)
qed

lemma Pop_ordered:
  assumes "heap_ordered key xs" and "dom_ok (set xs)" and "xs \<noteq> []"
  shows "heap_ordered key (snd (heap_Pop lt xs))"
proof -
  let ?n = "length xs - 1"
  have "?n < length xs" "0 < length xs" using assms(3) by simp_all
  then have nth: "k < ?n \<Longrightarrow> 0 < k \<Longrightarrow> heap_Swap 0 ?n xs ! k = xs ! k" for k by (simp add: heap_Swap_nth)
  have "ordered_but_down key (heap_Swap 0 ?n xs) 0 ?n"
    unfolding ordered_but_down_def
  proof (intro conjI allI impI)
    fix k assume k: "k < ?n" "0 < k" "parent k \<noteq> 0"
    then have "parent k < ?n" using parent_le [of k] by linarith
    with k nth assms(1) show "key (heap_Swap 0 ?n xs ! parent k) \<le> key (heap_Swap 0 ?n xs ! k)"
      by (simp add: heap_ordered_def)
  qed simp
  moreover have "set (heap_Swap 0 ?n xs) = set xs"
    using \<open>?n < length xs\<close> \<open>0 < length xs\<close> by (metis mset_swap_idx set_mset_mset)
  ultimately have "heap_ordered key (take ?n (heap_down lt (heap_Swap 0 ?n xs) 0 ?n))"
    using heap_down_ordered [of "heap_Swap 0 ?n xs" ?n 0] assms(2) by simp
  then show ?thesis by (simp add: heap_Pop_def Let_def butlast_conv_take)
qed

lemma root_least:
  assumes "heap_ordered key xs" and "x \<in> set xs"
  shows "key (hd xs) \<le> key x"
proof -
  obtain k where "k < length xs" "x = xs ! k" using assms(2) by (auto simp: in_set_conv_nth)
  then show ?thesis using heap_root_least [OF assms(1), of k] by (cases xs) simp_all
qed

end

end
