(* ===== verification/Reassembler.thy ===== *)
theory Reassembler
  imports Auparse_Message Go_Heap
begin

text \<open>
  \<^verbatim>\<open>reassembler.go\<close>: the reassembly of audit events. The in-flight events live in an
  \<^verbatim>\<open>eventList\<close>: a heap of sequence numbers and a map from sequence number to event. The
  clock is the environment's: an operation takes the readings of \<^verbatim>\<open>time.Now()\<close> it makes, one
  per loop iteration in \<^verbatim>\<open>CleanUp\<close>. Times are nanoseconds, and the callbacks an operation
  makes are the list of stream events it returns.
\<close>

section \<open>The heap of sequence numbers\<close>

definition maxSortRange :: int where
  "maxSortRange = 2 ^ 24 - 1"

text \<open>\<^verbatim>\<open>intHeap.Less\<close>: numbers far apart are taken to be on two sides of the roll-over.\<close>

definition seq_less :: "int \<Rightarrow> int \<Rightarrow> bool" where
  "seq_less a b = (if \<bar>a - b\<bar> > maxSortRange then a > b else a < b)"

section \<open>Events\<close>

record event =
  expireTime :: int
  msgs :: "AuditMessage list"
  complete :: bool

text \<open>The zero \<^verbatim>\<open>event\<close>, which a failed map lookup returns; its time is the zero \<^verbatim>\<open>time.Time\<close>.\<close>

definition zero_event :: event where
  "zero_event = \<lparr>expireTime = -62135596800000000000, msgs = [], complete = False\<rparr>"

text \<open>\<^verbatim>\<open>event.Add\<close>; some message types complete the event.\<close>

definition completes :: "AuditMessage \<Rightarrow> bool" where
  "completes msg = (RecordType msg = AUDIT_PROCTITLE \<or> RecordType msg \<le> AUDIT_LAST_DAEMON
     \<or> RecordType msg \<ge> AUDIT_ANOM_LOGIN_FAILURES)"

definition event_Add :: "AuditMessage \<Rightarrow> event \<Rightarrow> event" where
  "event_Add msg e =
     (let e1 = e\<lparr>msgs := msgs e @ [msg]\<rparr> in
      if completes msg then e1\<lparr>complete := True\<rparr> else e1)"

definition IsExpired :: "int \<Rightarrow> event \<Rightarrow> bool" where
  "IsExpired now e = (now > expireTime e)"

section \<open>The event list\<close>

record eventList =
  seqs :: "int list"
  events :: "int \<rightharpoonup> event"
  lastSeq :: int
  maxSize :: int
  timeout :: int

definition newEventList :: "int \<Rightarrow> int \<Rightarrow> eventList" where
  "newEventList sz t =
     \<lparr>seqs = [], events = Map.empty, lastSeq = 0, maxSize = sz, timeout = t\<rparr>"

definition remove :: "eventList \<Rightarrow> eventList" where
  "remove l =
     (if length (seqs l) > 0
      then (let p = heap_Pop seq_less (seqs l) in
            l\<lparr>seqs := snd p, events := (events l)(fst p := None)\<rparr>)
      else l)"

text \<open>Reading the map for a sequence number gives the zero event when it is missing.\<close>

definition get_event :: "eventList \<Rightarrow> int \<Rightarrow> event" where
  "get_event l seq = (case events l seq of None \<Rightarrow> zero_event | Some e \<Rightarrow> e)"

text \<open>
  \<^verbatim>\<open>eventList.Put\<close>. For an EOE message of a known event the code marks its local copy of the
  event complete and returns; the map holds events by value and is not written.
\<close>

definition Put :: "int \<Rightarrow> AuditMessage \<Rightarrow> eventList \<Rightarrow> eventList" where
  "Put now msg l =
     (let seq = uint (Sequence msg) in
      if RecordType msg = AUDIT_EOE then
        (case events l seq of
           Some e \<Rightarrow> (let e_copy = e\<lparr>complete := True\<rparr> in l)
         | None \<Rightarrow> l)
      else
        (case events l seq of
           Some e \<Rightarrow> l\<lparr>events := (events l)(seq \<mapsto> event_Add msg e)\<rparr>
         | None \<Rightarrow>
             (let e = \<lparr>expireTime = now + timeout l, msgs = [], complete = False\<rparr> in
              l\<lparr>seqs := heap_Push seq_less seq (seqs l),
                events := (events l)(seq \<mapsto> event_Add msg e)\<rparr>)))"

text \<open>
  The body that the loops of \<^verbatim>\<open>Clear\<close> and \<^verbatim>\<open>CleanUp\<close> share, for the event at the root: count the
  gap, remember the sequence number, remove the event.
\<close>

definition gap :: "eventList \<Rightarrow> int" where
  "gap l = (if lastSeq l > 0 then hd (seqs l) - lastSeq l - 1 else 0)"

definition evict_root :: "eventList \<Rightarrow> eventList" where
  "evict_root l = remove (l\<lparr>lastSeq := hd (seqs l)\<rparr>)"

lemma length_remove [simp]: "length (seqs (remove l)) = length (seqs l) - 1"
  by (simp add: remove_def Let_def)

lemma length_evict_root [simp]: "length (seqs (evict_root l)) = length (seqs l) - 1"
  by (simp add: evict_root_def)

text \<open>The loop, with the condition under which the root event is evicted.\<close>

function evict_loop :: "(nat \<Rightarrow> eventList \<Rightarrow> bool) \<Rightarrow> nat \<Rightarrow> event list \<Rightarrow> int \<Rightarrow> eventList
    \<Rightarrow> event list \<times> int \<times> eventList" where
  "evict_loop cond k evicted lost l =
     (if seqs l = [] then (evicted, lost, l)
      else if cond k l then
        evict_loop cond (Suc k) (evicted @ [get_event l (hd (seqs l))]) (lost + gap l) (evict_root l)
      else (evicted, lost, l))"
  by pat_completeness auto
termination
  by (relation "measure (\<lambda>(c, k, ev, n, l). length (seqs l))") auto

declare evict_loop.simps [simp del]

definition Clear :: "eventList \<Rightarrow> event list \<times> int \<times> eventList" where
  "Clear l = evict_loop (\<lambda>_ _. True) 0 [] 0 l"

text \<open>\<open>now k\<close> is what \<^verbatim>\<open>time.Now()\<close> returns in the iteration \<open>k\<close> of the loop.\<close>

definition due :: "(nat \<Rightarrow> int) \<Rightarrow> nat \<Rightarrow> eventList \<Rightarrow> bool" where
  "due now k l =
     (let e = get_event l (hd (seqs l)) in
      complete e \<or> int (length (seqs l)) > maxSize l \<or> IsExpired (now k) e)"

definition CleanUp :: "(nat \<Rightarrow> int) \<Rightarrow> eventList \<Rightarrow> event list \<times> int \<times> eventList" where
  "CleanUp now l = evict_loop (due now) 0 [] 0 l"

section \<open>The reassembler\<close>

datatype stream_event = ReassemblyComplete "AuditMessage list" | EventsLost int

record Reassembler =
  closed :: int
  rlist :: eventList

datatype reassembler_error = ErrStreamNil | ErrReassemblerClosed | ErrParse parse_error

definition NewReassembler :: "int \<Rightarrow> int \<Rightarrow> 's option \<Rightarrow> (reassembler_error, Reassembler) outcome" where
  "NewReassembler maxInFlight t stream =
     (case stream of None \<Rightarrow> Err ErrStreamNil
      | Some s \<Rightarrow> Ok \<lparr>closed = 0, rlist = newEventList maxInFlight t\<rparr>)"

definition callback :: "event list \<Rightarrow> int \<Rightarrow> stream_event list" where
  "callback evs lost =
     map (\<lambda>e. ReassemblyComplete (msgs e)) evs @ (if lost > 0 then [EventsLost lost] else [])"

definition PushMessage :: "int \<Rightarrow> (nat \<Rightarrow> int) \<Rightarrow> AuditMessage \<Rightarrow> Reassembler
    \<Rightarrow> stream_event list \<times> Reassembler" where
  "PushMessage t now msg r =
     (let l1 = Put t msg (rlist r) in
      case CleanUp now l1 of (evicted, lost, l2) \<Rightarrow>
        (callback evicted lost, r\<lparr>rlist := l2\<rparr>))"

definition Push :: "int \<Rightarrow> (nat \<Rightarrow> int) \<Rightarrow> AuditMessageType \<Rightarrow> bytes \<Rightarrow> Reassembler
    \<Rightarrow> (reassembler_error, stream_event list \<times> Reassembler) outcome" where
  "Push t now msgType rawData r =
     (case Parse msgType (string_of_bytes rawData) of
        Err e \<Rightarrow> Err (ErrParse e)
      | Panic p \<Rightarrow> Panic p
      | Ok msg \<Rightarrow> Ok (PushMessage t now msg r))"

definition Maintain :: "(nat \<Rightarrow> int) \<Rightarrow> Reassembler
    \<Rightarrow> (reassembler_error, stream_event list \<times> Reassembler) outcome" where
  "Maintain now r =
     (if closed r = 1 then Err ErrReassemblerClosed
      else (case CleanUp now (rlist r) of (evicted, lost, l) \<Rightarrow>
              Ok (callback evicted lost, r\<lparr>rlist := l\<rparr>)))"

definition Close :: "Reassembler \<Rightarrow> (reassembler_error, stream_event list \<times> Reassembler) outcome" where
  "Close r =
     (if closed r = 0 then
        (case Clear (rlist r) of (evicted, lost, l) \<Rightarrow>
           Ok (callback evicted lost, r\<lparr>closed := 1, rlist := l\<rparr>))
      else Err ErrReassemblerClosed)"

section \<open>What the list holds\<close>

definition event_ok :: "int \<Rightarrow> event \<Rightarrow> bool" where
  "event_ok s e = (msgs e \<noteq> [] \<and>
     (\<forall>m \<in> set (msgs e). uint (Sequence m) = s \<and> RecordType m \<noteq> AUDIT_EOE))"

definition list_inv :: "eventList \<Rightarrow> bool" where
  "list_inv l = (distinct (seqs l) \<and> set (seqs l) = dom (events l)
     \<and> (\<forall>s e. events l s = Some e \<longrightarrow> event_ok s e))"

definition in_flight :: "eventList \<Rightarrow> AuditMessage multiset" where
  "in_flight l = (\<Sum>s \<in># mset (seqs l). mset (msgs (get_event l s)))"

definition delivered :: "event list \<Rightarrow> AuditMessage multiset" where
  "delivered evs = (\<Sum>e \<in># mset evs. mset (msgs e))"

definition kept :: "AuditMessage list \<Rightarrow> AuditMessage list" where
  "kept ms = filter (\<lambda>m. RecordType m \<noteq> AUDIT_EOE) ms"

definition event_seq :: "event \<Rightarrow> int" where
  "event_seq e = uint (Sequence (hd (msgs e)))"

text \<open>The messages of one sequence number: in a list, in the events handed out, in the list.\<close>

definition of_seq :: "int \<Rightarrow> AuditMessage list \<Rightarrow> AuditMessage list" where
  "of_seq q ms = filter (\<lambda>m. uint (Sequence m) = q) ms"

definition handed_out :: "int \<Rightarrow> event list \<Rightarrow> AuditMessage list" where
  "handed_out q evs = concat (map msgs (filter (\<lambda>e. event_seq e = q) evs))"

definition pending :: "eventList \<Rightarrow> int \<Rightarrow> AuditMessage list" where
  "pending l q = (case events l q of None \<Rightarrow> [] | Some e \<Rightarrow> msgs e)"

text \<open>What a run of the eviction loop does, as a relation: the events, the gaps, the list left.\<close>

inductive evicts :: "eventList \<Rightarrow> event list \<Rightarrow> int \<Rightarrow> eventList \<Rightarrow> bool" where
  evicts_none: "evicts l [] 0 l"
| evicts_root: "seqs l \<noteq> [] \<Longrightarrow> evicts (evict_root l) evs n l' \<Longrightarrow>
     evicts l (get_event l (hd (seqs l)) # evs) (gap l + n) l'"

inductive_cases evicts_NilE: "evicts l [] n l'"

text \<open>
  The atomic steps of concurrent clients: each takes the mutex, so a run is any sequence of
  them. The labels are the messages put and the events handed to the callback.
\<close>

inductive store_run :: "(int \<Rightarrow> AuditMessage \<Rightarrow> 's \<Rightarrow> 's) \<Rightarrow> ((nat \<Rightarrow> int) \<Rightarrow> 's \<Rightarrow> event list \<times> int \<times> 's)
    \<Rightarrow> ('s \<Rightarrow> event list \<times> int \<times> 's) \<Rightarrow> 's \<Rightarrow> AuditMessage list \<Rightarrow> event list \<Rightarrow> 's \<Rightarrow> bool"
  for put cleanup clear where
  run_start: "store_run put cleanup clear s [] [] s"
| run_put: "store_run put cleanup clear s ps evs s' \<Longrightarrow>
     store_run put cleanup clear s (ps @ [m]) evs (put t m s')"
| run_cleanup: "store_run put cleanup clear s ps evs s' \<Longrightarrow> cleanup now s' = (ev, lost, s'') \<Longrightarrow>
     store_run put cleanup clear s ps (evs @ ev) s''"
| run_clear: "store_run put cleanup clear s ps evs s' \<Longrightarrow> clear s' = (ev, lost, s'') \<Longrightarrow>
     store_run put cleanup clear s ps (evs @ ev) s''"

text \<open>
  Sequence numbers on a circle of \<open>2 ^ 32\<close>: the distance from a base, and the sets that
  fit into a window of \<open>2 ^ 24\<close> numbers after it, across the roll-over or not.
\<close>

definition offset_from :: "int \<Rightarrow> int \<Rightarrow> int" where
  "offset_from base s = (s - base) mod 2 ^ 32"

definition window :: "int \<Rightarrow> int set \<Rightarrow> bool" where
  "window base A = (\<forall>x \<in> A. 0 \<le> x \<and> x < 2 ^ 32 \<and> offset_from base x < 2 ^ 24)"

definition heap_by_seq :: "int list \<Rightarrow> bool" where
  "heap_by_seq xs = (\<forall>k < length xs. 0 < k \<longrightarrow> \<not> seq_less (xs ! k) (xs ! parent k))"

text \<open>
  A run of list operations in which no message is late: a message that opens an event
  follows every event already handed out, and the messages stay within one window.
\<close>

inductive timely_run :: "int \<Rightarrow> eventList \<Rightarrow> event list \<Rightarrow> eventList \<Rightarrow> bool" for base where
  timely_start: "timely_run base l [] l"
| timely_put: "timely_run base l evs l' \<Longrightarrow> window base {uint (Sequence m)} \<Longrightarrow>
     (\<forall>e \<in> set evs. offset_from base (event_seq e) < offset_from base (uint (Sequence m))) \<Longrightarrow>
     timely_run base l evs (Put t m l')"
| timely_cleanup: "timely_run base l evs l' \<Longrightarrow> CleanUp now l' = (ev, lost, l'') \<Longrightarrow>
     timely_run base l (evs @ ev) l''"
| timely_clear: "timely_run base l evs l' \<Longrightarrow> Clear l' = (ev, lost, l'') \<Longrightarrow>
     timely_run base l (evs @ ev) l''"

section \<open>The event store interface\<close>

text \<open>
  What the reassembler relies on: putting a message adds it (an EOE message is dropped), and
  the two eviction operations hand out what they remove, in events of one sequence number.
\<close>

locale event_store =
  fixes put :: "int \<Rightarrow> AuditMessage \<Rightarrow> 's \<Rightarrow> 's"
    and cleanup :: "(nat \<Rightarrow> int) \<Rightarrow> 's \<Rightarrow> event list \<times> int \<times> 's"
    and clear :: "'s \<Rightarrow> event list \<times> int \<times> 's"
    and inv :: "'s \<Rightarrow> bool" and contents :: "'s \<Rightarrow> AuditMessage multiset"
  assumes put_inv: "inv s \<Longrightarrow> inv (put t m s)"
    and put_contents: "inv s \<Longrightarrow> contents (put t m s) = contents s + mset (kept [m])"
    and cleanup_inv: "inv s \<Longrightarrow> cleanup now s = (evs, lost, s') \<Longrightarrow> inv s'"
    and cleanup_contents: "inv s \<Longrightarrow> cleanup now s = (evs, lost, s') \<Longrightarrow>
          contents s = delivered evs + contents s'"
    and cleanup_events: "inv s \<Longrightarrow> cleanup now s = (evs, lost, s') \<Longrightarrow> e \<in> set evs \<Longrightarrow>
          event_ok (event_seq e) e"
    and clear_inv: "inv s \<Longrightarrow> clear s = (evs, lost, s') \<Longrightarrow> inv s'"
    and clear_contents: "inv s \<Longrightarrow> clear s = (evs, lost, s') \<Longrightarrow>
          contents s = delivered evs + contents s'"
    and clear_events: "inv s \<Longrightarrow> clear s = (evs, lost, s') \<Longrightarrow> e \<in> set evs \<Longrightarrow>
          event_ok (event_seq e) e"
begin

lemma run_inv: "store_run put cleanup clear s ps evs s' \<Longrightarrow> inv s \<Longrightarrow> inv s'"
  by (induction rule: store_run.induct) (auto intro: put_inv cleanup_inv clear_inv)

lemma run_conserves:
  "store_run put cleanup clear s ps evs s' \<Longrightarrow> inv s \<Longrightarrow>
     contents s + mset (kept ps) = delivered evs + contents s'"
proof (induction rule: store_run.induct)
  case run_start
  show ?case by (simp add: kept_def delivered_def)
next
  case (run_put s ps evs s' m t)
  then have "inv s'" by (auto intro: run_inv)
  with run_put show ?case by (simp add: put_contents kept_def ac_simps)
next
  case (run_cleanup s ps evs s' now ev lost s'')
  then have "contents s' = delivered ev + contents s''" by (auto intro: cleanup_contents run_inv)
  with run_cleanup show ?case by (simp add: delivered_def)
next
  case (run_clear s ps evs s' ev lost s'')
  then have "contents s' = delivered ev + contents s''" by (auto intro: clear_contents run_inv)
  with run_clear show ?case by (simp add: delivered_def)
qed

lemma run_events:
  "store_run put cleanup clear s ps evs s' \<Longrightarrow> inv s \<Longrightarrow> e \<in> set evs \<Longrightarrow> event_ok (event_seq e) e"
  by (induction rule: store_run.induct) (auto intro: cleanup_events clear_events run_inv)

end

text \<open>
  A store that also keeps, per sequence number, the messages in the order they were put: the
  events handed out and what is pending make up the messages put so far, in order.
\<close>

locale ordered_event_store = event_store put cleanup clear inv contents
  for put :: "int \<Rightarrow> AuditMessage \<Rightarrow> 's \<Rightarrow> 's"
    and cleanup :: "(nat \<Rightarrow> int) \<Rightarrow> 's \<Rightarrow> event list \<times> int \<times> 's"
    and clear :: "'s \<Rightarrow> event list \<times> int \<times> 's"
    and inv :: "'s \<Rightarrow> bool" and contents :: "'s \<Rightarrow> AuditMessage multiset" +
  fixes waiting :: "'s \<Rightarrow> int \<Rightarrow> AuditMessage list"
  assumes put_waiting: "inv s \<Longrightarrow> waiting (put t m s) q = waiting s q @ of_seq q (kept [m])"
    and cleanup_waiting: "inv s \<Longrightarrow> cleanup now s = (evs, lost, s') \<Longrightarrow>
          waiting s q = handed_out q evs @ waiting s' q"
    and clear_waiting: "inv s \<Longrightarrow> clear s = (evs, lost, s') \<Longrightarrow>
          waiting s q = handed_out q evs @ waiting s' q"
begin

lemma run_waiting:
  "store_run put cleanup clear s ps evs s' \<Longrightarrow> inv s \<Longrightarrow>
     waiting s q @ of_seq q (kept ps) = handed_out q evs @ waiting s' q"
proof (induction rule: store_run.induct)
  case run_start
  show ?case by (simp add: kept_def handed_out_def of_seq_def)
next
  case (run_put s ps evs s' m t)
  then have "inv s'" by (auto intro: run_inv)
  moreover have "of_seq q (kept (ps @ [m])) = of_seq q (kept ps) @ of_seq q (kept [m])"
    by (simp add: of_seq_def kept_def)
  ultimately show ?case using run_put by (simp add: put_waiting flip: append_assoc)
next
  case (run_cleanup s ps evs s' now ev lost s'')
  then have "waiting s' q = handed_out q ev @ waiting s'' q"
    by (auto intro: cleanup_waiting run_inv)
  with run_cleanup show ?case by (simp add: handed_out_def)
next
  case (run_clear s ps evs s' ev lost s'')
  then have "waiting s' q = handed_out q ev @ waiting s'' q"
    by (auto intro: clear_waiting run_inv)
  with run_clear show ?case by (simp add: handed_out_def)
qed

end

section \<open>One eviction\<close>

lemma list_invD:
  assumes "list_inv l"
  shows "distinct (seqs l)" and "set (seqs l) = dom (events l)"
    and "events l s = Some e \<Longrightarrow> event_ok s e"
  using assms by (auto simp: list_inv_def)

lemma seqs_evict_root:
  "seqs l \<noteq> [] \<Longrightarrow> seqs (evict_root l) = snd (heap_Pop seq_less (seqs l))"
  by (simp add: evict_root_def remove_def Let_def)

lemma mset_evict_root:
  "seqs l \<noteq> [] \<Longrightarrow> mset (seqs l) = add_mset (hd (seqs l)) (mset (seqs (evict_root l)))"
  by (simp add: seqs_evict_root heap_Pop_mset)

lemma events_evict_root:
  "seqs l \<noteq> [] \<Longrightarrow> events (evict_root l) = (events l)(hd (seqs l) := None)"
  by (simp add: evict_root_def remove_def Let_def heap_Pop_fst)

lemma frame_evict_root [simp]:
  "maxSize (evict_root l) = maxSize l" "timeout (evict_root l) = timeout l"
  "lastSeq (evict_root l) = hd (seqs l)"
  by (simp_all add: evict_root_def remove_def Let_def)

lemma evict_root_seqs_split:
  assumes "list_inv l" and "seqs l \<noteq> []"
  shows "distinct (seqs (evict_root l))" and "hd (seqs l) \<notin> set (seqs (evict_root l))"
    and "set (seqs l) = insert (hd (seqs l)) (set (seqs (evict_root l)))"
proof -
  have "mset (seqs l) = mset (hd (seqs l) # seqs (evict_root l))"
    using mset_evict_root [OF assms(2)] by simp
  then have "distinct (hd (seqs l) # seqs (evict_root l))"
    and "set (seqs l) = set (hd (seqs l) # seqs (evict_root l))"
    using list_invD(1) [OF assms(1)] mset_eq_imp_distinct_iff mset_eq_setD by blast+
  then show "distinct (seqs (evict_root l))" and "hd (seqs l) \<notin> set (seqs (evict_root l))"
    and "set (seqs l) = insert (hd (seqs l)) (set (seqs (evict_root l)))"
    by simp_all
qed

lemma evict_root_inv:
  assumes "list_inv l" and "seqs l \<noteq> []"
  shows "list_inv (evict_root l)"
  using evict_root_seqs_split [OF assms] list_invD [OF assms(1)]
  by (auto simp: list_inv_def events_evict_root [OF assms(2)])

lemma root_event_ok:
  assumes "list_inv l" and "seqs l \<noteq> []"
  shows "event_ok (hd (seqs l)) (get_event l (hd (seqs l)))"
proof -
  have "hd (seqs l) \<in> dom (events l)" using list_invD(2) [OF assms(1)] assms(2) by auto
  then show ?thesis using list_invD(3) [OF assms(1)] by (auto simp: get_event_def)
qed

lemma event_seq_ok: "event_ok s e \<Longrightarrow> event_seq e = s"
  by (cases "msgs e") (auto simp: event_ok_def event_seq_def)

lemma in_flight_evict_root:
  assumes "list_inv l" and "seqs l \<noteq> []"
  shows "in_flight l = mset (msgs (get_event l (hd (seqs l)))) + in_flight (evict_root l)"
proof -
  have "get_event (evict_root l) s = get_event l s" if "s \<in> set (seqs (evict_root l))" for s
    using that evict_root_seqs_split(2) [OF assms]
    by (auto simp: get_event_def events_evict_root [OF assms(2)])
  then have "(\<Sum>s \<in># mset (seqs (evict_root l)). mset (msgs (get_event l s))) = in_flight (evict_root l)"
    by (auto simp: in_flight_def intro!: arg_cong [where f = sum_mset] image_mset_cong)
  then show ?thesis by (simp add: in_flight_def mset_evict_root [OF assms(2)])
qed

section \<open>The eviction loop\<close>

lemma evict_loop_evicts:
  "\<exists>new n l'. evict_loop cond k evs lost l = (evs @ new, lost + n, l') \<and> evicts l new n l'
     \<and> (seqs l' = [] \<or> \<not> cond (k + length new) l')"
proof (induction cond k evs lost l rule: evict_loop.induct)
  case (1 cond k evs lost l)
  show ?case
  proof (cases "seqs l \<noteq> [] \<and> cond k l")
    case True
    with 1 obtain new n l' where
      "evict_loop cond (Suc k) (evs @ [get_event l (hd (seqs l))]) (lost + gap l) (evict_root l)
         = ((evs @ [get_event l (hd (seqs l))]) @ new, lost + gap l + n, l')"
      and "evicts (evict_root l) new n l'" and "seqs l' = [] \<or> \<not> cond (Suc k + length new) l'"
      by blast
    with True show ?thesis
      by (intro exI [of _ "get_event l (hd (seqs l)) # new"] exI [of _ "gap l + n"] exI [of _ l'])
         (auto simp: evict_loop.simps [of cond k evs lost l] intro: evicts_root)
  next
    case False
    then show ?thesis
      by (intro exI [of _ "[]"] exI [of _ "0::int"] exI [of _ l])
         (auto simp: evict_loop.simps [of cond k evs lost l] intro: evicts_none)
  qed
qed

lemma CleanUp_evicts:
  assumes "CleanUp now l = (evs, lost, l')"
  shows "evicts l evs lost l'" and "seqs l' = [] \<or> \<not> due now (length evs) l'"
  using evict_loop_evicts [of "due now" 0 "[]" 0 l] assms by (auto simp: CleanUp_def)

lemma Clear_evicts:
  assumes "Clear l = (evs, lost, l')"
  shows "evicts l evs lost l'" and "seqs l' = []"
  using evict_loop_evicts [of "\<lambda>_ _. True" 0 "[]" 0 l] assms by (auto simp: Clear_def)

lemma evicts_inv: "evicts l evs n l' \<Longrightarrow> list_inv l \<Longrightarrow> list_inv l'"
  by (induction rule: evicts.induct) (auto intro: evict_root_inv)

lemma evicts_contents:
  "evicts l evs n l' \<Longrightarrow> list_inv l \<Longrightarrow> in_flight l = delivered evs + in_flight l'"
  by (induction rule: evicts.induct)
     (simp_all add: delivered_def in_flight_evict_root evict_root_inv)

lemma evicts_events:
  "evicts l evs n l' \<Longrightarrow> list_inv l \<Longrightarrow> e \<in> set evs \<Longrightarrow> event_ok (event_seq e) e"
  by (induction rule: evicts.induct) (auto dest: root_event_ok evict_root_inv simp: event_seq_ok)

lemma evicts_frame: "evicts l evs n l' \<Longrightarrow> maxSize l' = maxSize l \<and> timeout l' = timeout l"
  by (induction rule: evicts.induct) simp_all

section \<open>Putting a message\<close>

lemma msgs_event_Add [simp]: "msgs (event_Add m e) = msgs e @ [m]"
  by (simp add: event_Add_def Let_def)

lemma Put_EOE: "RecordType m = AUDIT_EOE \<Longrightarrow> Put t m l = l"
  by (auto simp: Put_def Let_def split: option.splits)

lemma Put_frame [simp]:
  "maxSize (Put t m l) = maxSize l" "timeout (Put t m l) = timeout l" "lastSeq (Put t m l) = lastSeq l"
  by (auto simp: Put_def Let_def split: option.splits)

lemma Put_inv:
  assumes "list_inv l"
  shows "list_inv (Put t m l)"
proof (cases "RecordType m = AUDIT_EOE")
  case True
  with assms show ?thesis by (simp add: Put_EOE)
next
  case False
  let ?s = "uint (Sequence m)"
  show ?thesis
  proof (cases "events l ?s")
    case None
    then have "?s \<notin> set (seqs l)" using list_invD(2) [OF assms] by auto
    moreover have "mset (heap_Push seq_less ?s (seqs l)) = mset (?s # seqs l)"
      by (simp add: mset_heap_Push)
    ultimately have "distinct (heap_Push seq_less ?s (seqs l))"
      using list_invD(1) [OF assms] mset_eq_imp_distinct_iff by (metis distinct.simps(2))
    with False None assms show ?thesis
      by (auto simp: Put_def Let_def list_inv_def event_ok_def)
  next
    case (Some e)
    with False assms show ?thesis
      by (auto simp: Put_def Let_def list_inv_def event_ok_def)
  qed
qed

lemma in_flight_upd:
  assumes "distinct (s # ss)" and "\<forall>x \<in> set ss. get_event l' x = get_event l x"
  shows "(\<Sum>x \<in># mset (s # ss). mset (msgs (get_event l' x))) =
     mset (msgs (get_event l' s)) + (\<Sum>x \<in># mset ss. mset (msgs (get_event l x)))"
  using assms(2) by (auto intro!: arg_cong [where f = sum_mset] image_mset_cong)

lemma Put_contents:
  assumes "list_inv l"
  shows "in_flight (Put t m l) = in_flight l + mset (kept [m])"
proof (cases "RecordType m = AUDIT_EOE")
  case True
  then show ?thesis by (simp add: Put_EOE kept_def)
next
  case False
  let ?s = "uint (Sequence m)" and ?l' = "Put t m l"
  have other: "get_event ?l' x = get_event l x" if "x \<noteq> ?s" for x
    using that by (auto simp: Put_def Let_def get_event_def split: option.splits)
  show ?thesis
  proof (cases "events l ?s")
    case None
    then have "mset (seqs ?l') = mset (?s # seqs l)" and "?s \<notin> set (seqs l)"
      using False list_invD(2) [OF assms] by (auto simp: Put_def Let_def mset_heap_Push)
    moreover have "msgs (get_event ?l' ?s) = [m]"
      using False None by (simp add: Put_def Let_def get_event_def)
    moreover from calculation have "\<forall>x \<in> set (seqs l). get_event ?l' x = get_event l x"
      using other by metis
    ultimately show ?thesis
      using in_flight_upd [of ?s "seqs l" ?l' l] list_invD(1) [OF assms] False
      by (simp add: in_flight_def kept_def)
  next
    case (Some e)
    then have "?s \<in> set (seqs l)" using list_invD(2) [OF assms] by auto
    then obtain as bs where split: "seqs l = as @ ?s # bs" by (auto dest: split_list)
    then have perm: "mset (seqs l) = mset (?s # as @ bs)" and "distinct (?s # as @ bs)"
      using list_invD(1) [OF assms] by auto
    moreover have "seqs ?l' = seqs l" using False Some by (simp add: Put_def Let_def)
    moreover have "msgs (get_event ?l' ?s) = msgs e @ [m]" and "get_event l ?s = e"
      using False Some by (simp_all add: Put_def Let_def get_event_def)
    moreover from calculation have "\<forall>x \<in> set (as @ bs). get_event ?l' x = get_event l x"
      using other by (metis distinct.simps(2))
    ultimately show ?thesis
      using in_flight_upd [of ?s "as @ bs" ?l' l] False
      by (simp add: in_flight_def kept_def)
  qed
qed

interpretation el: event_store Put CleanUp Clear list_inv in_flight
proof unfold_locales
qed (auto intro: Put_inv dest: CleanUp_evicts(1) Clear_evicts(1) evicts_inv evicts_contents evicts_events
    simp: Put_contents)

lemma pending_evict_root:
  assumes "list_inv l" and "seqs l \<noteq> []"
  shows "pending l q = (if q = hd (seqs l) then msgs (get_event l q) else pending (evict_root l) q)"
    and "pending (evict_root l) (hd (seqs l)) = []"
proof -
  have "hd (seqs l) \<in> dom (events l)" using list_invD(2) [OF assms(1)] assms(2) by auto
  then show "pending l q = (if q = hd (seqs l) then msgs (get_event l q) else pending (evict_root l) q)"
    and "pending (evict_root l) (hd (seqs l)) = []"
    by (auto simp: pending_def get_event_def events_evict_root [OF assms(2)])
qed

lemma evicts_pending:
  "evicts l evs n l' \<Longrightarrow> list_inv l \<Longrightarrow> pending l q = handed_out q evs @ pending l' q"
proof (induction rule: evicts.induct)
  case (evicts_none l)
  show ?case by (simp add: handed_out_def)
next
  case (evicts_root l evs n l')
  then have IH: "pending (evict_root l) q = handed_out q evs @ pending l' q"
    and ok: "event_seq (get_event l (hd (seqs l))) = hd (seqs l)"
    by (auto simp: evict_root_inv event_seq_ok root_event_ok)
  with pending_evict_root(1) [OF evicts_root.prems evicts_root.hyps(1), of q]
    pending_evict_root(2) [OF evicts_root.prems evicts_root.hyps(1)] show ?case
    by (auto simp: handed_out_def)
qed

lemma Put_pending: "pending (Put t m l) q = pending l q @ of_seq q (kept [m])"
  by (auto simp: Put_def Let_def pending_def of_seq_def kept_def split: option.splits)

interpretation oel: ordered_event_store Put CleanUp Clear list_inv in_flight pending
  by unfold_locales
     (auto simp: Put_pending dest: CleanUp_evicts(1) Clear_evicts(1) evicts_pending)

section \<open>Order\<close>

lemma seq_less_offset:
  assumes "window base A" and "x \<in> A" and "y \<in> A"
  shows "seq_less x y \<longleftrightarrow> offset_from base x < offset_from base y"
proof -
  have b: "0 \<le> x" "x < 2 ^ 32" "0 \<le> y" "y < 2 ^ 32"
    and o: "offset_from base x < 2 ^ 24" "offset_from base y < 2 ^ 24"
    using assms by (auto simp: window_def)
  have r: "0 \<le> offset_from base x" "0 \<le> offset_from base y" by (simp_all add: offset_from_def)
  have "x - base = 2 ^ 32 * ((x - base) div 2 ^ 32) + offset_from base x"
    and "y - base = 2 ^ 32 * ((y - base) div 2 ^ 32) + offset_from base y"
    unfolding offset_from_def by (simp_all only: mult_div_mod_eq)
  then have "x - y - (offset_from base x - offset_from base y)
      = 2 ^ 32 * ((x - base) div 2 ^ 32 - (y - base) div 2 ^ 32)"
    by (simp only: right_diff_distrib)
  then obtain k where k: "x - y - (offset_from base x - offset_from base y) = 2 ^ 32 * k" by blast
  with b o r have "-1 \<le> k" "k \<le> 1" by auto
  then consider "k = -1" | "k = 0" | "k = 1" by linarith
  then show ?thesis
    using k b o r by cases (auto simp: seq_less_def maxSortRange_def)
qed

lemma offset_inj:
  assumes "window base A" and "x \<in> A" and "y \<in> A" and "offset_from base x = offset_from base y"
  shows "x = y"
  using seq_less_offset [OF assms(1-3)] seq_less_offset [OF assms(1,3,2)] assms(4)
  by (auto simp: seq_less_def maxSortRange_def split: if_splits)

interpretation serial: keyed_less seq_less "offset_from base" "window base" for base
  by unfold_locales (rule seq_less_offset)

lemma window_subset: "window base B \<Longrightarrow> A \<subseteq> B \<Longrightarrow> window base A"
  by (auto simp: window_def)

lemma heap_by_seq_ordered:
  assumes "window base (set xs)"
  shows "heap_by_seq xs \<longleftrightarrow> heap_ordered (offset_from base) xs"
proof -
  have "seq_less (xs ! k) (xs ! parent k) \<longleftrightarrow> offset_from base (xs ! k) < offset_from base (xs ! parent k)"
    if "k < length xs" for k
    using seq_less_offset [OF assms] that parent_le [of k] by simp
  then show ?thesis by (auto simp: heap_by_seq_def heap_ordered_def not_less)
qed

lemma root_before_rest:
  assumes "list_inv l" and "seqs l \<noteq> []" and "window base (set (seqs l))" and "heap_by_seq (seqs l)"
    and "s \<in> set (seqs (evict_root l))"
  shows "offset_from base (hd (seqs l)) < offset_from base s"
proof -
  have s: "s \<in> set (seqs l)" "s \<noteq> hd (seqs l)"
    using evict_root_seqs_split [OF assms(1,2)] assms(5) by auto
  have "offset_from base (hd (seqs l)) \<le> offset_from base s"
    using serial.root_least heap_by_seq_ordered [OF assms(3)] assms(4) s(1) by blast
  moreover have "offset_from base (hd (seqs l)) \<noteq> offset_from base s"
    using offset_inj [OF assms(3) _ s(1), of "hd (seqs l)"] s(2) assms(2) by auto
  ultimately show ?thesis by simp
qed

lemma evict_root_ordered:
  assumes "list_inv l" and "seqs l \<noteq> []" and "window base (set (seqs l))" and "heap_by_seq (seqs l)"
  shows "window base (set (seqs (evict_root l)))" and "heap_by_seq (seqs (evict_root l))"
proof -
  show w: "window base (set (seqs (evict_root l)))"
    using assms(3) evict_root_seqs_split(3) [OF assms(1,2)] by (auto intro: window_subset)
  have "heap_ordered (offset_from base) (seqs (evict_root l))"
    using serial.Pop_ordered assms heap_by_seq_ordered [OF assms(3)]
    by (simp add: seqs_evict_root [OF assms(2)])
  with w show "heap_by_seq (seqs (evict_root l))" by (simp add: heap_by_seq_ordered)
qed

lemma evicts_ordered:
  "evicts l evs n l' \<Longrightarrow> list_inv l \<Longrightarrow> window base (set (seqs l)) \<Longrightarrow> heap_by_seq (seqs l) \<Longrightarrow>
     sorted_wrt (<) (map (\<lambda>e. offset_from base (event_seq e)) evs)
     \<and> (\<forall>e \<in> set evs. \<forall>s \<in> set (seqs l'). offset_from base (event_seq e) < offset_from base s)
     \<and> event_seq ` set evs \<union> set (seqs l') = set (seqs l)
     \<and> heap_by_seq (seqs l')"
proof (induction rule: evicts.induct)
  case (evicts_root l evs n l')
  let ?s = "hd (seqs l)"
  have IH: "sorted_wrt (<) (map (\<lambda>e. offset_from base (event_seq e)) evs)"
    "\<forall>e \<in> set evs. \<forall>s \<in> set (seqs l'). offset_from base (event_seq e) < offset_from base s"
    "event_seq ` set evs \<union> set (seqs l') = set (seqs (evict_root l))" "heap_by_seq (seqs l')"
    using evicts_root.IH evict_root_inv evict_root_ordered evicts_root.prems evicts_root.hyps(1) by blast+
  have root: "event_seq (get_event l ?s) = ?s"
    by (rule event_seq_ok, rule root_event_ok) (use evicts_root in auto)
  have before: "offset_from base ?s < offset_from base s" if "s \<in> set (seqs (evict_root l))" for s
    using root_before_rest that evicts_root.prems evicts_root.hyps(1) by blast
  have "set (seqs l) = insert ?s (set (seqs (evict_root l)))"
    using evict_root_seqs_split(3) evicts_root by blast
  with IH root before show ?case by (auto simp: image_iff)
qed simp

lemma Put_seqs:
  assumes "list_inv l"
  shows "seqs (Put t m l) = seqs l
     \<or> uint (Sequence m) \<notin> set (seqs l) \<and> seqs (Put t m l) = heap_Push seq_less (uint (Sequence m)) (seqs l)"
  using list_invD(2) [OF assms] by (auto simp: Put_def Let_def split: option.splits)

lemma Put_ordered:
  assumes "list_inv l" and w: "window base (insert (uint (Sequence m)) (set (seqs l)))"
    and "heap_by_seq (seqs l)"
  shows "window base (set (seqs (Put t m l)))" and "heap_by_seq (seqs (Put t m l))"
proof -
  show w': "window base (set (seqs (Put t m l)))"
    using w Put_seqs [OF assms(1), of t m] by (auto intro: window_subset)
  have "heap_ordered (offset_from base) (seqs l)"
    using assms(3) heap_by_seq_ordered window_subset [OF w] by blast
  then have "heap_ordered (offset_from base) (seqs (Put t m l))"
    using Put_seqs [OF assms(1), of t m] serial.Push_ordered w by auto
  with w' show "heap_by_seq (seqs (Put t m l))" by (simp add: heap_by_seq_ordered)
qed

text \<open>What holds between the events handed out and the list, and is kept by an eviction.\<close>

definition in_order :: "int \<Rightarrow> event list \<Rightarrow> eventList \<Rightarrow> bool" where
  "in_order base evs l =
     (list_inv l \<and> window base (set (seqs l)) \<and> heap_by_seq (seqs l)
     \<and> sorted_wrt (<) (map (\<lambda>e. offset_from base (event_seq e)) evs)
     \<and> (\<forall>e \<in> set evs. \<forall>s \<in> set (seqs l). offset_from base (event_seq e) < offset_from base s))"

lemma evicts_in_order:
  assumes "evicts l ev lost l'" and "in_order base evs l"
  shows "in_order base (evs @ ev) l'"
proof -
  have ord: "sorted_wrt (<) (map (\<lambda>e. offset_from base (event_seq e)) ev)"
    "\<forall>e \<in> set ev. \<forall>s \<in> set (seqs l'). offset_from base (event_seq e) < offset_from base s"
    "event_seq ` set ev \<union> set (seqs l') = set (seqs l)" "heap_by_seq (seqs l')"
    using evicts_ordered [OF assms(1), of base] assms(2) by (auto simp: in_order_def)
  have "event_seq e \<in> set (seqs l)" if "e \<in> set ev" for e using ord(3) that by blast
  moreover have "set (seqs l') \<subseteq> set (seqs l)" using ord(3) by blast
  ultimately show ?thesis
    using assms(2) ord evicts_inv [OF assms(1)]
    by (auto simp: in_order_def sorted_wrt_append intro: window_subset)
qed

lemma timely_run_inv:
  "timely_run base l evs l' \<Longrightarrow> list_inv l \<Longrightarrow> seqs l = [] \<Longrightarrow> in_order base evs l'"
proof (induction rule: timely_run.induct)
  case (timely_start l)
  then show ?case by (simp add: in_order_def window_def heap_by_seq_def)
next
  case (timely_put l evs l' m t)
  then have IH: "list_inv l'" "window base (insert (uint (Sequence m)) (set (seqs l')))" "heap_by_seq (seqs l')"
    by (auto simp: window_def in_order_def)
  moreover have "set (seqs (Put t m l')) \<subseteq> insert (uint (Sequence m)) (set (seqs l'))"
    using Put_seqs [OF IH(1), of t m] by auto
  ultimately show ?case
    using timely_put Put_inv [OF IH(1)] Put_ordered [OF IH] by (auto simp: in_order_def)
qed (auto intro: evicts_in_order CleanUp_evicts(1) Clear_evicts(1))

section \<open>Lost events\<close>

lemma evicts_lastSeq:
  "evicts l evs n l' \<Longrightarrow> list_inv l \<Longrightarrow> lastSeq l' = last (lastSeq l # map event_seq evs)"
proof (induction rule: evicts.induct)
  case (evicts_root l evs n l')
  then have "event_seq (get_event l (hd (seqs l))) = hd (seqs l)"
    by (intro event_seq_ok root_event_ok) auto
  with evicts_root evict_root_inv [of l] show ?case by auto
qed simp

text \<open>The gaps add up to the distance covered less the events delivered.\<close>

lemma evicts_lost:
  "evicts l evs n l' \<Longrightarrow> list_inv l \<Longrightarrow> 0 < lastSeq l \<Longrightarrow> \<forall>e \<in> set evs. 0 < event_seq e \<Longrightarrow>
     n = lastSeq l' - lastSeq l - int (length evs)"
proof (induction rule: evicts.induct)
  case (evicts_root l evs n l')
  then have "event_seq (get_event l (hd (seqs l))) = hd (seqs l)"
    by (intro event_seq_ok root_event_ok) auto
  with evicts_root evict_root_inv [of l] show ?case by (auto simp: gap_def)
qed simp

lemma strict_le_last: "sorted_wrt (<) xs \<Longrightarrow> x \<in> set xs \<Longrightarrow> x \<le> last (xs :: int list)"
  by (induction xs) (auto simp: less_imp_le)

lemma card_between_missing:
  fixes ss :: "int list"
  assumes "sorted_wrt (<) (a # ss)"
  shows "int (card ({a<..last (a # ss)} - set ss)) = last (a # ss) - a - int (length ss)"
proof -
  have d: "distinct ss" using assms by (auto simp: strict_sorted_iff)
  have mono: "x \<le> last (a # ss)" if "x \<in> set (a # ss)" for x
    using strict_le_last [OF assms that] .
  have sub: "set ss \<subseteq> {a<..last (a # ss)}" using assms mono by auto
  then have "card ({a<..last (a # ss)} - set ss) = card {a<..last (a # ss)} - card (set ss)"
    by (intro card_Diff_subset) auto
  moreover have "card (set ss) \<le> card {a<..last (a # ss)}" using sub by (intro card_mono) auto
  moreover have "a \<le> last (a # ss)" by (rule mono) simp
  ultimately show ?thesis using d by (simp add: distinct_card of_nat_diff)
qed

primrec payload :: "stream_event \<Rightarrow> AuditMessage list" where
  "payload (ReassemblyComplete ms) = ms"
| "payload (EventsLost n) = []"

lemma payload_callback: "mset (concat (map payload (callback evs lost))) = delivered evs"
  by (induction evs) (auto simp: callback_def delivered_def)

section \<open>Properties\<close>

lemma list_inv_new: "list_inv (newEventList sz t)"
  by (simp add: list_inv_def newEventList_def)

text \<open>
  (C1) Reassembly neither loses, nor duplicates, nor reorders messages: in every run of the
  atomic operations \<^verbatim>\<open>Put\<close>, \<^verbatim>\<open>CleanUp\<close> and \<^verbatim>\<open>Clear\<close> of a fresh list, in whatever order concurrent
  callers interleave them and whatever the clock says, the messages of each sequence number
  that were handed to the stream, followed by those still in flight, are exactly the messages
  of that sequence number that were put (EOE messages aside), in the order they were put.
\<close>

theorem reassembly_complete_in_order:
  assumes "store_run Put CleanUp Clear (newEventList sz t) ps evs l"
  shows "handed_out q evs @ pending l q = of_seq q (kept ps)"
  using oel.run_waiting [OF assms list_inv_new, of q] by (simp add: pending_def newEventList_def)

definition sample_msg :: "AuditMessageType \<Rightarrow> u32 \<Rightarrow> AuditMessage" where
  "sample_msg typ seq = zero_message\<lparr>RecordType := typ, Sequence := seq\<rparr>"

lemmas eval_reassembler =
  sample_msg_def zero_message_def newEventList_def Put_def event_Add_def completes_def Let_def
  heap_Push_def heap_up.simps heap_down.simps heap_Pop_def parent_def smaller_child_def heap_Swap_def
  seq_less_def maxSortRange_def CleanUp_def Clear_def evict_loop.simps due_def get_event_def
  evict_root_def remove_def gap_def IsExpired_def zero_event_def callback_def

theorem reassembly_complete_in_order_witness:
  "store_run Put CleanUp Clear (newEventList 5 1000)
     [sample_msg AUDIT_SYSCALL 7, sample_msg AUDIT_PROCTITLE 7]
     [\<lparr>expireTime = 1000, msgs = [sample_msg AUDIT_SYSCALL 7, sample_msg AUDIT_PROCTITLE 7], complete = True\<rparr>]
     ((newEventList 5 1000)\<lparr>lastSeq := 7\<rparr>)
   \<and> handed_out 7 [\<lparr>expireTime = 1000, msgs = [sample_msg AUDIT_SYSCALL 7, sample_msg AUDIT_PROCTITLE 7],
         complete = True\<rparr>] @ pending ((newEventList 5 1000)\<lparr>lastSeq := 7\<rparr>) 7
       = of_seq 7 (kept [sample_msg AUDIT_SYSCALL 7, sample_msg AUDIT_PROCTITLE 7])"
proof -
  let ?a = "sample_msg AUDIT_SYSCALL 7" and ?b = "sample_msg AUDIT_PROCTITLE 7"
  let ?l = "newEventList 5 1000"
  let ?e = "\<lparr>expireTime = 1000, msgs = [?a, ?b], complete = True\<rparr>"
  have "store_run Put CleanUp Clear ?l [] [] ?l" by (rule run_start)
  then have "store_run Put CleanUp Clear ?l ([] @ [?a]) [] (Put 0 ?a ?l)" by (rule run_put)
  then have "store_run Put CleanUp Clear ?l (([] @ [?a]) @ [?b]) [] (Put 0 ?b (Put 0 ?a ?l))"
    by (rule run_put)
  moreover have "CleanUp (\<lambda>_. 0) (Put 0 ?b (Put 0 ?a ?l)) = ([?e], 0, ?l\<lparr>lastSeq := 7\<rparr>)"
    by (simp add: eval_reassembler)
  ultimately have run: "store_run Put CleanUp Clear ?l [?a, ?b] [?e] (?l\<lparr>lastSeq := 7\<rparr>)"
    using run_cleanup by fastforce
  with reassembly_complete_in_order [OF run, of 7] show ?thesis by blast
qed

text \<open>
  (C4) The well-formedness invariant of the list holds after every run: the heap and the map
  hold the same sequence numbers, each once, and every event in flight has at least one
  message, all of its own sequence number and none of them an EOE.
\<close>

theorem list_inv_reachable:
  assumes "store_run Put CleanUp Clear (newEventList sz t) ps evs l"
  shows "list_inv l"
  using el.run_inv [OF assms list_inv_new] .

theorem list_inv_reachable_witness:
  "store_run Put CleanUp Clear (newEventList 5 1000) [sample_msg AUDIT_SYSCALL 7] []
     (Put 0 (sample_msg AUDIT_SYSCALL 7) (newEventList 5 1000))
   \<and> list_inv (Put 0 (sample_msg AUDIT_SYSCALL 7) (newEventList 5 1000))"
proof -
  let ?a = "sample_msg AUDIT_SYSCALL 7" and ?l = "newEventList 5 1000"
  have "store_run Put CleanUp Clear ?l ([] @ [?a]) [] (Put 0 ?a ?l)" by (rule run_put, rule run_start)
  then have "store_run Put CleanUp Clear ?l [?a] [] (Put 0 ?a ?l)" by simp
  with list_inv_reachable [OF this] show ?thesis by blast
qed

text \<open>
  (C3) Callbacks come in the order of the sequence numbers, also across the roll-over of the
  32-bit counter, as long as the messages stay within a window of \<open>2 ^ 24\<close> numbers and none
  is late (belongs before an event that was already handed out).
\<close>

theorem callbacks_in_sequence_order:
  assumes "timely_run base (newEventList sz t) evs l"
  shows "sorted_wrt (<) (map (\<lambda>e. offset_from base (event_seq e)) evs)"
  using timely_run_inv [OF assms list_inv_new] by (simp add: in_order_def newEventList_def)

theorem callbacks_in_sequence_order_witness:
  "\<exists>evs l. timely_run 4294967290 (newEventList 5 1000) evs l
     \<and> map event_seq evs = [4294967295, 0]
     \<and> sorted_wrt (<) (map (\<lambda>e. offset_from 4294967290 (event_seq e)) evs)"
proof -
  let ?a = "sample_msg AUDIT_SYSCALL 0" and ?b = "sample_msg AUDIT_SYSCALL 4294967295"
  let ?l = "newEventList 5 1000"
  let ?ea = "\<lparr>expireTime = 1000, msgs = [?a], complete = False\<rparr>"
  let ?eb = "\<lparr>expireTime = 1000, msgs = [?b], complete = False\<rparr>"
  have w: "window 4294967290 {uint (Sequence ?a)}" "window 4294967290 {uint (Sequence ?b)}"
    by (simp_all add: window_def offset_from_def sample_msg_def)
  have "timely_run 4294967290 ?l [] ?l" by (rule timely_start)
  then have "timely_run 4294967290 ?l [] (Put 0 ?a ?l)" by (rule timely_put) (simp_all add: w)
  then have "timely_run 4294967290 ?l [] (Put 0 ?b (Put 0 ?a ?l))" by (rule timely_put) (simp_all add: w)
  moreover have "Clear (Put 0 ?b (Put 0 ?a ?l)) = ([?eb, ?ea], -4294967296, ?l)"
    by (simp add: eval_reassembler fun_eq_iff)
  ultimately have run: "timely_run 4294967290 ?l ([] @ [?eb, ?ea]) ?l" by (rule timely_clear)
  have "map event_seq ([] @ [?eb, ?ea]) = [4294967295, 0]"
    by (simp add: event_seq_def sample_msg_def)
  then show ?thesis using run callbacks_in_sequence_order [OF run]
    by (intro exI conjI) assumption+
qed

text \<open>
  (C24) \<^verbatim>\<open>PushMessage\<close> leaves at most \<^verbatim>\<open>maxInFlight\<close> events in memory, and the oldest of them is
  neither complete nor expired: what could be delivered was delivered.
\<close>

theorem push_bounds_in_flight:
  assumes "PushMessage t now m r = (out, r')"
  shows "int (length (seqs (rlist r'))) \<le> max 0 (maxSize (rlist r)) \<and>
    (seqs (rlist r') = [] \<or>
      (let root = get_event (rlist r') (hd (seqs (rlist r'))) in
       \<not> complete root \<and> (\<exists>k. now k \<le> expireTime root)))"
proof -
  obtain evs lost l' where c: "CleanUp now (Put t m (rlist r)) = (evs, lost, l')"
    by (cases "CleanUp now (Put t m (rlist r))") auto
  with assms have r': "rlist r' = l'" by (auto simp: PushMessage_def Let_def)
  have "maxSize l' = maxSize (rlist r)" using evicts_frame [OF CleanUp_evicts(1) [OF c]] by simp
  with CleanUp_evicts(2) [OF c] r' show ?thesis
    by (auto simp: due_def Let_def IsExpired_def not_less)
qed

theorem push_bounds_in_flight_witness:
  "\<exists>out r'. PushMessage 0 (\<lambda>_. 5) (sample_msg AUDIT_SYSCALL 8)
       \<lparr>closed = 0, rlist = Put 0 (sample_msg AUDIT_SYSCALL 7) (newEventList 1 1000)\<rparr> = (out, r')
     \<and> out = [ReassemblyComplete [sample_msg AUDIT_SYSCALL 7]]
     \<and> int (length (seqs (rlist r'))) \<le> max 0 1"
proof -
  let ?r = "\<lparr>closed = 0, rlist = Put 0 (sample_msg AUDIT_SYSCALL 7) (newEventList 1 1000)\<rparr>"
  obtain out r' where p: "PushMessage 0 (\<lambda>_. 5) (sample_msg AUDIT_SYSCALL 8) ?r = (out, r')"
    by (cases "PushMessage 0 (\<lambda>_. 5) (sample_msg AUDIT_SYSCALL 8) ?r") auto
  moreover from p have "out = [ReassemblyComplete [sample_msg AUDIT_SYSCALL 7]]"
    by (simp add: PushMessage_def eval_reassembler)
  moreover have "maxSize (rlist ?r) = 1" by (simp add: newEventList_def)
  ultimately show ?thesis using push_bounds_in_flight [OF p] by auto
qed

text \<open>
  (C25) The number of lost events that \<^verbatim>\<open>CleanUp\<close> reports is exact when the events it evicts come
  in ascending order after the last one delivered: it counts the sequence numbers up to the
  new last one that were not delivered.
\<close>

theorem lost_counts_gaps:
  assumes "list_inv l" and "CleanUp now l = (evs, lost, l')" and "0 < lastSeq l"
    and "sorted_wrt (<) (lastSeq l # map event_seq evs)"
  shows "lost = int (card ({lastSeq l<..lastSeq l'} - event_seq ` set evs))"
proof -
  have ev: "evicts l evs lost l'" by (rule CleanUp_evicts) fact
  have pos: "\<forall>e \<in> set evs. 0 < event_seq e" using assms(3,4) by auto
  have "lastSeq l' = last (lastSeq l # map event_seq evs)" by (rule evicts_lastSeq [OF ev assms(1)])
  then show ?thesis
    using evicts_lost [OF ev assms(1,3) pos] card_between_missing [OF assms(4)] by simp
qed

theorem lost_counts_gaps_witness:
  "\<exists>evs l'. CleanUp (\<lambda>_. 0) (Put 0 (sample_msg AUDIT_PROCTITLE 7) ((newEventList 5 1000)\<lparr>lastSeq := 3\<rparr>)) = (evs, 3, l')
     \<and> 3 = int (card ({3<..lastSeq l'} - event_seq ` set evs))"
proof -
  let ?m = "sample_msg AUDIT_PROCTITLE 7"
  let ?l = "Put 0 ?m ((newEventList 5 1000)\<lparr>lastSeq := 3\<rparr>)"
  let ?e = "\<lparr>expireTime = 1000, msgs = [?m], complete = True\<rparr>"
  have inv: "list_inv ?l" by (rule Put_inv) (simp add: list_inv_def newEventList_def)
  have c: "CleanUp (\<lambda>_. 0) ?l = ([?e], 3, (newEventList 5 1000)\<lparr>lastSeq := 7\<rparr>)"
    by (simp add: eval_reassembler)
  have last: "lastSeq ?l = 3" by simp
  have "sorted_wrt (<) (lastSeq ?l # map event_seq [?e])"
    by (simp add: event_seq_def sample_msg_def)
  from lost_counts_gaps [OF inv c _ this] have
    "3 = int (card ({3<..lastSeq ((newEventList 5 1000)\<lparr>lastSeq := 7\<rparr>)} - event_seq ` set [?e]))"
    by (simp only: last)
  with c show ?thesis by blast
qed

text \<open>
  (C23) \<^verbatim>\<open>Close\<close> on an open reassembler delivers every message still in flight and leaves the list
  empty; afterwards \<^verbatim>\<open>Close\<close> and \<^verbatim>\<open>Maintain\<close> fail with the closed error.
\<close>

theorem close_flushes:
  assumes "list_inv (rlist r)" and "closed r = 0"
  shows "\<exists>out r'. Close r = Ok (out, r') \<and> mset (concat (map payload out)) = in_flight (rlist r)
     \<and> seqs (rlist r') = [] \<and> Close r' = Err ErrReassemblerClosed
     \<and> Maintain now r' = Err ErrReassemblerClosed"
proof -
  obtain evs lost l' where c: "Clear (rlist r) = (evs, lost, l')" by (cases "Clear (rlist r)") auto
  have "in_flight l' = {#}" using Clear_evicts(2) [OF c] by (simp add: in_flight_def)
  then have "delivered evs = in_flight (rlist r)"
    using el.clear_contents [OF assms(1) c] by simp
  with c assms(2) Clear_evicts(2) [OF c] show ?thesis
    by (simp add: Close_def Maintain_def payload_callback)
qed

theorem close_flushes_witness:
  "\<exists>out r'. Close \<lparr>closed = 0, rlist = Put 0 (sample_msg AUDIT_SYSCALL 7) (newEventList 1 1000)\<rparr> = Ok (out, r')
     \<and> mset (concat (map payload out)) = {#sample_msg AUDIT_SYSCALL 7#}"
proof -
  let ?m = "sample_msg AUDIT_SYSCALL 7"
  let ?r = "\<lparr>closed = 0, rlist = Put 0 ?m (newEventList 1 1000)\<rparr>"
  have inv: "list_inv (rlist ?r)" and op: "closed ?r = 0" by (simp_all add: Put_inv list_inv_new)
  have "in_flight (rlist ?r) = {#?m#}"
    by (simp add: Put_contents list_inv_new) (simp add: in_flight_def newEventList_def kept_def sample_msg_def)
  with close_flushes [OF inv op, of "\<lambda>_. 0"] show ?thesis by metis
qed

text \<open>
  (C34) An end-of-event (EOE) message completes nothing: pushing one to an open reassembler
  does exactly what a call to \<^verbatim>\<open>Maintain\<close> does. The event it closes stays in flight until its
  timeout, the size limit or another completing message evicts it.
\<close>

theorem eoe_has_no_effect:
  assumes "RecordType m = AUDIT_EOE" and "closed r \<noteq> 1"
  shows "Ok (PushMessage t now m r) = Maintain now r"
  using assms by (simp add: PushMessage_def Maintain_def Put_EOE Let_def split: prod.splits)

theorem eoe_has_no_effect_witness:
  "Ok (PushMessage 0 (\<lambda>_. 0) (sample_msg AUDIT_EOE 7)
       \<lparr>closed = 0, rlist = Put 0 (sample_msg AUDIT_SYSCALL 7) (newEventList 5 1000)\<rparr>)
     = Maintain (\<lambda>_. 0) \<lparr>closed = 0, rlist = Put 0 (sample_msg AUDIT_SYSCALL 7) (newEventList 5 1000)\<rparr>
   \<and> fst (PushMessage 0 (\<lambda>_. 0) (sample_msg AUDIT_EOE 7)
       \<lparr>closed = 0, rlist = Put 0 (sample_msg AUDIT_SYSCALL 7) (newEventList 5 1000)\<rparr>) = []"
proof -
  let ?r = "\<lparr>closed = 0, rlist = Put 0 (sample_msg AUDIT_SYSCALL 7) (newEventList 5 1000)\<rparr>"
  have "RecordType (sample_msg AUDIT_EOE 7) = AUDIT_EOE" and "closed ?r \<noteq> 1"
    by (simp_all add: sample_msg_def)
  from eoe_has_no_effect [OF this, of 0 "\<lambda>_. 0"] show ?thesis
    by (simp add: PushMessage_def eval_reassembler)
qed

end
