(* ===== verification/Reassembler_Live.thy ===== *)
theory Reassembler_Live
  imports Reassembler
begin

text \<open>
  Liveness of \<^verbatim>\<open>reassembler.go\<close> for a client that pushes messages and calls \<^verbatim>\<open>Maintain\<close> in any order:
  the first call to \<^verbatim>\<open>Maintain\<close> that comes a timeout after the last message hands out all that is left.
\<close>

text \<open>Runs of an open reassembler whose messages arrive no later than \<open>T\<close>; the other readings of the
  clock are arbitrary. The labels are the messages pushed and the callbacks made.\<close>

inductive clocked_run :: "int \<Rightarrow> Reassembler \<Rightarrow> AuditMessage list \<Rightarrow> stream_event list \<Rightarrow> Reassembler \<Rightarrow> bool"
  for T where
  clocked_start: "clocked_run T r [] [] r"
| clocked_push: "clocked_run T r ps out r' \<Longrightarrow> t \<le> T \<Longrightarrow> PushMessage t now m r' = (new, r'') \<Longrightarrow>
     clocked_run T r (ps @ [m]) (out @ new) r''"
| clocked_maintain: "clocked_run T r ps out r' \<Longrightarrow> Maintain now r' = Ok (new, r'') \<Longrightarrow>
     clocked_run T r ps (out @ new) r''"

text \<open>Every event in flight expires by \<open>D\<close>.\<close>

definition expires_by :: "int \<Rightarrow> eventList \<Rightarrow> bool" where
  "expires_by D l = (\<forall>s e. events l s = Some e \<longrightarrow> expireTime e \<le> D)"

lemma expireTime_event_Add [simp]: "expireTime (event_Add m e) = expireTime e"
  by (simp add: event_Add_def Let_def)

lemma Put_expires: "expires_by D l \<Longrightarrow> t + timeout l \<le> D \<Longrightarrow> expires_by D (Put t m l)"
  by (auto simp: expires_by_def Put_def Let_def split: option.splits)

lemma evict_root_expires: "seqs l \<noteq> [] \<Longrightarrow> expires_by D l \<Longrightarrow> expires_by D (evict_root l)"
  by (simp add: expires_by_def events_evict_root)

lemma evicts_expires: "evicts l evs n l' \<Longrightarrow> expires_by D l \<Longrightarrow> expires_by D l'"
  by (induction rule: evicts.induct) (simp_all add: evict_root_expires)

lemma CleanUp_after_expiry:
  assumes "list_inv l" and "expires_by D l" and "\<forall>k. D < now k" and "CleanUp now l = (evs, lost, l')"
  shows "seqs l' = []" and "delivered evs = in_flight l"
proof -
  note ev = CleanUp_evicts [OF assms(4)]
  show empty: "seqs l' = []"
  proof (rule ccontr)
    assume ne: "seqs l' \<noteq> []"
    then obtain e where e: "events l' (hd (seqs l')) = Some e"
      using evicts_inv [OF ev(1) assms(1)] by (auto simp: list_inv_def dest!: hd_in_set)
    then have "IsExpired (now (length evs)) e"
      using evicts_expires [OF ev(1) assms(2)] assms(3) by (auto simp: expires_by_def IsExpired_def intro: le_less_trans)
    with e ne ev(2) show False by (simp add: due_def get_event_def)
  qed
  show "delivered evs = in_flight l"
    using evicts_contents [OF ev(1) assms(1)] empty by (simp add: in_flight_def)
qed

lemma clocked_run_inv:
  assumes "clocked_run T r ps out r'" and "list_inv (rlist r)" and "seqs (rlist r) = []" and "closed r = 0"
  shows "closed r' = 0 \<and> list_inv (rlist r') \<and> timeout (rlist r') = timeout (rlist r)
    \<and> expires_by (T + timeout (rlist r)) (rlist r')
    \<and> mset (concat (map payload out)) + in_flight (rlist r') = mset (kept ps)"
  using assms
proof (induction rule: clocked_run.induct)
  case (clocked_start r)
  then show ?case by (auto simp: expires_by_def in_flight_def kept_def list_inv_def)
next
  case (clocked_push r ps out r' t now m new r'')
  obtain evs lost l where c: "CleanUp now (Put t m (rlist r')) = (evs, lost, l)"
    by (cases "CleanUp now (Put t m (rlist r'))") auto
  have r'': "rlist r'' = l" "closed r'' = closed r'" "new = callback evs lost"
    using c clocked_push.hyps(3) by (auto simp: PushMessage_def)
  have inv: "list_inv (rlist r')" using clocked_push by simp
  note ev = CleanUp_evicts(1) [OF c]
  have "in_flight (rlist r') + mset (kept [m]) = delivered evs + in_flight l"
    using evicts_contents [OF ev Put_inv [OF inv]] by (simp add: Put_contents inv)
  moreover have "expires_by (T + timeout (rlist r)) l"
    using clocked_push by (intro evicts_expires [OF ev] Put_expires) auto
  moreover have "mset (concat (map payload out)) + in_flight (rlist r') = mset (kept ps)"
    using clocked_push by simp
  moreover have "kept (ps @ [m]) = kept ps @ kept [m]" by (simp add: kept_def)
  ultimately show ?case
    using clocked_push evicts_inv [OF ev Put_inv [OF inv]] evicts_frame [OF ev] r''
    by (simp add: payload_callback) (metis union_assoc)
next
  case (clocked_maintain r ps out r' now new r'')
  obtain evs lost l where c: "CleanUp now (rlist r') = (evs, lost, l)" by (cases "CleanUp now (rlist r')") auto
  have r'': "rlist r'' = l" "closed r'' = closed r'" "new = callback evs lost"
    using c clocked_maintain.hyps(2) by (auto simp: Maintain_def split: if_splits)
  note ev = CleanUp_evicts(1) [OF c]
  show ?case
    using clocked_maintain evicts_inv [OF ev] evicts_frame [OF ev] evicts_expires [OF ev] evicts_contents [OF ev] r''
    by (auto simp: payload_callback ac_simps)
qed

text \<open>
  (C2) No message waits forever: whatever was pushed to a new reassembler by the time \<open>T\<close>, in any
  interleaving of \<^verbatim>\<open>PushMessage\<close> and \<^verbatim>\<open>Maintain\<close>, the next \<^verbatim>\<open>Maintain\<close> whose clock reads more than
  \<open>T\<close> plus the timeout succeeds, leaves nothing in flight, and after it exactly the messages
  pushed (end-of-event messages aside) have been handed out.
\<close>

theorem maintain_delivers_all:
  assumes "NewReassembler maxInFlight tmo (Some s) = Ok r0" and "clocked_run T r0 ps out r"
    and "\<forall>k. T + tmo < now k"
  shows "\<exists>out' r'. Maintain now r = Ok (out', r') \<and> seqs (rlist r') = []
    \<and> mset (concat (map payload (out @ out'))) = mset (kept ps)"
proof -
  have r0: "r0 = \<lparr>closed = 0, rlist = newEventList maxInFlight tmo\<rparr>"
    using assms(1) by (simp add: NewReassembler_def)
  have inv: "closed r = 0 \<and> list_inv (rlist r) \<and> expires_by (T + tmo) (rlist r)
      \<and> mset (concat (map payload out)) + in_flight (rlist r) = mset (kept ps)"
    using clocked_run_inv [OF assms(2)] list_inv_new by (simp add: r0 newEventList_def)
  obtain evs lost l where c: "CleanUp now (rlist r) = (evs, lost, l)" by (cases "CleanUp now (rlist r)") auto
  with inv CleanUp_after_expiry [OF _ _ assms(3) c] show ?thesis
    by (simp add: Maintain_def payload_callback)
qed

theorem maintain_delivers_all_witness:
  "\<exists>out r out' r'. clocked_run 10 \<lparr>closed = 0, rlist = newEventList 5 1000\<rparr> [sample_msg AUDIT_SYSCALL 7] out r
    \<and> out = [] \<and> Maintain (\<lambda>_. 1011) r = Ok (out', r')
    \<and> mset (concat (map payload (out @ out'))) = mset (kept [sample_msg AUDIT_SYSCALL 7])"
proof -
  let ?m = "sample_msg AUDIT_SYSCALL 7" and ?new = "\<lparr>closed = 0, rlist = newEventList 5 1000\<rparr> :: Reassembler"
  let ?r = "?new\<lparr>rlist := Put 10 ?m (newEventList 5 1000)\<rparr>"
  have "CleanUp (\<lambda>_. 10) (Put 10 ?m (newEventList 5 1000)) = ([], 0, Put 10 ?m (newEventList 5 1000))"
    by (simp add: eval_reassembler)
  then have p: "PushMessage 10 (\<lambda>_. 10) ?m ?new = ([], ?r)" by (simp add: PushMessage_def callback_def)
  have n: "NewReassembler 5 1000 (Some ()) = Ok ?new" by (simp add: NewReassembler_def)
  have run: "clocked_run 10 ?new [?m] [] ?r"
    using clocked_push [OF clocked_start _ p] by simp
  obtain out' r' where "Maintain (\<lambda>_. 1011) ?r = Ok (out', r')"
    "mset (concat (map payload ([] @ out'))) = mset (kept [?m])"
    using maintain_delivers_all [OF n run, of "\<lambda>_. 1011"] by auto
  with run show ?thesis by blast
qed

end
