(* ===== verification/Go_Regexp.thy ===== *)
theory Go_Regexp
  imports Go_Prelude
begin

text \<open>
  The part of Go's \<^verbatim>\<open>regexp\<close> that the sources use: leftmost-first matching with greedy
  repetition of character classes, alternatives tried in order, and capture groups. A
  matcher returns every way to match a prefix of the string, best first, as the captures and
  the rest of the string; the match Go reports is the head of that list at the leftmost
  position where there is one. The patterns of the sources start with an ASCII class and
  follow each class of arbitrary characters by an ASCII one or the end of the pattern, so
  matching bytes instead of runes gives the same captures.
\<close>

section \<open>Matchers\<close>

type_synonym matcher = "string \<Rightarrow> (string list \<times> string) list"

definition m_lit :: "string \<Rightarrow> matcher" where
  "m_lit w s = (if prefix w s then [([], drop (length w) s)] else [])"

text \<open>Greedy repetition of a class, at least \<open>n\<close> times: the longest first.\<close>

definition m_rep :: "nat \<Rightarrow> (char \<Rightarrow> bool) \<Rightarrow> matcher" where
  "m_rep n P s = map (\<lambda>k. ([], drop k s)) (rev [n..<Suc (length (takeWhile P s))])"

definition m_seq :: "matcher \<Rightarrow> matcher \<Rightarrow> matcher" where
  "m_seq m1 m2 s =
     concat (map (\<lambda>(c1, r1). map (\<lambda>(c2, r2). (c1 @ c2, r2)) (m2 r1)) (m1 s))"

definition m_alt :: "matcher \<Rightarrow> matcher \<Rightarrow> matcher" where
  "m_alt m1 m2 s = m1 s @ m2 s"

definition m_opt :: "matcher \<Rightarrow> matcher" where
  "m_opt m s = m s @ [([], s)]"

definition m_cap :: "matcher \<Rightarrow> matcher" where
  "m_cap m s = map (\<lambda>(c, r). (take (length s - length r) s # c, r)) (m s)"

definition m_seqs :: "matcher list \<Rightarrow> matcher" where
  "m_seqs ms = foldr m_seq ms (m_lit [])"

text \<open>\<^verbatim>\<open>FindStringSubmatch\<close>: the captures of the leftmost match and the text after it.\<close>

primrec find_match :: "matcher \<Rightarrow> string \<Rightarrow> (string list \<times> string) option" where
  "find_match m [] = (case m [] of [] \<Rightarrow> None | r # _ \<Rightarrow> Some r)"
| "find_match m (c # cs) = (case m (c # cs) of [] \<Rightarrow> find_match m cs | r # _ \<Rightarrow> Some r)"

section \<open>The classes of the patterns\<close>

definition re_space :: "char \<Rightarrow> bool" where
  "re_space c = (code c \<in> {9, 10, 12, 13, 32})"

definition re_word :: "char \<Rightarrow> bool" where
  "re_word c = (48 \<le> code c \<and> code c \<le> 57 \<or> 65 \<le> code c \<and> code c \<le> 90
     \<or> 97 \<le> code c \<and> code c \<le> 122 \<or> code c = 95)"

definition re_any :: "char \<Rightarrow> bool" where
  "re_any c = (code c \<noteq> 10)"

section \<open>Laws\<close>

lemma m_seqs_Nil [simp]: "m_seqs [] s = [([], s)]"
  by (simp add: m_seqs_def m_lit_def)

lemma m_seqs_Cons: "m_seqs (m # ms) = m_seq m (m_seqs ms)"
  by (simp add: m_seqs_def)

section \<open>First matches\<close>

text \<open>The best match of a matcher at the start of a string.\<close>

definition first :: "matcher \<Rightarrow> string \<Rightarrow> string list \<Rightarrow> string \<Rightarrow> bool" where
  "first m s c r = (\<exists>t. m s = (c, r) # t)"

named_theorems firsts

lemma first_seq [firsts]: "first m1 s c1 r1 \<Longrightarrow> first m2 r1 c2 r2 \<Longrightarrow> first (m_seq m1 m2) s (c1 @ c2) r2"
  by (auto simp: first_def m_seq_def)

lemma first_lit [firsts]: "first (m_lit w) (w @ r) [] r"
  by (simp add: first_def m_lit_def)

lemma first_cap [firsts]: "first m (w @ r) c r \<Longrightarrow> first (m_cap m) (w @ r) (w # c) r"
  by (auto simp: first_def m_cap_def)

lemma first_rep [firsts]:
  assumes "list_all P w" and "r = [] \<or> \<not> P (hd r)" and "n \<le> length w"
  shows "first (m_rep n P) (w @ r) [] r"
proof -
  have "takeWhile P (w @ r) = w" using assms(1,2) by (cases r) (auto simp: list_all_iff takeWhile_append)
  then show ?thesis using assms(3) by (simp add: first_def m_rep_def)
qed

lemma first_seqs: "first m s c r \<Longrightarrow> first (m_seqs ms) r c' r' \<Longrightarrow> first (m_seqs (m # ms)) s (c @ c') r'"
  by (simp add: m_seqs_Cons first_seq)

lemma find_match_first: "first m s c r \<Longrightarrow> find_match m s = Some (c, r)"
  by (cases s) (auto simp: first_def)

section \<open>What a regular expression captures\<close>

lemma m_rep_sound: "(c, r) \<in> set (m_rep n P s) \<Longrightarrow> c = [] \<and> (\<exists>w. s = w @ r \<and> list_all P w \<and> n \<le> length w)"
proof -
  assume "(c, r) \<in> set (m_rep n P s)"
  then obtain k where k: "n \<le> k" "k \<le> length (takeWhile P s)" "c = []" "r = drop k s"
    by (auto simp: m_rep_def)
  have "k \<le> length s" using k(2) length_takeWhile_le [of P s] by linarith
  moreover have "take k s = take k (takeWhile P s)" using k(2) by (metis takeWhile_eq_take take_take min.absorb1)
  then have "list_all P (take k s)" by (auto simp: list_all_iff dest!: in_set_takeD set_takeWhileD)
  ultimately show ?thesis using k by (intro conjI exI [of _ "take k s"]) simp_all
qed

lemma m_cap_sound:
  "(c, r) \<in> set (m_cap m s) \<Longrightarrow> \<exists>c'. c = take (length s - length r) s # c' \<and> (c', r) \<in> set (m s)"
  by (auto simp: m_cap_def)

lemma m_seq_sound:
  "(c, r) \<in> set (m_seq m1 m2 s) \<Longrightarrow> \<exists>c1 r1 c2. (c1, r1) \<in> set (m1 s) \<and> (c2, r) \<in> set (m2 r1) \<and> c = c1 @ c2"
  by (auto simp: m_seq_def)

lemma find_match_sound: "find_match m s = Some x \<Longrightarrow> \<exists>t. x \<in> set (m t)"
  by (induction s) (auto split: list.splits, (metis list.set_intros(1))+)

text \<open>A captured repetition is a run of its class.\<close>

lemma m_cap_rep_sound:
  "(c, r) \<in> set (m_cap (m_rep n P) s) \<Longrightarrow> \<exists>w. c = [w] \<and> s = w @ r \<and> list_all P w \<and> n \<le> length w"
  by (drule m_cap_sound) (auto dest!: m_rep_sound)

lemma m_cap_alts_sound:
  "(c, r) \<in> set (m_cap (foldr (\<lambda>w. m_alt (m_lit w)) ws (\<lambda>s. [])) s) \<Longrightarrow> \<exists>w \<in> set ws. c = [w]"
proof -
  assume "(c, r) \<in> set (m_cap (foldr (\<lambda>w. m_alt (m_lit w)) ws (\<lambda>s. [])) s)"
  then obtain c' where c: "c = take (length s - length r) s # c'"
    and "(c', r) \<in> set (foldr (\<lambda>w. m_alt (m_lit w)) ws (\<lambda>s. []) s)" using m_cap_sound by blast
  then have "\<exists>w \<in> set ws. c' = [] \<and> s = w @ r"
    by (induction ws) (auto simp: m_alt_def m_lit_def prefix_def split: if_splits)
  with c show ?thesis by auto
qed

end
