(* ===== verification/Auparse_Fields.thy ===== *)
theory Auparse_Fields
  imports Auparse_Message Go_Regexp
begin

text \<open>
  \<^verbatim>\<open>auparse/auparse.go\<close>, second part: the normalisation of a message body and the state machine
  that splits it into key-value pairs (\<^verbatim>\<open>normalizeAuditMessage\<close>, \<^verbatim>\<open>extractKeyValuePairs\<close>).
\<close>

section \<open>Normalisation\<close>

text \<open>The pattern \<^verbatim>\<open>selinuxAVCMessageRegex\<close>.\<close>

definition selinuxAVCMessageRegex :: matcher where
  "selinuxAVCMessageRegex = m_seqs
     [m_lit ''avc:'', m_rep 1 re_space, m_cap (m_rep 1 re_word), m_rep 1 re_space, m_lit ''{'',
      m_rep 0 re_space, m_cap (m_rep 0 re_any), m_rep 0 re_space, m_lit ''}'',
      m_rep 1 re_space, m_lit ''for'', m_rep 1 re_space]"

definition normalizeAuditMessage :: "AuditMessageType \<Rightarrow> string \<Rightarrow> (parse_error, string) outcome" where
  "normalizeAuditMessage typ msg =
     (if typ = AUDIT_AVC then
        (case find_match selinuxAVCMessageRegex msg of
           None \<Rightarrow> Ok msg
         | Some ([result, perms], rest) \<Rightarrow>
             Ok (''seresult='' @ result @ '' seperms='' @ str_join '','' (str_fields perms) @ '' '' @ rest)
         | Some _ \<Rightarrow> Err ErrParseFailure)
      else if typ = AUDIT_LOGIN then
        Ok (str_replace 2 ''new '' ''new_'' (str_replace 2 ''old '' ''old_'' msg))
      else Ok msg)"

section \<open>Key-value pairs\<close>

definition isKeyRune :: "rune \<Rightarrow> bool" where
  "isKeyRune r = ((97 \<le> r \<and> r \<le> 122) \<or> (48 \<le> r \<and> r \<le> 57) \<or> r = 95 \<or> r = 45)"

definition isInterestingValue :: "string \<Rightarrow> bool" where
  "isInterestingValue v = (v \<notin> {'''', ''?'', ''?,'', ''(null)''})"

datatype parseState = skipState | keyState | valueBeginState | plainValueState | quotedValueState

record scanner =
  pstate :: parseState
  keyStart :: nat
  valueStart :: nat
  skey :: string
  quote :: rune
  backslash :: bool

definition is_quote :: "rune \<Rightarrow> bool" where
  "is_quote r = (r = 39 \<or> r = 34)"

type_synonym fields = "string \<rightharpoonup> Field"
type_synonym save_fn = "string \<Rightarrow> string \<Rightarrow> string \<Rightarrow> fields \<Rightarrow> fields"

text \<open>The body of the plain-value state, which the begin state falls through to.\<close>

definition plain_step :: "save_fn \<Rightarrow> string \<Rightarrow> nat \<Rightarrow> rune \<Rightarrow> scanner \<Rightarrow> fields \<Rightarrow> scanner \<times> fields" where
  "plain_step save msg i r s data =
     (if \<not> is_quote r \<and> \<not> is_space r then (s, data)
      else (let v = between (valueStart s) i msg in
            (s\<lparr>pstate := skipState\<rparr>, save (skey s) v v data)))"

text \<open>One iteration of the loop of \<^verbatim>\<open>extractKeyValuePairs\<close>, for the rune \<open>r\<close> at offset \<open>i\<close>.\<close>

definition kv_step :: "save_fn \<Rightarrow> string \<Rightarrow> nat \<times> rune \<Rightarrow> scanner \<times> fields \<Rightarrow> scanner \<times> fields" where
  "kv_step save msg ir sd =
     (let i = fst ir; r = snd ir; s = fst sd; data = snd sd in
      case pstate s of
        skipState \<Rightarrow>
          (if isKeyRune r then (s\<lparr>pstate := keyState, keyStart := i\<rparr>, data) else (s, data))
      | keyState \<Rightarrow>
          (if isKeyRune r then (s, data)
           else if r \<noteq> 61 then (s\<lparr>pstate := skipState\<rparr>, data)
           else (s\<lparr>skey := between (keyStart s) i msg, pstate := valueBeginState\<rparr>, data))
      | valueBeginState \<Rightarrow>
          (let s1 = s\<lparr>valueStart := i\<rparr> in
           if is_quote r
           then (s1\<lparr>quote := r, pstate := quotedValueState, backslash := False\<rparr>, data)
           else plain_step save msg i r (s1\<lparr>pstate := plainValueState\<rparr>) data)
      | plainValueState \<Rightarrow> plain_step save msg i r s data
      | quotedValueState \<Rightarrow>
          (if r = quote s \<and> \<not> backslash s
           then (s\<lparr>pstate := skipState, backslash := (r = 92)\<rparr>,
                 save (skey s) (between (valueStart s) (i + 1) msg) (between (valueStart s + 1) i msg) data)
           else (s\<lparr>backslash := (r = 92)\<rparr>, data)))"

definition init_scanner :: scanner where
  "init_scanner = \<lparr>pstate = skipState, keyStart = 0, valueStart = 0, skey = [], quote = 0, backslash = False\<rparr>"

text \<open>The whole loop, with the value that runs to the end of the message.\<close>

definition scan :: "save_fn \<Rightarrow> string \<Rightarrow> fields \<Rightarrow> fields" where
  "scan save msg data =
     (case fold (kv_step save msg) (runes_from 0 msg) (init_scanner, data) of (s, data') \<Rightarrow>
        if pstate s = plainValueState
        then (let v = drop (valueStart s) msg in save (skey s) v v data')
        else data')"

text \<open>
  \<^verbatim>\<open>extractKeyValuePairs\<close> and \<^verbatim>\<open>saveKeyValue\<close> call each other: the value of the key \<^verbatim>\<open>msg\<close> is scanned
  in turn. The value is always shorter than the message (\<open>extract_eq\<close> below removes the
  test), so the recursion ends.
\<close>

function extractKeyValuePairs :: "string \<Rightarrow> fields \<Rightarrow> fields" where
  "extractKeyValuePairs msg data =
     scan (\<lambda>key origValue v d.
       if key = ''msg'' then (if length v < length msg then extractKeyValuePairs v d else d)
       else if isInterestingValue v then d(key \<mapsto> \<lparr>orig = origValue, fval = v\<rparr>)
       else d) msg data"
  by pat_completeness auto
termination
  by (relation "measure (\<lambda>(m, d). length m)") auto

declare extractKeyValuePairs.simps [simp del]

definition saveKeyValue :: save_fn where
  "saveKeyValue key origValue v data =
     (if key = ''msg'' then extractKeyValuePairs v data
      else if isInterestingValue v then data(key \<mapsto> \<lparr>orig = origValue, fval = v\<rparr>)
      else data)"

section \<open>The recursion on the value of msg\<close>

text \<open>Once a rune was read, a value starts after the first byte.\<close>

definition scanner_inv :: "nat \<Rightarrow> scanner \<Rightarrow> bool" where
  "scanner_inv i s = ((i = 0 \<longrightarrow> pstate s = skipState)
     \<and> (pstate s \<in> {plainValueState, quotedValueState} \<longrightarrow> 0 < valueStart s))"

lemma length_between_less: "0 < a \<Longrightarrow> msg \<noteq> [] \<Longrightarrow> length (between a b msg) < length msg"
  by (cases msg) (auto simp: between_def)

lemma kv_step_inv:
  assumes "scanner_inv i s" and "i < i'"
  shows "scanner_inv i' (fst (kv_step save msg (i, r) (s, data)))"
  using assms
  by (auto simp: scanner_inv_def kv_step_def plain_step_def Let_def split: parseState.splits)

lemma kv_step_cong:
  assumes "\<forall>k ov v d. length v < length msg \<longrightarrow> f k ov v d = g k ov v d"
    and "scanner_inv i s" and "msg \<noteq> []"
  shows "kv_step f msg (i, r) (s, data) = kv_step g msg (i, r) (s, data)"
  using assms(2)
  by (auto simp: scanner_inv_def kv_step_def plain_step_def Let_def assms(1) length_between_less assms(3)
      split: parseState.splits)

lemma fold_kv_cong:
  assumes agree: "\<forall>k ov v d. length v < length msg \<longrightarrow> f k ov v d = g k ov v d"
    and ne: "msg \<noteq> []"
  shows "scanner_inv i (fst sd) \<Longrightarrow>
     fold (kv_step f msg) (runes_from i t) sd = fold (kv_step g msg) (runes_from i t) sd
     \<and> (t \<noteq> [] \<longrightarrow> scanner_inv 1 (fst (fold (kv_step f msg) (runes_from i t) sd)))"
proof (induction i t arbitrary: sd rule: runes_from.induct)
  case (2 i c cs)
  let ?rw = "decode_rune (c # cs)"
  let ?sd = "kv_step f msg (i, fst ?rw) sd"
  have eq: "kv_step g msg (i, fst ?rw) sd = ?sd"
    using kv_step_cong [OF agree "2.prems" ne, of "fst ?rw" "snd sd"] by simp
  have w: "0 < snd ?rw" using decode_rune_width [of "c # cs"] by simp
  have inv: "scanner_inv (i + snd ?rw) (fst ?sd)" and inv1: "scanner_inv 1 (fst ?sd)"
    using kv_step_inv [OF "2.prems", of _ f msg "fst ?rw" "snd sd"] w
      kv_step_inv [OF "2.prems", of "Suc i" f msg "fst ?rw" "snd sd"]
    by (auto simp: scanner_inv_def)
  from "2.IH" [OF refl inv] inv1 show ?case
    by (cases "drop (snd ?rw) (c # cs)") (auto simp: Let_def eq)
qed simp

lemma scan_cong:
  assumes "\<forall>k ov v d. length v < length msg \<longrightarrow> f k ov v d = g k ov v d"
  shows "scan f msg data = scan g msg data"
proof (cases "msg = []")
  case False
  have "scanner_inv 0 init_scanner" by (simp add: scanner_inv_def init_scanner_def)
  then have "fold (kv_step f msg) (runes_from 0 msg) (init_scanner, data)
       = fold (kv_step g msg) (runes_from 0 msg) (init_scanner, data)"
    and "scanner_inv 1 (fst (fold (kv_step f msg) (runes_from 0 msg) (init_scanner, data)))"
    using fold_kv_cong [OF assms False, of 0 "(init_scanner, data)" msg] False by auto
  then show ?thesis
    using assms False
    by (cases "fold (kv_step g msg) (runes_from 0 msg) (init_scanner, data)")
       (auto simp: scan_def scanner_inv_def Let_def)
qed (simp add: scan_def init_scanner_def)

lemma extract_eq: "extractKeyValuePairs msg data = scan saveKeyValue msg data"
  by (subst extractKeyValuePairs.simps, rule scan_cong) (simp add: saveKeyValue_def)

section \<open>Scanning rendered pairs\<close>

text \<open>
  A pair as the kernel and the user space tools print it: a key, and a value that is bare, or
  between quotes of either kind.
\<close>

datatype token = Plain string string | Quoted char string string

primrec tok_key :: "token \<Rightarrow> string" where
  "tok_key (Plain k v) = k"
| "tok_key (Quoted q k v) = k"

primrec tok_value :: "token \<Rightarrow> string" where
  "tok_value (Plain k v) = v"
| "tok_value (Quoted q k v) = v"

primrec tok_orig :: "token \<Rightarrow> string" where
  "tok_orig (Plain k v) = v"
| "tok_orig (Quoted q k v) = q # v @ [q]"

definition tok_text :: "token \<Rightarrow> string" where
  "tok_text t = tok_key t @ ''='' @ tok_orig t"

definition key_ok :: "string \<Rightarrow> bool" where
  "key_ok k = (k \<noteq> [] \<and> list_all (\<lambda>c. isKeyRune (code c)) k)"

definition plain_char :: "char \<Rightarrow> bool" where
  "plain_char c = (code c < 0x80 \<and> \<not> is_quote (code c) \<and> \<not> is_space (code c))"

definition quoted_char :: "char \<Rightarrow> char \<Rightarrow> bool" where
  "quoted_char q c = (code c < 0x80 \<and> c \<noteq> q \<and> code c \<noteq> 92)"

primrec tok_ok :: "token \<Rightarrow> bool" where
  "tok_ok (Plain k v) = (key_ok k \<and> v \<noteq> [] \<and> list_all plain_char v)"
| "tok_ok (Quoted q k v) = (key_ok k \<and> is_quote (code q) \<and> list_all (quoted_char q) v)"

definition store_token :: "token \<Rightarrow> fields \<Rightarrow> fields" where
  "store_token t = saveKeyValue (tok_key t) (tok_orig t) (tok_value t)"

text \<open>The loop from an offset on, and what follows it.\<close>

definition scan_from :: "save_fn \<Rightarrow> string \<Rightarrow> nat \<Rightarrow> string \<Rightarrow> scanner \<times> fields \<Rightarrow> fields" where
  "scan_from save msg i t sd =
     (case fold (kv_step save msg) (runes_from i t) sd of (s, data') \<Rightarrow>
        if pstate s = plainValueState
        then (let v = drop (valueStart s) msg in save (skey s) v v data')
        else data')"

lemma scan_from_Nil:
  "scan_from save msg i [] (s, d) =
     (if pstate s = plainValueState
      then save (skey s) (drop (valueStart s) msg) (drop (valueStart s) msg) d else d)"
  by (simp add: scan_from_def Let_def)

lemma scan_from_Cons:
  "code c < 0x80 \<Longrightarrow>
     scan_from save msg i (c # t) sd = scan_from save msg (Suc i) t (kv_step save msg (i, code c) sd)"
  by (simp add: scan_from_def decode_rune_ascii)

lemma keyRune_ascii: "isKeyRune r \<Longrightarrow> r < 0x80"
  by (auto simp: isKeyRune_def)

lemma scan_key_run:
  "pstate s = keyState \<Longrightarrow> list_all (\<lambda>c. isKeyRune (code c)) k \<Longrightarrow>
     scan_from save msg i (k @ t) (s, d) = scan_from save msg (i + length k) t (s, d)"
  by (induction k arbitrary: i) (auto simp: scan_from_Cons keyRune_ascii kv_step_def)

lemma scan_plain_run:
  "pstate s = plainValueState \<Longrightarrow> list_all plain_char v \<Longrightarrow>
     scan_from save msg i (v @ t) (s, d) = scan_from save msg (i + length v) t (s, d)"
  by (induction v arbitrary: i)
     (auto simp: scan_from_Cons kv_step_def plain_step_def plain_char_def)

lemma scan_quoted_run:
  "pstate s = quotedValueState \<Longrightarrow> quote s = code q \<Longrightarrow> \<not> backslash s \<Longrightarrow> list_all (quoted_char q) v \<Longrightarrow>
     scan_from save msg i (v @ t) (s, d) = scan_from save msg (i + length v) t (s, d)"
proof (induction v arbitrary: i s)
  case (Cons c v)
  have "code c \<noteq> 92" "code c \<noteq> code q" "code c < 0x80"
    using Cons.prems(4) by (auto simp: quoted_char_def)
  with Cons.prems have "kv_step save msg (i, code c) (s, d) = (s, d)"
    by (simp add: kv_step_def)
  with Cons \<open>code c < 0x80\<close> show ?case by (simp add: scan_from_Cons)
qed simp

lemma scan_key:
  assumes "key_ok k" and "pstate s = skipState" and "msg = pre @ k @ ''='' @ t"
  shows "\<exists>s'. scan_from save msg (length pre) (k @ ''='' @ t) (s, d)
       = scan_from save msg (length pre + length k + 1) t (s', d)
     \<and> pstate s' = valueBeginState \<and> skey s' = k"
proof -
  obtain c cs where k: "k = c # cs" using assms(1) by (cases k) (auto simp: key_ok_def)
  have rc: "isKeyRune (code c)" and rcs: "list_all (\<lambda>c. isKeyRune (code c)) cs"
    using assms(1) k by (auto simp: key_ok_def)
  let ?s = "s\<lparr>pstate := keyState, keyStart := length pre\<rparr>"
  have "between (length pre) (Suc (length pre + length cs)) msg = k"
    using between_append [OF refl, of "length pre + length k" pre k] assms(3) k by simp
  moreover have "scan_from save msg (length pre) (k @ ''='' @ t) (s, d)
      = scan_from save msg (Suc (length pre + length cs)) (''='' @ t) (?s, d)"
    using rc rcs assms(2) k
    by (simp add: scan_from_Cons keyRune_ascii scan_key_run kv_step_def)
  ultimately show ?thesis
    using k by (intro exI [of _ "?s\<lparr>skey := k, pstate := valueBeginState\<rparr>"])
      (simp add: scan_from_Cons kv_step_def isKeyRune_def Let_def)
qed

text \<open>A token at the start of the rest of the message is stored, wherever the message goes on.\<close>

lemma scan_token:
  assumes ok: "tok_ok t" and s: "pstate s = skipState" and msg: "msg = pre @ tok_text t @ rest"
    and rest: "rest = [] \<or> (\<exists>r. rest = CHR '' '' # r)"
  shows "\<exists>s'. pstate s' = skipState \<and>
     scan_from save msg (length pre) (tok_text t @ rest) (s, d)
       = scan_from save msg (length pre + length (tok_text t) + 1) (tl rest)
           (s', save (tok_key t) (tok_orig t) (tok_value t) d)"
proof (cases t)
  case (Plain k v)
  then obtain c cs where v: "v = c # cs" using ok by (cases v) auto
  from ok Plain have key: "key_ok k" and pc: "plain_char c" and pcs: "list_all plain_char cs"
    using v by auto
  obtain s1 where s1: "scan_from save msg (length pre) (tok_text t @ rest) (s, d)
       = scan_from save msg (length pre + length k + 1) (v @ rest) (s1, d)"
     "pstate s1 = valueBeginState" "skey s1 = k"
    using scan_key [OF key s, of msg pre "v @ rest" save d] msg Plain by (auto simp: tok_text_def)
  let ?n = "length pre + length k + 1"
  let ?s2 = "s1\<lparr>valueStart := ?n, pstate := plainValueState\<rparr>"
  have "scan_from save msg ?n (v @ rest) (s1, d) = scan_from save msg (?n + length v) rest (?s2, d)"
    using s1 pc pcs v
    by (simp add: scan_from_Cons kv_step_def plain_step_def plain_char_def scan_plain_run Let_def)
  moreover have "between ?n (?n + length v) msg = v"
    using between_append [of ?n "pre @ k @ ''=''" "?n + length v" v] msg Plain by (simp add: tok_text_def)
  moreover have "rest = [] \<Longrightarrow> drop ?n msg = v" using msg Plain by (simp add: tok_text_def)
  ultimately show ?thesis
    using rest s1 Plain
    by (auto simp: scan_from_Cons kv_step_def plain_step_def scan_from_Nil is_quote_def is_space_def
        tok_text_def Let_def add.assoc intro!: exI [of _ "?s2\<lparr>pstate := skipState\<rparr>"])
next
  case (Quoted q k v)
  from ok Quoted have key: "key_ok k" and q: "is_quote (code q)" and qv: "list_all (quoted_char q) v"
    by auto
  obtain s1 where s1: "scan_from save msg (length pre) (tok_text t @ rest) (s, d)
       = scan_from save msg (length pre + length k + 1) (q # v @ q # rest) (s1, d)"
     "pstate s1 = valueBeginState" "skey s1 = k"
    using scan_key [OF key s, of msg pre "q # v @ q # rest" save d] msg Quoted by (auto simp: tok_text_def)
  let ?n = "length pre + length k + 1"
  let ?s2 = "s1\<lparr>valueStart := ?n, quote := code q, pstate := quotedValueState, backslash := False\<rparr>"
  have aq: "code q < 0x80" "code q \<noteq> 92" "\<not> isKeyRune 32" using q by (auto simp: is_quote_def isKeyRune_def)
  have "scan_from save msg ?n (q # v @ q # rest) (s1, d)
      = scan_from save msg (?n + 1 + length v) (q # rest) (?s2, d)"
    using s1 q qv aq by (simp add: scan_from_Cons kv_step_def scan_quoted_run [where q = q] Let_def)
  moreover have "between ?n (?n + 1 + length v + 1) msg = q # v @ [q]"
    using between_append [of ?n "pre @ k @ ''=''" "?n + 1 + length v + 1" "q # v @ [q]" rest] msg Quoted
    by (simp add: tok_text_def)
  moreover have "between (?n + 1) (?n + 1 + length v) msg = v"
    using between_append [of "?n + 1" "pre @ k @ ''='' @ [q]" "?n + 1 + length v" v] msg Quoted
    by (simp add: tok_text_def)
  ultimately show ?thesis
    using rest s1 Quoted aq
    by (auto simp: scan_from_Cons kv_step_def scan_from_Nil tok_text_def Let_def add.assoc
        intro!: exI [of _ "s1\<lparr>valueStart := ?n, quote := code q, pstate := skipState, backslash := False\<rparr>"])
qed

lemma scan_tokens:
  assumes "list_all tok_ok ts" and "pstate s = skipState"
    and "msg = pre @ str_join '' '' (map tok_text ts)"
  shows "scan_from saveKeyValue msg (length pre) (str_join '' '' (map tok_text ts)) (s, d)
       = fold store_token ts d"
  using assms
proof (induction ts arbitrary: pre s d)
  case (Cons t ts)
  let ?rest = "if ts = [] then [] else CHR '' '' # str_join '' '' (map tok_text ts)"
  have join: "str_join '' '' (map tok_text (t # ts)) = tok_text t @ ?rest"
    by (cases ts) simp_all
  have tl: "tl ?rest = str_join '' '' (map tok_text ts)" by simp
  have "tok_ok t" "?rest = [] \<or> (\<exists>r. ?rest = CHR '' '' # r)" "msg = pre @ tok_text t @ ?rest"
    using Cons.prems join by simp_all
  from scan_token [OF this(1) Cons.prems(2) this(3,2), of saveKeyValue d]
  obtain s' where s': "pstate s' = skipState"
    "scan_from saveKeyValue msg (length pre) (tok_text t @ ?rest) (s, d)
       = scan_from saveKeyValue msg (length pre + length (tok_text t) + 1) (tl ?rest)
           (s', store_token t d)"
    unfolding store_token_def by blast
  show ?case
  proof (cases "ts = []")
    case True
    then show ?thesis using s' join by (simp add: scan_from_Nil)
  next
    case False
    with Cons.prems(3) join
    have "msg = (pre @ tok_text t @ '' '') @ str_join '' '' (map tok_text ts)" by simp
    from Cons.IH [OF _ s'(1) this] Cons.prems(1) s'(2) show ?thesis
      unfolding join tl by simp
  qed
qed (simp add: scan_from_Nil)

lemma extract_fold:
  assumes "list_all tok_ok ts"
  shows "extractKeyValuePairs (str_join '' '' (map tok_text ts)) d = fold store_token ts d"
  using scan_tokens [OF assms, of init_scanner "str_join '' '' (map tok_text ts)" "[]" d]
  by (simp add: extract_eq scan_def scan_from_def init_scanner_def)

text \<open>
  A message: pairs, and the value of the key \<^verbatim>\<open>msg\<close>, in quotes, which holds pairs itself. Its fields are those of all the pairs
  whose value is not one of the marks for a missing value, and a later pair replaces an earlier one of the same key.
\<close>

datatype item = Pair token | Nested char "token list"

primrec item_token :: "item \<Rightarrow> token" where
  "item_token (Pair t) = t"
| "item_token (Nested q ts) = Quoted q ''msg'' (str_join '' '' (map tok_text ts))"

primrec item_pairs :: "item \<Rightarrow> token list" where
  "item_pairs (Pair t) = [t]"
| "item_pairs (Nested q ts) = ts"

definition item_ok :: "item \<Rightarrow> bool" where
  "item_ok i = (tok_ok (item_token i) \<and> list_all (\<lambda>t. tok_ok t \<and> tok_key t \<noteq> ''msg'') (item_pairs i))"

definition item_fields :: "item list \<Rightarrow> fields" where
  "item_fields items =
     map_of (rev (map (\<lambda>t. (tok_key t, \<lparr>orig = tok_orig t, fval = tok_value t\<rparr>))
       (filter (\<lambda>t. tok_value t \<notin> {[], ''?'', ''?,'', ''(null)''}) (concat (map item_pairs items)))))"

lemma fold_store_pairs:
  assumes "list_all (\<lambda>t. tok_ok t \<and> tok_key t \<noteq> ''msg'') ts"
  shows "fold store_token ts d
    = d ++ map_of (rev (map (\<lambda>t. (tok_key t, \<lparr>orig = tok_orig t, fval = tok_value t\<rparr>))
        (filter (\<lambda>t. tok_value t \<notin> {[], ''?'', ''?,'', ''(null)''}) ts)))"
  using assms
  by (induction ts arbitrary: d) (auto simp: store_token_def saveKeyValue_def isInterestingValue_def)

lemma store_item:
  assumes "item_ok i"
  shows "store_token (item_token i) d = fold store_token (item_pairs i) d"
proof (cases i)
  case (Nested q ts)
  then have "list_all tok_ok ts" using assms by (auto simp: item_ok_def list_all_iff)
  then show ?thesis using Nested extract_fold [of ts d] by (simp add: store_token_def saveKeyValue_def)
qed simp

text \<open>
  (C7) Scanning a message made of well-formed pairs separated by blanks, some of them within the quoted value of the key \<^verbatim>\<open>msg\<close>, adds
  exactly these pairs to the fields: under the key, the value as it was written and the value without its quotes. A
  later pair replaces an earlier one with the same key, and the pairs whose value is empty, \<^verbatim>\<open>?\<close>, \<^verbatim>\<open>?,\<close> or \<^verbatim>\<open>(null)\<close> are dropped.
\<close>

theorem extract_tokens:
  assumes "list_all item_ok items"
  shows "extractKeyValuePairs (str_join '' '' (map (tok_text \<circ> item_token) items)) d = d ++ item_fields items"
proof -
  have ok: "list_all tok_ok (map item_token items)" "list_all (\<lambda>t. tok_ok t \<and> tok_key t \<noteq> ''msg'') (concat (map item_pairs items))"
    using assms by (auto simp: item_ok_def list_all_iff)
  have "fold store_token (map item_token items) d = fold store_token (concat (map item_pairs items)) d"
    using assms by (induction items arbitrary: d) (simp_all add: store_item)
  then show ?thesis using extract_fold [OF ok(1), of d] fold_store_pairs [OF ok(2), of d] by (simp add: item_fields_def)
qed

theorem extract_tokens_witness:
  "extractKeyValuePairs ''a=1 msg='b=2 c=? a=x' d=\"y z\"'' Map.empty
     = [''a'' \<mapsto> \<lparr>orig = ''x'', fval = ''x''\<rparr>, ''b'' \<mapsto> \<lparr>orig = ''2'', fval = ''2''\<rparr>,
        ''d'' \<mapsto> \<lparr>orig = [CHR 34, CHR ''y'', CHR '' '', CHR ''z'', CHR 34], fval = ''y z''\<rparr>]"
proof -
  let ?items = "[Pair (Plain ''a'' ''1''), Nested (CHR 39) [Plain ''b'' ''2'', Plain ''c'' ''?'', Plain ''a'' ''x''],
      Pair (Quoted (CHR 34) ''d'' ''y z'')]"
  have "list_all item_ok ?items"
    by (simp add: item_ok_def key_ok_def isKeyRune_def plain_char_def quoted_char_def is_quote_def is_space_def tok_text_def)
  from extract_tokens [OF this, of Map.empty] show ?thesis
    by (auto simp: item_fields_def tok_text_def fun_eq_iff)
qed

end
