(* ===== verification/Auparse_Hex.thy ===== *)
theory Auparse_Hex
  imports Auparse_Message
begin

unbundle bit_operations_syntax

text \<open>
  \<^verbatim>\<open>auparse/hex.go\<close> and \<^verbatim>\<open>auparse/sockaddr.go\<close>: decoding of the upper-case hex fields and of
  socket addresses. \<^verbatim>\<open>hex.DecodeString\<close> and the printing of an IP address belong to Go's
  standard library and are modelled as they behave on the inputs used here.
\<close>

section \<open>Hexadecimal text\<close>

definition fromHexChar :: "char \<Rightarrow> u8 option" where
  "fromHexChar c =
     (if 48 \<le> code c \<and> code c \<le> 57 then Some (byte_of_char c - 48)
      else if 65 \<le> code c \<and> code c \<le> 70 then Some (byte_of_char c - 65 + 10)
      else None)"

text \<open>The loop of \<^verbatim>\<open>decodeUppercaseHex\<close> over the pairs of characters.\<close>

fun decode_pairs :: "string \<Rightarrow> (parse_error, bytes) outcome" where
  "decode_pairs (c1 # c2 # cs) =
     (case fromHexChar c1 of None \<Rightarrow> Err (ErrHex [c1])
      | Some a \<Rightarrow>
         (case fromHexChar c2 of None \<Rightarrow> Err (ErrHex [c2])
          | Some b \<Rightarrow>
             (case decode_pairs cs of
                Ok bs \<Rightarrow> Ok ((push_bit 4 a OR b) # bs)
              | Err e \<Rightarrow> Err e
              | Panic p \<Rightarrow> Panic p)))"
| "decode_pairs _ = Ok []"

definition decodeUppercaseHex :: "string \<Rightarrow> (parse_error, bytes) outcome" where
  "decodeUppercaseHex src =
     (if length src mod 2 = 1 then Err (ErrHex ''odd length'') else decode_pairs src)"

definition decodeUppercaseHexString :: "string \<Rightarrow> (parse_error, bytes) outcome" where
  "decodeUppercaseHexString s = decodeUppercaseHex s"

definition hexToString :: "string \<Rightarrow> (parse_error, string) outcome" where
  "hexToString h =
     (case decodeUppercaseHexString h of
        Ok output \<Rightarrow> Ok (string_of_bytes (takeWhile (\<lambda>b. b \<noteq> 0) output))
      | Err e \<Rightarrow> Err e
      | Panic p \<Rightarrow> Panic p)"

definition hexToStrings :: "string \<Rightarrow> (parse_error, string list) outcome" where
  "hexToStrings h =
     (case decodeUppercaseHexString h of
        Ok output \<Rightarrow> Ok (split_byte (char_of (0::nat)) (string_of_bytes output))
      | Err e \<Rightarrow> Err e
      | Panic p \<Rightarrow> Panic p)"

text \<open>\<^verbatim>\<open>hexToDec\<close>: value and error, as \<^verbatim>\<open>strconv.ParseInt(h, 16, 32)\<close> returns them.\<close>

definition hexToDec :: "string \<Rightarrow> int \<times> num_error option" where
  "hexToDec h = parse_int h 16 32"

section \<open>Addresses\<close>

text \<open>\<^verbatim>\<open>hex.DecodeString\<close>, which takes both cases, on a string of even length.\<close>

fun hex_DecodeString :: "string \<Rightarrow> (parse_error, nat list) outcome" where
  "hex_DecodeString (c1 # c2 # cs) =
     (case (digit_val c1, digit_val c2) of
        (Some a, Some b) \<Rightarrow>
          if a < 16 \<and> b < 16 then
            (case hex_DecodeString cs of
               Ok bs \<Rightarrow> Ok ((16 * a + b) # bs)
             | Err e \<Rightarrow> Err e
             | Panic p \<Rightarrow> Panic p)
          else Err (ErrHex [c1, c2])
      | _ \<Rightarrow> Err (ErrHex [c1, c2]))"
| "hex_DecodeString _ = Ok []"

definition dotted :: "int list \<Rightarrow> string" where
  "dotted xs = str_join ''.'' (map itoa xs)"

text \<open>\<^verbatim>\<open>net.IP.String\<close> on 16 bytes: an IPv4-mapped address is printed dotted, otherwise the first
  longest run of at least two zero groups is elided.\<close>

fun ip_groups :: "nat list \<Rightarrow> nat list" where
  "ip_groups (a # b # rest) = (256 * a + b) # ip_groups rest"
| "ip_groups _ = []"

definition zero_run :: "nat list \<Rightarrow> nat" where
  "zero_run gs = length (takeWhile (\<lambda>g. g = 0) gs)"

fun longest_zero_run :: "nat \<Rightarrow> nat list \<Rightarrow> nat \<times> nat" where
  "longest_zero_run i [] = (0, 0)"
| "longest_zero_run i (g # gs) =
     (let here = zero_run (g # gs); later = longest_zero_run (Suc i) gs in
      if snd later \<le> here then (i, here) else later)"

definition hex_groups :: "nat list \<Rightarrow> string" where
  "hex_groups gs = str_join '':'' (map (format_base 16) gs)"

definition ip_String :: "nat list \<Rightarrow> string" where
  "ip_String b =
     (if take 12 b = replicate 10 0 @ [255, 255] then dotted (map int (drop 12 b))
      else
        (let gs = ip_groups b; run = longest_zero_run 0 gs in
         if snd run < 2 then hex_groups gs
         else hex_groups (take (fst run) gs) @ ''::'' @ hex_groups (drop (fst run + snd run) gs)))"

definition hexToIP :: "string \<Rightarrow> (parse_error, string) outcome" where
  "hexToIP h =
     (if length h = 8 then
        (let octet = (\<lambda>i. fst (hexToDec (between i (i + 2) h)))
         in Ok (dotted [octet 0, octet 2, octet 4, octet 6]))
      else if length h = 32 then
        (case hex_DecodeString h of
           Ok b \<Rightarrow> Ok (ip_String b)
         | Err e \<Rightarrow> Err e
         | Panic p \<Rightarrow> Panic p)
      else Err ErrInvalidSize)"

text \<open>\<^verbatim>\<open>hexToDec\<close> of a slice, with the panic of the slice expression and the error of the parse.\<close>

definition dec_slice :: "string \<Rightarrow> nat \<Rightarrow> nat \<Rightarrow> (parse_error, int) outcome" where
  "dec_slice s a b =
     bind_outcome (slice s a b) (\<lambda>h. case hexToDec h of
         (v, None) \<Rightarrow> Ok v
       | (_, Some e) \<Rightarrow> Err (ErrNum h e))"

definition ip_slice :: "string \<Rightarrow> nat \<Rightarrow> nat \<Rightarrow> (parse_error, string) outcome" where
  "ip_slice s a b = bind_outcome (slice s a b) hexToIP"

definition parseSockaddr :: "string \<Rightarrow> (parse_error, string \<rightharpoonup> string) outcome" where
  "parseSockaddr s =
     bind_outcome (slice s 2 4) (\<lambda>hi.
     bind_outcome (slice s 0 2) (\<lambda>lo.
     case hexToDec (hi @ lo) of
       (_, Some e) \<Rightarrow> Err (ErrNum (hi @ lo) e)
     | (addressFamily, None) \<Rightarrow>
        if addressFamily = 1 then
          bind_outcome (hexToString (drop 4 s)) (\<lambda>socket.
            Ok [''family'' \<mapsto> ''unix'', ''path'' \<mapsto> socket])
        else if addressFamily = 2 then
          bind_outcome (dec_slice s 4 8) (\<lambda>port.
          bind_outcome (ip_slice s 8 16) (\<lambda>ip.
            Ok [''family'' \<mapsto> ''ipv4'', ''addr'' \<mapsto> ip, ''port'' \<mapsto> itoa port]))
        else if addressFamily = 10 then
          bind_outcome (dec_slice s 4 8) (\<lambda>port.
          bind_outcome (dec_slice s 8 16) (\<lambda>flow.
          bind_outcome (ip_slice s 16 48) (\<lambda>ip.
            (let out = [''family'' \<mapsto> ''ipv6'', ''addr'' \<mapsto> ip, ''port'' \<mapsto> itoa port] in
             Ok (if flow > 0 then out(''flow'' \<mapsto> itoa flow) else out)))))
        else if addressFamily = 16 then
          Ok [''family'' \<mapsto> ''netlink'', ''saddr'' \<mapsto> s]
        else
          Ok [''family'' \<mapsto> itoa addressFamily, ''saddr'' \<mapsto> s]))"

section \<open>Laws\<close>

text \<open>Upper-case hex encoding, the inverse of the decoder.\<close>

definition hex_char :: "nat \<Rightarrow> char" where
  "hex_char d = char_of (if d < 10 then 48 + d else 55 + d)"

definition encodeHex :: "bytes \<Rightarrow> string" where
  "encodeHex bs = concat (map (\<lambda>b. [hex_char (unat b div 16), hex_char (unat b mod 16)]) bs)"

lemma fromHexChar_hex_char: "d < 16 \<Longrightarrow> fromHexChar (hex_char d) = Some (of_nat d)"
proof -
  assume "d < 16"
  then consider "d < 10" | "10 \<le> d" "d < 16" by linarith
  then show ?thesis
  proof cases
    case 1
    then show ?thesis by (simp add: fromHexChar_def hex_char_def of_char_of byte_of_char_def)
  next
    case 2
    then have "d \<in> {10, 11, 12, 13, 14, 15}" by auto
    then show ?thesis by (auto simp add: fromHexChar_def hex_char_def of_char_of byte_of_char_def)
  qed
qed

lemma nibbles: "push_bit 4 (of_nat (unat b div 16)) OR of_nat (unat b mod 16) = (b :: u8)"
proof -
  have lo: "of_nat (unat b mod 16) = take_bit 4 b"
    by (simp add: word_unat_eq_iff take_bit_eq_mod unsigned_of_nat unat_mod_distrib)
  have hi: "of_nat (unat b div 16) = drop_bit 4 b"
    using unsigned_less [of b, where ?'a = nat]
    by (simp add: word_unat_eq_iff drop_bit_eq_div unsigned_of_nat take_bit_eq_mod unat_div_distrib)
  have "push_bit 4 (drop_bit 4 b) OR take_bit 4 b = b"
    by (rule bit_word_eqI) (auto simp: bit_simps)
  then show ?thesis unfolding lo hi .
qed

lemma even_length_encodeHex: "length (encodeHex bs) = 2 * length bs"
  by (induction bs) (simp_all add: encodeHex_def)

lemma decode_pairs_encode: "decode_pairs (encodeHex bs) = Ok bs"
proof (induction bs)
  case (Cons b bs)
  have "unat b < 256" using unsigned_less [of b, where ?'a = nat] by simp
  then have "unat b div 16 < 16" "unat b mod 16 < 16" by simp_all
  with Cons show ?case
    by (simp add: encodeHex_def fromHexChar_hex_char nibbles)
qed (simp add: encodeHex_def)

lemma decodeUppercaseHexString_encode: "decodeUppercaseHexString (encodeHex bs) = Ok bs"
  by (simp add: decodeUppercaseHexString_def decodeUppercaseHex_def even_length_encodeHex decode_pairs_encode)

text \<open>
  Decoding upper-case hex gives back the encoded bytes; the text of an argument ends at its
  first NUL, and \<^verbatim>\<open>hexToStrings\<close> cuts at every NUL.
\<close>

theorem hex_decoding:
  "decodeUppercaseHexString (encodeHex bs) = Ok bs
   \<and> hexToString (encodeHex bs) = Ok (string_of_bytes (takeWhile (\<lambda>b. b \<noteq> 0) bs))
   \<and> hexToStrings (encodeHex bs) = Ok (split_byte (char_of (0::nat)) (string_of_bytes bs))"
  by (simp add: hexToString_def hexToStrings_def decodeUppercaseHexString_encode)

section \<open>Socket addresses\<close>

lemma digit_val_hex_char: "d < 16 \<Longrightarrow> digit_val (hex_char d) = Some d"
proof -
  assume "d < 16"
  then consider "d < 10" | "10 \<le> d" "d < 16" by linarith
  then show ?thesis
  proof cases
    case 1
    then show ?thesis by (simp add: digit_val_def hex_char_def of_char_of is_digit_def)
  next
    case 2
    then have "d \<in> {10, 11, 12, 13, 14, 15}" by auto
    then show ?thesis by (auto simp: digit_val_def hex_char_def of_char_of is_digit_def)
  qed
qed

lemma hex_char_not_sign: "d < 16 \<Longrightarrow> hex_char d \<notin> {CHR ''-'', CHR ''+'', CHR ''_''}"
  using digit_val_hex_char [of d] by (auto simp: digit_val_def is_digit_def)

lemma byte_nibbles: "unat (b :: u8) div 16 < 16" "unat b mod 16 < 16"
  using unsigned_less [of b, where ?'a = nat] by simp_all

lemma nibble_not_16: "\<not> 16 \<le> n mod (16 :: nat)"
  by (simp add: not_le)

lemma hexToDec_1: "hexToDec (encodeHex [b]) = (int (unat b), None)"
proof -
  have "unat b < 256" using unsigned_less [of b, where ?'a = nat] by simp
  then have lt: "\<not> 4294967295 < unat b" "\<not> 2147483648 \<le> unat b" by linarith+
  show ?thesis
    using byte_nibbles(1) [of b] hex_char_not_sign [OF byte_nibbles(1), of b]
    by (simp add: hexToDec_def encodeHex_def parse_int_def parse_uint_def digit_val_hex_char Let_def
        nibble_not_16 lt)
qed

lemma hexToDec_2: "hexToDec (encodeHex [a, b]) = (256 * int (unat a) + int (unat b), None)"
proof -
  have lt: "unat a < 256" "unat b < 256"
    using unsigned_less [of a, where ?'a = nat] unsigned_less [of b, where ?'a = nat] by simp_all
  have s1: "unat a div 16 * 16 + unat a mod 16 = unat a" by simp
  have s2: "(unat a * 16 + unat b div 16) * 16 + unat b mod 16 = 256 * unat a + unat b" by simp
  have "unat a * 16 + unat b div 16 \<le> 4294967295" "256 * unat a + unat b \<le> 4294967295"
    "unat a div 16 \<le> 4294967295" "unat a \<le> 4294967295"
    using lt byte_nibbles [of a] byte_nibbles [of b] by linarith+
  moreover have "256 * unat a + unat b < 2147483648" using lt by linarith
  ultimately show ?thesis
    using byte_nibbles [of a] byte_nibbles [of b] hex_char_not_sign [OF byte_nibbles(1), of a]
      hex_char_not_sign [OF byte_nibbles(2), of a] hex_char_not_sign [OF byte_nibbles(1), of b]
      hex_char_not_sign [OF byte_nibbles(2), of b]
    by (simp add: hexToDec_def encodeHex_def parse_int_def parse_uint_def digit_val_hex_char Let_def s1 s2
        not_less nibble_not_16)
qed

lemma encodeHex_Cons: "encodeHex (b # bs) = encodeHex [b] @ encodeHex bs"
  by (simp add: encodeHex_def)

lemma slice_encodeHex:
  assumes "length xs * 2 = i" and "(length xs + length ys) * 2 = j"
  shows "slice (encodeHex (xs @ ys @ zs)) i j = Ok (encodeHex ys)"
proof -
  have "encodeHex (us @ vs) = encodeHex us @ encodeHex vs" for us vs by (simp add: encodeHex_def)
  then show ?thesis using assms by (auto simp: slice_def even_length_encodeHex)
qed

lemma hexToIP_4:
  "hexToIP (encodeHex [a, b, c, d]) = Ok (dotted [int (unat a), int (unat b), int (unat c), int (unat d)])"
proof -
  have oct: "between (2 * length xs) (2 * length xs + 2) (encodeHex (xs @ [y] @ zs)) = encodeHex [y]" for xs y zs
    using slice_encodeHex [of xs _ "[y]" _ zs, OF refl refl]
    by (simp add: slice_def between_def mult.commute split: if_splits)
  show ?thesis
    using oct [of "[]" a "[b, c, d]"] oct [of "[a]" b "[c, d]"] oct [of "[a, b]" c "[d]"]
      oct [of "[a, b, c]" d "[]"]
    by (simp add: hexToIP_def even_length_encodeHex hexToDec_1 Let_def)
qed

text \<open>
  The address of an IPv4 socket as the kernel prints it (family in host order on a
  little-endian machine, port and address in network order, then padding) is decoded to the
  family, the dotted address and the port; an address of less than two bytes makes the
  decoder panic instead of failing.
\<close>

theorem parseSockaddr_ipv4:
  "parseSockaddr (encodeHex ([2, 0, p1, p0, a, b, c, d] @ padding)) =
     Ok [''family'' \<mapsto> ''ipv4'',
         ''addr'' \<mapsto> dotted [int (unat a), int (unat b), int (unat c), int (unat d)],
         ''port'' \<mapsto> itoa (256 * int (unat p1) + int (unat p0))]
   \<and> (length s < 4 \<longrightarrow> parseSockaddr s = Panic SliceOutOfRange)"
proof (intro conjI impI)
  let ?bs = "[2, 0, p1, p0, a, b, c, d] @ padding"
  let ?h = "encodeHex ?bs"
  have s1: "slice ?h 2 4 = Ok (encodeHex [0])"
    using slice_encodeHex [of "[2]" 2 "[0]" 4 "[p1, p0, a, b, c, d] @ padding"] by simp
  have s2: "slice ?h 0 2 = Ok (encodeHex [2])"
    using slice_encodeHex [of "[]" 0 "[2]" 2 "[0, p1, p0, a, b, c, d] @ padding"] by simp
  have s3: "slice ?h 4 8 = Ok (encodeHex [p1, p0])"
    using slice_encodeHex [of "[2, 0]" 4 "[p1, p0]" 8 "[a, b, c, d] @ padding"] by simp
  have s4: "slice ?h 8 16 = Ok (encodeHex [a, b, c, d])"
    using slice_encodeHex [of "[2, 0, p1, p0]" 8 "[a, b, c, d]" 16 padding] by simp
  have fam: "hexToDec (encodeHex [0] @ encodeHex [2]) = (2, None)"
    using hexToDec_2 [of 0 2] by (simp add: encodeHex_def)
  show "parseSockaddr ?h = Ok [''family'' \<mapsto> ''ipv4'',
      ''addr'' \<mapsto> dotted [int (unat a), int (unat b), int (unat c), int (unat d)],
      ''port'' \<mapsto> itoa (256 * int (unat p1) + int (unat p0))]"
    unfolding parseSockaddr_def dec_slice_def ip_slice_def s1 s2 s3 s4
    by (simp add: fam hexToDec_2 hexToIP_4)
next
  assume "length s < 4"
  then show "parseSockaddr s = Panic SliceOutOfRange" by (simp add: parseSockaddr_def slice_def)
qed

theorem parseSockaddr_ipv4_witness:
  "parseSockaddr ''02'' = Panic SliceOutOfRange"
  using parseSockaddr_ipv4 [of 0 0 0 0 0 0 "[]" "''02''"] by simp

end
