(* ===== verification/Audit_Tables.thy ===== *)
theory Audit_Tables
  imports Go_Strconv Go_Tables
begin

text \<open>
  The architecture and errno tables: \<^verbatim>\<open>auparse/zaudit_arches.go\<close> and
  \<^verbatim>\<open>auparse/zaudit_exit_codes.go\<close>. The Go maps are association lists in the order of the
  literals.
\<close>

section \<open>Architectures\<close>

type_synonym AuditArch = u32

abbreviation AUDIT_ARCH_AARCH64 :: AuditArch where "AUDIT_ARCH_AARCH64 \<equiv> 0xc00000b7"
abbreviation AUDIT_ARCH_ARM :: AuditArch where "AUDIT_ARCH_ARM \<equiv> 0x40000028"
abbreviation AUDIT_ARCH_ARMEB :: AuditArch where "AUDIT_ARCH_ARMEB \<equiv> 0x28"
abbreviation AUDIT_ARCH_CRIS :: AuditArch where "AUDIT_ARCH_CRIS \<equiv> 0x4000004c"
abbreviation AUDIT_ARCH_FRV :: AuditArch where "AUDIT_ARCH_FRV \<equiv> 0x5441"
abbreviation AUDIT_ARCH_I386 :: AuditArch where "AUDIT_ARCH_I386 \<equiv> 0x40000003"
abbreviation AUDIT_ARCH_IA64 :: AuditArch where "AUDIT_ARCH_IA64 \<equiv> 0xc0000032"
abbreviation AUDIT_ARCH_M32R :: AuditArch where "AUDIT_ARCH_M32R \<equiv> 0x58"
abbreviation AUDIT_ARCH_M68K :: AuditArch where "AUDIT_ARCH_M68K \<equiv> 0x4"
abbreviation AUDIT_ARCH_MIPS :: AuditArch where "AUDIT_ARCH_MIPS \<equiv> 0x8"
abbreviation AUDIT_ARCH_MIPS64 :: AuditArch where "AUDIT_ARCH_MIPS64 \<equiv> 0x80000008"
abbreviation AUDIT_ARCH_MIPS64N32 :: AuditArch where "AUDIT_ARCH_MIPS64N32 \<equiv> 0xa0000008"
abbreviation AUDIT_ARCH_MIPSEL :: AuditArch where "AUDIT_ARCH_MIPSEL \<equiv> 0x40000008"
abbreviation AUDIT_ARCH_MIPSEL64 :: AuditArch where "AUDIT_ARCH_MIPSEL64 \<equiv> 0xc0000008"
abbreviation AUDIT_ARCH_MIPSEL64N32 :: AuditArch where "AUDIT_ARCH_MIPSEL64N32 \<equiv> 0xe0000008"
abbreviation AUDIT_ARCH_PARISC :: AuditArch where "AUDIT_ARCH_PARISC \<equiv> 0xf"
abbreviation AUDIT_ARCH_PARISC64 :: AuditArch where "AUDIT_ARCH_PARISC64 \<equiv> 0x8000000f"
abbreviation AUDIT_ARCH_PPC :: AuditArch where "AUDIT_ARCH_PPC \<equiv> 0x14"
abbreviation AUDIT_ARCH_PPC64 :: AuditArch where "AUDIT_ARCH_PPC64 \<equiv> 0x80000015"
abbreviation AUDIT_ARCH_PPC64LE :: AuditArch where "AUDIT_ARCH_PPC64LE \<equiv> 0xc0000015"
abbreviation AUDIT_ARCH_S390 :: AuditArch where "AUDIT_ARCH_S390 \<equiv> 0x16"
abbreviation AUDIT_ARCH_S390X :: AuditArch where "AUDIT_ARCH_S390X \<equiv> 0x80000016"
abbreviation AUDIT_ARCH_SH :: AuditArch where "AUDIT_ARCH_SH \<equiv> 0x2a"
abbreviation AUDIT_ARCH_SH64 :: AuditArch where "AUDIT_ARCH_SH64 \<equiv> 0x8000002a"
abbreviation AUDIT_ARCH_SHEL :: AuditArch where "AUDIT_ARCH_SHEL \<equiv> 0x4000002a"
abbreviation AUDIT_ARCH_SHEL64 :: AuditArch where "AUDIT_ARCH_SHEL64 \<equiv> 0xc000002a"
abbreviation AUDIT_ARCH_SPARC :: AuditArch where "AUDIT_ARCH_SPARC \<equiv> 0x2"
abbreviation AUDIT_ARCH_SPARC64 :: AuditArch where "AUDIT_ARCH_SPARC64 \<equiv> 0x8000002b"
abbreviation AUDIT_ARCH_X86_64 :: AuditArch where "AUDIT_ARCH_X86_64 \<equiv> 0xc000003e"

definition AuditArchNames :: "(AuditArch \<times> string) list" where
  "AuditArchNames = [
    (AUDIT_ARCH_AARCH64, ''aarch64''), (AUDIT_ARCH_ARM, ''arm''), (AUDIT_ARCH_ARMEB, ''armeb''),
    (AUDIT_ARCH_CRIS, ''cris''), (AUDIT_ARCH_FRV, ''frv''), (AUDIT_ARCH_I386, ''i386''),
    (AUDIT_ARCH_IA64, ''ia64''), (AUDIT_ARCH_M32R, ''m32r''), (AUDIT_ARCH_M68K, ''m68k''),
    (AUDIT_ARCH_MIPS, ''mips''), (AUDIT_ARCH_MIPS64, ''mips64''),
    (AUDIT_ARCH_MIPS64N32, ''mips64n32''), (AUDIT_ARCH_MIPSEL, ''mipsel''),
    (AUDIT_ARCH_MIPSEL64, ''mipsel64''), (AUDIT_ARCH_MIPSEL64N32, ''mipsel64n32''),
    (AUDIT_ARCH_PARISC, ''parisc''), (AUDIT_ARCH_PARISC64, ''parisc64''),
    (AUDIT_ARCH_PPC, ''ppc''), (AUDIT_ARCH_PPC64, ''ppc64''), (AUDIT_ARCH_PPC64LE, ''ppc64le''),
    (AUDIT_ARCH_S390, ''s390''), (AUDIT_ARCH_S390X, ''s390x''), (AUDIT_ARCH_SH, ''sh''),
    (AUDIT_ARCH_SH64, ''sh64''), (AUDIT_ARCH_SHEL, ''shel''), (AUDIT_ARCH_SHEL64, ''shel64''),
    (AUDIT_ARCH_SPARC, ''sparc''), (AUDIT_ARCH_SPARC64, ''sparc64''),
    (AUDIT_ARCH_X86_64, ''x86_64'')]"

text \<open>\<^verbatim>\<open>AuditArch.String\<close>.\<close>

definition arch_String :: "AuditArch \<Rightarrow> string" where
  "arch_String a = (case map_of AuditArchNames a of
     Some name \<Rightarrow> name
   | None \<Rightarrow> ''unknown['' @ format_base 16 (unat a) @ '']'')"

section \<open>Error numbers\<close>

definition AuditErrnoToNum :: "(string \<times> int) list" where
  "AuditErrnoToNum = [
    (''EDEADLOCK'', 0x23), (''EWOULDBLOCK'', 0xb), (''EPERM'', 0x1), (''ENOENT'', 0x2),
    (''ESRCH'', 0x3), (''EINTR'', 0x4), (''EIO'', 0x5), (''ENXIO'', 0x6), (''E2BIG'', 0x7),
    (''ENOEXEC'', 0x8), (''EBADF'', 0x9), (''ECHILD'', 0xa), (''EAGAIN'', 0xb), (''ENOMEM'', 0xc),
    (''EACCES'', 0xd), (''EFAULT'', 0xe), (''ENOTBLK'', 0xf), (''EBUSY'', 0x10),
    (''EEXIST'', 0x11), (''EXDEV'', 0x12), (''ENODEV'', 0x13), (''ENOTDIR'', 0x14),
    (''EISDIR'', 0x15), (''EINVAL'', 0x16), (''ENFILE'', 0x17), (''EMFILE'', 0x18),
    (''ENOTTY'', 0x19), (''ETXTBSY'', 0x1a), (''EFBIG'', 0x1b), (''ENOSPC'', 0x1c),
    (''ESPIPE'', 0x1d), (''EROFS'', 0x1e), (''EMLINK'', 0x1f), (''EPIPE'', 0x20),
    (''EDOM'', 0x21), (''ERANGE'', 0x22), (''EDEADLK'', 0x23), (''ENAMETOOLONG'', 0x24),
    (''ENOLCK'', 0x25), (''ENOSYS'', 0x26), (''ENOTEMPTY'', 0x27), (''ELOOP'', 0x28),
    (''ENOMSG'', 0x2a), (''EIDRM'', 0x2b), (''ECHRNG'', 0x2c), (''EL2NSYNC'', 0x2d),
    (''EL3HLT'', 0x2e), (''EL3RST'', 0x2f), (''ELNRNG'', 0x30), (''EUNATCH'', 0x31),
    (''ENOCSI'', 0x32), (''EL2HLT'', 0x33), (''EBADE'', 0x34), (''EBADR'', 0x35),
    (''EXFULL'', 0x36), (''ENOANO'', 0x37), (''EBADRQC'', 0x38), (''EBADSLT'', 0x39),
    (''EBFONT'', 0x3b), (''ENOSTR'', 0x3c), (''ENODATA'', 0x3d), (''ETIME'', 0x3e),
    (''ENOSR'', 0x3f), (''ENONET'', 0x40), (''ENOPKG'', 0x41), (''EREMOTE'', 0x42),
    (''ENOLINK'', 0x43), (''EADV'', 0x44), (''ESRMNT'', 0x45), (''ECOMM'', 0x46),
    (''EPROTO'', 0x47), (''EMULTIHOP'', 0x48), (''EDOTDOT'', 0x49), (''EBADMSG'', 0x4a),
    (''EOVERFLOW'', 0x4b), (''ENOTUNIQ'', 0x4c), (''EBADFD'', 0x4d), (''EREMCHG'', 0x4e),
    (''ELIBACC'', 0x4f), (''ELIBBAD'', 0x50), (''ELIBSCN'', 0x51), (''ELIBMAX'', 0x52),
    (''ELIBEXEC'', 0x53), (''EILSEQ'', 0x54), (''ERESTART'', 0x55), (''ESTRPIPE'', 0x56),
    (''EUSERS'', 0x57), (''ENOTSOCK'', 0x58), (''EDESTADDRREQ'', 0x59), (''EMSGSIZE'', 0x5a),
    (''EPROTOTYPE'', 0x5b), (''ENOPROTOOPT'', 0x5c), (''EPROTONOSUPPORT'', 0x5d),
    (''ESOCKTNOSUPPORT'', 0x5e), (''EOPNOTSUPP'', 0x5f), (''EPFNOSUPPORT'', 0x60),
    (''EAFNOSUPPORT'', 0x61), (''EADDRINUSE'', 0x62), (''EADDRNOTAVAIL'', 0x63),
    (''ENETDOWN'', 0x64), (''ENETUNREACH'', 0x65), (''ENETRESET'', 0x66),
    (''ECONNABORTED'', 0x67), (''ECONNRESET'', 0x68), (''ENOBUFS'', 0x69), (''EISCONN'', 0x6a),
    (''ENOTCONN'', 0x6b), (''ESHUTDOWN'', 0x6c), (''ETOOMANYREFS'', 0x6d), (''ETIMEDOUT'', 0x6e),
    (''ECONNREFUSED'', 0x6f), (''EHOSTDOWN'', 0x70), (''EHOSTUNREACH'', 0x71),
    (''EALREADY'', 0x72), (''EINPROGRESS'', 0x73), (''ESTALE'', 0x74), (''EUCLEAN'', 0x75),
    (''ENOTNAM'', 0x76), (''ENAVAIL'', 0x77), (''EISNAM'', 0x78), (''EREMOTEIO'', 0x79),
    (''EDQUOT'', 0x7a), (''ENOMEDIUM'', 0x7b), (''EMEDIUMTYPE'', 0x7c), (''ECANCELED'', 0x7d),
    (''ENOKEY'', 0x7e), (''EKEYEXPIRED'', 0x7f), (''EKEYREVOKED'', 0x80),
    (''EKEYREJECTED'', 0x81), (''EOWNERDEAD'', 0x82), (''ENOTRECOVERABLE'', 0x83),
    (''ERFKILL'', 0x84), (''EHWPOISON'', 0x85)]"

definition AuditErrnoToName :: "(int \<times> string) list" where
  "AuditErrnoToName = [
    (1, ''EPERM''), (2, ''ENOENT''), (3, ''ESRCH''), (4, ''EINTR''), (5, ''EIO''), (6, ''ENXIO''),
    (7, ''E2BIG''), (8, ''ENOEXEC''), (9, ''EBADF''), (10, ''ECHILD''), (11, ''EAGAIN''),
    (12, ''ENOMEM''), (13, ''EACCES''), (14, ''EFAULT''), (15, ''ENOTBLK''), (16, ''EBUSY''),
    (17, ''EEXIST''), (18, ''EXDEV''), (19, ''ENODEV''), (20, ''ENOTDIR''), (21, ''EISDIR''),
    (22, ''EINVAL''), (23, ''ENFILE''), (24, ''EMFILE''), (25, ''ENOTTY''), (26, ''ETXTBSY''),
    (27, ''EFBIG''), (28, ''ENOSPC''), (29, ''ESPIPE''), (30, ''EROFS''), (31, ''EMLINK''),
    (32, ''EPIPE''), (33, ''EDOM''), (34, ''ERANGE''), (35, ''EDEADLK''), (36, ''ENAMETOOLONG''),
    (37, ''ENOLCK''), (38, ''ENOSYS''), (39, ''ENOTEMPTY''), (40, ''ELOOP''), (42, ''ENOMSG''),
    (43, ''EIDRM''), (44, ''ECHRNG''), (45, ''EL2NSYNC''), (46, ''EL3HLT''), (47, ''EL3RST''),
    (48, ''ELNRNG''), (49, ''EUNATCH''), (50, ''ENOCSI''), (51, ''EL2HLT''), (52, ''EBADE''),
    (53, ''EBADR''), (54, ''EXFULL''), (55, ''ENOANO''), (56, ''EBADRQC''), (57, ''EBADSLT''),
    (59, ''EBFONT''), (60, ''ENOSTR''), (61, ''ENODATA''), (62, ''ETIME''), (63, ''ENOSR''),
    (64, ''ENONET''), (65, ''ENOPKG''), (66, ''EREMOTE''), (67, ''ENOLINK''), (68, ''EADV''),
    (69, ''ESRMNT''), (70, ''ECOMM''), (71, ''EPROTO''), (72, ''EMULTIHOP''), (73, ''EDOTDOT''),
    (74, ''EBADMSG''), (75, ''EOVERFLOW''), (76, ''ENOTUNIQ''), (77, ''EBADFD''),
    (78, ''EREMCHG''), (79, ''ELIBACC''), (80, ''ELIBBAD''), (81, ''ELIBSCN''), (82, ''ELIBMAX''),
    (83, ''ELIBEXEC''), (84, ''EILSEQ''), (85, ''ERESTART''), (86, ''ESTRPIPE''),
    (87, ''EUSERS''), (88, ''ENOTSOCK''), (89, ''EDESTADDRREQ''), (90, ''EMSGSIZE''),
    (91, ''EPROTOTYPE''), (92, ''ENOPROTOOPT''), (93, ''EPROTONOSUPPORT''),
    (94, ''ESOCKTNOSUPPORT''), (95, ''EOPNOTSUPP''), (96, ''EPFNOSUPPORT''),
    (97, ''EAFNOSUPPORT''), (98, ''EADDRINUSE''), (99, ''EADDRNOTAVAIL''), (100, ''ENETDOWN''),
    (101, ''ENETUNREACH''), (102, ''ENETRESET''), (103, ''ECONNABORTED''), (104, ''ECONNRESET''),
    (105, ''ENOBUFS''), (106, ''EISCONN''), (107, ''ENOTCONN''), (108, ''ESHUTDOWN''),
    (109, ''ETOOMANYREFS''), (110, ''ETIMEDOUT''), (111, ''ECONNREFUSED''), (112, ''EHOSTDOWN''),
    (113, ''EHOSTUNREACH''), (114, ''EALREADY''), (115, ''EINPROGRESS''), (116, ''ESTALE''),
    (117, ''EUCLEAN''), (118, ''ENOTNAM''), (119, ''ENAVAIL''), (120, ''EISNAM''),
    (121, ''EREMOTEIO''), (122, ''EDQUOT''), (123, ''ENOMEDIUM''), (124, ''EMEDIUMTYPE''),
    (125, ''ECANCELED''), (126, ''ENOKEY''), (127, ''EKEYEXPIRED''), (128, ''EKEYREVOKED''),
    (129, ''EKEYREJECTED''), (130, ''EOWNERDEAD''), (131, ''ENOTRECOVERABLE''),
    (132, ''ERFKILL''), (133, ''EHWPOISON'')]"

section \<open>Laws\<close>

lemma distinct_arch_values: "distinct (map fst AuditArchNames)"
  by (rule distinct_by_key [where f = uint]) code_simp

lemma distinct_arch_names: "distinct (map snd AuditArchNames)"
  by (rule distinct_by_key [where f = str_key]) code_simp

lemma distinct_errno_numbers: "distinct (map fst AuditErrnoToName)"
  by (rule distinct_by_key [where f = id]) code_simp

lemma distinct_errno_names: "distinct (map fst AuditErrnoToNum)"
  by (rule distinct_by_key [where f = str_key]) code_simp

text \<open>The errno names of the number table are the ones of the name table without the two aliases.\<close>

lemma errno_tables_swap:
  "drop 2 AuditErrnoToNum = swap_table AuditErrnoToName"
  by (simp add: AuditErrnoToNum_def AuditErrnoToName_def swap_table_def)

lemma errno_name_to_num:
  assumes "map_of AuditErrnoToName n = Some name"
  shows "map_of AuditErrnoToNum name = Some n"
proof -
  have "(name, n) \<in> set (swap_table AuditErrnoToName)"
    using map_of_SomeD [OF assms] by (auto simp: swap_table_def)
  then have "(name, n) \<in> set AuditErrnoToNum"
    unfolding errno_tables_swap [symmetric] by (rule in_set_dropD)
  then show ?thesis by (rule map_of_is_SomeI [OF distinct_errno_names])
qed

end
