(* ===== verification/Auparse_Enrich.thy ===== *)
theory Auparse_Enrich
  imports Auparse_Fields Auparse_Hex Audit_Syscalls
begin

text \<open>
  \<^verbatim>\<open>auparse/auparse.go\<close>, third part: the enrichment of the key-value pairs and the methods of
  \<^verbatim>\<open>AuditMessage\<close> that run it (\<^verbatim>\<open>Data\<close>, \<^verbatim>\<open>DataB\<close>, \<^verbatim>\<open>Tags\<close>, \<^verbatim>\<open>ToMapStr\<close>).

  The helpers mutate the map of fields in place and return an error; here they return the new
  map, and an error carries no map: each of them returns before its first write when it
  fails, or its caller gives up and drops the map. \<^verbatim>\<open>unix.SignalName\<close> is outside the
  repository and is the parameter \<open>SignalName\<close>.
\<close>

section \<open>Helpers on the fields\<close>

type_synonym enricher = "fields \<Rightarrow> (parse_error, fields) outcome"

definition newField :: "string \<Rightarrow> Field" where
  "newField v = \<lparr>orig = v, fval = v\<rparr>"

text \<open>\<^verbatim>\<open>field.Set(v); data[key] = field\<close> for the field that was read from the map.\<close>

definition set_value :: "string \<Rightarrow> Field \<Rightarrow> string \<Rightarrow> fields \<Rightarrow> fields" where
  "set_value key f v data = data(key \<mapsto> f\<lparr>fval := v\<rparr>)"

text \<open>A call whose error is ignored.\<close>

definition ignoring :: "enricher \<Rightarrow> enricher" where
  "ignoring f data = (case f data of Err _ \<Rightarrow> Ok data | r \<Rightarrow> r)"

text \<open>\<^verbatim>\<open>errors.Wrap\<close> and \<^verbatim>\<open>errors.WithMessage\<close>.\<close>

definition with_message :: "string \<Rightarrow> (parse_error, 'a) outcome \<Rightarrow> (parse_error, 'a) outcome" where
  "with_message m r = (case r of Err e \<Rightarrow> Err (ErrWithMessage e m) | _ \<Rightarrow> r)"

definition numeric :: "string \<Rightarrow> 'a \<times> num_error option \<Rightarrow> (parse_error, 'a) outcome" where
  "numeric s r = (case snd r of None \<Rightarrow> Ok (fst r) | Some e \<Rightarrow> Err (ErrNum s e))"

definition lookup_field :: "string \<Rightarrow> parse_error \<Rightarrow> fields \<Rightarrow> (parse_error, Field) outcome" where
  "lookup_field key e data = (case data key of None \<Rightarrow> Err e | Some f \<Rightarrow> Ok f)"

section \<open>The enrichments\<close>

definition arch :: enricher where
  "arch data =
     bind_outcome (lookup_field ''arch'' ErrArchKeyNotFound data) (\<lambda>field.
     bind_outcome (with_message ''failed to parse arch'' (numeric (fval field) (parse_int (fval field) 16 64))) (\<lambda>a.
     Ok (set_value ''arch'' field (arch_String (word_of_int a)) data)))"

definition setSyscallName :: enricher where
  "setSyscallName data =
     bind_outcome (lookup_field ''syscall'' ErrSyscallKeyNotFound data) (\<lambda>field.
     bind_outcome (with_message ''failed to parse syscall'' (numeric (fval field) (atoi (fval field)))) (\<lambda>syscall.
     bind_outcome (lookup_field ''arch'' ErrArchKeyNotFoundInSyscall data) (\<lambda>a.
     Ok (case syscall_name (fval a) syscall of
           Some name \<Rightarrow> set_value ''syscall'' field name data
         | None \<Rightarrow> data))))"

definition setSignalName :: "(int \<Rightarrow> string) \<Rightarrow> enricher" where
  "setSignalName SignalName data =
     bind_outcome (lookup_field ''sig'' ErrSigKeyNotFound data) (\<lambda>field.
     bind_outcome (with_message ''failed to parse sig'' (numeric (fval field) (atoi (fval field)))) (\<lambda>signalNum.
     Ok (if SignalName signalNum \<noteq> [] then set_value ''sig'' field (SignalName signalNum) data else data)))"

definition saddr :: enricher where
  "saddr data =
     bind_outcome (lookup_field ''saddr'' ErrSaddrKeyNotFound data) (\<lambda>field.
     bind_outcome (with_message ''failed to parse saddr'' (parseSockaddr (fval field))) (\<lambda>saddrData.
     Ok (data(''saddr'' := None) ++ (\<lambda>k. map_option newField (saddrData k)))))"

definition normalizeUnsetID :: "string \<Rightarrow> fields \<Rightarrow> fields" where
  "normalizeUnsetID key data =
     (case data key of
        None \<Rightarrow> data
      | Some field \<Rightarrow>
          if fval field \<in> {''4294967295'', ''-1''} then set_value key field ''unset'' data else data)"

text \<open>The loop of \<^verbatim>\<open>hexDecode\<close>: \<open>None\<close> when a character is not a hex digit. A NUL becomes a blank.\<close>

fun hex_text :: "string \<Rightarrow> string option" where
  "hex_text (c1 # c2 # cs) =
     (case (fromHexChar c1, fromHexChar c2) of
        (Some a, Some b) \<Rightarrow>
          (let c = push_bit 4 a OR b in
           map_option ((#) (if c = 0 then CHR '' '' else char_of_byte c)) (hex_text cs))
      | _ \<Rightarrow> None)"
| "hex_text _ = Some []"

definition hexDecode :: "string \<Rightarrow> enricher" where
  "hexDecode key data =
     bind_outcome (lookup_field key ErrHexEncodeKeyNotFound data) (\<lambda>field.
     if length (orig field) = 0 \<or> length (orig field) mod 2 = 1 then Ok data
     else (case hex_text (orig field) of
             None \<Rightarrow> Ok data
           | Some dst \<Rightarrow> Ok (set_value key field dst data)))"

text \<open>The loop of \<^verbatim>\<open>execveArgs\<close> for the arguments \<open>i\<close> to \<open>i + n - 1\<close>.\<close>

definition arg_key :: "nat \<Rightarrow> string" where
  "arg_key i = ''a'' @ itoa (int i)"

primrec execve_loop :: "nat \<Rightarrow> nat \<Rightarrow> enricher" where
  "execve_loop 0 i data = Ok data"
| "execve_loop (Suc n) i data =
     (case data (arg_key i) of
        None \<Rightarrow> Err (ErrArgNotFound (arg_key i))
      | Some arg \<Rightarrow>
         (case hexToString (orig arg) of
            Ok asc \<Rightarrow> execve_loop n (Suc i) (set_value (arg_key i) arg asc data)
          | _ \<Rightarrow> execve_loop n (Suc i) data))"

definition execveArgs :: enricher where
  "execveArgs data =
     bind_outcome (lookup_field ''argc'' ErrArgcKeyNotFound data) (\<lambda>argc.
     bind_outcome (with_message ''failed to convert argc to number''
         (numeric (fval argc) (parse_uint (fval argc) 10 32))) (\<lambda>count.
     execve_loop count 0 data))"

definition selinux_keys :: "string list" where
  "selinux_keys = [''_user'', ''_role'', ''_domain'', ''_level'', ''_category'']"

definition parseSELinuxContext :: "string \<Rightarrow> enricher" where
  "parseSELinuxContext key data =
     bind_outcome (lookup_field key ErrSELinuxKeyNotFound data) (\<lambda>field.
     let contextParts = splitn_byte (length selinux_keys) (CHR '':'') (fval field) in
     if contextParts = [] then Err ErrSELinuxContextFieldSplit
     else Ok (fold (\<lambda>(k, part) d. d(key @ k \<mapsto> newField part)) (zip selinux_keys contextParts)
                (data(key := None))))"

text \<open>\<^verbatim>\<open>success\<close> is preferred to \<^verbatim>\<open>res\<close>; the one used is deleted.\<close>

definition result_of :: "string \<Rightarrow> string" where
  "result_of v0 =
     (let v = to_lower v0 in
      if v = ''yes'' \<or> v = ''1'' \<or> has_prefix v ''suc'' then ''success'' else ''fail'')"

definition result :: enricher where
  "result data =
     (case data ''success'' of
        Some field \<Rightarrow> Ok ((data(''success'' := None))(''result'' \<mapsto> newField (result_of (fval field))))
      | None \<Rightarrow>
         (case data ''res'' of
            None \<Rightarrow> Err ErrSuccessResKeysNotFound
          | Some field \<Rightarrow> Ok ((data(''res'' := None))(''result'' \<mapsto> newField (result_of (fval field))))))"

definition exit :: enricher where
  "exit data =
     bind_outcome (lookup_field ''exit'' ErrExitKeyNotFound data) (\<lambda>field.
     bind_outcome (with_message ''failed to parse exit'' (numeric (fval field) (atoi (fval field)))) (\<lambda>exitCode.
     Ok (if exitCode \<ge> 0 then data
         else (case map_of AuditErrnoToName (- exitCode) of
                 None \<Rightarrow> data
               | Some name \<Rightarrow> set_value ''exit'' field name data))))"

text \<open>
  \<^verbatim>\<open>auditRuleKey\<close> takes the key out of the fields and sets the tags. A key that starts with
  \<^verbatim>\<open>=\<close> leaves the tags as they were.
\<close>

definition key_tags :: "Field \<Rightarrow> string list option" where
  "key_tags field =
     (case decodeUppercaseHexString (orig field) of
        Ok decodedData \<Rightarrow> Some (split_byte (char_of (1::nat)) (string_of_bytes decodedData))
      | _ \<Rightarrow>
        (let val = fval field in
         case index_byte (CHR ''='') val of
           None \<Rightarrow> Some [val]
         | Some idx \<Rightarrow>
             if idx = 0 then None
             else if idx < length val - 1 then Some [drop (idx + 1) val]
             else Some [[]]))"

definition auditRuleKey :: "fields \<times> string list \<Rightarrow> fields \<times> string list" where
  "auditRuleKey dt =
     (case fst dt ''key'' of
        None \<Rightarrow> dt
      | Some field \<Rightarrow>
         ((fst dt)(''key'' := None), case key_tags field of Some ks \<Rightarrow> ks | None \<Rightarrow> snd dt))"

section \<open>enrichData\<close>

text \<open>The part of \<^verbatim>\<open>enrichData\<close> that depends on the record type.\<close>

definition enrich_syscall :: enricher where
  "enrich_syscall data =
     bind_outcome (arch data) (\<lambda>data.
     bind_outcome (setSyscallName data) (\<lambda>data.
     with_message ''exe'' (hexDecode ''exe'' data)))"

definition enrich_type :: "(int \<Rightarrow> string) \<Rightarrow> AuditMessageType \<Rightarrow> enricher" where
  "enrich_type SignalName typ data =
     (if typ = AUDIT_SECCOMP then bind_outcome (setSignalName SignalName data) enrich_syscall
      else if typ = AUDIT_SYSCALL then enrich_syscall data
      else if typ = AUDIT_SOCKADDR then saddr data
      else if typ = AUDIT_PROCTITLE then with_message ''proctitle'' (hexDecode ''proctitle'' data)
      else if typ = AUDIT_USER_CMD then with_message ''cmd'' (hexDecode ''cmd'' data)
      else if typ = AUDIT_TTY \<or> typ = AUDIT_USER_TTY then with_message ''data'' (hexDecode ''data'' data)
      else if typ = AUDIT_EXECVE then execveArgs data
      else if typ = AUDIT_PATH then
        bind_outcome (ignoring (parseSELinuxContext ''obj'') data) (ignoring (hexDecode ''name''))
      else if typ = AUDIT_USER_LOGIN then ignoring (hexDecode ''acct'') data
      else Ok data)"

text \<open>The part common to all types, whose errors are all ignored.\<close>

definition enrich_common :: "fields \<times> string list \<Rightarrow> (parse_error, fields \<times> string list) outcome" where
  "enrich_common dt =
     (let data = normalizeUnsetID ''ses'' (normalizeUnsetID ''old-auid'' (normalizeUnsetID ''auid'' (fst dt))) in
      bind_outcome (ignoring (parseSELinuxContext ''subj'') data) (\<lambda>data.
      bind_outcome (ignoring result data) (\<lambda>data.
      bind_outcome (ignoring exit data) (\<lambda>data.
      (let dt = auditRuleKey (data, snd dt) in
       bind_outcome (ignoring (hexDecode ''cwd'') (fst dt)) (\<lambda>data. Ok (data, snd dt)))))))"

text \<open>The tags are set before the type-specific part, so they are returned even when it fails.\<close>

definition enrichData ::
  "(int \<Rightarrow> string) \<Rightarrow> AuditMessageType \<Rightarrow> fields \<times> string list
     \<Rightarrow> (parse_error, fields) outcome \<times> string list" where
  "enrichData SignalName typ dt =
     (case enrich_common dt of
        Ok (data, tg) \<Rightarrow> (enrich_type SignalName typ data, tg)
      | Err e \<Rightarrow> (Err e, snd dt)
      | Panic p \<Rightarrow> (Panic p, snd dt))"

section \<open>The methods of AuditMessage\<close>

text \<open>
  \<^verbatim>\<open>DataB\<close> empties the two maps it is given before it uses them, so their contents do not
  matter; the result is the map (\<open>None\<close> for nil) and the error, with the updated message.
\<close>

definition DataB ::
  "(int \<Rightarrow> string) \<Rightarrow> AuditMessage
     \<Rightarrow> (parse_error, (string \<rightharpoonup> string) option \<times> parse_error option) outcome \<times> AuditMessage" where
  "DataB SignalName m =
     (let fail = (\<lambda>e m. (Ok (None, Some e), m\<lparr>msg_error := Some e\<rparr>)) in
      if msg_data m \<noteq> None \<or> msg_error m \<noteq> None then (Ok (msg_data m, msg_error m), m)
      else if offset m < 0 then fail ErrMessageWithoutData m
      else
        (case slice (RawData m) (nat (offset m)) (length (RawData m)) of
           Err e \<Rightarrow> fail e m
         | Panic p \<Rightarrow> (Panic p, m)
         | Ok body \<Rightarrow>
            (case normalizeAuditMessage (RecordType m) body of
               Err e \<Rightarrow> fail e m
             | Panic p \<Rightarrow> (Panic p, m)
             | Ok message \<Rightarrow>
                (case enrichData SignalName (RecordType m)
                        (extractKeyValuePairs message Map.empty, tags m) of
                   (Err e, tg) \<Rightarrow> fail e (m\<lparr>tags := tg\<rparr>)
                 | (Panic p, tg) \<Rightarrow> (Panic p, m\<lparr>tags := tg\<rparr>)
                 | (Ok flds, tg) \<Rightarrow>
                     (let data = (\<lambda>k. map_option fval (flds k)) in
                      (Ok (Some data, None), m\<lparr>tags := tg, msg_data := Some data\<rparr>))))))"

definition Data ::
  "(int \<Rightarrow> string) \<Rightarrow> AuditMessage
     \<Rightarrow> (parse_error, (string \<rightharpoonup> string) option \<times> parse_error option) outcome \<times> AuditMessage" where
  "Data SignalName m =
     (if msg_data m \<noteq> None \<or> msg_error m \<noteq> None then (Ok (msg_data m, msg_error m), m)
      else DataB SignalName m)"

definition Tags ::
  "(int \<Rightarrow> string) \<Rightarrow> AuditMessage
     \<Rightarrow> (parse_error, string list \<times> parse_error option) outcome \<times> AuditMessage" where
  "Tags SignalName m =
     (case Data SignalName m of
        (Ok (_, err), m') \<Rightarrow> (Ok (tags m', err), m')
      | (Err e, m') \<Rightarrow> (Err e, m')
      | (Panic p, m') \<Rightarrow> (Panic p, m'))"

section \<open>ToMapStr\<close>

text \<open>
  \<^verbatim>\<open>time.Time.String\<close> of a UTC time, \<^verbatim>\<open>2006-01-02 15:04:05.999999999 +0000 UTC\<close>: the fraction is
  printed without trailing zeros, and not at all when it is zero. The date is the proleptic
  Gregorian one of the day number.
\<close>

definition civil :: "int \<Rightarrow> int \<times> int \<times> int" where
  "civil days =
     (let z = days + 719468; era = z div 146097; doe = z mod 146097;
          yoe = (doe - doe div 1460 + doe div 36524 - doe div 146096) div 365;
          doy = doe - (365 * yoe + yoe div 4 - yoe div 100);
          mp = (5 * doy + 2) div 153;
          d = doy - (153 * mp + 2) div 5 + 1;
          m = (if mp < 10 then mp + 3 else mp - 9);
          y = yoe + era * 400 + (if m \<le> 2 then 1 else 0)
      in (y, m, d))"

definition pad :: "nat \<Rightarrow> int \<Rightarrow> string" where
  "pad w i = (if i < 0 then ''-'' else []) @
     (let ds = format_uint (nat \<bar>i\<bar>) in replicate (w - length ds) (CHR ''0'') @ ds)"

definition fraction :: "int \<Rightarrow> string" where
  "fraction ns = (if ns = 0 then []
     else ''.'' @ rev (dropWhile (\<lambda>c. c = CHR ''0'') (rev (pad 9 ns))))"

definition time_String :: "gotime \<Rightarrow> string" where
  "time_String t =
     (let (y, m, d) = civil (fst t div 86400); s = fst t mod 86400 in
      pad 4 y @ ''-'' @ pad 2 m @ ''-'' @ pad 2 d @ '' ''
        @ pad 2 (s div 3600) @ '':'' @ pad 2 (s mod 3600 div 60) @ '':'' @ pad 2 (s mod 60)
        @ fraction (snd t) @ '' +0000 UTC'')"

text \<open>The values of the map: strings, the tags, and the text of an error, kept as the error.\<close>

datatype map_value = MStr string | MTags "string list" | MError parse_error

definition to_map_str :: "(string \<rightharpoonup> string) option \<Rightarrow> parse_error option \<Rightarrow> AuditMessage
    \<Rightarrow> (string \<rightharpoonup> map_value)" where
  "to_map_str data err m =
     (let out = (case data of None \<Rightarrow> Map.empty | Some d \<Rightarrow> (\<lambda>k. map_option MStr (d k)));
          out = out(''record_type'' \<mapsto> MStr (type_String (RecordType m)),
                    ''@timestamp'' \<mapsto> MStr (time_String (Timestamp m)),
                    ''sequence'' \<mapsto> MStr (format_uint (unat (Sequence m))),
                    ''raw_msg'' \<mapsto> MStr (RawData m));
          out = (if tags m \<noteq> [] then out(''tags'' \<mapsto> MTags (tags m)) else out)
      in (case err of None \<Rightarrow> out | Some e \<Rightarrow> out(''error'' \<mapsto> MError e)))"

definition ToMapStr ::
  "(int \<Rightarrow> string) \<Rightarrow> AuditMessage \<Rightarrow> (parse_error, string \<rightharpoonup> map_value) outcome \<times> AuditMessage" where
  "ToMapStr SignalName m =
     (case Data SignalName m of
        (Ok (data, err), m') \<Rightarrow> (Ok (to_map_str data err m'), m')
      | (Err e, m') \<Rightarrow> (Err e, m')
      | (Panic p, m') \<Rightarrow> (Panic p, m'))"

section \<open>Laws of the enrichments\<close>

lemma hex_text_encode:
  "hex_text (encodeHex bs) = Some (map (\<lambda>b. if b = 0 then CHR '' '' else char_of_byte b) bs)"
proof (induction bs)
  case (Cons b bs)
  have "unat b < 256" using unsigned_less [of b, where ?'a = nat] by simp
  then have "unat b div 16 < 16" "unat b mod 16 < 16" by simp_all
  with Cons show ?case by (simp add: encodeHex_def fromHexChar_hex_char nibbles)
qed (simp add: encodeHex_def)

lemma hexToString_encode:
  "0 \<notin> set bs \<Longrightarrow> hexToString (encodeHex bs) = Ok (string_of_bytes bs)"
proof -
  assume "0 \<notin> set bs"
  then have "takeWhile (\<lambda>b. b \<noteq> 0) bs = bs" by (auto intro!: takeWhile_eq_all_conv [THEN iffD2])
  then show ?thesis by (simp only: hexToString_def decodeUppercaseHexString_encode outcome.case)
qed

lemma splitn_join: "n \<noteq> 0 \<Longrightarrow> str_join [sep] (splitn_byte n sep s) = s"
proof (induction n sep s rule: splitn_byte.induct)
  case (3 n sep s)
  show ?case
  proof (cases "index_byte sep s")
    case (Some i)
    then have i: "i < length s" "s ! i = sep"
      by (auto simp: index_byte_def index_where_Some_iff)
    let ?rest = "splitn_byte (Suc n) sep (drop (Suc i) s)"
    have "?rest \<noteq> []" by (cases n) (auto split: option.splits)
    then obtain w ws where w: "?rest = w # ws" by (cases ?rest) auto
    have "str_join [sep] (take i s # ?rest) = take i s @ sep # str_join [sep] ?rest"
      unfolding w by simp
    also have "\<dots> = take i s @ sep # drop (Suc i) s" using "3.IH" [OF Some] by simp
    also have "\<dots> = s" using i id_take_nth_drop by metis
    finally show ?thesis using Some by simp
  qed simp
qed simp_all

lemma split_join:
  assumes "\<forall>w \<in> set ws. sep \<notin> set w" and "ws \<noteq> []"
  shows "split_byte sep (str_join [sep] ws) = ws"
proof -
  have one: "sep \<notin> set w \<Longrightarrow> split_byte sep w = [w]" for w by (induction w) auto
  have more: "sep \<notin> set w \<Longrightarrow> split_byte sep (w @ sep # s) = w # split_byte sep s" for w s
    by (induction w) auto
  show ?thesis
    using assms
  proof (induction ws)
    case (Cons w ws)
    then show ?case by (cases ws) (auto simp: one more)
  qed simp
qed

end
