(* ===== verification/Auparse_Roundtrip.thy ===== *)
theory Auparse_Roundtrip
  imports Auparse_Enrich
begin

text \<open>
  Properties of the message parser as a whole: a log line printed from a record is parsed back
  to it, \<^verbatim>\<open>Data\<close> stores its result, and each enrichment undoes the kernel's encoding.
\<close>

section \<open>Scanning over the header\<close>

lemma scan_no_pair:
  assumes "ascii t" and "CHR ''='' \<notin> set t" and "pstate s \<in> {skipState, keyState}"
  shows "\<exists>s'. scan_from save msg i (t @ rest) (s, d) = scan_from save msg (i + length t) rest (s', d)
     \<and> pstate s' \<in> {skipState, keyState}"
  using assms
proof (induction t arbitrary: i s)
  case (Cons c t)
  have "c \<noteq> CHR ''=''" using Cons.prems(2) by auto
  then have "code c \<noteq> code (CHR ''='')" by (simp only: of_char_eq_iff not_False_eq_True)
  then have ne: "code c \<noteq> 61" by simp
  let ?s1 = "fst (kv_step save msg (i, code c) (s, d))"
  have s1: "kv_step save msg (i, code c) (s, d) = (?s1, d)" "pstate ?s1 \<in> {skipState, keyState}"
    using Cons.prems(3) ne by (auto simp: kv_step_def Let_def)
  from Cons.IH [OF _ _ s1(2), of "Suc i"] Cons.prems(1,2) s1(1) show ?case
    by (simp add: scan_from_Cons)
qed auto

lemma scan_blank:
  assumes "pstate s \<in> {skipState, keyState}"
  shows "\<exists>s'. scan_from save msg i (CHR '' '' # rest) (s, d) = scan_from save msg (Suc i) rest (s', d)
     \<and> pstate s' = skipState"
  using assms by (auto simp: scan_from_Cons kv_step_def isKeyRune_def)

lemma extract_after_prefix:
  assumes "ascii t" and "CHR ''='' \<notin> set t" and "list_all tok_ok ts"
  shows "extractKeyValuePairs (t @ '' '' @ str_join '' '' (map tok_text ts)) d = fold store_token ts d"
proof -
  let ?body = "str_join '' '' (map tok_text ts)"
  let ?msg = "t @ '' '' @ ?body"
  have init: "pstate init_scanner \<in> {skipState, keyState}" by (simp add: init_scanner_def)
  obtain s1 where s1: "scan_from saveKeyValue ?msg 0 ?msg (init_scanner, d)
      = scan_from saveKeyValue ?msg (length t) ('' '' @ ?body) (s1, d)" "pstate s1 \<in> {skipState, keyState}"
    using scan_no_pair [OF assms(1,2) init, of saveKeyValue ?msg 0 "'' '' @ ?body" d] by auto
  obtain s2 where s2: "scan_from saveKeyValue ?msg (length t) ('' '' @ ?body) (s1, d)
      = scan_from saveKeyValue ?msg (Suc (length t)) ?body (s2, d)" "pstate s2 = skipState"
    using scan_blank [OF s1(2), of saveKeyValue ?msg "length t" ?body d] by auto
  have "scan_from saveKeyValue ?msg (Suc (length t)) ?body (s2, d) = fold store_token ts d"
    using scan_tokens [OF assms(3) s2(2), of ?msg "t @ '' ''" d] by simp
  with s1 s2 have "scan_from saveKeyValue ?msg 0 ?msg (init_scanner, d) = fold store_token ts d" by simp
  then show ?thesis unfolding extract_eq scan_def scan_from_def .
qed

section \<open>Printed log lines\<close>

definition body_text :: "token list \<Rightarrow> string" where
  "body_text ts = str_join '' '' (map tok_text ts)"

definition record_text :: "nat \<Rightarrow> nat \<Rightarrow> u32 \<Rightarrow> token list \<Rightarrow> string" where
  "record_text sec msec seq ts = audit_header ''audit'' sec msec seq @ '': '' @ body_text ts"

definition log_line :: "AuditMessageType \<Rightarrow> nat \<Rightarrow> nat \<Rightarrow> u32 \<Rightarrow> token list \<Rightarrow> string" where
  "log_line typ sec msec seq ts = ''type='' @ type_String typ @ '' msg='' @ record_text sec msec seq ts"

text \<open>What \<^verbatim>\<open>Parse\<close> makes of a printed record.\<close>

definition parsed_record :: "AuditMessageType \<Rightarrow> nat \<Rightarrow> nat \<Rightarrow> u32 \<Rightarrow> token list \<Rightarrow> AuditMessage" where
  "parsed_record typ sec msec seq ts = zero_message\<lparr>RecordType := typ,
     Timestamp := (int sec, int msec * 1000000), Sequence := seq, offset := 1,
     RawData := record_text sec msec seq ts\<rparr>"

lemma last_tok_text:
  "tok_ok t \<Longrightarrow> tok_text t \<noteq> [] \<and> code (last (tok_text t)) < 0x80 \<and> \<not> is_space (code (last (tok_text t)))"
  by (cases t) (auto simp: tok_text_def plain_char_def list_all_iff is_quote_def is_space_def)

lemma last_body_text:
  "ts \<noteq> [] \<Longrightarrow> list_all tok_ok ts \<Longrightarrow>
     body_text ts \<noteq> [] \<and> code (last (body_text ts)) < 0x80 \<and> \<not> is_space (code (last (body_text ts)))"
proof (induction ts)
  case (Cons t ts)
  then show ?case using last_tok_text [of t]
    by (cases ts) (auto simp: body_text_def)
qed simp

lemma record_text_trimmed:
  assumes "ts \<noteq> []" and "list_all tok_ok ts"
  shows "trim_space (record_text sec msec seq ts) = record_text sec msec seq ts"
  using last_body_text [OF assms]
  by (intro trim_space_id)
     (auto simp: record_text_def audit_header_def header_text_def is_space_def)

lemma Parse_record:
  assumes "sec < 2 ^ 63" and "msec < 1000" and "ts \<noteq> []" and "list_all tok_ok ts"
  shows "Parse typ (record_text sec msec seq ts) = Ok (parsed_record typ sec msec seq ts)"
proof -
  let ?h = "audit_header ''audit'' sec msec seq"
  have hdr: "parseAuditHeader (record_text sec msec seq ts)
      = Ok ((int sec, int msec * 1000000), seq, length ?h - 1)"
    unfolding record_text_def by (rule parseAuditHeader_header [OF _ assms(1,2)]) simp
  obtain b where b: "?h = b @ '')''"
    unfolding audit_header_def header_text_def by (metis append.assoc)
  have "drop (length ?h - 1) (record_text sec msec seq ts) = ''): '' @ body_text ts"
    unfolding record_text_def b by simp
  then have off: "indexOfMessage (drop (length ?h - 1) (record_text sec msec seq ts)) = 1"
    by (simp add: indexOfMessage_def)
  show ?thesis
    unfolding Parse_def Let_def record_text_trimmed [OF assms(3,4)] hdr outcome.case prod.case off
      parsed_record_def ..
qed

lemma str_index_unique:
  "m \<notin> set xs \<Longrightarrow> str_index (m # ms) (xs @ (m # ms) @ ys) = Some (length xs)"
  by (induction xs) auto

lemma type_String_no_m: "CHR ''m'' \<notin> set (type_String t)"
proof
  assume "CHR ''m'' \<in> set (type_String t)"
  moreover have "map ascii_upper (type_String t) = type_String t"
    using type_String_upper [of t] by (simp add: to_upper_ascii type_String_ascii)
  ultimately have "ascii_upper (CHR ''m'') = CHR ''m''" by (metis map_idI list.map_id map_eq_conv id_apply)
  moreover have "ascii_upper (CHR ''m'') \<noteq> CHR ''m''" by code_simp
  ultimately show False by contradiction
qed

lemma ParseLogLine_line:
  assumes "sec < 2 ^ 63" and "msec < 1000" and "ts \<noteq> []" and "list_all tok_ok ts"
  shows "ParseLogLine (log_line typ sec msec seq ts) = Ok (parsed_record typ sec msec seq ts)"
proof -
  let ?pre = "''type='' @ type_String typ @ '' ''"
  let ?rec = "record_text sec msec seq ts"
  have line: "log_line typ sec msec seq ts = ?pre @ ''msg='' @ ?rec" by (simp add: log_line_def)
  have idx: "str_index msgToken (log_line typ sec msec seq ts) = Some (length ?pre)"
    unfolding line msgToken_def using type_String_no_m by (intro str_index_unique) simp
  have name: "between 5 (length ?pre - 1) (log_line typ sec msec seq ts) = type_String typ"
    by (simp add: line between_def)
  have rest: "drop (length ?pre + length msgToken) (log_line typ sec msec seq ts) = ?rec"
    by (simp add: line msgToken_def)
  have "ParseLogLine (log_line typ sec msec seq ts) = Parse typ ?rec"
    unfolding ParseLogLine_def idx option.case rest
    using name by (simp add: typeToken_def GetAuditMessageType_String Let_def numeral_eq_Suc del: drop_append)
  then show ?thesis by (simp only: Parse_record [OF assms])
qed

lemma ascii_pad3: "ascii (pad3 n)"
  using pad3_digits [of n] by (auto simp: ascii_def list_all_iff is_digit_def)

lemma extract_record:
  assumes "list_all tok_ok ts"
  shows "extractKeyValuePairs (drop 1 (record_text sec msec seq ts)) d = fold store_token ts d"
proof -
  let ?t = "''udit('' @ format_uint sec @ ''.'' @ pad3 msec @ '':'' @ format_uint (unat seq) @ ''):''"
  have "drop 1 (record_text sec msec seq ts) = ?t @ '' '' @ str_join '' '' (map tok_text ts)"
    by (simp add: record_text_def audit_header_def header_text_def body_text_def)
  moreover have "ascii ?t" by (simp add: ascii_format_uint ascii_pad3)
  moreover have "CHR ''='' \<notin> set ?t"
    using digits_no_token [OF pad3_digits] format_uint_digit by (auto simp: is_digit_def dest!: format_uint_digit)
  ultimately show ?thesis using extract_after_prefix [of ?t, OF _ _ assms, of d] by metis
qed

text \<open>
  (C6) A log line printed from a record (type name, seconds, milliseconds, serial number and
  well-formed pairs) is parsed back to that record: type, time stamp and sequence number are
  the printed ones, and scanning the text from the offset that was stored finds exactly the
  printed pairs.
\<close>

theorem ParseLogLine_log_line:
  assumes "sec < 2 ^ 63" and "msec < 1000" and "ts \<noteq> []" and "list_all tok_ok ts"
  shows "\<exists>m. ParseLogLine (log_line typ sec msec seq ts) = Ok m
     \<and> RecordType m = typ \<and> Timestamp m = (int sec, int msec * 1000000) \<and> Sequence m = seq
     \<and> extractKeyValuePairs (drop (nat (offset m)) (RawData m)) Map.empty = fold store_token ts Map.empty"
  using ParseLogLine_line [OF assms, of "typ" seq] extract_record [OF assms(4), of sec msec seq Map.empty]
  by (auto simp: parsed_record_def zero_message_def)

theorem ParseLogLine_log_line_witness:
  "\<exists>m. ParseLogLine ''type=CWD msg=audit(42.011:12): cwd=/root inode=7'' = Ok m
     \<and> RecordType m = AUDIT_CWD \<and> Timestamp m = (42, 11000000) \<and> Sequence m = 12
     \<and> extractKeyValuePairs (drop (nat (offset m)) (RawData m)) Map.empty
         = [''cwd'' \<mapsto> newField ''/root'', ''inode'' \<mapsto> newField ''7'']"
proof -
  let ?ts = "[Plain ''cwd'' ''/root'', Plain ''inode'' ''7'']"
  have "type_String AUDIT_CWD = ''CWD''" by (simp add: type_String_def auditMessageTypeToName_def)
  moreover have "record_text 42 11 12 ?ts = ''audit(42.011:12): cwd=/root inode=7''" by code_simp
  ultimately have "log_line AUDIT_CWD 42 11 12 ?ts
      = ''type=CWD msg=audit(42.011:12): cwd=/root inode=7''" by (simp add: log_line_def)
  moreover have "fold store_token ?ts Map.empty = [''cwd'' \<mapsto> newField ''/root'', ''inode'' \<mapsto> newField ''7'']"
    by (simp add: store_token_def saveKeyValue_def isInterestingValue_def newField_def)
  moreover have "list_all tok_ok ?ts"
    by (simp add: key_ok_def isKeyRune_def plain_char_def is_quote_def is_space_def)
  ultimately show ?thesis
    using ParseLogLine_log_line [of 42 11 ?ts AUDIT_CWD 12] by simp
qed

section \<open>Data\<close>

lemma DataB_settles:
  assumes "DataB SignalName m = (Ok r, m')"
  shows "r = (msg_data m', msg_error m') \<and> (msg_data m' \<noteq> None \<or> msg_error m' \<noteq> None)"
proof (cases "msg_data m \<noteq> None \<or> msg_error m \<noteq> None \<or> offset m < 0")
  case True
  then show ?thesis using assms by (auto simp: DataB_def Let_def split: if_splits)
next
  case False
  let ?body = "slice (RawData m) (nat (offset m)) (length (RawData m)) :: (parse_error, string) outcome"
  consider (panic) p where "?body = Panic p" | (err) e where "?body = Err e" | (ok) b where "?body = Ok b"
    by (cases ?body) auto
  then show ?thesis
  proof cases
    case ok
    show ?thesis
    proof (cases "normalizeAuditMessage (RecordType m) b")
      case (Ok message)
      obtain q tg where e: "enrichData SignalName (RecordType m)
          (extractKeyValuePairs message Map.empty, tags m) = (q, tg)" by fastforce
      show ?thesis using assms False ok Ok e by (cases q) (auto simp: DataB_def Let_def)
    qed (use assms False ok in \<open>auto simp: DataB_def Let_def\<close>)
  qed (use assms False in \<open>auto simp: DataB_def Let_def\<close>)
qed

text \<open>
  The result of \<^verbatim>\<open>Data\<close> is stored: every later call returns it without changing the message.
\<close>

theorem Data_stored:
  assumes "Data SignalName m = (Ok r, m')"
  shows "Data SignalName m' = (Ok r, m')"
  using assms DataB_settles [of SignalName m r m'] by (auto simp: Data_def split: if_splits)

theorem Data_stored_witness:
  "Data (\<lambda>_. []) (snd (Data (\<lambda>_. []) (zero_message\<lparr>offset := -1\<rparr>)))
     = (Ok (None, Some ErrMessageWithoutData), zero_message\<lparr>offset := -1, msg_error := Some ErrMessageWithoutData\<rparr>)"
  using Data_stored [of "\<lambda>_. []" "zero_message\<lparr>offset := -1\<rparr>" "(None, Some ErrMessageWithoutData)"
      "zero_message\<lparr>offset := -1, msg_error := Some ErrMessageWithoutData\<rparr>"]
  by (simp add: Data_def DataB_def zero_message_def)

section \<open>Enrichments undo the encodings\<close>

text \<open>The kernel prints an argument that needs escaping as hex, and another one between quotes.\<close>

lemma inj_arg_key: "arg_key i = arg_key j \<longleftrightarrow> i = j"
proof
  assume "arg_key i = arg_key j"
  then have "format_uint i = format_uint j" by (simp add: arg_key_def itoa_def)
  moreover have "parse_digits False 10 (max i j) 0 (format_uint k) = (k, None)" if "k \<le> max i j" for k
    unfolding format_uint_def using that by (intro parse_format_base) simp_all
  ultimately show "i = j" by (metis fst_conv max.cobounded1 max.cobounded2)
qed simp

definition decoded_arg :: "Field \<Rightarrow> Field" where
  "decoded_arg f = (case hexToString (orig f) of Ok t \<Rightarrow> f\<lparr>fval := t\<rparr> | _ \<Rightarrow> f)"

lemma execve_loop_ok:
  assumes "\<forall>j. i \<le> j \<and> j < i + n \<longrightarrow> data (arg_key j) \<noteq> None"
  shows "\<exists>out. execve_loop n i data = Ok out
     \<and> (\<forall>k. out k = (if \<exists>j. i \<le> j \<and> j < i + n \<and> k = arg_key j
                      then map_option decoded_arg (data k) else data k))"
  using assms
proof (induction n arbitrary: i data)
  case (Suc n)
  obtain f where f: "data (arg_key i) = Some f" using Suc.prems by force
  let ?d = "data(arg_key i \<mapsto> decoded_arg f)"
  have step: "execve_loop (Suc n) i data = execve_loop n (Suc i) ?d"
    using f by (cases "hexToString (orig f)")
      (auto simp: decoded_arg_def set_value_def fun_upd_idem)
  have "\<forall>j. Suc i \<le> j \<and> j < Suc i + n \<longrightarrow> ?d (arg_key j) \<noteq> None"
    using Suc.prems by (auto simp: inj_arg_key)
  from Suc.IH [OF this] obtain out where out: "execve_loop n (Suc i) ?d = Ok out"
    "\<forall>k. out k = (if \<exists>j. Suc i \<le> j \<and> j < Suc i + n \<and> k = arg_key j
                    then map_option decoded_arg (?d k) else ?d k)" by blast
  have "out k = (if \<exists>j. i \<le> j \<and> j < i + Suc n \<and> k = arg_key j
                  then map_option decoded_arg (data k) else data k)" for k
  proof (cases "k = arg_key i")
    case True
    then show ?thesis using out(2) f by (auto simp: inj_arg_key)
  next
    case False
    then have eq: "(\<exists>j. i \<le> j \<and> j < i + Suc n \<and> k = arg_key j)
        \<longleftrightarrow> (\<exists>j. Suc i \<le> j \<and> j < Suc i + n \<and> k = arg_key j)"
      by (metis Suc_leD Suc_leI add_Suc_shift le_neq_implies_less)
    show ?thesis unfolding eq using spec [OF out(2), of k] unfolding fun_upd_other [OF False] .
  qed
  with out(1) step show ?case by metis
qed auto

text \<open>
  An EXECVE record with \<open>argc\<close> arguments: every argument that the kernel printed as hex of
  a text without NUL gets that text as its value, and no other field changes.
\<close>

theorem execveArgs_decodes:
  assumes "argc < 2 ^ 32" and "data ''argc'' = Some (newField (format_uint argc))"
    and "\<forall>i < argc. \<exists>f. data (arg_key i) = Some f \<and> orig f = encodeHex (bytes_of_string (texts i))
           \<and> 0 \<notin> set (bytes_of_string (texts i))"
  shows "\<exists>out. execveArgs data = Ok out
     \<and> (\<forall>i < argc. map_option fval (out (arg_key i)) = Some (texts i))
     \<and> (\<forall>k. (\<forall>i < argc. k \<noteq> arg_key i) \<longrightarrow> out k = data k)"
proof -
  have run: "execveArgs data = execve_loop argc 0 data"
    using assms(1,2)
    by (simp add: execveArgs_def lookup_field_def newField_def parse_uint_format_uint numeric_def
        with_message_def)
  have "\<forall>j. 0 \<le> j \<and> j < 0 + argc \<longrightarrow> data (arg_key j) \<noteq> None" using assms(3) by auto
  from execve_loop_ok [OF this] obtain out where out: "execve_loop argc 0 data = Ok out"
    "\<And>k. out k = (if \<exists>j. 0 \<le> j \<and> j < 0 + argc \<and> k = arg_key j
                    then map_option decoded_arg (data k) else data k)" by blast
  have "map_option fval (out (arg_key i)) = Some (texts i)" if lt: "i < argc" for i
  proof -
    obtain f where f: "data (arg_key i) = Some f" "orig f = encodeHex (bytes_of_string (texts i))"
      "0 \<notin> set (bytes_of_string (texts i))" using assms(3) lt by blast
    then have "hexToString (orig f) = Ok (texts i)" by (simp add: hexToString_encode)
    then show ?thesis using out(2) [of "arg_key i"] f(1) lt by (auto simp: decoded_arg_def)
  qed
  with out run show ?thesis by auto
qed

theorem execveArgs_decodes_witness:
  "\<exists>out. execveArgs [''argc'' \<mapsto> newField ''1'', ''a0'' \<mapsto> newField ''6C73202D6C''] = Ok out
     \<and> map_option fval (out ''a0'') = Some ''ls -l''"
proof -
  have "encodeHex (bytes_of_string ''ls -l'') = ''6C73202D6C''" "format_uint 1 = ''1''"
    "0 \<notin> set (bytes_of_string ''ls -l'')" "arg_key 0 = ''a0''" by code_simp+
  then show ?thesis
    using execveArgs_decodes [of 1 "[''argc'' \<mapsto> newField ''1'', ''a0'' \<mapsto> newField ''6C73202D6C'']" "\<lambda>_. ''ls -l''"]
    by (auto simp: newField_def)
qed

lemma fold_keys_other:
  "k \<notin> (\<lambda>x. key @ x) ` fst ` set kvs \<Longrightarrow>
     fold (\<lambda>(k, part) d. d(key @ k \<mapsto> newField part)) kvs d k = d k"
  by (induction kvs arbitrary: d) (auto split: prod.splits)

lemma fold_keys_stored:
  "distinct (map fst kvs) \<Longrightarrow> (x, part) \<in> set kvs \<Longrightarrow>
     fold (\<lambda>(k, part) d. d(key @ k \<mapsto> newField part)) kvs d (key @ x) = Some (newField part)"
proof (induction kvs arbitrary: d)
  case (Cons kv kvs)
  then show ?case
    by (cases kv) (auto simp: fold_keys_other image_iff fun_upd_same simp del: fun_upd_apply)
qed simp

text \<open>
  A SELinux context is split into at most five parts, stored under the suffixed keys in
  order, and nothing is lost: joined by colons the parts give the context back. The field
  itself is removed, and no other field changes.
\<close>

theorem parseSELinuxContext_parts:
  assumes "data key = Some f"
  shows "\<exists>parts out. parseSELinuxContext key data = Ok out
     \<and> str_join '':'' parts = fval f \<and> 1 \<le> length parts \<and> length parts \<le> 5
     \<and> (\<forall>i < length parts. out (key @ selinux_keys ! i) = Some (newField (parts ! i)))
     \<and> out key = None
     \<and> (\<forall>k. k \<noteq> key \<and> (\<forall>x \<in> set selinux_keys. k \<noteq> key @ x) \<longrightarrow> out k = data k)"
proof -
  let ?parts = "splitn_byte (length selinux_keys) (CHR '':'') (fval f)"
  let ?kvs = "zip selinux_keys ?parts"
  let ?out = "fold (\<lambda>(k, part) d. d(key @ k \<mapsto> newField part)) ?kvs (data(key := None))"
  have len: "1 \<le> length (splitn_byte (Suc n) c s) \<and> length (splitn_byte (Suc n) c s) \<le> Suc n" for n c s
    by (induction n arbitrary: s) (auto split: option.splits)
  have five: "length selinux_keys = Suc 4" and dist: "distinct selinux_keys" and ne: "[] \<notin> set selinux_keys"
    by (simp_all add: selinux_keys_def)
  have lens: "1 \<le> length ?parts" "length ?parts \<le> 5" using len [of 4] unfolding five by simp_all
  then have ok: "parseSELinuxContext key data = Ok ?out"
    using assms by (auto simp: parseSELinuxContext_def lookup_field_def Let_def)
  have join: "str_join '':'' ?parts = fval f" by (rule splitn_join) (simp add: five)
  have dk: "distinct (map fst ?kvs)" using dist by (simp add: map_fst_zip_take)
  have each: "?out (key @ selinux_keys ! i) = Some (newField (?parts ! i))" if "i < length ?parts" for i
    using that lens five by (intro fold_keys_stored [OF dk]) (auto simp: set_zip)
  have other: "?out k = (data(key := None)) k" if "\<forall>x \<in> set selinux_keys. k \<noteq> key @ x" for k
    using that by (intro fold_keys_other) (auto dest: set_zip_leftD)
  have "\<forall>x \<in> set selinux_keys. key \<noteq> key @ x" using ne by auto
  with other have "?out key = None" by simp
  with ok join lens each other show ?thesis by (intro exI [of _ ?parts] exI [of _ ?out]) simp
qed

theorem parseSELinuxContext_parts_witness:
  "\<exists>out. parseSELinuxContext ''subj'' [''subj'' \<mapsto> newField ''u:r:t:s0''] = Ok out \<and> out ''subj'' = None"
  using parseSELinuxContext_parts [of "[''subj'' \<mapsto> newField ''u:r:t:s0'']" "''subj''" "newField ''u:r:t:s0''"]
  by auto

text \<open>
  The keys of a rule, joined by the byte 1 and printed as hex, become the tags of the
  message, and the field \<^verbatim>\<open>key\<close> is removed.
\<close>

theorem auditRuleKey_tags:
  assumes "data ''key'' = Some f" and "keys \<noteq> []" and "\<forall>w \<in> set keys. char_of (1::nat) \<notin> set w"
    and "orig f = encodeHex (bytes_of_string (str_join [char_of (1::nat)] keys))"
  shows "auditRuleKey (data, tg) = (data(''key'' := None), keys)"
  using assms
  by (simp add: auditRuleKey_def key_tags_def decodeUppercaseHexString_encode split_join)

theorem auditRuleKey_tags_witness:
  "auditRuleKey ([''key'' \<mapsto> newField ''61016263''], []) = (Map.empty, [''a'', ''bc''])"
proof -
  have "encodeHex (bytes_of_string (str_join [char_of (1::nat)] [''a'', ''bc''])) = ''61016263''"
    "\<forall>w \<in> set [''a'', ''bc'']. char_of (1::nat) \<notin> set w" by code_simp+
  then show ?thesis
    using auditRuleKey_tags [of "[''key'' \<mapsto> newField ''61016263'']" "newField ''61016263''" "[''a'', ''bc'']" "[]"]
    by (simp add: newField_def)
qed

text \<open>
  The exit code of a failed call, printed as the negated error number, is replaced by the
  name of the error, and that name stands for the number in the reverse table.
\<close>

theorem exit_named:
  assumes "data ''exit'' = Some f" and "fval f = itoa (- n)" and "0 < n" and "n < 2 ^ 63"
    and "map_of AuditErrnoToName n = Some name"
  shows "exit data = Ok (data(''exit'' \<mapsto> f\<lparr>fval := name\<rparr>)) \<and> map_of AuditErrnoToNum name = Some n"
proof
  have "atoi (itoa (- n)) = (- n, None)"
    unfolding atoi_def using assms(3,4) by (intro parse_int_itoa) simp_all
  then show "exit data = Ok (data(''exit'' \<mapsto> f\<lparr>fval := name\<rparr>))"
    using assms by (simp add: exit_def lookup_field_def numeric_def with_message_def set_value_def)
  show "map_of AuditErrnoToNum name = Some n" by (rule errno_name_to_num [OF assms(5)])
qed

theorem exit_named_witness:
  "exit [''exit'' \<mapsto> newField ''-2''] = Ok [''exit'' \<mapsto> \<lparr>orig = ''-2'', fval = ''ENOENT''\<rparr>]"
proof -
  have "itoa (- 2) = ''-2''" by code_simp
  then show ?thesis
    using exit_named [of "[''exit'' \<mapsto> newField ''-2'']" "newField ''-2''" 2 "''ENOENT''"]
    by (simp add: newField_def AuditErrnoToName_def)
qed

end
