(* ===== verification/Auparse_Syscall.thy ===== *)
theory Auparse_Syscall
  imports Auparse_Roundtrip
begin

text \<open>
  The enrichment of a \<^verbatim>\<open>SYSCALL\<close> record, from the line of the log to the map that \<^verbatim>\<open>Data\<close> returns: which fields are
  translated and to what, which are renamed, and that the others are kept.
\<close>

section \<open>Printed pairs as fields\<close>






section \<open>The parts of the enrichment\<close>












section \<open>A record of a system call\<close>





end
