(* ===== verification/Go_Binary.thy ===== *)
theory Go_Binary
  imports Go_Prelude
begin

unbundle bit_operations_syntax

text \<open>
  Byte order: \<^verbatim>\<open>sys/endian.go\<close> and the part of \<^verbatim>\<open>encoding/binary\<close> that the netlink client, the
  audit status and the rule encoder use. The byte order of the machine is a parameter
  everywhere; \<open>GetEndian\<close> computes it from how the machine lays out an \<^verbatim>\<open>int32\<close>.
\<close>

section \<open>Definitions\<close>

datatype byte_order = LittleEndian | BigEndian

datatype io_error = EOF | ErrUnexpectedEOF

primrec PutUint16 :: "byte_order \<Rightarrow> u16 \<Rightarrow> bytes" where
  "PutUint16 LittleEndian v = [ucast v, ucast (drop_bit 8 v)]"
| "PutUint16 BigEndian v = [ucast (drop_bit 8 v), ucast v]"

primrec PutUint32 :: "byte_order \<Rightarrow> u32 \<Rightarrow> bytes" where
  "PutUint32 LittleEndian v =
     [ucast v, ucast (drop_bit 8 v), ucast (drop_bit 16 v), ucast (drop_bit 24 v)]"
| "PutUint32 BigEndian v =
     [ucast (drop_bit 24 v), ucast (drop_bit 16 v), ucast (drop_bit 8 v), ucast v]"

text \<open>Reading takes the bytes of the value; a caller that may have fewer checks first.\<close>

definition le_word :: "bytes \<Rightarrow> 'a::len word" where
  "le_word b = horner_sum ucast 256 b"

primrec Uint16 :: "byte_order \<Rightarrow> bytes \<Rightarrow> u16" where
  "Uint16 LittleEndian b = le_word b"
| "Uint16 BigEndian b = le_word (rev b)"

primrec Uint32 :: "byte_order \<Rightarrow> bytes \<Rightarrow> u32" where
  "Uint32 LittleEndian b = le_word b"
| "Uint32 BigEndian b = le_word (rev b)"

text \<open>
  \<^verbatim>\<open>GetEndian\<close> inspects the first byte of the memory of the \<^verbatim>\<open>int32\<close> value 1. The parameter is
  the machine's layout of a 32-bit value.
\<close>

definition GetEndian :: "(u32 \<Rightarrow> bytes) \<Rightarrow> byte_order" where
  "GetEndian layout = (let v = layout 1 in if v ! 0 = 0 then BigEndian else LittleEndian)"

text \<open>Arrays of fixed-width values are laid out one after the other.\<close>

primrec decode_list :: "nat \<Rightarrow> (bytes \<Rightarrow> 'a) \<Rightarrow> nat \<Rightarrow> bytes \<Rightarrow> 'a list" where
  "decode_list w dec 0 b = []"
| "decode_list w dec (Suc n) b = dec (take w b) # decode_list w dec n (drop w b)"

definition encode_u32s :: "byte_order \<Rightarrow> u32 list \<Rightarrow> bytes" where
  "encode_u32s bo ws = concat (map (PutUint32 bo) ws)"

definition decode_u32s :: "byte_order \<Rightarrow> nat \<Rightarrow> bytes \<Rightarrow> u32 list" where
  "decode_u32s bo n b = decode_list 4 (Uint32 bo) n b"

text \<open>
  \<^verbatim>\<open>io.ReadFull\<close> on a \<^verbatim>\<open>bytes.Reader\<close>, which is how \<^verbatim>\<open>binary.Read\<close> gets the bytes of a value of
  \<open>n > 0\<close> bytes: the bytes read and those left.
\<close>

definition read_full :: "nat \<Rightarrow> bytes \<Rightarrow> (io_error, bytes \<times> bytes) outcome" where
  "read_full n b = (if b = [] then Err EOF
                    else if length b < n then Err ErrUnexpectedEOF
                    else Ok (take n b, drop n b))"

section \<open>The fixed-width codec interface\<close>

text \<open>
  What a client of a fixed-width encoding relies on: every encoding has the width, decoding
  undoes it, and every string of that width is an encoding.
\<close>

locale fixed_codec =
  fixes enc :: "'a \<Rightarrow> bytes" and dec :: "bytes \<Rightarrow> 'a" and width :: nat
  assumes enc_length: "length (enc x) = width"
    and dec_enc: "dec (enc x) = x"
    and enc_dec: "length b = width \<Longrightarrow> enc (dec b) = b"
begin

lemma length_array: "length (concat (map enc xs)) = width * length xs"
  by (induction xs) (simp_all add: enc_length)

lemma decode_array: "decode_list width dec (length xs) (concat (map enc xs) @ rest) = xs"
  by (induction xs) (simp_all add: enc_length dec_enc)

lemma encode_array: "length b = width * n \<Longrightarrow> concat (map enc (decode_list width dec n b)) = b"
proof (induction n arbitrary: b)
  case (Suc n)
  then have "length (take width b) = width" and "length (drop width b) = width * n"
    by simp_all
  with Suc.IH [of "drop width b"] show ?case by (simp add: enc_dec)
qed simp

lemma enc_inj: "enc x = enc y \<longleftrightarrow> x = y"
  using dec_enc by metis

end

section \<open>Lemmas\<close>

lemma length_PutUint16 [simp, wire_simps]: "length (PutUint16 bo v) = 2"
  by (cases bo) simp_all

lemma length_PutUint32 [simp, wire_simps]: "length (PutUint32 bo v) = 4"
  by (cases bo) simp_all

lemma le_word_Cons: "le_word (x # xs) = ucast x + 256 * (le_word xs :: 'a::len word)"
  by (simp add: le_word_def)

lemma le_word_Nil: "le_word [] = (0 :: 'a::len word)"
  by (simp add: le_word_def)

lemma push_bit_8: "256 * (w :: 'a::len word) = push_bit 8 w"
  by (simp add: push_bit_eq_mult mult.commute)

lemma ucast_plus_push8:
  fixes x :: u8 and y :: "'a::len word"
  assumes "8 \<le> LENGTH('a)"
  shows "ucast x + push_bit 8 y = ucast x OR push_bit 8 y"
proof (rule disjunctive_add_eq_or)
  show "ucast x AND push_bit 8 y = (0 :: 'a word)"
    by (rule bit_word_eqI) (auto simp: bit_simps dest: bit_imp_le_length)
qed

lemma le_word_or:
  "8 \<le> LENGTH('a::len) \<Longrightarrow> le_word (x # xs) = ucast x OR push_bit 8 (le_word xs :: 'a word)"
  by (simp add: le_word_Cons push_bit_8 ucast_plus_push8)

lemma le_word_u32: "le_word [ucast v, ucast (drop_bit 8 v), ucast (drop_bit 16 v), ucast (drop_bit 24 v)] = (v :: u32)"
proof (rule bit_word_eqI)
  fix n assume n: "n < LENGTH(32)"
  then have "n < 8 \<or> (8 \<le> n \<and> n < 16) \<or> (16 \<le> n \<and> n < 24) \<or> (24 \<le> n \<and> n < 32)" by auto
  then show "bit (le_word [ucast v, ucast (drop_bit 8 v), ucast (drop_bit 16 v), ucast (drop_bit 24 v)] :: u32) n = bit v n"
    by (auto simp: le_word_or le_word_Nil bit_simps)
qed

lemma le_word_u16: "le_word [ucast v, ucast (drop_bit 8 v)] = (v :: u16)"
proof (rule bit_word_eqI)
  fix n assume n: "n < LENGTH(16)"
  then have "n < 8 \<or> (8 \<le> n \<and> n < 16)" by auto
  then show "bit (le_word [ucast v, ucast (drop_bit 8 v)] :: u16) n = bit v n"
    by (auto simp: le_word_or le_word_Nil bit_simps)
qed

lemma u32_bytes:
  fixes a b c d :: u8
  defines "v \<equiv> (le_word [a, b, c, d] :: u32)"
  shows "ucast v = a" "ucast (drop_bit 8 v) = b" "ucast (drop_bit 16 v) = c" "ucast (drop_bit 24 v) = d"
  by (rule bit_word_eqI; auto simp: v_def le_word_or le_word_Nil bit_simps dest: bit_imp_le_length)+

lemma u16_bytes:
  fixes a b :: u8
  defines "v \<equiv> (le_word [a, b] :: u16)"
  shows "ucast v = a" "ucast (drop_bit 8 v) = b"
  by (rule bit_word_eqI; auto simp: v_def le_word_or le_word_Nil bit_simps dest: bit_imp_le_length)+

lemma Uint32_PutUint32 [simp, wire_simps]: "Uint32 bo (PutUint32 bo v) = v"
  by (cases bo) (simp_all add: le_word_u32)

lemma Uint16_PutUint16 [simp, wire_simps]: "Uint16 bo (PutUint16 bo v) = v"
  by (cases bo) (simp_all add: le_word_u16)

lemma length_4_cases:
  assumes "length b = 4"
  obtains w x y z where "b = [w, x, y, z]"
  using assms by (auto simp: numeral_eq_Suc length_Suc_conv)

lemma length_2_cases:
  assumes "length b = 2"
  obtains w x where "b = [w, x]"
  using assms by (auto simp: numeral_eq_Suc length_Suc_conv)

lemma PutUint32_Uint32: "length b = 4 \<Longrightarrow> PutUint32 bo (Uint32 bo b) = b"
  by (erule length_4_cases, cases bo) (simp_all add: u32_bytes)

lemma PutUint16_Uint16: "length b = 2 \<Longrightarrow> PutUint16 bo (Uint16 bo b) = b"
  by (erule length_2_cases, cases bo) (simp_all add: u16_bytes)

interpretation u32: fixed_codec "PutUint32 bo" "Uint32 bo" 4
  by unfold_locales (simp_all add: PutUint32_Uint32)

interpretation u16: fixed_codec "PutUint16 bo" "Uint16 bo" 2
  by unfold_locales (simp_all add: PutUint16_Uint16)

lemma length_encode_u32s [simp, wire_simps]: "length (encode_u32s bo ws) = 4 * length ws"
  by (simp add: encode_u32s_def u32.length_array)

lemma decode_encode_u32s [simp, wire_simps]:
  "n = length ws \<Longrightarrow> decode_u32s bo n (encode_u32s bo ws @ rest) = ws"
  by (simp add: encode_u32s_def decode_u32s_def u32.decode_array)

lemma length_decode_u32s [simp]: "length (decode_u32s bo n b) = n"
  by (induction n arbitrary: b) (simp_all add: decode_u32s_def)

text \<open>Detection is right on a machine that stores integers in either of the two orders.\<close>

lemma GetEndian_layout: "GetEndian (PutUint32 bo) = bo"
  by (cases bo) (simp_all add: GetEndian_def)

text \<open>
  Byte order detection is right on a machine that stores integers in either of the two
  orders, and then every value written in the detected order is read back.
\<close>

theorem GetEndian_detects:
  "GetEndian (PutUint32 bo) = bo
   \<and> Uint32 (GetEndian (PutUint32 bo)) (PutUint32 bo v) = v
   \<and> (length b = 4 \<longrightarrow> PutUint32 bo (Uint32 (GetEndian (PutUint32 bo)) b) = b)"
  by (simp add: GetEndian_layout PutUint32_Uint32)

theorem GetEndian_detects_witness:
  "PutUint32 BigEndian (Uint32 (GetEndian (PutUint32 BigEndian)) [1, 2, 3, 4]) = [1, 2, 3, 4]"
  using GetEndian_detects [of BigEndian 0 "[1, 2, 3, 4]"] by (auto simp del: PutUint32.simps Uint32.simps)

end
