(* ===== verification/Netlink.thy ===== *)
theory Netlink
  imports Auparse_Message Go_Binary
begin

text \<open>
  \<^verbatim>\<open>netlink.go\<close>: the generic netlink client. The system calls are parameters, collected in the
  record \<open>kernel\<close> over a state of the outside world; the byte order of the machine is a
  parameter too. The buffers that the Go code shares between calls (\<^verbatim>\<open>readBuf\<close> backs the data
  of a received message) are copied here, so a received message is its value at the return
  of the call.
\<close>

section \<open>Errors and constants\<close>

type_synonym errno = u32

abbreviation EINTR :: errno where "EINTR \<equiv> 4"
abbreviation EAGAIN :: errno where "EAGAIN \<equiv> 11"
abbreviation EEXIST :: errno where "EEXIST \<equiv> 17"
abbreviation EINVAL :: errno where "EINVAL \<equiv> 22"
abbreviation EPROTONOSUPPORT :: errno where "EPROTONOSUPPORT \<equiv> 93"
abbreviation EAFNOSUPPORT :: errno where "EAFNOSUPPORT \<equiv> 97"

abbreviation AF_NETLINK :: int where "AF_NETLINK \<equiv> 16"
abbreviation SOCK_RAW :: int where "SOCK_RAW \<equiv> 3"
abbreviation NLMSG_HDRLEN :: nat where "NLMSG_HDRLEN \<equiv> 16"
abbreviation NLMSG_ERROR :: u16 where "NLMSG_ERROR \<equiv> 2"
abbreviation NLMSG_DONE :: u16 where "NLMSG_DONE \<equiv> 3"
abbreviation NLM_F_REQUEST :: u16 where "NLM_F_REQUEST \<equiv> 1"
abbreviation NLM_F_ACK :: u16 where "NLM_F_ACK \<equiv> 4"

datatype net_error =
    Errno errno
  | ErrShortHeader nat
  | ErrNotFromKernel
  | ErrSockaddrType
  | ErrNetlinkParse nat net_error
  | ErrErrnoTooShort
  | ErrBinary io_error
  | ErrWriter string
  | ErrNoReply
  | ErrUnexpectedType string u16
  | ErrUnexpectedSeq u32 u32
  | ErrRuleExists
  | ErrDeleteRule nat nat net_error
  | ErrWrapped string net_error

section \<open>Messages\<close>

record NlMsghdr =
  hdr_Len :: u32
  hdr_Type :: u16
  hdr_Flags :: u16
  hdr_Seq :: u32
  hdr_Pid :: u32

record NetlinkMessage =
  Header :: NlMsghdr
  nl_Data :: bytes

definition zero_hdr :: NlMsghdr where
  "zero_hdr = \<lparr>hdr_Len = 0, hdr_Type = 0, hdr_Flags = 0, hdr_Seq = 0, hdr_Pid = 0\<rparr>"

text \<open>
  \<^verbatim>\<open>serialize\<close>. The length is a \<^verbatim>\<open>uint32\<close>: it wraps for 4 GiB of data, and then the slices of the
  header panic or the copy is cut short, as here.
\<close>

definition header_bytes :: "byte_order \<Rightarrow> NlMsghdr \<Rightarrow> bytes" where
  "header_bytes bo h = PutUint32 bo (hdr_Len h) @ PutUint16 bo (hdr_Type h) @ PutUint16 bo (hdr_Flags h)
     @ PutUint32 bo (hdr_Seq h) @ PutUint32 bo (hdr_Pid h)"

definition serialize :: "byte_order \<Rightarrow> NetlinkMessage \<Rightarrow> (net_error, bytes) outcome" where
  "serialize bo msg =
     (let len = of_nat (16 + length (nl_Data msg)); h = (Header msg)\<lparr>hdr_Len := len\<rparr> in
      if unat len < 16 then Panic SliceOutOfRange
      else Ok (header_bytes bo h @ take (unat len - 16) (nl_Data msg)))"

text \<open>\<^verbatim>\<open>binary.Read\<close> of a header, field by field, from at least 16 bytes.\<close>

definition read_header :: "byte_order \<Rightarrow> bytes \<Rightarrow> NlMsghdr" where
  "read_header bo b =
     \<lparr>hdr_Len = Uint32 bo (between 0 4 b), hdr_Type = Uint16 bo (between 4 6 b),
      hdr_Flags = Uint16 bo (between 6 8 b), hdr_Seq = Uint32 bo (between 8 12 b),
      hdr_Pid = Uint32 bo (between 12 16 b)\<rparr>"

section \<open>The system calls\<close>

text \<open>\<open>SockaddrNetlink\<close> has the port and the groups; any other address is \<open>SockaddrOther\<close>.\<close>

datatype Sockaddr = SockaddrNetlink u32 u32 | SockaddrOther

record 'w kernel =
  sys_Socket :: "int \<Rightarrow> int \<Rightarrow> int \<Rightarrow> 'w \<Rightarrow> (net_error, int) outcome \<times> 'w"
  sys_Bind :: "int \<Rightarrow> Sockaddr \<Rightarrow> 'w \<Rightarrow> net_error option \<times> 'w"
  sys_Getsockname :: "int \<Rightarrow> 'w \<Rightarrow> (net_error, Sockaddr) outcome \<times> 'w"
  sys_Sendto :: "int \<Rightarrow> bytes \<Rightarrow> Sockaddr \<Rightarrow> 'w \<Rightarrow> net_error option \<times> 'w"
  sys_Recvfrom :: "int \<Rightarrow> nat \<Rightarrow> bool \<Rightarrow> 'w \<Rightarrow> (net_error, bytes \<times> Sockaddr) outcome \<times> 'w"
  sys_Close :: "int \<Rightarrow> 'w \<Rightarrow> net_error option \<times> 'w"
  sys_Write :: "bytes \<Rightarrow> 'w \<Rightarrow> net_error option \<times> 'w"
  page_size :: nat

section \<open>The client\<close>

record NetlinkClient =
  nl_fd :: int
  nl_src :: Sockaddr
  nl_dest :: Sockaddr
  nl_pid :: u32
  nl_seq :: u32
  nl_readBuf :: nat
  nl_respWriter :: bool

definition getPortID :: "'w kernel \<Rightarrow> int \<Rightarrow> 'w \<Rightarrow> (net_error, u32) outcome \<times> 'w" where
  "getPortID K fd w =
     (case sys_Getsockname K fd w of
        (Ok (SockaddrNetlink pid groups), w) \<Rightarrow> (Ok pid, w)
      | (Ok SockaddrOther, w) \<Rightarrow> (Err ErrSockaddrType, w)
      | (Err e, w) \<Rightarrow> (Err e, w)
      | (Panic p, w) \<Rightarrow> (Panic p, w))"

text \<open>The read buffer is given by its length, 0 when none is provided.\<close>

definition NewNetlinkClient ::
  "'w kernel \<Rightarrow> int \<Rightarrow> u32 \<Rightarrow> nat \<Rightarrow> bool \<Rightarrow> 'w \<Rightarrow> (net_error, NetlinkClient) outcome \<times> 'w" where
  "NewNetlinkClient K proto groups readBuf resp w =
     (case sys_Socket K AF_NETLINK SOCK_RAW proto w of
        (Err e, w) \<Rightarrow> (Err e, w)
      | (Panic p, w) \<Rightarrow> (Panic p, w)
      | (Ok s, w) \<Rightarrow>
         (case sys_Bind K s (SockaddrNetlink 0 groups) w of
            (Some e, w) \<Rightarrow> (Err (ErrWrapped ''bind failed'' e), snd (sys_Close K s w))
          | (None, w) \<Rightarrow>
             (case getPortID K s w of
                (Err e, w) \<Rightarrow> (Err e, snd (sys_Close K s w))
              | (Panic p, w) \<Rightarrow> (Panic p, w)
              | (Ok pid, w) \<Rightarrow>
                 (Ok \<lparr>nl_fd = s, nl_src = SockaddrNetlink 0 groups, nl_dest = SockaddrNetlink 0 0,
                      nl_pid = pid, nl_seq = 0,
                      nl_readBuf = (if readBuf = 0 then page_size K else readBuf),
                      nl_respWriter = resp\<rparr>, w))))"

text \<open>\<^verbatim>\<open>Send\<close>: the sequence number is the incremented counter, also when sending fails.\<close>

definition Send ::
  "'w kernel \<Rightarrow> byte_order \<Rightarrow> NetlinkMessage \<Rightarrow> NetlinkClient \<times> 'w
     \<Rightarrow> (net_error, u32 \<times> net_error option) outcome \<times> NetlinkClient \<times> 'w" where
  "Send K bo msg cw =
     (let c = fst cw; w = snd cw; h = Header msg;
          h = (if hdr_Pid h = 0 then h\<lparr>hdr_Pid := nl_pid c\<rparr> else h);
          s = nl_seq c + 1; c = c\<lparr>nl_seq := s\<rparr> in
      case serialize bo (msg\<lparr>Header := h\<lparr>hdr_Seq := s\<rparr>\<rparr>) of
        Ok b \<Rightarrow> (case sys_Sendto K (nl_fd c) b (SockaddrNetlink 0 0) w of (e, w) \<Rightarrow> (Ok (s, e), c, w))
      | Err e \<Rightarrow> (Err e, c, w)
      | Panic p \<Rightarrow> (Panic p, c, w))"

type_synonym parser = "bytes \<Rightarrow> (net_error, NetlinkMessage list) outcome"

definition parse_received ::
  "parser \<Rightarrow> nat \<Rightarrow> bytes \<Rightarrow> (net_error, NetlinkMessage list) outcome" where
  "parse_received p nr buf =
     (case p buf of
        Ok msgs \<Rightarrow> Ok msgs
      | Err e \<Rightarrow> Err (ErrNetlinkParse nr e)
      | Panic q \<Rightarrow> Panic q)"

definition Receive ::
  "'w kernel \<Rightarrow> bool \<Rightarrow> parser \<Rightarrow> NetlinkClient \<times> 'w
     \<Rightarrow> (net_error, NetlinkMessage list) outcome \<times> NetlinkClient \<times> 'w" where
  "Receive K nonBlocking p cw =
     (let c = fst cw in
      case sys_Recvfrom K (nl_fd c) (nl_readBuf c) nonBlocking (snd cw) of
        (Err e, w) \<Rightarrow> (Err e, c, w)
      | (Panic q, w) \<Rightarrow> (Panic q, c, w)
      | (Ok (buf, from), w) \<Rightarrow>
         if length buf < NLMSG_HDRLEN then (Err (ErrShortHeader (length buf)), c, w)
         else
           (case from of
              SockaddrOther \<Rightarrow> (Err ErrNotFromKernel, c, w)
            | SockaddrNetlink pid groups \<Rightarrow>
                if pid \<noteq> 0 then (Err ErrNotFromKernel, c, w)
                else if nl_readBuf c < length buf then (Panic SliceOutOfRange, c, w)
                else if nl_respWriter c then
                  (case sys_Write K buf w of
                     (Some e, w) \<Rightarrow> (Err e, c, w)
                   | (None, w) \<Rightarrow> (parse_received p (length buf) buf, c, w))
                else (parse_received p (length buf) buf, c, w)))"

definition nl_Close :: "'w kernel \<Rightarrow> NetlinkClient \<times> 'w \<Rightarrow> net_error option \<times> NetlinkClient \<times> 'w" where
  "nl_Close K cw = (case sys_Close K (nl_fd (fst cw)) (snd cw) of (e, w) \<Rightarrow> (e, fst cw, w))"

section \<open>Error codes\<close>

text \<open>\<^verbatim>\<open>ParseNetlinkError\<close>: \<open>None\<close> is success.\<close>

definition ParseNetlinkError :: "byte_order \<Rightarrow> bytes \<Rightarrow> net_error option" where
  "ParseNetlinkError bo netlinkData =
     (if length netlinkData \<ge> 4
      then (let errno = - Uint32 bo (take 4 netlinkData) in
            if errno = 0 then None else Some (Errno errno))
      else Some ErrErrnoTooShort)"

section \<open>Laws\<close>

lemma length_header_bytes [simp]: "length (header_bytes bo h) = 16"
  by (simp add: header_bytes_def)

lemma between_skip: "length xs \<le> a \<Longrightarrow> between a b (xs @ ys) = between (a - length xs) (b - length xs) ys"
  by (simp add: between_def)

lemma between_front: "length xs = b \<Longrightarrow> between 0 b (xs @ ys) = xs"
  by (simp add: between_def)

lemma read_header_bytes: "read_header bo (header_bytes bo h @ rest) = h"
  by (simp add: read_header_def header_bytes_def between_skip between_front)

lemma serialize_ok:
  assumes "16 + length (nl_Data msg) < 2 ^ 32"
  shows "serialize bo msg
    = Ok (header_bytes bo ((Header msg)\<lparr>hdr_Len := of_nat (16 + length (nl_Data msg))\<rparr>) @ nl_Data msg)"
proof -
  have "unat (of_nat (16 + length (nl_Data msg)) :: u32) = 16 + length (nl_Data msg)"
    using assms by (simp add: unsigned_of_nat take_bit_eq_mod del: of_nat_add)
  then show ?thesis by (simp add: serialize_def Let_def del: of_nat_add)
qed

section \<open>The interface NetlinkSendReceiver\<close>

text \<open>The audit client uses the netlink client through an interface: its methods over a state.\<close>

record 'n NetlinkSendReceiver =
  op_Send :: "NetlinkMessage \<Rightarrow> 'n \<Rightarrow> (net_error, u32 \<times> net_error option) outcome \<times> 'n"
  op_Receive :: "bool \<Rightarrow> parser \<Rightarrow> 'n \<Rightarrow> (net_error, NetlinkMessage list) outcome \<times> 'n"
  op_Close :: "'n \<Rightarrow> net_error option \<times> 'n"

definition netlink_ops :: "'w kernel \<Rightarrow> byte_order \<Rightarrow> (NetlinkClient \<times> 'w) NetlinkSendReceiver" where
  "netlink_ops K bo = \<lparr>op_Send = Send K bo, op_Receive = Receive K, op_Close = nl_Close K\<rparr>"

text \<open>
  What the audit client relies on: every message sent gets the next sequence number,
  receiving does not use one up, and the messages received are what the parser made of some
  datagram of at least a header.
\<close>

locale netlink_transport =
  fixes ops :: "'n NetlinkSendReceiver" and last_seq :: "'n \<Rightarrow> u32"
  assumes send_seq: "op_Send ops m n = (Ok (s, e), n') \<Longrightarrow> s = last_seq n + 1 \<and> last_seq n' = s"
    and receive_seq: "op_Receive ops nb p n = (r, n') \<Longrightarrow> last_seq n' = last_seq n"
    and receive_parsed: "op_Receive ops nb p n = (Ok ms, n') \<Longrightarrow> \<exists>buf. NLMSG_HDRLEN \<le> length buf \<and> p buf = Ok ms"

lemma Send_seq:
  "Send K bo m cw = (Ok (s, e), cw') \<Longrightarrow> s = nl_seq (fst cw) + 1 \<and> nl_seq (fst cw') = s"
  by (auto simp: Send_def Let_def split: outcome.splits prod.splits)

lemma Receive_client: "Receive K nb p cw = (r, cw') \<Longrightarrow> fst cw' = fst cw"
  by (auto simp: Receive_def Let_def split: outcome.splits prod.splits Sockaddr.splits if_splits option.splits)

lemma parse_received_Ok: "parse_received p nr buf = Ok ms \<longleftrightarrow> p buf = Ok ms"
  by (auto simp: parse_received_def split: outcome.splits)

lemma Receive_parsed:
  "Receive K nb p cw = (Ok ms, cw') \<Longrightarrow> \<exists>buf. NLMSG_HDRLEN \<le> length buf \<and> p buf = Ok ms"
  by (auto simp: Receive_def Let_def parse_received_Ok not_less
      split: outcome.splits prod.splits Sockaddr.splits if_splits option.splits)

interpretation nlc: netlink_transport "netlink_ops K bo" "\<lambda>cw. nl_seq (fst cw)"
  by unfold_locales
     (auto simp: netlink_ops_def dest: Send_seq Receive_client Receive_parsed)

text \<open>
  \<^verbatim>\<open>ParseNetlinkError\<close> undoes the kernel's encoding of an error number as a negated 32-bit
  integer: 0 is success, and every other number comes back, whatever follows it in the message.
\<close>

theorem ParseNetlinkError_kernel:
  "ParseNetlinkError bo (PutUint32 bo (- e) @ rest) = (if e = 0 then None else Some (Errno e))"
  by (simp add: ParseNetlinkError_def Let_def)

section \<open>Sending\<close>

text \<open>The header of the datagram for a message.\<close>

definition sent_header :: "NetlinkClient \<Rightarrow> NetlinkMessage \<Rightarrow> NlMsghdr" where
  "sent_header c msg =
     \<lparr>hdr_Len = of_nat (16 + length (nl_Data msg)), hdr_Type = hdr_Type (Header msg),
      hdr_Flags = hdr_Flags (Header msg), hdr_Seq = nl_seq c + 1,
      hdr_Pid = (if hdr_Pid (Header msg) = 0 then nl_pid c else hdr_Pid (Header msg))\<rparr>"

lemma Send_bytes:
  assumes "16 + length (nl_Data msg) < 2 ^ 32"
  shows "Send K bo msg (c, w) =
    (case sys_Sendto K (nl_fd c) (header_bytes bo (sent_header c msg) @ nl_Data msg) (SockaddrNetlink 0 0) w of
       (e, w') \<Rightarrow> (Ok (nl_seq c + 1, e), c\<lparr>nl_seq := nl_seq c + 1\<rparr>, w'))"
proof -
  let ?h = "if hdr_Pid (Header msg) = 0 then (Header msg)\<lparr>hdr_Pid := nl_pid c\<rparr> else Header msg"
  have "?h\<lparr>hdr_Seq := nl_seq c + 1, hdr_Len := of_nat (16 + length (nl_Data msg))\<rparr> = sent_header c msg"
    by (cases "Header msg") (simp add: sent_header_def)
  then have "serialize bo (msg\<lparr>Header := ?h\<lparr>hdr_Seq := nl_seq c + 1\<rparr>\<rparr>)
      = Ok (header_bytes bo (sent_header c msg) @ nl_Data msg)"
    using assms by (subst serialize_ok) (simp_all del: of_nat_add)
  then show ?thesis by (simp add: Send_def Let_def)
qed

end
