(* ===== verification/Audit_Client.thy ===== *)
theory Audit_Client
  imports Netlink
begin

text \<open>
  \<^verbatim>\<open>audit.go\<close>: the audit client. It talks to the kernel through the interface
  \<open>NetlinkSendReceiver\<close>, whose methods are the parameter \<open>ops\<close> of every operation, over a
  state \<open>'n\<close> that the client carries. Replies are awaited in loops that need not end when the
  kernel never stops sending events: a call is an option, \<open>None\<close> when it does not return.
\<close>

section \<open>The status message\<close>

record AuditStatus =
  Mask :: u32
  Enabled :: u32
  Failure :: u32
  PID :: u32
  RateLimit :: u32
  BacklogLimit :: u32
  Lost :: u32
  Backlog :: u32
  FeatureBitmap :: u32
  BacklogWaitTime :: u32

definition zero_status :: AuditStatus where
  "zero_status = \<lparr>Mask = 0, Enabled = 0, Failure = 0, PID = 0, RateLimit = 0, BacklogLimit = 0,
     Lost = 0, Backlog = 0, FeatureBitmap = 0, BacklogWaitTime = 0\<rparr>"

abbreviation AuditStatusEnabled :: u32 where "AuditStatusEnabled \<equiv> 1"
abbreviation AuditStatusFailure :: u32 where "AuditStatusFailure \<equiv> 2"
abbreviation AuditStatusPID :: u32 where "AuditStatusPID \<equiv> 4"
abbreviation AuditStatusRateLimit :: u32 where "AuditStatusRateLimit \<equiv> 8"
abbreviation AuditStatusBacklogLimit :: u32 where "AuditStatusBacklogLimit \<equiv> 16"
abbreviation AuditStatusBacklogWaitTime :: u32 where "AuditStatusBacklogWaitTime \<equiv> 32"
abbreviation AuditStatusLost :: u32 where "AuditStatusLost \<equiv> 64"

text \<open>The fields in the order of the struct.\<close>

definition status_words :: "AuditStatus \<Rightarrow> u32 list" where
  "status_words s = [Mask s, Enabled s, Failure s, PID s, RateLimit s, BacklogLimit s, Lost s,
     Backlog s, FeatureBitmap s, BacklogWaitTime s]"

definition status_of_words :: "u32 list \<Rightarrow> AuditStatus" where
  "status_of_words v = \<lparr>Mask = v ! 0, Enabled = v ! 1, Failure = v ! 2, PID = v ! 3, RateLimit = v ! 4,
     BacklogLimit = v ! 5, Lost = v ! 6, Backlog = v ! 7, FeatureBitmap = v ! 8, BacklogWaitTime = v ! 9\<rparr>"

definition toWireFormat :: "byte_order \<Rightarrow> AuditStatus \<Rightarrow> bytes" where
  "toWireFormat bo s = encode_u32s bo (status_words s)"

text \<open>The loop of \<^verbatim>\<open>FromWireFormat\<close>: the fields that are not read keep their values.\<close>

fun read_fields :: "byte_order \<Rightarrow> bytes \<Rightarrow> u32 list \<Rightarrow> u32 list \<times> net_error option" where
  "read_fields bo b [] = ([], None)"
| "read_fields bo b (f # fs) =
     (if b = [] then (f # fs, None)
      else (case read_full 4 b of
              Ok (v, b') \<Rightarrow> (case read_fields bo b' fs of (vs, e) \<Rightarrow> (Uint32 bo v # vs, e))
            | Err e \<Rightarrow> (f # fs, Some (ErrBinary e))
            | Panic p \<Rightarrow> (f # fs, None)))"

definition FromWireFormat :: "byte_order \<Rightarrow> bytes \<Rightarrow> AuditStatus \<Rightarrow> AuditStatus \<times> net_error option" where
  "FromWireFormat bo buf s =
     (if buf = [] then (s, Some (ErrBinary EOF))
      else (case read_fields bo buf (status_words s) of (vs, e) \<Rightarrow> (status_of_words vs, e)))"

section \<open>Message parsing\<close>

definition parseNetlinkAuditMessage :: "byte_order \<Rightarrow> parser" where
  "parseNetlinkAuditMessage bo buf =
     (if length buf < NLMSG_HDRLEN then Err (Errno EINVAL)
      else Ok [\<lparr>Header = read_header bo buf, nl_Data = drop NLMSG_HDRLEN buf\<rparr>])"

section \<open>The client\<close>

abbreviation AuditGet :: u16 where "AuditGet \<equiv> 1000"
abbreviation AuditSet :: u16 where "AuditSet \<equiv> 1001"
abbreviation NetlinkGroupNone :: u32 where "NetlinkGroupNone \<equiv> 0"
abbreviation NetlinkGroupReadLog :: u32 where "NetlinkGroupReadLog \<equiv> 1"
abbreviation AuditMessageMaxLength :: nat where "AuditMessageMaxLength \<equiv> 8970"
abbreviation NETLINK_AUDIT :: int where "NETLINK_AUDIT \<equiv> 9"

datatype WaitMode = WaitForReply | NoWait

text \<open>The constants are declared by repetition of the expression 0, without \<^verbatim>\<open>iota\<close>.\<close>

definition SilentOnFailure :: u32 where "SilentOnFailure = 0"

definition LogOnFailure :: u32 where "LogOnFailure = 0"

definition PanicOnFailure :: u32 where "PanicOnFailure = 0"

record 'n AuditClient =
  Netlink :: 'n
  pendingAcks :: "u32 list"
  clearPIDOnClose :: bool
  closed :: bool

type_synonym ('n, 'a) call = "((net_error, 'a) outcome \<times> 'n AuditClient) option"

definition newAuditClient ::
  "'w kernel \<Rightarrow> u32 \<Rightarrow> bool \<Rightarrow> 'w \<Rightarrow> (net_error, (NetlinkClient \<times> 'w) AuditClient) outcome \<times> 'w" where
  "newAuditClient K netlinkGroups resp w =
     (case NewNetlinkClient K NETLINK_AUDIT netlinkGroups (NLMSG_HDRLEN + AuditMessageMaxLength) resp w of
        (Ok netlink, w) \<Rightarrow>
          (Ok \<lparr>Netlink = (netlink, w), pendingAcks = [], clearPIDOnClose = False, closed = False\<rparr>, w)
      | (Err e, w) \<Rightarrow>
          (Err (if e \<in> {Errno EINVAL, Errno EPROTONOSUPPORT, Errno EAFNOSUPPORT}
                then ErrWrapped ''audit not supported by kernel'' e
                else ErrWrapped ''failed to open audit netlink socket'' e), w)
      | (Panic p, w) \<Rightarrow> (Panic p, w))"

definition NewAuditClient ::
  "'w kernel \<Rightarrow> bool \<Rightarrow> 'w \<Rightarrow> (net_error, (NetlinkClient \<times> 'w) AuditClient) outcome \<times> 'w" where
  "NewAuditClient K resp = newAuditClient K NetlinkGroupNone resp"

definition NewMulticastAuditClient ::
  "'w kernel \<Rightarrow> bool \<Rightarrow> 'w \<Rightarrow> (net_error, (NetlinkClient \<times> 'w) AuditClient) outcome \<times> 'w" where
  "NewMulticastAuditClient K resp = newAuditClient K NetlinkGroupReadLog resp"

section \<open>Calls\<close>

text \<open>Sequencing: a call that fails ends the caller, with \<^verbatim>\<open>errors.Wrap\<close> where the source wraps.\<close>

definition and_then :: "('n, 'a) call \<Rightarrow> ('a \<Rightarrow> 'n AuditClient \<Rightarrow> ('n, 'b) call) \<Rightarrow> ('n, 'b) call" where
  "and_then m f =
     Option.bind m (\<lambda>(r, c). case r of
         Ok a \<Rightarrow> f a c
       | Err e \<Rightarrow> Some (Err e, c)
       | Panic p \<Rightarrow> Some (Panic p, c))"

definition wrap :: "string \<Rightarrow> ('n, 'a) call \<Rightarrow> ('n, 'a) call" where
  "wrap text m = map_option (\<lambda>(r, c). (case r of Err e \<Rightarrow> Err (ErrWrapped text e) | _ \<Rightarrow> r, c)) m"

definition return :: "'a \<Rightarrow> 'n AuditClient \<Rightarrow> ('n, 'a) call" where
  "return a c = Some (Ok a, c)"

definition fail :: "net_error \<Rightarrow> 'n AuditClient \<Rightarrow> ('n, 'a) call" where
  "fail e c = Some (Err e, c)"

text \<open>\<^verbatim>\<open>c.Netlink.Send\<close>: the sequence number, or the error of the system call.\<close>

definition client_send ::
  "'n NetlinkSendReceiver \<Rightarrow> NetlinkMessage \<Rightarrow> 'n AuditClient \<Rightarrow> ('n, u32) call" where
  "client_send ops msg c =
     (case op_Send ops msg (Netlink c) of
        (Ok (s, None), n) \<Rightarrow> Some (Ok s, c\<lparr>Netlink := n\<rparr>)
      | (Ok (s, Some e), n) \<Rightarrow> Some (Err e, c\<lparr>Netlink := n\<rparr>)
      | (Err e, n) \<Rightarrow> Some (Err e, c\<lparr>Netlink := n\<rparr>)
      | (Panic p, n) \<Rightarrow> Some (Panic p, c\<lparr>Netlink := n\<rparr>))"

section \<open>Waiting for a reply\<close>

text \<open>
  The inner loop of \<^verbatim>\<open>getReply\<close>: up to ten non-blocking reads, repeated on \<^verbatim>\<open>EINTR\<close> and (after a
  pause) on \<^verbatim>\<open>EAGAIN\<close>. When all fail there are no messages.
\<close>

primrec receive_retry ::
  "'n NetlinkSendReceiver \<Rightarrow> byte_order \<Rightarrow> nat \<Rightarrow> 'n \<Rightarrow> (net_error, NetlinkMessage list) outcome \<times> 'n" where
  "receive_retry ops bo 0 n = (Ok [], n)"
| "receive_retry ops bo (Suc k) n =
     (case op_Receive ops True (parseNetlinkAuditMessage bo) n of
        (Ok msgs, n') \<Rightarrow> (Ok msgs, n')
      | (Panic p, n') \<Rightarrow> (Panic p, n')
      | (Err e, n') \<Rightarrow>
          if e = Errno EINTR \<or> e = Errno EAGAIN then receive_retry ops bo k n'
          else (Err (ErrWrapped ''error receiving audit reply'' e), n'))"

text \<open>An audit event (sequence number 0) that came between request and reply is skipped.\<close>

definition skipped :: "u32 \<Rightarrow> (net_error, NetlinkMessage list) outcome \<Rightarrow> bool" where
  "skipped s r = (case r of
     Ok (msg # _) \<Rightarrow> hdr_Seq (Header msg) = 0 \<and> s \<noteq> 0
   | _ \<Rightarrow> False)"

definition reply_of ::
  "u32 \<Rightarrow> (net_error, NetlinkMessage list) outcome \<Rightarrow> (net_error, NetlinkMessage) outcome" where
  "reply_of s r = (case r of
     Ok [] \<Rightarrow> Err ErrNoReply
   | Ok (msg # _) \<Rightarrow>
       if hdr_Seq (Header msg) \<noteq> s then Err (ErrUnexpectedSeq s (hdr_Seq (Header msg))) else Ok msg
   | Err e \<Rightarrow> Err e
   | Panic p \<Rightarrow> Panic p)"

partial_function (option) reply_loop ::
  "'n NetlinkSendReceiver \<Rightarrow> byte_order \<Rightarrow> u32 \<Rightarrow> 'n \<Rightarrow> ((net_error, NetlinkMessage) outcome \<times> 'n) option" where
  "reply_loop ops bo s n =
     (case receive_retry ops bo 10 n of (r, n') \<Rightarrow>
        if skipped s r then reply_loop ops bo s n' else Some (reply_of s r, n'))"

definition getReply ::
  "'n NetlinkSendReceiver \<Rightarrow> byte_order \<Rightarrow> u32 \<Rightarrow> 'n AuditClient \<Rightarrow> ('n, NetlinkMessage) call" where
  "getReply ops bo s c =
     map_option (\<lambda>(r, n). (r, c\<lparr>Netlink := n\<rparr>)) (reply_loop ops bo s (Netlink c))"

text \<open>The check of an acknowledgement: an error message with error number 0.\<close>

definition check_ack :: "byte_order \<Rightarrow> string \<Rightarrow> NetlinkMessage \<Rightarrow> 'n AuditClient \<Rightarrow> ('n, unit) call" where
  "check_ack bo what ack c =
     (if hdr_Type (Header ack) \<noteq> NLMSG_ERROR then fail (ErrUnexpectedType what (hdr_Type (Header ack))) c
      else (case ParseNetlinkError bo (nl_Data ack) of Some e \<Rightarrow> fail e c | None \<Rightarrow> return () c))"

section \<open>Requests\<close>

definition request :: "u16 \<Rightarrow> u16 \<Rightarrow> bytes \<Rightarrow> NetlinkMessage" where
  "request t flags data = \<lparr>Header = zero_hdr\<lparr>hdr_Type := t, hdr_Flags := flags\<rparr>, nl_Data = data\<rparr>"

definition storePendingAck :: "u32 \<Rightarrow> 'n AuditClient \<Rightarrow> 'n AuditClient" where
  "storePendingAck requestID c = c\<lparr>pendingAcks := pendingAcks c @ [requestID]\<rparr>"

definition set_status ::
  "'n NetlinkSendReceiver \<Rightarrow> byte_order \<Rightarrow> AuditStatus \<Rightarrow> WaitMode \<Rightarrow> 'n AuditClient \<Rightarrow> ('n, unit) call" where
  "set_status ops bo status mode c =
     and_then (wrap ''failed sending request''
         (client_send ops (request AuditSet 5 (toWireFormat bo status)) c)) (\<lambda>s c.
     if mode = NoWait then return () (storePendingAck s c)
     else and_then (getReply ops bo s c) (\<lambda>ack c. check_ack bo ''unexpected ACK to SET'' ack c))"

definition SetPID :: "'n NetlinkSendReceiver \<Rightarrow> byte_order \<Rightarrow> u32 \<Rightarrow> WaitMode \<Rightarrow> 'n AuditClient \<Rightarrow> ('n, unit) call" where
  "SetPID ops bo getpid wm c =
     set_status ops bo (zero_status\<lparr>Mask := AuditStatusPID, PID := getpid\<rparr>) wm (c\<lparr>clearPIDOnClose := True\<rparr>)"

definition SetRateLimit :: "'n NetlinkSendReceiver \<Rightarrow> byte_order \<Rightarrow> u32 \<Rightarrow> WaitMode \<Rightarrow> 'n AuditClient \<Rightarrow> ('n, unit) call" where
  "SetRateLimit ops bo perSecondLimit wm c =
     set_status ops bo (zero_status\<lparr>Mask := AuditStatusRateLimit, RateLimit := perSecondLimit\<rparr>) wm c"

definition SetBacklogLimit :: "'n NetlinkSendReceiver \<Rightarrow> byte_order \<Rightarrow> u32 \<Rightarrow> WaitMode \<Rightarrow> 'n AuditClient \<Rightarrow> ('n, unit) call" where
  "SetBacklogLimit ops bo limit wm c =
     set_status ops bo (zero_status\<lparr>Mask := AuditStatusBacklogLimit, BacklogLimit := limit\<rparr>) wm c"

definition SetEnabled :: "'n NetlinkSendReceiver \<Rightarrow> byte_order \<Rightarrow> bool \<Rightarrow> WaitMode \<Rightarrow> 'n AuditClient \<Rightarrow> ('n, unit) call" where
  "SetEnabled ops bo enabled wm c =
     set_status ops bo (zero_status\<lparr>Mask := AuditStatusEnabled, Enabled := (if enabled then 1 else 0)\<rparr>) wm c"

definition SetImmutable :: "'n NetlinkSendReceiver \<Rightarrow> byte_order \<Rightarrow> WaitMode \<Rightarrow> 'n AuditClient \<Rightarrow> ('n, unit) call" where
  "SetImmutable ops bo wm c =
     set_status ops bo (zero_status\<lparr>Mask := AuditStatusEnabled, Enabled := 2\<rparr>) wm c"

definition SetFailure :: "'n NetlinkSendReceiver \<Rightarrow> byte_order \<Rightarrow> u32 \<Rightarrow> WaitMode \<Rightarrow> 'n AuditClient \<Rightarrow> ('n, unit) call" where
  "SetFailure ops bo fm wm c =
     set_status ops bo (zero_status\<lparr>Mask := AuditStatusFailure, Failure := fm\<rparr>) wm c"

definition SetBacklogWaitTime :: "'n NetlinkSendReceiver \<Rightarrow> byte_order \<Rightarrow> 32 word \<Rightarrow> WaitMode \<Rightarrow> 'n AuditClient \<Rightarrow> ('n, unit) call" where
  "SetBacklogWaitTime ops bo waitTime wm c =
     set_status ops bo (zero_status\<lparr>Mask := AuditStatusBacklogWaitTime, BacklogWaitTime := waitTime\<rparr>) wm c"

definition GetStatusAsync :: "'n NetlinkSendReceiver \<Rightarrow> bool \<Rightarrow> 'n AuditClient \<Rightarrow> ('n, u32) call" where
  "GetStatusAsync ops requireACK c =
     client_send ops (request AuditGet (if requireACK then 5 else NLM_F_REQUEST) []) c"

definition GetStatus :: "'n NetlinkSendReceiver \<Rightarrow> byte_order \<Rightarrow> 'n AuditClient \<Rightarrow> ('n, AuditStatus) call" where
  "GetStatus ops bo c =
     and_then (wrap ''failed sending request'' (GetStatusAsync ops True c)) (\<lambda>s c.
     and_then (wrap ''failed to get audit status ack'' (getReply ops bo s c)) (\<lambda>ack c.
     and_then (check_ack bo ''unexpected ACK to GET'' ack c) (\<lambda>_ c.
     and_then (wrap ''failed to get audit status reply'' (getReply ops bo s c)) (\<lambda>reply c.
     if hdr_Type (Header reply) \<noteq> AuditGet
     then fail (ErrUnexpectedType ''unexpected reply to GET'' (hdr_Type (Header reply))) c
     else (case FromWireFormat bo (nl_Data reply) zero_status of
             (status, None) \<Rightarrow> return status c
           | (_, Some e) \<Rightarrow> fail (ErrWrapped ''failed to unmarshal reply'' e) c)))))"

section \<open>Rules\<close>

text \<open>The loop of \<^verbatim>\<open>GetRules\<close>, which ends at the message \<^verbatim>\<open>NLMSG_DONE\<close>.\<close>

definition rule_reply :: "(net_error, NetlinkMessage) outcome \<Rightarrow> bytes option" where
  "rule_reply r = (case r of
     Ok reply \<Rightarrow> if hdr_Type (Header reply) = AUDIT_LIST_RULES then Some (nl_Data reply) else None
   | _ \<Rightarrow> None)"

definition rules_end :: "bytes list \<Rightarrow> (net_error, NetlinkMessage) outcome \<Rightarrow> (net_error, bytes list) outcome" where
  "rules_end rules r = (case r of
     Ok reply \<Rightarrow>
       if hdr_Type (Header reply) = NLMSG_DONE then Ok rules
       else Err (ErrUnexpectedType ''unexpected message type while receiving rules'' (hdr_Type (Header reply)))
   | Err e \<Rightarrow> Err (ErrWrapped ''failed receive rule data'' e)
   | Panic p \<Rightarrow> Panic p)"

partial_function (option) rules_loop ::
  "'n NetlinkSendReceiver \<Rightarrow> byte_order \<Rightarrow> u32 \<Rightarrow> bytes list \<Rightarrow> 'n AuditClient \<Rightarrow> ('n, bytes list) call" where
  "rules_loop ops bo s rules c =
     Option.bind (getReply ops bo s c) (\<lambda>(r, c').
       case rule_reply r of
         Some rule \<Rightarrow> rules_loop ops bo s (rules @ [rule]) c'
       | None \<Rightarrow> Some (rules_end rules r, c'))"

definition GetRules :: "'n NetlinkSendReceiver \<Rightarrow> byte_order \<Rightarrow> 'n AuditClient \<Rightarrow> ('n, bytes list) call" where
  "GetRules ops bo c =
     and_then (wrap ''failed sending request''
         (client_send ops (request AUDIT_LIST_RULES 5 []) c)) (\<lambda>s c.
     and_then (wrap ''failed to get audit ACK'' (getReply ops bo s c)) (\<lambda>ack c.
     and_then (check_ack bo ''unexpected ACK to LIST_RULES'' ack c) (\<lambda>_ c.
     rules_loop ops bo s [] c)))"

text \<open>\<^verbatim>\<open>DeleteRule\<close> waits for the acknowledgement but looks at neither its type nor its error number.\<close>

definition DeleteRule :: "'n NetlinkSendReceiver \<Rightarrow> byte_order \<Rightarrow> bytes \<Rightarrow> 'n AuditClient \<Rightarrow> ('n, unit) call" where
  "DeleteRule ops bo rule c =
     and_then (wrap ''failed sending delete request''
         (client_send ops (request AUDIT_DEL_RULE 5 rule) c)) (\<lambda>s c.
     and_then (wrap ''failed to get ACK to rule delete request'' (getReply ops bo s c)) (\<lambda>_ c.
     return () c))"

primrec delete_loop ::
  "'n NetlinkSendReceiver \<Rightarrow> byte_order \<Rightarrow> nat \<Rightarrow> nat \<Rightarrow> bytes list \<Rightarrow> 'n AuditClient \<Rightarrow> ('n, unit) call" where
  "delete_loop ops bo cnt i [] c = return () c"
| "delete_loop ops bo cnt i (rule # rules) c =
     and_then (map_option (\<lambda>(r, c). (case r of Err e \<Rightarrow> Err (ErrDeleteRule i cnt e) | _ \<Rightarrow> r, c))
         (DeleteRule ops bo rule c)) (\<lambda>_ c.
     delete_loop ops bo cnt (Suc i) rules c)"

definition DeleteRules :: "'n NetlinkSendReceiver \<Rightarrow> byte_order \<Rightarrow> 'n AuditClient \<Rightarrow> ('n, nat) call" where
  "DeleteRules ops bo c =
     and_then (GetRules ops bo c) (\<lambda>rules c.
     and_then (delete_loop ops bo (length rules) 0 rules c) (\<lambda>_ c.
     return (length rules) c))"

definition AddRule :: "'n NetlinkSendReceiver \<Rightarrow> byte_order \<Rightarrow> bytes \<Rightarrow> 'n AuditClient \<Rightarrow> ('n, unit) call" where
  "AddRule ops bo rule c =
     and_then (wrap ''failed sending delete request''
         (client_send ops (request AUDIT_ADD_RULE 5 rule) c)) (\<lambda>s c.
     and_then (wrap ''failed to get ACK to rule delete request'' (getReply ops bo s c)) (\<lambda>ack c.
     if hdr_Type (Header ack) \<noteq> NLMSG_ERROR
     then fail (ErrUnexpectedType ''unexpected ACK to AUDIT_ADD_RULE'' (hdr_Type (Header ack))) c
     else (case ParseNetlinkError bo (nl_Data ack) of
             None \<Rightarrow> return () c
           | Some e \<Rightarrow> fail (if e = Errno EEXIST then ErrRuleExists
                            else ErrWrapped ''error adding audit rule'' e) c)))"

section \<open>Receiving events, pending acknowledgements, closing\<close>

record RawAuditMessage =
  raw_Type :: AuditMessageType
  raw_Data :: bytes

definition client_Receive ::
  "'n NetlinkSendReceiver \<Rightarrow> byte_order \<Rightarrow> bool \<Rightarrow> 'n AuditClient \<Rightarrow> ('n, RawAuditMessage) call" where
  "client_Receive ops bo nonBlocking c =
     (case op_Receive ops nonBlocking (parseNetlinkAuditMessage bo) (Netlink c) of
        (Ok (msg # _), n) \<Rightarrow>
          return \<lparr>raw_Type = hdr_Type (Header msg), raw_Data = nl_Data msg\<rparr> (c\<lparr>Netlink := n\<rparr>)
      | (Ok [], n) \<Rightarrow> Some (Panic IndexOutOfRange, c\<lparr>Netlink := n\<rparr>)
      | (Err e, n) \<Rightarrow> fail e (c\<lparr>Netlink := n\<rparr>)
      | (Panic p, n) \<Rightarrow> Some (Panic p, c\<lparr>Netlink := n\<rparr>))"

primrec ack_loop :: "'n NetlinkSendReceiver \<Rightarrow> byte_order \<Rightarrow> u32 list \<Rightarrow> 'n AuditClient \<Rightarrow> ('n, unit) call" where
  "ack_loop ops bo [] c = return () c"
| "ack_loop ops bo (reqId # reqs) c =
     and_then (getReply ops bo reqId c) (\<lambda>ack c.
     and_then (check_ack bo ''unexpected ACK to SET'' ack c) (\<lambda>_ c.
     ack_loop ops bo reqs c))"

definition WaitForPendingACKs :: "'n NetlinkSendReceiver \<Rightarrow> byte_order \<Rightarrow> 'n AuditClient \<Rightarrow> ('n, unit) call" where
  "WaitForPendingACKs ops bo c = ack_loop ops bo (pendingAcks c) c"

text \<open>\<^verbatim>\<open>Close\<close>: the body of \<^verbatim>\<open>closeOnce.Do\<close>, whose result of \<^verbatim>\<open>set\<close> is ignored.\<close>

definition close_body :: "'n NetlinkSendReceiver \<Rightarrow> byte_order \<Rightarrow> 'n AuditClient \<Rightarrow> ('n, unit) call" where
  "close_body ops bo c =
     Option.bind (if clearPIDOnClose c
             then set_status ops bo (zero_status\<lparr>Mask := AuditStatusPID, PID := 0\<rparr>) NoWait c
             else return () c) (\<lambda>(r, c).
       case r of
         Panic p \<Rightarrow> Some (Panic p, c)
       | _ \<Rightarrow> (case op_Close ops (Netlink c) of
                (None, n) \<Rightarrow> return () (c\<lparr>Netlink := n\<rparr>)
              | (Some e, n) \<Rightarrow> fail e (c\<lparr>Netlink := n\<rparr>)))"

definition client_Close :: "'n NetlinkSendReceiver \<Rightarrow> byte_order \<Rightarrow> 'n AuditClient \<Rightarrow> ('n, unit) call" where
  "client_Close ops bo c =
     (if closed c then return () c else close_body ops bo (c\<lparr>closed := True\<rparr>))"

end
