(* ===== verification/Audit_Client_Laws.thy ===== *)
theory Audit_Client_Laws
  imports Audit_Client
begin

text \<open>
  Properties of the audit client: the wire format of the status message, replies and how they
  are matched to requests when events come in between, and what closing does.
\<close>

section \<open>The status message\<close>

lemma length_status_words [simp]: "length (status_words s) = 10"
  by (simp add: status_words_def)

lemma status_of_words_words [simp]: "status_of_words (status_words s) = s"
  by (simp add: status_of_words_def status_words_def)

lemma read_fields_prefix:
  "length vs \<le> length fs \<Longrightarrow>
     read_fields bo (encode_u32s bo vs) fs = (vs @ drop (length vs) fs, None)"
proof (induction vs arbitrary: fs)
  case Nil
  then show ?case by (cases fs) (simp_all add: encode_u32s_def)
next
  case (Cons v vs)
  then obtain f fs' where fs: "fs = f # fs'" by (cases fs) auto
  have "read_full 4 (encode_u32s bo (v # vs)) = Ok (PutUint32 bo v, encode_u32s bo vs)"
    by (cases bo) (simp_all add: encode_u32s_def read_full_def)
  moreover have "encode_u32s bo (v # vs) \<noteq> []" by (cases bo) (simp_all add: encode_u32s_def)
  ultimately show ?case using Cons.IH [of fs'] Cons.prems fs by simp
qed

lemma read_fields_more:
  "length vs = length fs \<Longrightarrow> read_fields bo (encode_u32s bo vs @ rest) fs = (vs, None)"
proof (induction vs arbitrary: fs)
  case (Cons v vs)
  then obtain f fs' where fs: "fs = f # fs'" by (cases fs) auto
  have "read_full 4 (encode_u32s bo (v # vs) @ rest) = Ok (PutUint32 bo v, encode_u32s bo vs @ rest)"
    by (cases bo) (simp_all add: encode_u32s_def read_full_def)
  moreover have "encode_u32s bo (v # vs) \<noteq> []" by (cases bo) (simp_all add: encode_u32s_def)
  ultimately show ?case using Cons.IH [of fs'] Cons.prems fs by simp
qed (simp add: encode_u32s_def)

lemma take_encode_u32s: "take (4 * k) (encode_u32s bo ws) = encode_u32s bo (take k ws)"
proof (induction ws arbitrary: k)
  case (Cons w ws)
  then show ?case by (cases k) (simp_all add: encode_u32s_def)
qed (simp add: encode_u32s_def)

lemma FromWireFormat_full: "FromWireFormat bo (toWireFormat bo s @ rest) t = (s, None)"
proof -
  have "toWireFormat bo s @ rest \<noteq> []"
    by (cases bo) (simp_all add: toWireFormat_def encode_u32s_def status_words_def)
  then show ?thesis
    using read_fields_more [of "status_words s" "status_words t" bo rest]
    by (simp add: FromWireFormat_def toWireFormat_def)
qed

text \<open>
  (C31) The status of a kernel with a shorter status struct (its first \<open>k\<close> fields) is read into
  those fields and leaves the others alone; a longer struct is read by its first ten fields.
  With all ten this is the round trip of the wire format.
\<close>

theorem status_wire_format:
  assumes "0 < k" and "k \<le> 10"
  shows "FromWireFormat bo (take (4 * k) (toWireFormat bo s)) t
      = (status_of_words (take k (status_words s) @ drop k (status_words t)), None)
    \<and> FromWireFormat bo (toWireFormat bo s @ rest) t = (s, None)"
proof
  let ?ws = "take k (status_words s)"
  have "encode_u32s bo ?ws \<noteq> []"
    using assms by (metis length_encode_u32s length_0_conv length_take length_status_words min.absorb2
        mult_eq_0_iff zero_neq_numeral less_numeral_extra(3))
  moreover have "min 10 k = k" using assms by simp
  ultimately show "FromWireFormat bo (take (4 * k) (toWireFormat bo s)) t
      = (status_of_words (take k (status_words s) @ drop k (status_words t)), None)"
    using read_fields_prefix [of ?ws "status_words t" bo] assms
    by (simp add: FromWireFormat_def toWireFormat_def take_encode_u32s)
qed (rule FromWireFormat_full)

theorem status_wire_format_witness:
  "FromWireFormat LittleEndian [4, 0, 0, 0, 1, 0, 0, 0] zero_status
     = (zero_status\<lparr>Mask := 4, Enabled := 1\<rparr>, None)"
proof -
  let ?s = "zero_status\<lparr>Mask := 4, Enabled := 1, Failure := 9\<rparr>"
  have "take (4 * 2) (toWireFormat LittleEndian ?s) = [4, 0, 0, 0, 1, 0, 0, 0]" by code_simp
  then show ?thesis
    using status_wire_format [of 2 LittleEndian ?s zero_status "[]"]
    by (simp add: status_words_def status_of_words_def zero_status_def)
qed

section \<open>Waiting for a reply\<close>

text \<open>
  \<open>delivers ops bo n ms n'\<close>: from the state \<open>n\<close> on, the reads of the client yield the messages
  \<open>ms\<close>, one per read (with at most nine interrupted or empty attempts before each).
\<close>

primrec delivers ::
  "'n NetlinkSendReceiver \<Rightarrow> byte_order \<Rightarrow> 'n \<Rightarrow> NetlinkMessage list \<Rightarrow> 'n \<Rightarrow> bool" where
  "delivers ops bo n [] n' = (n' = n)"
| "delivers ops bo n (m # ms) n' =
     (\<exists>n1. receive_retry ops bo 10 n = (Ok [m], n1) \<and> delivers ops bo n1 ms n')"

definition is_event :: "NetlinkMessage \<Rightarrow> bool" where
  "is_event m = (hdr_Seq (Header m) = 0)"

lemma delivers_append:
  "delivers ops bo n (xs @ ys) n' \<longleftrightarrow> (\<exists>n1. delivers ops bo n xs n1 \<and> delivers ops bo n1 ys n')"
  by (induction xs arbitrary: n) auto

lemma reply_loop_delivers:
  assumes "delivers ops bo n (evs @ [m]) n'" and "\<forall>e \<in> set evs. is_event e"
    and "hdr_Seq (Header m) = s" and "s \<noteq> 0"
  shows "reply_loop ops bo s n = Some (Ok m, n')"
  using assms
proof (induction evs arbitrary: n)
  case Nil
  then show ?case by (subst reply_loop.simps) (simp add: skipped_def reply_of_def)
next
  case (Cons e evs)
  then obtain n1 where n1: "receive_retry ops bo 10 n = (Ok [e], n1)" "delivers ops bo n1 (evs @ [m]) n'"
    by auto
  with Cons have "reply_loop ops bo s n1 = Some (Ok m, n')" by simp
  with n1(1) Cons.prems show ?case
    by (subst reply_loop.simps) (simp add: skipped_def is_event_def)
qed

lemma getReply_delivers:
  assumes "delivers ops bo (Netlink c) (evs @ [m]) n'" and "\<forall>e \<in> set evs. is_event e"
    and "hdr_Seq (Header m) = s" and "s \<noteq> 0"
  shows "getReply ops bo s c = Some (Ok m, c\<lparr>Netlink := n'\<rparr>)"
  using reply_loop_delivers [OF assms] by (simp add: getReply_def)

text \<open>A stream with events in between, cut after its first message that is not an event.\<close>

lemma split_events:
  assumes "filter (\<lambda>m. \<not> is_event m) ms = x # xs"
  obtains evs rest where "ms = evs @ x # rest" and "\<forall>e \<in> set evs. is_event e"
    and "filter (\<lambda>m. \<not> is_event m) rest = xs" and "\<not> is_event x"
  using assms by (auto simp: filter_eq_Cons_iff)

section \<open>The reads of a reply loop\<close>

text \<open>
  The reads that \<^verbatim>\<open>getReply\<close> makes, as the list of their results: those interrupted or without data are repeated, up to ten
  times; an event between request and reply is a message without a sequence number.
\<close>

primrec reads ::
  "'n NetlinkSendReceiver \<Rightarrow> byte_order \<Rightarrow> 'n \<Rightarrow> (net_error, NetlinkMessage list) outcome list \<Rightarrow> 'n \<Rightarrow> bool" where
  "reads ops bo n [] n' = (n' = n)"
| "reads ops bo n (r # rs) n' =
     (\<exists>n1. op_Receive ops True (parseNetlinkAuditMessage bo) n = (r, n1) \<and> reads ops bo n1 rs n')"

definition transient :: "(net_error, NetlinkMessage list) outcome \<Rightarrow> bool" where
  "transient r = (r = Err (Errno EINTR) \<or> r = Err (Errno EAGAIN))"

definition event_reads :: "u32 \<Rightarrow> (net_error, NetlinkMessage list) outcome list \<Rightarrow> bool" where
  "event_reads s rs = (s \<noteq> 0 \<and> (\<exists>ts m rest. rs = ts @ [Ok (m # rest)] \<and> length ts < 10 \<and> list_all transient ts
     \<and> hdr_Seq (Header m) = 0))"

inductive final_reads :: "u32 \<Rightarrow> (net_error, NetlinkMessage list) outcome list \<Rightarrow> (net_error, NetlinkMessage) outcome \<Rightarrow> bool" for s where
  final_none: "length ts = 10 \<Longrightarrow> list_all transient ts \<Longrightarrow> final_reads s ts (Err ErrNoReply)"
| final_empty: "length ts < 10 \<Longrightarrow> list_all transient ts \<Longrightarrow> final_reads s (ts @ [Ok []]) (Err ErrNoReply)"
| final_reply: "length ts < 10 \<Longrightarrow> list_all transient ts \<Longrightarrow> hdr_Seq (Header m) = s \<Longrightarrow>
     final_reads s (ts @ [Ok (m # rest)]) (Ok m)"
| final_other: "length ts < 10 \<Longrightarrow> list_all transient ts \<Longrightarrow> hdr_Seq (Header m) \<noteq> s \<Longrightarrow> hdr_Seq (Header m) \<noteq> 0 \<Longrightarrow>
     final_reads s (ts @ [Ok (m # rest)]) (Err (ErrUnexpectedSeq s (hdr_Seq (Header m))))"
| final_error: "length ts < 10 \<Longrightarrow> list_all transient ts \<Longrightarrow> \<not> transient (Err e) \<Longrightarrow>
     final_reads s (ts @ [Err e]) (Err (ErrWrapped ''error receiving audit reply'' e))"
| final_panic: "length ts < 10 \<Longrightarrow> list_all transient ts \<Longrightarrow> final_reads s (ts @ [Panic p]) (Panic p)"

lemma reads_append: "reads ops bo n (xs @ ys) n' \<longleftrightarrow> (\<exists>n1. reads ops bo n xs n1 \<and> reads ops bo n1 ys n')"
  by (induction xs arbitrary: n) auto

lemma retry_none: "list_all transient ts \<Longrightarrow> reads ops bo n ts n' \<Longrightarrow> receive_retry ops bo (length ts) n = (Ok [], n')"
  by (induction ts arbitrary: n) (auto simp: transient_def)

lemma retry_last:
  assumes "list_all transient ts" and "length ts < k" and "reads ops bo n (ts @ [x]) n'" and "\<not> transient x"
  shows "receive_retry ops bo k n = (case x of Err e \<Rightarrow> Err (ErrWrapped ''error receiving audit reply'' e) | _ \<Rightarrow> x, n')"
  using assms
proof (induction ts arbitrary: k n)
  case Nil
  then show ?case by (cases k) (auto simp: transient_def split: outcome.splits)
next
  case (Cons t ts)
  then show ?case by (cases k) (auto simp: transient_def)
qed

lemma retry_cases:
  assumes "receive_retry ops bo k n = (r, n')"
  shows "\<exists>ts. list_all transient ts \<and> (length ts = k \<and> reads ops bo n ts n' \<and> r = Ok []
    \<or> length ts < k \<and> (\<exists>x. reads ops bo n (ts @ [x]) n' \<and> \<not> transient x
        \<and> r = (case x of Err e \<Rightarrow> Err (ErrWrapped ''error receiving audit reply'' e) | _ \<Rightarrow> x)))"
  using assms
proof (induction k arbitrary: n)
  case 0
  then show ?case by (intro exI [of _ "[]"]) simp
next
  case (Suc k)
  obtain x n1 where x: "op_Receive ops True (parseNetlinkAuditMessage bo) n = (x, n1)" by fastforce
  show ?case
  proof (cases "transient x")
    case True
    then have "receive_retry ops bo k n1 = (r, n')" using Suc.prems x by (auto simp: transient_def)
    from Suc.IH [OF this] obtain ts where "list_all transient ts \<and> (length ts = k \<and> reads ops bo n1 ts n' \<and> r = Ok []
      \<or> length ts < k \<and> (\<exists>x. reads ops bo n1 (ts @ [x]) n' \<and> \<not> transient x
        \<and> r = (case x of Err e \<Rightarrow> Err (ErrWrapped ''error receiving audit reply'' e) | _ \<Rightarrow> x)))" ..
    then show ?thesis using x True by (intro exI [of _ "x # ts"]) auto
  next
    case False
    then show ?thesis
      using Suc.prems x by (intro exI [of _ "[]"]) (auto simp: transient_def split: outcome.splits)
  qed
qed

lemma retry_event:
  assumes "event_reads s es" and "reads ops bo n es n1"
  shows "\<exists>r. receive_retry ops bo 10 n = (r, n1) \<and> skipped s r"
proof -
  obtain ts m rest where es: "es = ts @ [Ok (m # rest)]" "length ts < 10" "list_all transient ts" "hdr_Seq (Header m) = 0" "s \<noteq> 0"
    using assms(1) by (auto simp: event_reads_def)
  then have "receive_retry ops bo 10 n = (Ok (m # rest), n1)"
    using retry_last [of ts 10 ops bo n "Ok (m # rest)" n1] assms(2) by (simp add: transient_def)
  then show ?thesis using es by (simp add: skipped_def)
qed

lemma retry_final:
  assumes "final_reads s fs res" and "reads ops bo n fs n1"
  shows "\<exists>r. receive_retry ops bo 10 n = (r, n1) \<and> \<not> skipped s r \<and> reply_of s r = res"
  using assms
proof (induction rule: final_reads.induct)
  case (final_none ts)
  then show ?case using retry_none [of ts ops bo n n1] by (simp add: skipped_def reply_of_def)
qed (auto dest!: retry_last simp: transient_def skipped_def reply_of_def)

lemma retry_sound:
  assumes "receive_retry ops bo 10 n = (r, n1)"
  shows "\<exists>fs. reads ops bo n fs n1 \<and> (if skipped s r then event_reads s fs else final_reads s fs (reply_of s r))"
proof -
  obtain ts where ts: "list_all transient ts"
    and or: "length ts = 10 \<and> reads ops bo n ts n1 \<and> r = Ok []
      \<or> length ts < 10 \<and> (\<exists>x. reads ops bo n (ts @ [x]) n1 \<and> \<not> transient x
        \<and> r = (case x of Err e \<Rightarrow> Err (ErrWrapped ''error receiving audit reply'' e) | _ \<Rightarrow> x))"
    using retry_cases [OF assms] by blast
  from or show ?thesis
  proof (elim disjE conjE exE)
    assume "length ts = 10" "reads ops bo n ts n1" "r = Ok []"
    then show ?thesis using final_none ts by (auto simp: skipped_def reply_of_def)
  next
    fix x
    assume x: "length ts < 10" "reads ops bo n (ts @ [x]) n1" "\<not> transient x"
      "r = (case x of Err e \<Rightarrow> Err (ErrWrapped ''error receiving audit reply'' e) | _ \<Rightarrow> x)"
    then have "if skipped s r then event_reads s (ts @ [x]) else final_reads s (ts @ [x]) (reply_of s r)"
      using ts
      by (auto simp: skipped_def reply_of_def event_reads_def intro: final_reads.intros split: outcome.splits list.splits)
    with x(2) show ?thesis by blast
  qed
qed

lemma reply_loop_complete:
  assumes "\<forall>es \<in> set ess. event_reads s es" and "final_reads s fs res" and "reads ops bo n (concat ess @ fs) n'"
  shows "reply_loop ops bo s n = Some (res, n')"
  using assms(1,3)
proof (induction ess arbitrary: n)
  case Nil
  then show ?case using retry_final [OF assms(2), of ops bo n n'] by (subst reply_loop.simps) auto
next
  case (Cons es ess)
  then obtain n1 where n1: "reads ops bo n es n1" "reads ops bo n1 (concat ess @ fs) n'" by (auto simp: reads_append)
  then show ?case
    using retry_event [of s es ops bo n n1] Cons.IH [of n1] Cons.prems by (subst reply_loop.simps) auto
qed

lemma reply_loop_sound:
  assumes "reply_loop ops bo s n = Some y"
  shows "\<exists>ess fs. (\<forall>es \<in> set ess. event_reads s es) \<and> final_reads s fs (fst y) \<and> reads ops bo n (concat ess @ fs) (snd y)"
proof (rule reply_loop.raw_induct [where P = "\<lambda>ops bo s n y. \<exists>ess fs. (\<forall>es \<in> set ess. event_reads s es)
    \<and> final_reads s fs (fst y) \<and> reads ops bo n (concat ess @ fs) (snd y)", OF _ assms])
  fix loop ops bo s n y
  assume 1: "\<And>ops bo s n y. loop ops bo s n = Some y \<Longrightarrow> \<exists>ess fs. (\<forall>es \<in> set ess. event_reads s es)
    \<and> final_reads s fs (fst y) \<and> reads ops bo n (concat ess @ fs) (snd y)"
    "(case receive_retry ops bo 10 n of (r, n') \<Rightarrow>
        if skipped s r then loop ops bo s n' else Some (reply_of s r, n')) = Some y"
  obtain r n1 where r: "receive_retry ops bo 10 n = (r, n1)" by fastforce
  then obtain fs where fs: "reads ops bo n fs n1" "if skipped s r then event_reads s fs else final_reads s fs (reply_of s r)"
    using retry_sound [of ops bo n r n1 s] by blast
  show "\<exists>ess fs. (\<forall>es \<in> set ess. event_reads s es) \<and> final_reads s fs (fst y) \<and> reads ops bo n (concat ess @ fs) (snd y)"
  proof (cases "skipped s r")
    case True
    then have "loop ops bo s n1 = Some y" using 1(2) r by simp
    from 1(1) [OF this] obtain ess gs where "\<forall>es \<in> set ess. event_reads s es" "final_reads s gs (fst y)"
      "reads ops bo n1 (concat ess @ gs) (snd y)" by blast
    then show ?thesis using fs True by (intro exI [of _ "fs # ess"] exI [of _ gs]) (auto simp: reads_append)
  next
    case False
    then show ?thesis using 1(2) r fs by (intro exI [of _ "[]"] exI [of _ fs]) auto
  qed
qed

text \<open>
  (C18) \<^verbatim>\<open>getReply\<close> returns exactly when the reads on the socket, one after the other, are of this form, and then with this
  result: any number of messages without a sequence number (when the request has one), and then a message, which is returned if
  its number is that of the request and is an error of the unexpected number otherwise, or no message, or an error of a read, which are
  errors. Before each of these, up to nine reads were interrupted or had no data; ten of them are an error as well.
\<close>

theorem getReply_returns_iff:
  "getReply ops bo s c = Some (res, c') \<longleftrightarrow>
     (\<exists>ess fs n'. (\<forall>es \<in> set ess. event_reads s es) \<and> final_reads s fs res
        \<and> reads ops bo (Netlink c) (concat ess @ fs) n' \<and> c' = c\<lparr>Netlink := n'\<rparr>)"
proof
  assume "getReply ops bo s c = Some (res, c')"
  then obtain n' where "reply_loop ops bo s (Netlink c) = Some (res, n')" "c' = c\<lparr>Netlink := n'\<rparr>"
    by (auto simp: getReply_def)
  then show "\<exists>ess fs n'. (\<forall>es \<in> set ess. event_reads s es) \<and> final_reads s fs res
      \<and> reads ops bo (Netlink c) (concat ess @ fs) n' \<and> c' = c\<lparr>Netlink := n'\<rparr>"
    using reply_loop_sound by fastforce
qed (auto simp: getReply_def dest: reply_loop_complete)

section \<open>Requests and their replies\<close>

text \<open>An acknowledgement of request \<open>s\<close> without error.\<close>

definition good_ack :: "byte_order \<Rightarrow> u32 \<Rightarrow> NetlinkMessage \<Rightarrow> bool" where
  "good_ack bo s m = (hdr_Seq (Header m) = s \<and> hdr_Type (Header m) = NLMSG_ERROR
     \<and> ParseNetlinkError bo (nl_Data m) = None)"

lemma and_then_Ok [simp]: "and_then (Some (Ok a, c)) f = f a c"
  by (simp add: and_then_def)

lemma and_then_Err [simp]: "and_then (Some (Err e, c)) f = Some (Err e, c)"
  by (simp add: and_then_def)

lemma wrap_Ok [simp]: "wrap t (Some (Ok a, c)) = Some (Ok a, c)"
  by (simp add: wrap_def)

lemma wrap_Err [simp]: "wrap t (Some (Err e, c)) = Some (Err (ErrWrapped t e), c)"
  by (simp add: wrap_def)

lemma client_send_Ok:
  "op_Send ops msg (Netlink c) = (Ok (s, None), n) \<Longrightarrow> client_send ops msg c = Some (Ok s, c\<lparr>Netlink := n\<rparr>)"
  by (simp add: client_send_def)

lemma check_ack_good: "good_ack bo s ack \<Longrightarrow> check_ack bo t ack c = Some (Ok (), c)"
  by (simp add: good_ack_def check_ack_def return_def)

text \<open>The next message that is not an event answers a waiting \<^verbatim>\<open>getReply\<close>.\<close>

lemma getReply_stream:
  assumes "delivers ops bo (Netlink c) ms n'" and "filter (\<lambda>m. \<not> is_event m) ms = x # xs"
    and "hdr_Seq (Header x) = s" and "s \<noteq> 0"
  obtains n1 rest where "getReply ops bo s c = Some (Ok x, c\<lparr>Netlink := n1\<rparr>)"
    and "delivers ops bo n1 rest n'" and "filter (\<lambda>m. \<not> is_event m) rest = xs" and "suffix rest ms"
proof -
  obtain evs rest where split: "ms = evs @ x # rest" "\<forall>e \<in> set evs. is_event e"
    "filter (\<lambda>m. \<not> is_event m) rest = xs" using split_events [OF assms(2)] by blast
  then have "delivers ops bo (Netlink c) ((evs @ [x]) @ rest) n'" using assms(1) by simp
  then obtain n1 where n1: "delivers ops bo (Netlink c) (evs @ [x]) n1" "delivers ops bo n1 rest n'"
    unfolding delivers_append [of ops bo "Netlink c" "evs @ [x]"] by blast
  have "getReply ops bo s c = Some (Ok x, c\<lparr>Netlink := n1\<rparr>)"
    by (rule getReply_delivers [OF n1(1) split(2) assms(3,4)])
  moreover have "suffix rest ms" unfolding split(1) by (simp add: suffix_def)
  ultimately show thesis using that n1(2) split(3) by blast
qed

lemma rules_loop_stream:
  assumes "delivers ops bo (Netlink c) ms n'" and "filter (\<lambda>m. \<not> is_event m) ms = rs @ [dn]"
    and "ms \<noteq> []" and "\<not> is_event (last ms)"
    and "\<forall>m \<in> set (rs @ [dn]). hdr_Seq (Header m) = s" and "s \<noteq> 0"
    and "\<forall>r \<in> set rs. hdr_Type (Header r) = AUDIT_LIST_RULES" and "hdr_Type (Header dn) = NLMSG_DONE"
  shows "rules_loop ops bo s acc c = Some (Ok (acc @ map nl_Data rs), c\<lparr>Netlink := n'\<rparr>)"
  using assms
proof (induction rs arbitrary: c ms acc)
  case Nil
  then obtain n1 rest where r: "getReply ops bo s c = Some (Ok dn, c\<lparr>Netlink := n1\<rparr>)"
    "delivers ops bo n1 rest n'" "filter (\<lambda>m. \<not> is_event m) rest = []" "suffix rest ms"
    using getReply_stream [OF Nil.prems(1), of dn "[]" s] by auto
  have "rest = []"
  proof (rule ccontr)
    assume "rest \<noteq> []"
    then have "last rest = last ms" using r(4) by (auto simp: suffix_def)
    moreover have "is_event (last rest)" using r(3) \<open>rest \<noteq> []\<close> by (auto simp: filter_empty_conv)
    ultimately show False using Nil.prems(4) by simp
  qed
  with r(2) have "n1 = n'" by simp
  with r(1) Nil.prems(8) show ?case
    by (subst rules_loop.simps) (simp add: rule_reply_def rules_end_def)
next
  case (Cons x rs)
  then have h: "filter (\<lambda>m. \<not> is_event m) ms = x # (rs @ [dn])" "hdr_Seq (Header x) = s" by simp_all
  obtain n1 rest where r: "getReply ops bo s c = Some (Ok x, c\<lparr>Netlink := n1\<rparr>)"
    "delivers ops bo n1 rest n'" "filter (\<lambda>m. \<not> is_event m) rest = rs @ [dn]" "suffix rest ms"
    by (rule getReply_stream [OF Cons.prems(1) h Cons.prems(6)])
  have ne: "rest \<noteq> []" using r(3) by auto
  then have l: "last rest = last ms" using r(4) by (auto simp: suffix_def)
  have "rules_loop ops bo s (acc @ [nl_Data x]) (c\<lparr>Netlink := n1\<rparr>)
      = Some (Ok ((acc @ [nl_Data x]) @ map nl_Data rs), (c\<lparr>Netlink := n1\<rparr>)\<lparr>Netlink := n'\<rparr>)"
    using Cons.prems r ne l by (intro Cons.IH [of _ rest]) simp_all
  with r(1) Cons.prems(7) show ?case
    by (subst rules_loop.simps) (simp add: rule_reply_def)
qed

text \<open>
  (C10) \<^verbatim>\<open>GetRules\<close> returns every rule the kernel lists, in order and with its data unchanged, when
  the kernel acknowledges the request and then sends the rules and the end message, however
  many audit events come in between.
\<close>

theorem GetRules_complete:
  assumes "op_Send ops (request AUDIT_LIST_RULES 5 []) (Netlink c) = (Ok (s, None), n1)" and "s \<noteq> 0"
    and "delivers ops bo n1 ms n2" and "filter (\<lambda>m. \<not> is_event m) ms = ack # rs @ [dn]"
    and "\<not> is_event (last ms)" and "good_ack bo s ack"
    and "\<forall>m \<in> set (rs @ [dn]). hdr_Seq (Header m) = s"
    and "\<forall>r \<in> set rs. hdr_Type (Header r) = AUDIT_LIST_RULES" and "hdr_Type (Header dn) = NLMSG_DONE"
  shows "GetRules ops bo c = Some (Ok (map nl_Data rs), c\<lparr>Netlink := n2\<rparr>)"
proof -
  let ?c1 = "c\<lparr>Netlink := n1\<rparr>"
  have "delivers ops bo (Netlink ?c1) ms n2" using assms(3) by simp
  then obtain n3 rest where r: "getReply ops bo s ?c1 = Some (Ok ack, ?c1\<lparr>Netlink := n3\<rparr>)"
    "delivers ops bo n3 rest n2" "filter (\<lambda>m. \<not> is_event m) rest = rs @ [dn]" "suffix rest ms"
    using getReply_stream [of ops bo ?c1 ms n2 ack "rs @ [dn]" s] assms(2,4,6)
    by (auto simp: good_ack_def)
  have ne: "rest \<noteq> []" using r(3) by auto
  then have l: "last rest = last ms" using r(4) by (auto simp: suffix_def)
  have "rules_loop ops bo s [] (c\<lparr>Netlink := n3\<rparr>)
      = Some (Ok ([] @ map nl_Data rs), (c\<lparr>Netlink := n3\<rparr>)\<lparr>Netlink := n2\<rparr>)"
    using r ne l assms by (intro rules_loop_stream [of _ _ _ rest]) simp_all
  with r(1) show ?thesis
    by (simp add: GetRules_def client_send_Ok [OF assms(1)] check_ack_good [OF assms(6)])
qed

text \<open>
  (C26) \<^verbatim>\<open>GetStatus\<close> returns the status the kernel reports: with the acknowledgement and then the
  status message for the request, and any audit events in between.
\<close>

theorem GetStatus_reports:
  assumes "op_Send ops (request AuditGet 5 []) (Netlink c) = (Ok (s, None), n1)" and "s \<noteq> 0"
    and "delivers ops bo n1 ms n2" and "filter (\<lambda>m. \<not> is_event m) ms = [ack, reply]"
    and "\<not> is_event (last ms)" and "good_ack bo s ack"
    and "hdr_Seq (Header reply) = s" and "hdr_Type (Header reply) = AuditGet"
    and "nl_Data reply = toWireFormat bo st @ extra"
  shows "GetStatus ops bo c = Some (Ok st, c\<lparr>Netlink := n2\<rparr>)"
proof -
  let ?c1 = "c\<lparr>Netlink := n1\<rparr>"
  have "delivers ops bo (Netlink ?c1) ms n2" using assms(3) by simp
  then obtain n3 rest where r: "getReply ops bo s ?c1 = Some (Ok ack, ?c1\<lparr>Netlink := n3\<rparr>)"
    "delivers ops bo n3 rest n2" "filter (\<lambda>m. \<not> is_event m) rest = [reply]" "suffix rest ms"
    using getReply_stream [of ops bo ?c1 ms n2 ack "[reply]" s] assms(2,4,6)
    by (auto simp: good_ack_def)
  let ?c3 = "c\<lparr>Netlink := n3\<rparr>"
  have "delivers ops bo (Netlink ?c3) rest n2" using r(2) by simp
  then obtain n4 rest' where r': "getReply ops bo s ?c3 = Some (Ok reply, ?c3\<lparr>Netlink := n4\<rparr>)"
    "delivers ops bo n4 rest' n2" "filter (\<lambda>m. \<not> is_event m) rest' = []" "suffix rest' rest"
    using getReply_stream [of ops bo ?c3 rest n2 reply "[]" s] assms(2,7) r(3) by auto
  have "rest' = []"
  proof (rule ccontr)
    assume ne: "rest' \<noteq> []"
    then have "last rest' = last ms" using r(4) r'(4) by (auto simp: suffix_def)
    moreover have "is_event (last rest')" using r'(3) ne by (auto simp: filter_empty_conv)
    ultimately show False using assms(5) by simp
  qed
  with r'(2) have "n4 = n2" by simp
  then show ?thesis
    using r(1) r'(1) assms(8,9)
    by (simp add: GetStatus_def GetStatusAsync_def client_send_Ok [OF assms(1)]
        check_ack_good [OF assms(6)] return_def FromWireFormat_full)
qed

section \<open>A scripted transport\<close>

text \<open>
  A transport for examples: it counts the messages sent, and the datagrams that will be
  received are given in advance.
\<close>

definition script_ops :: "(u32 \<times> bytes list) NetlinkSendReceiver" where
  "script_ops = \<lparr>
     op_Send = (\<lambda>m n. (Ok (fst n + 1, None), fst n + 1, snd n)),
     op_Receive = (\<lambda>nb p n. case snd n of [] \<Rightarrow> (Err (Errno EAGAIN), n) | b # bs \<Rightarrow> (p b, fst n, bs)),
     op_Close = (\<lambda>n. (None, n))\<rparr>"

definition datagram :: "byte_order \<Rightarrow> NetlinkMessage \<Rightarrow> bytes" where
  "datagram bo m = header_bytes bo (Header m) @ nl_Data m"

lemma parse_datagram: "parseNetlinkAuditMessage bo (datagram bo m) = Ok [m]"
  by (simp add: parseNetlinkAuditMessage_def datagram_def read_header_bytes)

lemma script_delivers: "delivers script_ops bo (q, map (datagram bo) ms @ bs) ms (q, bs)"
  by (induction ms) (simp_all add: numeral_eq_Suc script_ops_def parse_datagram)

definition script_client :: "byte_order \<Rightarrow> NetlinkMessage list \<Rightarrow> (u32 \<times> bytes list) AuditClient" where
  "script_client bo ms = \<lparr>Netlink = (0, map (datagram bo) ms), pendingAcks = [], clearPIDOnClose = False, closed = False\<rparr>"

definition msg :: "u16 \<Rightarrow> u32 \<Rightarrow> bytes \<Rightarrow> NetlinkMessage" where
  "msg t q b = \<lparr>Header = zero_hdr\<lparr>hdr_Type := t, hdr_Seq := q\<rparr>, nl_Data = b\<rparr>"

lemmas script_simps = script_ops_def script_client_def msg_def zero_hdr_def is_event_def good_ack_def
  ParseNetlinkError_def request_def le_word_Cons le_word_Nil

theorem getReply_returns_iff_witness:
  "getReply script_ops LittleEndian 1 (script_client LittleEndian [msg 1300 0 [], msg 2 1 [0, 0, 0, 0]])
     = Some (Ok (msg 2 1 [0, 0, 0, 0]), script_client LittleEndian [])"
proof -
  let ?c = "script_client LittleEndian [msg 1300 0 [], msg 2 1 [0, 0, 0, 0]]"
  have "event_reads 1 [Ok [msg 1300 0 []]]" by (auto simp: event_reads_def msg_def zero_hdr_def)
  moreover have "final_reads 1 [Ok [msg 2 1 [0, 0, 0, 0]]] (Ok (msg 2 1 [0, 0, 0, 0]))"
    using final_reply [of "[]" "msg 2 1 [0, 0, 0, 0]" 1 "[]"] by (simp add: msg_def zero_hdr_def)
  moreover have "reads script_ops LittleEndian (Netlink ?c) (concat [[Ok [msg 1300 0 []]]] @ [Ok [msg 2 1 [0, 0, 0, 0]]]) (0, [])"
    by (simp add: script_client_def script_ops_def parse_datagram)
  moreover have "script_client LittleEndian [] = ?c\<lparr>Netlink := (0, [])\<rparr>" by (simp add: script_client_def)
  ultimately show ?thesis
    by (subst getReply_returns_iff, intro exI [of _ "[[Ok [msg 1300 0 []]]]"] exI [of _ "[Ok [msg 2 1 [0, 0, 0, 0]]]"] exI [of _ "(0, [])"])
       simp
qed

theorem GetRules_complete_witness:
  "GetRules script_ops LittleEndian (script_client LittleEndian
      [msg 2 1 [0, 0, 0, 0], msg AUDIT_LIST_RULES 1 [7], msg 1300 0 [], msg AUDIT_LIST_RULES 1 [8, 9], msg 3 1 []])
     = Some (Ok [[7], [8, 9]], (script_client LittleEndian [])\<lparr>Netlink := (1, [])\<rparr>)"
proof -
  let ?ms = "[msg 2 1 [0, 0, 0, 0], msg AUDIT_LIST_RULES 1 [7], msg 1300 0 [], msg AUDIT_LIST_RULES 1 [8, 9], msg 3 1 []]"
  let ?c = "script_client LittleEndian ?ms"
  have "op_Send script_ops (request AUDIT_LIST_RULES 5 []) (Netlink ?c) = (Ok (1, None), 1, map (datagram LittleEndian) ?ms)"
    by (simp add: script_simps)
  moreover have "delivers script_ops LittleEndian (1, map (datagram LittleEndian) ?ms) ?ms (1, [])"
    using script_delivers [of LittleEndian 1 ?ms "[]"] by (simp only: append_Nil2)
  ultimately show ?thesis
    using GetRules_complete [of script_ops ?c 1 "(1, map (datagram LittleEndian) ?ms)" LittleEndian ?ms "(1, [])"
        "msg 2 1 [0, 0, 0, 0]" "[msg AUDIT_LIST_RULES 1 [7], msg AUDIT_LIST_RULES 1 [8, 9]]" "msg 3 1 []"]
    by (simp add: script_simps)
qed

theorem GetStatus_reports_witness:
  "GetStatus script_ops LittleEndian (script_client LittleEndian
      [msg 2 1 [0, 0, 0, 0], msg 1300 0 [], msg AuditGet 1 (toWireFormat LittleEndian (zero_status\<lparr>Enabled := 1\<rparr>))])
     = Some (Ok (zero_status\<lparr>Enabled := 1\<rparr>), (script_client LittleEndian [])\<lparr>Netlink := (1, [])\<rparr>)"
proof -
  let ?b = "toWireFormat LittleEndian (zero_status\<lparr>Enabled := 1\<rparr>)"
  let ?ms = "[msg 2 1 [0, 0, 0, 0], msg 1300 0 [], msg AuditGet 1 ?b]"
  let ?c = "script_client LittleEndian ?ms"
  have "op_Send script_ops (request AuditGet 5 []) (Netlink ?c) = (Ok (1, None), 1, map (datagram LittleEndian) ?ms)"
    by (simp add: script_simps)
  moreover have "delivers script_ops LittleEndian (1, map (datagram LittleEndian) ?ms) ?ms (1, [])"
    using script_delivers [of LittleEndian 1 ?ms "[]"] by (simp only: append_Nil2)
  ultimately show ?thesis
    using GetStatus_reports [of script_ops ?c 1 "(1, map (datagram LittleEndian) ?ms)" LittleEndian ?ms "(1, [])"
        "msg 2 1 [0, 0, 0, 0]" "msg AuditGet 1 ?b" "zero_status\<lparr>Enabled := 1\<rparr>" "[]"]
    by (simp add: script_simps)
qed

section \<open>What every transport gives the client\<close>

context netlink_transport
begin

lemma received_one:
  assumes "op_Receive ops nb (parseNetlinkAuditMessage bo) n = (Ok ms, n')"
  shows "\<exists>m. ms = [m]"
  using receive_parsed [OF assms] by (auto simp: parseNetlinkAuditMessage_def split: if_splits)

lemma client_Receive_panic:
  assumes "client_Receive ops bo nb c = Some (Panic p, c')"
  shows "\<exists>n. op_Receive ops nb (parseNetlinkAuditMessage bo) (Netlink c) = (Panic p, n)"
  using assms received_one [of nb bo "Netlink c"]
  by (auto simp: client_Receive_def return_def fail_def split: prod.splits outcome.splits list.splits)

lemma set_NoWait:
  assumes "set_status ops bo st NoWait c = Some (Ok (), c')"
  shows "pendingAcks c' = pendingAcks c @ [last_seq (Netlink c) + 1]
    \<and> last_seq (Netlink c') = last_seq (Netlink c) + 1"
proof -
  obtain r n1 where send: "op_Send ops (request AuditSet 5 (toWireFormat bo st)) (Netlink c) = (r, n1)"
    by fastforce
  show ?thesis
    using assms send send_seq [of "request AuditSet 5 (toWireFormat bo st)" "Netlink c" _ _ n1]
    by (auto simp: set_status_def client_send_def return_def storePendingAck_def wrap_def and_then_def
        split: outcome.splits option.splits)
qed

end

text \<open>
  (C33) \<^verbatim>\<open>Receive\<close> of a client on a netlink socket never panics: the parser always yields one
  message, so the access to the first is safe. The system call is assumed not to return more
  bytes than the buffer holds.
\<close>

theorem Receive_no_panic:
  assumes "\<forall>fd n nb w p. fst (sys_Recvfrom K fd n nb w) \<noteq> Panic p"
    and "\<forall>fd n nb w b a. fst (sys_Recvfrom K fd n nb w) = Ok (b, a) \<longrightarrow> length b \<le> n"
  shows "client_Receive (netlink_ops K bo) bo nb c \<noteq> Some (Panic p, c')"
proof
  assume "client_Receive (netlink_ops K bo) bo nb c = Some (Panic p, c')"
  then obtain n where n: "Receive K nb (parseNetlinkAuditMessage bo) (Netlink c) = (Panic p, n)"
    using nlc.client_Receive_panic [of K bo] by (fastforce simp: netlink_ops_def)
  let ?c = "fst (Netlink c)"
  obtain r w where rw: "sys_Recvfrom K (nl_fd ?c) (nl_readBuf ?c) nb (snd (Netlink c)) = (r, w)" by fastforce
  have "\<And>q. r \<noteq> Panic q" using assms(1) rw by (metis fst_conv)
  moreover have "\<And>b a. r = Ok (b, a) \<Longrightarrow> length b \<le> nl_readBuf ?c" using assms(2) rw by (metis fst_conv)
  moreover have "\<And>b q. 16 \<le> length b \<Longrightarrow> parse_received (parseNetlinkAuditMessage bo) (length b) b \<noteq> Panic q"
    by (simp add: parse_received_def parseNetlinkAuditMessage_def)
  ultimately show False
    using n rw by (fastforce simp: Receive_def Let_def not_less
        split: outcome.splits prod.splits Sockaddr.splits if_splits option.splits)
qed

definition silent_kernel :: "unit kernel" where
  "silent_kernel = \<lparr>sys_Socket = (\<lambda>_ _ _ w. (Ok 3, w)), sys_Bind = (\<lambda>_ _ w. (None, w)),
     sys_Getsockname = (\<lambda>_ w. (Ok (SockaddrNetlink 7 0), w)), sys_Sendto = (\<lambda>_ _ _ w. (None, w)),
     sys_Recvfrom = (\<lambda>_ _ _ w. (Err (Errno EAGAIN), w)), sys_Close = (\<lambda>_ w. (None, w)),
     sys_Write = (\<lambda>_ w. (None, w)), page_size = 4096\<rparr>"

text \<open>A kernel whose state is the datagrams still to come; those that do not fit the buffer are cut, and those sent come back.\<close>

definition sample_kernel :: "bytes list kernel" where
  "sample_kernel = \<lparr>sys_Socket = (\<lambda>_ _ _ w. (Ok 3, w)), sys_Bind = (\<lambda>_ _ w. (None, w)),
     sys_Getsockname = (\<lambda>_ w. (Ok (SockaddrNetlink 7 1), w)), sys_Sendto = (\<lambda>_ b _ w. (None, w @ [b])),
     sys_Recvfrom = (\<lambda>_ n _ w. case w of [] \<Rightarrow> (Err (Errno EAGAIN), []) | b # bs \<Rightarrow> (Ok (take n b, SockaddrNetlink 0 0), bs)),
     sys_Close = (\<lambda>_ w. (None, w)), sys_Write = (\<lambda>_ w. (None, w)), page_size = 4096\<rparr>"

lemma sample_receive:
  assumes "nl_respWriter c = False" and "length (datagram bo m) \<le> nl_readBuf c"
  shows "Receive sample_kernel nb (parseNetlinkAuditMessage bo) (c, datagram bo m # bs) = (Ok [m], c, bs)"
proof -
  have "NLMSG_HDRLEN \<le> length (datagram bo m)" by (simp add: datagram_def)
  then show ?thesis
    using assms parse_datagram [of bo m] by (simp add: Receive_def sample_kernel_def parse_received_def)
qed

definition sample_netlink :: NetlinkClient where
  "sample_netlink = \<lparr>nl_fd = 3, nl_src = SockaddrNetlink 0 0, nl_dest = SockaddrNetlink 0 0, nl_pid = 7,
     nl_seq = 4, nl_readBuf = 4096, nl_respWriter = False\<rparr>"

theorem Receive_no_panic_witness:
  "\<exists>c. Netlink c = (sample_netlink, [datagram LittleEndian (msg 1300 0 [1, 2])])
     \<and> client_Receive (netlink_ops sample_kernel LittleEndian) LittleEndian True c
         = Some (Ok \<lparr>raw_Type = 1300, raw_Data = [1, 2]\<rparr>, c\<lparr>Netlink := (sample_netlink, [])\<rparr>)
     \<and> (\<forall>c' p. client_Receive (netlink_ops sample_kernel LittleEndian) LittleEndian True c \<noteq> Some (Panic p, c'))"
proof -
  let ?c = "\<lparr>Netlink = (sample_netlink, [datagram LittleEndian (msg 1300 0 [1, 2])]), pendingAcks = [], clearPIDOnClose = False, closed = False\<rparr>"
  have "client_Receive (netlink_ops sample_kernel LittleEndian) LittleEndian True ?c
      = Some (Ok \<lparr>raw_Type = 1300, raw_Data = [1, 2]\<rparr>, ?c\<lparr>Netlink := (sample_netlink, [])\<rparr>)"
    using sample_receive [of sample_netlink LittleEndian "msg 1300 0 [1, 2]" True "[]"]
    by (simp add: client_Receive_def netlink_ops_def sample_netlink_def datagram_def msg_def zero_hdr_def return_def)
  moreover have "\<forall>fd n nb w p. fst (sys_Recvfrom sample_kernel fd n nb w) \<noteq> Panic p"
    "\<forall>fd n nb w b a. fst (sys_Recvfrom sample_kernel fd n nb w) = Ok (b, a) \<longrightarrow> length b \<le> n"
    by (auto simp: sample_kernel_def split: list.splits)
  ultimately show ?thesis
    using Receive_no_panic [of sample_kernel LittleEndian True ?c] by (intro exI [of _ ?c]) simp
qed

text \<open>
  Setting an option without waiting uses up one sequence number and remembers it, after
  those remembered before, as the number of an outstanding acknowledgement.
\<close>

theorem set_NoWait_pending:
  assumes "set_status (netlink_ops K bo) bo st NoWait c = Some (Ok (), c')"
  shows "pendingAcks c' = pendingAcks c @ [nl_seq (fst (Netlink c)) + 1]
    \<and> nl_seq (fst (Netlink c')) = nl_seq (fst (Netlink c)) + 1"
  using nlc.set_NoWait [OF assms] .

theorem set_NoWait_pending_witness:
  "\<exists>c c'. fst (NewAuditClient silent_kernel False ()) = Ok c
     \<and> SetEnabled (netlink_ops silent_kernel LittleEndian) LittleEndian True NoWait c = Some (Ok (), c')
     \<and> pendingAcks c' = [1]"
proof -
  let ?n = "\<lparr>nl_fd = 3, nl_src = SockaddrNetlink 0 0, nl_dest = SockaddrNetlink 0 0, nl_pid = 7, nl_seq = 0,
     nl_readBuf = 8986, nl_respWriter = False\<rparr>"
  let ?c = "\<lparr>Netlink = (?n, ()), pendingAcks = [], clearPIDOnClose = False, closed = False\<rparr>"
  let ?c' = "?c\<lparr>Netlink := (?n\<lparr>nl_seq := 1\<rparr>, ()), pendingAcks := [1]\<rparr>"
  have c: "fst (NewAuditClient silent_kernel False ()) = Ok ?c"
    by (simp add: silent_kernel_def NewAuditClient_def newAuditClient_def NewNetlinkClient_def getPortID_def)
  let ?st = "zero_status\<lparr>Mask := AuditStatusEnabled, Enabled := 1\<rparr>"
  have "16 + length (toWireFormat LittleEndian ?st) < 2 ^ 32" by (simp add: toWireFormat_def)
  then have set: "set_status (netlink_ops silent_kernel LittleEndian) LittleEndian ?st NoWait ?c = Some (Ok (), ?c')"
    by (simp add: set_status_def client_send_def netlink_ops_def Send_bytes request_def return_def
        storePendingAck_def silent_kernel_def)
  from set_NoWait_pending [OF set] set c show ?thesis
    by (intro exI [of _ ?c] exI [of _ ?c']) (simp add: SetEnabled_def)
qed

text \<open>
  (C32) The datagram that \<^verbatim>\<open>Send\<close> hands to the kernel is read back by the client's own parser as the
  message sent, with the length filled in, the next sequence number, and the client's port
  where the message had none.
\<close>

theorem Send_parses_back:
  assumes "16 + length (nl_Data m) < 2 ^ 32"
  shows "\<exists>b. Send K bo m (c, w) =
      (case sys_Sendto K (nl_fd c) b (SockaddrNetlink 0 0) w of
         (e, w') \<Rightarrow> (Ok (nl_seq c + 1, e), c\<lparr>nl_seq := nl_seq c + 1\<rparr>, w'))
    \<and> parseNetlinkAuditMessage bo b = Ok [m\<lparr>Header := sent_header c m\<rparr>]"
  using Send_bytes [OF assms, of K bo c w]
  by (intro exI [of _ "header_bytes bo (sent_header c m) @ nl_Data m"])
     (simp add: parseNetlinkAuditMessage_def read_header_bytes)

theorem Send_parses_back_witness:
  "\<exists>b. Send sample_kernel BigEndian (msg 1000 0 [1, 2]) (sample_netlink, [])
      = (Ok (5, None), sample_netlink\<lparr>nl_seq := 5\<rparr>, [b])
    \<and> parseNetlinkAuditMessage BigEndian b
      = Ok [\<lparr>Header = \<lparr>hdr_Len = 18, hdr_Type = 1000, hdr_Flags = 0, hdr_Seq = 5, hdr_Pid = 7\<rparr>, nl_Data = [1, 2]\<rparr>]"
  using Send_parses_back [of "msg 1000 0 [1, 2]" sample_kernel BigEndian sample_netlink "[]"]
  by (auto simp: msg_def zero_hdr_def sent_header_def sample_netlink_def sample_kernel_def)

section \<open>Acknowledgements\<close>

lemma getReply_client: "getReply ops bo s c = Some (r, c') \<Longrightarrow> \<exists>n. c' = c\<lparr>Netlink := n\<rparr>"
  by (auto simp: getReply_def)

lemma check_ack_client: "check_ack bo t ack c = Some (r, c') \<Longrightarrow> c' = c"
  by (auto simp: check_ack_def fail_def return_def split: if_splits option.splits)

lemma and_thenE:
  assumes "and_then m f = Some (r, c')"
  obtains (ok) a c1 where "m = Some (Ok a, c1)" and "f a c1 = Some (r, c')"
    | (err) e where "m = Some (Err e, c')" and "r = Err e"
    | (panic) p where "m = Some (Panic p, c')" and "r = Panic p"
  using assms by (cases m) (auto simp: and_then_def split: outcome.splits)

lemma ack_loop_client: "ack_loop ops bo reqs c = Some (r, c') \<Longrightarrow> \<exists>n. c' = c\<lparr>Netlink := n\<rparr>"
proof (induction reqs arbitrary: c)
  case Nil
  then show ?case by (auto simp: return_def intro!: exI [of _ "Netlink c"])
next
  case (Cons q reqs)
  then show ?case
    by (auto elim!: and_thenE dest!: getReply_client check_ack_client Cons.IH)
qed

lemma ack_loop_stream:
  assumes "delivers ops bo (Netlink c) ms n'" and "list_all2 (good_ack bo) reqs (filter (\<lambda>m. \<not> is_event m) ms)"
    and "ms = [] \<or> \<not> is_event (last ms)" and "0 \<notin> set reqs"
  shows "ack_loop ops bo reqs c = Some (Ok (), c\<lparr>Netlink := n'\<rparr>)"
  using assms
proof (induction reqs arbitrary: c ms)
  case Nil
  then have none: "filter (\<lambda>m. \<not> is_event m) ms = []" by simp
  have "ms = []"
  proof (rule ccontr)
    assume "ms \<noteq> []"
    then have "last ms \<in> set ms" by simp
    with none Nil.prems(3) \<open>ms \<noteq> []\<close> show False by (auto simp: filter_empty_conv)
  qed
  with Nil.prems(1) show ?case by (simp add: return_def)
next
  case (Cons q reqs)
  then obtain a as where f: "filter (\<lambda>m. \<not> is_event m) ms = a # as" and a: "good_ack bo q a"
    and as: "list_all2 (good_ack bo) reqs as" by (auto simp: list_all2_Cons1)
  have seq: "hdr_Seq (Header a) = q" "q \<noteq> 0" using a Cons.prems(4) by (auto simp: good_ack_def)
  obtain n1 rest where r: "getReply ops bo q c = Some (Ok a, c\<lparr>Netlink := n1\<rparr>)"
    "delivers ops bo n1 rest n'" "filter (\<lambda>m. \<not> is_event m) rest = as" "suffix rest ms"
    by (rule getReply_stream [OF Cons.prems(1) f seq])
  have "ms \<noteq> []" using f by auto
  then have "rest = [] \<or> \<not> is_event (last rest)"
    using r(4) Cons.prems(3) by (auto simp: suffix_def)
  then have "ack_loop ops bo reqs (c\<lparr>Netlink := n1\<rparr>) = Some (Ok (), (c\<lparr>Netlink := n1\<rparr>)\<lparr>Netlink := n'\<rparr>)"
    using Cons.prems(4) r(2,3) as by (intro Cons.IH [of _ rest]) simp_all
  with r(1) show ?case by (simp add: check_ack_good [OF a])
qed

text \<open>
  \<^verbatim>\<open>WaitForPendingACKs\<close> succeeds when the acknowledgements of the outstanding requests arrive
  in order without error, however many events come in between; it consumes exactly that
  stream.
\<close>

theorem WaitForPendingACKs_in_order:
  assumes "delivers ops bo (Netlink c) ms n'"
    and "list_all2 (good_ack bo) (pendingAcks c) (filter (\<lambda>m. \<not> is_event m) ms)"
    and "ms = [] \<or> \<not> is_event (last ms)" and "0 \<notin> set (pendingAcks c)"
  shows "WaitForPendingACKs ops bo c = Some (Ok (), c\<lparr>Netlink := n'\<rparr>)"
  unfolding WaitForPendingACKs_def by (rule ack_loop_stream [OF assms])

theorem WaitForPendingACKs_in_order_witness:
  "WaitForPendingACKs script_ops LittleEndian
      ((script_client LittleEndian [msg 1300 0 [], msg 2 1 [0, 0, 0, 0], msg 2 2 [0, 0, 0, 0]])\<lparr>pendingAcks := [1, 2]\<rparr>)
     = Some (Ok (), (script_client LittleEndian [])\<lparr>pendingAcks := [1, 2]\<rparr>)"
proof -
  let ?ms = "[msg 1300 0 [], msg 2 1 [0, 0, 0, 0], msg 2 2 [0, 0, 0, 0]]"
  have "delivers script_ops LittleEndian (0, map (datagram LittleEndian) ?ms) ?ms (0, [])"
    using script_delivers [of LittleEndian 0 ?ms "[]"] by (simp only: append_Nil2)
  then show ?thesis
    using WaitForPendingACKs_in_order [of script_ops LittleEndian
        "(script_client LittleEndian ?ms)\<lparr>pendingAcks := [1, 2]\<rparr>" ?ms "(0, [])"]
    by (simp add: script_simps)
qed

text \<open>
  (C35) \<^verbatim>\<open>WaitForPendingACKs\<close> does not forget the requests it has waited for: when it is called
  again and the kernel sends nothing more, it reports a missing reply.
\<close>

theorem WaitForPendingACKs_not_cleared:
  assumes "WaitForPendingACKs ops bo c = Some (Ok (), c')" and "pendingAcks c \<noteq> []"
    and "receive_retry ops bo 10 (Netlink c') = (Ok [], n)"
  shows "pendingAcks c' = pendingAcks c \<and> WaitForPendingACKs ops bo c' = Some (Err ErrNoReply, c'\<lparr>Netlink := n\<rparr>)"
proof -
  have keep: "pendingAcks c' = pendingAcks c"
    using ack_loop_client [OF assms(1) [unfolded WaitForPendingACKs_def]] by auto
  obtain q reqs where q: "pendingAcks c = q # reqs" using assms(2) by (cases "pendingAcks c") auto
  have "getReply ops bo q c' = Some (Err ErrNoReply, c'\<lparr>Netlink := n\<rparr>)"
    using assms(3) by (simp add: getReply_def reply_loop.simps [of ops bo q "Netlink c'"] skipped_def reply_of_def)
  with keep q show ?thesis by (simp add: WaitForPendingACKs_def)
qed

theorem WaitForPendingACKs_not_cleared_witness:
  "WaitForPendingACKs script_ops LittleEndian ((script_client LittleEndian [])\<lparr>pendingAcks := [1]\<rparr>)
     = Some (Err ErrNoReply, (script_client LittleEndian [])\<lparr>pendingAcks := [1]\<rparr>)"
proof -
  let ?c = "(script_client LittleEndian [msg 2 1 [0, 0, 0, 0]])\<lparr>pendingAcks := [1]\<rparr>"
  let ?c' = "(script_client LittleEndian [])\<lparr>pendingAcks := [1]\<rparr>"
  have "delivers script_ops LittleEndian (Netlink ?c) [msg 2 1 [0, 0, 0, 0]] (0, [])"
    using script_delivers [of LittleEndian 0 "[msg 2 1 [0, 0, 0, 0]]" "[]"]
    by (simp only: append_Nil2 script_client_def AuditClient.simps)
  then have "ack_loop script_ops LittleEndian [1] ?c = Some (Ok (), ?c\<lparr>Netlink := (0, [])\<rparr>)"
    by (rule ack_loop_stream) (simp_all add: script_simps)
  then have "WaitForPendingACKs script_ops LittleEndian ?c = Some (Ok (), ?c')"
    by (simp add: WaitForPendingACKs_def script_client_def)
  moreover have "receive_retry script_ops LittleEndian 10 (Netlink ?c') = (Ok [], 0, [])"
    by (simp add: numeral_eq_Suc script_ops_def script_client_def)
  ultimately show ?thesis
    using WaitForPendingACKs_not_cleared [of script_ops LittleEndian ?c ?c' "(0, [])"]
    by (simp add: script_client_def)
qed

text \<open>
  (C36) \<^verbatim>\<open>DeleteRule\<close> reports success for any reply to its request, also for an acknowledgement that
  carries an error number, where \<^verbatim>\<open>AddRule\<close> reports that error.
\<close>

theorem DeleteRule_ignores_error:
  assumes "op_Send ops (request AUDIT_DEL_RULE 5 rule) (Netlink c) = (Ok (s, None), n1)"
    and "op_Send ops (request AUDIT_ADD_RULE 5 rule) (Netlink c) = (Ok (s, None), n1)" and "s \<noteq> 0"
    and "delivers ops bo n1 [ack] n2" and "hdr_Seq (Header ack) = s" and "hdr_Type (Header ack) = NLMSG_ERROR"
    and "nl_Data ack = PutUint32 bo (- e) @ rest" and "e \<noteq> 0" and "e \<noteq> EEXIST"
  shows "DeleteRule ops bo rule c = Some (Ok (), c\<lparr>Netlink := n2\<rparr>)
    \<and> AddRule ops bo rule c = Some (Err (ErrWrapped ''error adding audit rule'' (Errno e)), c\<lparr>Netlink := n2\<rparr>)"
proof -
  let ?c1 = "c\<lparr>Netlink := n1\<rparr>"
  have "delivers ops bo (Netlink ?c1) ([] @ [ack]) n2" using assms(4) by simp
  then have r: "getReply ops bo s ?c1 = Some (Ok ack, ?c1\<lparr>Netlink := n2\<rparr>)"
    by (rule getReply_delivers) (use assms in simp_all)
  have "ParseNetlinkError bo (nl_Data ack) = Some (Errno e)"
    using assms(7,8) by (simp add: ParseNetlinkError_def Let_def)
  with r assms(6,9) show ?thesis
    by (simp add: DeleteRule_def AddRule_def client_send_Ok [OF assms(1)] client_send_Ok [OF assms(2)]
        return_def fail_def)
qed

theorem DeleteRule_ignores_error_witness:
  "DeleteRule script_ops LittleEndian [] (script_client LittleEndian [msg 2 1 (PutUint32 LittleEndian (- 2))])
     = Some (Ok (), (script_client LittleEndian [])\<lparr>Netlink := (1, [])\<rparr>)"
proof -
  let ?ms = "[msg 2 1 (PutUint32 LittleEndian (- 2))]"
  have "delivers script_ops LittleEndian (1, map (datagram LittleEndian) ?ms) ?ms (1, [])"
    using script_delivers [of LittleEndian 1 ?ms "[]"] by (simp only: append_Nil2)
  then show ?thesis
    using DeleteRule_ignores_error [of script_ops "[]" "script_client LittleEndian ?ms" 1
        "(1, map (datagram LittleEndian) ?ms)" LittleEndian "msg 2 1 (PutUint32 LittleEndian (- 2))" "(1, [])" 2 "[]"]
    by (simp add: script_simps del: PutUint32.simps)
qed

section \<open>Closing\<close>

text \<open>
  The first \<^verbatim>\<open>Close\<close> of a client that had registered its process unregisters it (a request to
  set the process number to 0, whose result is ignored) and then closes the socket, whose
  error it returns; every later \<^verbatim>\<open>Close\<close> does nothing.
\<close>

theorem Close_unregisters_once:
  assumes "\<not> closed c" and "clearPIDOnClose c"
    and "op_Send ops (request AuditSet 5 (toWireFormat bo (zero_status\<lparr>Mask := AuditStatusPID, PID := 0\<rparr>)))
           (Netlink c) = (Ok (s, e), n1)"
    and "op_Close ops n1 = (ce, n2)"
  shows "\<exists>c'. client_Close ops bo c = Some (case ce of None \<Rightarrow> Ok () | Some x \<Rightarrow> Err x, c')
    \<and> Netlink c' = n2 \<and> client_Close ops bo c' = Some (Ok (), c')"
  using assms
  by (cases e; cases ce)
     (simp_all add: client_Close_def close_body_def set_status_def client_send_def return_def fail_def
        storePendingAck_def)

theorem Close_unregisters_once_witness:
  "\<exists>c'. client_Close script_ops LittleEndian ((script_client LittleEndian [])\<lparr>clearPIDOnClose := True\<rparr>)
      = Some (Ok (), c') \<and> Netlink c' = (1, []) \<and> client_Close script_ops LittleEndian c' = Some (Ok (), c')"
  using Close_unregisters_once [of "(script_client LittleEndian [])\<lparr>clearPIDOnClose := True\<rparr>" script_ops
      LittleEndian 1 None "(1, [])" None "(1, [])"]
  by (simp add: script_simps)

text \<open>
  The three failure modes are the same number: asking for a kernel panic on failure sends
  the request to be silent.
\<close>

theorem SetFailure_modes_equal:
  "SetFailure ops bo PanicOnFailure wm c = SetFailure ops bo SilentOnFailure wm c
   \<and> SetFailure ops bo LogOnFailure wm c = SetFailure ops bo SilentOnFailure wm c"
  by (simp add: PanicOnFailure_def LogOnFailure_def SilentOnFailure_def)

end
