(* ===== verification/Rule_Types.thy ===== *)
theory Rule_Types
  imports Audit_Syscalls
begin

text \<open>
  The rule package's data: \<^verbatim>\<open>rule/types.go\<close> (the rules), \<^verbatim>\<open>rule/zkernel_types.go\<close> (the numbers the
  kernel uses) and \<^verbatim>\<open>rule/tables.go\<close> (names for them, and the reverse tables).
\<close>

section \<open>Kernel numbers\<close>

type_synonym filter_flags = u32
type_synonym action = u32
type_synonym field = u32
type_synonym operator = u32
type_synonym comparison = u32
type_synonym permission = u32
type_synonym filetype = u32

abbreviation userFilter :: filter_flags where "userFilter \<equiv> 0x0"
abbreviation taskFilter :: filter_flags where "taskFilter \<equiv> 0x1"
abbreviation entryFilter :: filter_flags where "entryFilter \<equiv> 0x2"
abbreviation watchFilter :: filter_flags where "watchFilter \<equiv> 0x3"
abbreviation exitFilter :: filter_flags where "exitFilter \<equiv> 0x4"
abbreviation typeFilter :: filter_flags where "typeFilter \<equiv> 0x5"
abbreviation prependFilter :: filter_flags where "prependFilter \<equiv> 0x10"
abbreviation excludeFilter :: filter_flags where "excludeFilter \<equiv> typeFilter"

abbreviation neverAction :: action where "neverAction \<equiv> 0x0"
abbreviation possibleAction :: action where "possibleAction \<equiv> 0x1"
abbreviation alwaysAction :: action where "alwaysAction \<equiv> 0x2"

abbreviation auidField :: field where "auidField \<equiv> 0x9"
abbreviation archField :: field where "archField \<equiv> 0xb"
abbreviation arg0Field :: field where "arg0Field \<equiv> 0xc8"
abbreviation arg1Field :: field where "arg1Field \<equiv> 0xc9"
abbreviation arg2Field :: field where "arg2Field \<equiv> 0xca"
abbreviation arg3Field :: field where "arg3Field \<equiv> 0xcb"
abbreviation devMajorField :: field where "devMajorField \<equiv> 0x64"
abbreviation devMinorField :: field where "devMinorField \<equiv> 0x65"
abbreviation dirField :: field where "dirField \<equiv> 0x6b"
abbreviation egidField :: field where "egidField \<equiv> 0x6"
abbreviation euidField :: field where "euidField \<equiv> 0x2"
abbreviation exeField :: field where "exeField \<equiv> 0x70"
abbreviation exitField :: field where "exitField \<equiv> 0x67"
abbreviation fsgidField :: field where "fsgidField \<equiv> 0x8"
abbreviation fsuidField :: field where "fsuidField \<equiv> 0x4"
abbreviation filetypeField :: field where "filetypeField \<equiv> 0x6c"
abbreviation gidField :: field where "gidField \<equiv> 0x5"
abbreviation inodeField :: field where "inodeField \<equiv> 0x66"
abbreviation keyField :: field where "keyField \<equiv> 0xd2"
abbreviation msgTypeField :: field where "msgTypeField \<equiv> 0xc"
abbreviation objectGIDField :: field where "objectGIDField \<equiv> 0x6e"
abbreviation objectLevelHighField :: field where "objectLevelHighField \<equiv> 0x17"
abbreviation objectLevelLowField :: field where "objectLevelLowField \<equiv> 0x16"
abbreviation objectRoleField :: field where "objectRoleField \<equiv> 0x14"
abbreviation objectTypeField :: field where "objectTypeField \<equiv> 0x15"
abbreviation objectUIDField :: field where "objectUIDField \<equiv> 0x6d"
abbreviation objectUserField :: field where "objectUserField \<equiv> 0x13"
abbreviation pathField :: field where "pathField \<equiv> 0x69"
abbreviation pidField :: field where "pidField \<equiv> 0x0"
abbreviation ppidField :: field where "ppidField \<equiv> 0x12"
abbreviation permField :: field where "permField \<equiv> 0x6a"
abbreviation persField :: field where "persField \<equiv> 0xa"
abbreviation sgidField :: field where "sgidField \<equiv> 0x7"
abbreviation suidField :: field where "suidField \<equiv> 0x3"
abbreviation subjectClearanceField :: field where "subjectClearanceField \<equiv> 0x11"
abbreviation subjectRoleField :: field where "subjectRoleField \<equiv> 0xe"
abbreviation subjectSensitivityField :: field where "subjectSensitivityField \<equiv> 0x10"
abbreviation subjectTypeField :: field where "subjectTypeField \<equiv> 0xf"
abbreviation subjectUserField :: field where "subjectUserField \<equiv> 0xd"
abbreviation successField :: field where "successField \<equiv> 0x68"
abbreviation uidField :: field where "uidField \<equiv> 0x1"
abbreviation fieldCompare :: field where "fieldCompare \<equiv> 0x6f"

abbreviation bitMaskOperator :: operator where "bitMaskOperator \<equiv> 0x8000000"
abbreviation lessThanOperator :: operator where "lessThanOperator \<equiv> 0x10000000"
abbreviation greaterThanOperator :: operator where "greaterThanOperator \<equiv> 0x20000000"
abbreviation notEqualOperator :: operator where "notEqualOperator \<equiv> 0x30000000"
abbreviation equalOperator :: operator where "equalOperator \<equiv> 0x40000000"
abbreviation bitTestOperator :: operator where "bitTestOperator \<equiv> 0x48000000"
abbreviation lessThanOrEqualOperator :: operator where "lessThanOrEqualOperator \<equiv> 0x50000000"
abbreviation greaterThanOrEqualOperator :: operator where "greaterThanOrEqualOperator \<equiv> 0x60000000"

abbreviation AUDIT_COMPARE_UID_TO_OBJ_UID :: comparison where "AUDIT_COMPARE_UID_TO_OBJ_UID \<equiv> 0x1"
abbreviation AUDIT_COMPARE_GID_TO_OBJ_GID :: comparison where "AUDIT_COMPARE_GID_TO_OBJ_GID \<equiv> 0x2"
abbreviation AUDIT_COMPARE_EUID_TO_OBJ_UID :: comparison where "AUDIT_COMPARE_EUID_TO_OBJ_UID \<equiv> 0x3"
abbreviation AUDIT_COMPARE_EGID_TO_OBJ_GID :: comparison where "AUDIT_COMPARE_EGID_TO_OBJ_GID \<equiv> 0x4"
abbreviation AUDIT_COMPARE_AUID_TO_OBJ_UID :: comparison where "AUDIT_COMPARE_AUID_TO_OBJ_UID \<equiv> 0x5"
abbreviation AUDIT_COMPARE_SUID_TO_OBJ_UID :: comparison where "AUDIT_COMPARE_SUID_TO_OBJ_UID \<equiv> 0x6"
abbreviation AUDIT_COMPARE_SGID_TO_OBJ_GID :: comparison where "AUDIT_COMPARE_SGID_TO_OBJ_GID \<equiv> 0x7"
abbreviation AUDIT_COMPARE_FSUID_TO_OBJ_UID :: comparison where "AUDIT_COMPARE_FSUID_TO_OBJ_UID \<equiv> 0x8"
abbreviation AUDIT_COMPARE_FSGID_TO_OBJ_GID :: comparison where "AUDIT_COMPARE_FSGID_TO_OBJ_GID \<equiv> 0x9"
abbreviation AUDIT_COMPARE_UID_TO_AUID :: comparison where "AUDIT_COMPARE_UID_TO_AUID \<equiv> 0xa"
abbreviation AUDIT_COMPARE_UID_TO_EUID :: comparison where "AUDIT_COMPARE_UID_TO_EUID \<equiv> 0xb"
abbreviation AUDIT_COMPARE_UID_TO_FSUID :: comparison where "AUDIT_COMPARE_UID_TO_FSUID \<equiv> 0xc"
abbreviation AUDIT_COMPARE_UID_TO_SUID :: comparison where "AUDIT_COMPARE_UID_TO_SUID \<equiv> 0xd"
abbreviation AUDIT_COMPARE_AUID_TO_FSUID :: comparison where "AUDIT_COMPARE_AUID_TO_FSUID \<equiv> 0xe"
abbreviation AUDIT_COMPARE_AUID_TO_SUID :: comparison where "AUDIT_COMPARE_AUID_TO_SUID \<equiv> 0xf"
abbreviation AUDIT_COMPARE_AUID_TO_EUID :: comparison where "AUDIT_COMPARE_AUID_TO_EUID \<equiv> 0x10"
abbreviation AUDIT_COMPARE_EUID_TO_SUID :: comparison where "AUDIT_COMPARE_EUID_TO_SUID \<equiv> 0x11"
abbreviation AUDIT_COMPARE_EUID_TO_FSUID :: comparison where "AUDIT_COMPARE_EUID_TO_FSUID \<equiv> 0x12"
abbreviation AUDIT_COMPARE_SUID_TO_FSUID :: comparison where "AUDIT_COMPARE_SUID_TO_FSUID \<equiv> 0x13"
abbreviation AUDIT_COMPARE_GID_TO_EGID :: comparison where "AUDIT_COMPARE_GID_TO_EGID \<equiv> 0x14"
abbreviation AUDIT_COMPARE_GID_TO_FSGID :: comparison where "AUDIT_COMPARE_GID_TO_FSGID \<equiv> 0x15"
abbreviation AUDIT_COMPARE_GID_TO_SGID :: comparison where "AUDIT_COMPARE_GID_TO_SGID \<equiv> 0x16"
abbreviation AUDIT_COMPARE_EGID_TO_FSGID :: comparison where "AUDIT_COMPARE_EGID_TO_FSGID \<equiv> 0x17"
abbreviation AUDIT_COMPARE_EGID_TO_SGID :: comparison where "AUDIT_COMPARE_EGID_TO_SGID \<equiv> 0x18"
abbreviation AUDIT_COMPARE_SGID_TO_FSGID :: comparison where "AUDIT_COMPARE_SGID_TO_FSGID \<equiv> 0x19"

abbreviation execPerm :: permission where "execPerm \<equiv> 0x1"
abbreviation writePerm :: permission where "writePerm \<equiv> 0x2"
abbreviation readPerm :: permission where "readPerm \<equiv> 0x4"
abbreviation attrPerm :: permission where "attrPerm \<equiv> 0x8"

abbreviation fileFiletype :: filetype where "fileFiletype \<equiv> 0x8000"
abbreviation socketFiletype :: filetype where "socketFiletype \<equiv> 0xc000"
abbreviation linkFiletype :: filetype where "linkFiletype \<equiv> 0xa000"
abbreviation blockFiletype :: filetype where "blockFiletype \<equiv> 0x6000"
abbreviation dirFiletype :: filetype where "dirFiletype \<equiv> 0x4000"
abbreviation characterFiletype :: filetype where "characterFiletype \<equiv> 0x2000"
abbreviation fifoFiletype :: filetype where "fifoFiletype \<equiv> 0x1000"

section \<open>Rules\<close>

datatype RuleType = DeleteAllRuleType | FileWatchRuleType | AppendSyscallRuleType | PrependSyscallRuleType

datatype AccessType = ReadAccessType | WriteAccessType | ExecuteAccessType | AttributeChangeAccessType

definition accessTypeName :: "(AccessType \<times> string) list" where
  "accessTypeName = [(ReadAccessType, ''read''), (WriteAccessType, ''write''),
     (ExecuteAccessType, ''execute''), (AttributeChangeAccessType, ''attribute'')]"

definition AccessType_String :: "AccessType \<Rightarrow> string" where
  "AccessType_String t = (case map_of accessTypeName t of Some name \<Rightarrow> name | None \<Rightarrow> ''unknown'')"

datatype FilterType = InterFieldFilterType | ValueFilterType

record FilterSpec =
  filter_Type :: FilterType
  filter_LHS :: string
  filter_Comparator :: string
  filter_RHS :: string

definition FilterSpec_String :: "FilterSpec \<Rightarrow> string" where
  "FilterSpec_String f = filter_LHS f @ '' '' @ filter_Comparator f @ '' '' @ filter_RHS f"

record FileWatchRule =
  watch_Type :: RuleType
  watch_Path :: string
  watch_Permissions :: "AccessType list"
  watch_Keys :: "string list"

record SyscallRule =
  sys_Type :: RuleType
  sys_List :: string
  sys_Action :: string
  sys_Filters :: "FilterSpec list"
  sys_Syscalls :: "string list"
  sys_Keys :: "string list"

record DeleteAllRule =
  del_Type :: RuleType
  del_Keys :: "string list"

text \<open>The interface \<^verbatim>\<open>Rule\<close> and its implementations.\<close>

datatype Rule =
    RDeleteAll DeleteAllRule
  | RFileWatch FileWatchRule
  | RSyscall SyscallRule

primrec TypeOf :: "Rule \<Rightarrow> RuleType" where
  "TypeOf (RDeleteAll r) = del_Type r"
| "TypeOf (RFileWatch r) = watch_Type r"
| "TypeOf (RSyscall r) = sys_Type r"

section \<open>Tables\<close>

definition operatorsTable :: "(string \<times> operator) list" where
  "operatorsTable = [
    (''&'', bitMaskOperator), (''<'', lessThanOperator), (''>'', greaterThanOperator),
    (''!='', notEqualOperator), (''='', equalOperator), (''&='', bitTestOperator),
    (''<='', lessThanOrEqualOperator), (''>='', greaterThanOrEqualOperator)]"

definition fieldsTable :: "(string \<times> field) list" where
  "fieldsTable = [
    (''auid'', auidField), (''arch'', archField), (''a0'', arg0Field), (''a1'', arg1Field),
    (''a2'', arg2Field), (''a3'', arg3Field), (''devmajor'', devMajorField),
    (''devminor'', devMinorField), (''dir'', dirField), (''egid'', egidField),
    (''euid'', euidField), (''exe'', exeField), (''exit'', exitField), (''fsgid'', fsgidField),
    (''fsuid'', fsuidField), (''filetype'', filetypeField), (''gid'', gidField),
    (''inode'', inodeField), (''key'', keyField), (''msgtype'', msgTypeField),
    (''obj_gid'', objectGIDField), (''obj_lev_high'', objectLevelHighField),
    (''obj_lev_low'', objectLevelLowField), (''obj_role'', objectRoleField),
    (''obj_type'', objectTypeField), (''obj_uid'', objectUIDField),
    (''obj_user'', objectUserField), (''path'', pathField), (''pid'', pidField),
    (''ppid'', ppidField), (''perm'', permField), (''pers'', persField), (''sgid'', sgidField),
    (''suid'', suidField), (''subj_clr'', subjectClearanceField),
    (''subj_role'', subjectRoleField), (''subj_sen'', subjectSensitivityField),
    (''subj_type'', subjectTypeField), (''subj_user'', subjectUserField),
    (''success'', successField), (''uid'', uidField)]"

definition comparisonsTable :: "(field \<times> (field \<times> comparison) list) list" where
  "comparisonsTable = [
    (euidField, [
      (auidField, AUDIT_COMPARE_AUID_TO_EUID), (fsuidField, AUDIT_COMPARE_EUID_TO_FSUID),
      (objectUIDField, AUDIT_COMPARE_EUID_TO_OBJ_UID), (suidField, AUDIT_COMPARE_EUID_TO_SUID),
      (uidField, AUDIT_COMPARE_UID_TO_EUID)]),
    (fsuidField, [
      (auidField, AUDIT_COMPARE_AUID_TO_FSUID), (euidField, AUDIT_COMPARE_EUID_TO_FSUID),
      (objectUIDField, AUDIT_COMPARE_FSUID_TO_OBJ_UID), (suidField, AUDIT_COMPARE_SUID_TO_FSUID),
      (uidField, AUDIT_COMPARE_UID_TO_FSUID)]),
    (auidField, [
      (euidField, AUDIT_COMPARE_AUID_TO_EUID), (fsuidField, AUDIT_COMPARE_AUID_TO_FSUID),
      (objectUIDField, AUDIT_COMPARE_AUID_TO_OBJ_UID), (suidField, AUDIT_COMPARE_AUID_TO_SUID),
      (uidField, AUDIT_COMPARE_UID_TO_AUID)]),
    (suidField, [
      (auidField, AUDIT_COMPARE_AUID_TO_SUID), (euidField, AUDIT_COMPARE_EUID_TO_SUID),
      (fsuidField, AUDIT_COMPARE_SUID_TO_FSUID), (objectUIDField, AUDIT_COMPARE_SUID_TO_OBJ_UID),
      (uidField, AUDIT_COMPARE_UID_TO_SUID)]),
    (objectUIDField, [
      (auidField, AUDIT_COMPARE_AUID_TO_OBJ_UID), (euidField, AUDIT_COMPARE_EUID_TO_OBJ_UID),
      (fsuidField, AUDIT_COMPARE_FSUID_TO_OBJ_UID), (uidField, AUDIT_COMPARE_UID_TO_OBJ_UID),
      (suidField, AUDIT_COMPARE_SUID_TO_OBJ_UID)]),
    (uidField, [
      (auidField, AUDIT_COMPARE_UID_TO_AUID), (euidField, AUDIT_COMPARE_UID_TO_EUID),
      (fsuidField, AUDIT_COMPARE_UID_TO_FSUID), (objectUIDField, AUDIT_COMPARE_UID_TO_OBJ_UID),
      (suidField, AUDIT_COMPARE_UID_TO_SUID)]),
    (egidField, [
      (fsgidField, AUDIT_COMPARE_EGID_TO_FSGID), (gidField, AUDIT_COMPARE_GID_TO_EGID),
      (objectGIDField, AUDIT_COMPARE_EGID_TO_OBJ_GID), (sgidField, AUDIT_COMPARE_EGID_TO_SGID)]),
    (fsgidField, [
      (sgidField, AUDIT_COMPARE_SGID_TO_FSGID), (gidField, AUDIT_COMPARE_GID_TO_FSGID),
      (objectGIDField, AUDIT_COMPARE_FSGID_TO_OBJ_GID), (egidField, AUDIT_COMPARE_EGID_TO_FSGID)]),
    (gidField, [
      (egidField, AUDIT_COMPARE_GID_TO_EGID), (fsgidField, AUDIT_COMPARE_GID_TO_FSGID),
      (objectGIDField, AUDIT_COMPARE_GID_TO_OBJ_GID), (sgidField, AUDIT_COMPARE_GID_TO_SGID)]),
    (objectGIDField, [
      (egidField, AUDIT_COMPARE_EGID_TO_OBJ_GID), (fsgidField, AUDIT_COMPARE_FSGID_TO_OBJ_GID),
      (gidField, AUDIT_COMPARE_GID_TO_OBJ_GID), (sgidField, AUDIT_COMPARE_SGID_TO_OBJ_GID)]),
    (sgidField, [
      (fsgidField, AUDIT_COMPARE_SGID_TO_FSGID), (gidField, AUDIT_COMPARE_GID_TO_SGID),
      (objectGIDField, AUDIT_COMPARE_SGID_TO_OBJ_GID), (egidField, AUDIT_COMPARE_EGID_TO_SGID)])]"

section \<open>Reverse tables\<close>

text \<open>
  The \<^verbatim>\<open>init\<close> of the package fills the reverse tables by iterating over the maps. Values are
  distinct in every table but the comparisons (see the lemmas below), so the order of the
  iteration does not matter; of the two pairs of fields with the same comparison the first
  one met is kept, and the only user sorts the pair.
\<close>

definition reverseArch :: "(string \<times> u32) list" where
  "reverseArch = swap_table AuditArchNames"

definition reverseOperatorsTable :: "(operator \<times> string) list" where
  "reverseOperatorsTable = swap_table operatorsTable"

definition reverseFieldsTable :: "(field \<times> string) list" where
  "reverseFieldsTable = swap_table fieldsTable"

definition comparison_pairs :: "(comparison \<times> (field \<times> field)) list" where
  "comparison_pairs = concat (map (\<lambda>(lhs, table). map (\<lambda>(rhs, comp). (comp, (lhs, rhs))) table) comparisonsTable)"

text \<open>\<^verbatim>\<open>map_of\<close> takes the first pair for a comparison.\<close>

definition reverseComparisonsTable :: "comparison \<rightharpoonup> field \<times> field" where
  "reverseComparisonsTable = map_of comparison_pairs"

definition reverseSyscall :: "string \<rightharpoonup> (string \<times> int) list" where
  "reverseSyscall arch = map_option swap_table (AuditSyscalls arch)"

section \<open>Laws\<close>

lemma distinct_operators: "distinct (map fst operatorsTable)" "distinct (map snd operatorsTable)"
  by (rule distinct_by_key [where f = str_key], code_simp) (rule distinct_by_key [where f = uint], code_simp)

lemma distinct_fields: "distinct (map fst fieldsTable)" "distinct (map snd fieldsTable)"
  by (rule distinct_by_key [where f = str_key], code_simp) (rule distinct_by_key [where f = uint], code_simp)

lemma reverse_operator: "map_of reverseOperatorsTable op = Some name \<longleftrightarrow> map_of operatorsTable name = Some op"
  unfolding reverseOperatorsTable_def by (rule map_of_swap [OF distinct_operators])

lemma reverse_field: "map_of reverseFieldsTable f = Some name \<longleftrightarrow> map_of fieldsTable name = Some f"
  unfolding reverseFieldsTable_def by (rule map_of_swap [OF distinct_fields])

text \<open>A short key that happens to separate the names of every table.\<close>

primrec short_key :: "string \<Rightarrow> int" where
  "short_key [] = 0"
| "short_key (c # cs) = of_char c + 4 * short_key cs"

lemma distinct_names_aarch64: "distinct (map snd syscalls_aarch64)"
  by (rule distinct_by_key [where f = short_key]) code_simp

lemma distinct_names_arm: "distinct (map snd syscalls_arm)"
  by (rule distinct_by_key [where f = short_key]) code_simp

lemma distinct_names_i386: "distinct (map snd syscalls_i386)"
  by (rule distinct_by_key [where f = short_key]) code_simp

lemma distinct_names_ia64: "distinct (map snd syscalls_ia64)"
  by (rule distinct_by_key [where f = short_key]) code_simp

lemma distinct_names_ppc: "distinct (map snd syscalls_ppc)"
  by (rule distinct_by_key [where f = short_key]) code_simp

lemma distinct_names_s390: "distinct (map snd syscalls_s390)"
  by (rule distinct_by_key [where f = short_key]) code_simp

lemma distinct_names_s390x: "distinct (map snd syscalls_s390x)"
  by (rule distinct_by_key [where f = short_key]) code_simp

lemma distinct_names_x86_64: "distinct (map snd syscalls_x86_64)"
  by (rule distinct_by_key [where f = short_key]) code_simp

lemmas distinct_syscall_names = distinct_names_aarch64 distinct_names_arm distinct_names_i386 distinct_names_ia64
  distinct_names_ppc distinct_names_s390 distinct_names_s390x distinct_names_x86_64

lemma syscall_tables_cases:
  assumes "AuditSyscalls arch = Some t"
  shows "t \<in> {syscalls_aarch64, syscalls_arm, syscalls_i386, syscalls_ia64, syscalls_ppc, syscalls_s390,
    syscalls_s390x, syscalls_x86_64}"
  using assms by (auto simp: AuditSyscalls_def AuditSyscalls_literal_def split: if_splits)

lemma syscall_tables_distinct:
  assumes "AuditSyscalls arch = Some t"
  shows "distinct (map fst t)" and "distinct (map snd t)"
  using syscall_tables_cases [OF assms]
  by (auto simp only: insert_iff empty_iff simp: distinct_syscall_numbers distinct_syscall_names)

text \<open>
  (C40) Names and numbers of system calls determine each other on every architecture: a number is
  found for a name in the reverse table exactly when the name is found for the number.
\<close>

theorem syscall_names_invert:
  "(\<exists>t. reverseSyscall arch = Some t \<and> map_of t name = Some num) \<longleftrightarrow> syscall_name arch num = Some name"
proof (cases "AuditSyscalls arch")
  case (Some t)
  have "map_of (swap_table t) name = Some num \<longleftrightarrow> map_of t num = Some name"
    by (rule map_of_swap [OF syscall_tables_distinct [OF Some]])
  with Some show ?thesis by (simp add: reverseSyscall_def syscall_name_def)
qed (simp add: reverseSyscall_def syscall_name_def)

lemma reverse_arch: "map_of reverseArch name = Some a \<longleftrightarrow> map_of AuditArchNames a = Some name"
  unfolding reverseArch_def by (rule map_of_swap [OF distinct_arch_values distinct_arch_names])

end
