(* ===== verification/Rule_Binary.thy ===== *)
theory Rule_Binary
  imports Rule_Types Go_Binary
begin

text \<open>
  \<^verbatim>\<open>rule/binary.go\<close>: the kernel's binary form of a rule. Arrays of the struct are lists whose
  length is part of the invariant \<open>ard_ok\<close>; \<open>fromWireFormat\<close> only makes such values.
\<close>

section \<open>The struct\<close>

abbreviation syscallBitmaskSize :: nat where "syscallBitmaskSize \<equiv> 64"
abbreviation maxFields :: nat where "maxFields \<equiv> 64"

record auditRuleData =
  ard_Flags :: filter_flags
  ard_Action :: action
  ard_FieldCount :: u32
  ard_Mask :: "u32 list"
  ard_Fields :: "field list"
  ard_Values :: "u32 list"
  ard_FieldFlags :: "operator list"
  ard_BufLen :: u32
  ard_Buf :: bytes

definition ard_ok :: "auditRuleData \<Rightarrow> bool" where
  "ard_ok r = (length (ard_Mask r) = syscallBitmaskSize \<and> length (ard_Fields r) = maxFields
     \<and> length (ard_Values r) = maxFields \<and> length (ard_FieldFlags r) = maxFields
     \<and> length (ard_Buf r) = unat (ard_BufLen r))"

section \<open>Encoding and decoding\<close>

text \<open>The words of the fixed part, in order.\<close>

definition fixed_words :: "auditRuleData \<Rightarrow> u32 list" where
  "fixed_words r = [ard_Flags r, ard_Action r, ard_FieldCount r] @ ard_Mask r @ ard_Fields r
     @ ard_Values r @ ard_FieldFlags r @ [ard_BufLen r]"

text \<open>\<^verbatim>\<open>toWireFormat\<close> pads with zeros to a multiple of four bytes.\<close>

definition pad4 :: "bytes \<Rightarrow> bytes" where
  "pad4 out = (if length out mod 4 > 0 then out @ replicate (4 - length out mod 4) 0 else out)"

definition ard_toWireFormat :: "byte_order \<Rightarrow> auditRuleData \<Rightarrow> bytes" where
  "ard_toWireFormat bo r = pad4 (encode_u32s bo (fixed_words r) @ ard_Buf r)"

datatype wire_error = ErrRuleData io_error | ErrBufLen

text \<open>\<^verbatim>\<open>binary.Read\<close> of the fixed part: 260 words.\<close>

abbreviation fixedWords :: nat where "fixedWords \<equiv> 260"

definition fromWireFormat :: "byte_order \<Rightarrow> bytes \<Rightarrow> (wire_error, auditRuleData) outcome" where
  "fromWireFormat bo data =
     (case read_full (4 * fixedWords) data of
        Err e \<Rightarrow> Err (ErrRuleData e)
      | Panic p \<Rightarrow> Panic p
      | Ok (b, rest) \<Rightarrow>
         (let ws = decode_u32s bo fixedWords b; bufLen = ws ! 259 in
          if length rest < unat bufLen then Err ErrBufLen
          else Ok \<lparr>ard_Flags = ws ! 0, ard_Action = ws ! 1, ard_FieldCount = ws ! 2,
                   ard_Mask = take 64 (drop 3 ws), ard_Fields = take 64 (drop 67 ws),
                   ard_Values = take 64 (drop 131 ws), ard_FieldFlags = take 64 (drop 195 ws),
                   ard_BufLen = bufLen, ard_Buf = take (unat bufLen) rest\<rparr>))"

section \<open>Laws\<close>

lemma length_fixed_words: "ard_ok r \<Longrightarrow> length (fixed_words r) = fixedWords"
  by (simp add: fixed_words_def ard_ok_def)

lemma pad4_eq: "\<exists>k < 4. pad4 out = out @ replicate k 0 \<and> length (pad4 out) mod 4 = 0"
proof (cases "length out mod 4 = 0")
  case False
  let ?k = "4 - length out mod 4"
  have "length out mod 4 < 4" by simp
  then have "?k < 4" using False by linarith
  moreover have "(length out + ?k) mod 4 = 0"
    by (metis (no_types, lifting) \<open>length out mod 4 < 4\<close> le_add_diff_inverse less_imp_le mod_add_left_eq mod_self)
  ultimately show ?thesis using False by (intro exI [of _ ?k]) (simp add: pad4_def)
qed (auto simp: pad4_def intro!: exI [of _ 0])

lemma pad4_length: "length (pad4 out) mod 4 = 0"
  using pad4_eq [of out] by blast

text \<open>Decoding an encoded rule gives it back, whatever follows it.\<close>

lemma fromWireFormat_append:
  assumes "ard_ok r"
  shows "fromWireFormat bo (encode_u32s bo (fixed_words r) @ ard_Buf r @ rest) = Ok r"
proof -
  let ?ws = "fixed_words r"
  have len: "length ?ws = fixedWords" by (rule length_fixed_words [OF assms])
  have ne: "encode_u32s bo ?ws \<noteq> []" using len by (metis length_encode_u32s length_0_conv mult_is_0 zero_neq_numeral)
  have rd: "read_full (4 * fixedWords) (encode_u32s bo ?ws @ ard_Buf r @ rest)
      = Ok (encode_u32s bo ?ws, ard_Buf r @ rest)"
    using len ne by (simp add: read_full_def)
  have dec: "decode_u32s bo fixedWords (encode_u32s bo ?ws) = ?ws"
    using decode_encode_u32s [of fixedWords ?ws bo "[]"] len by simp
  have parts: "?ws ! 0 = ard_Flags r" "?ws ! 1 = ard_Action r" "?ws ! 2 = ard_FieldCount r"
    "?ws ! 259 = ard_BufLen r" "take 64 (drop 3 ?ws) = ard_Mask r" "take 64 (drop 67 ?ws) = ard_Fields r"
    "take 64 (drop 131 ?ws) = ard_Values r" "take 64 (drop 195 ?ws) = ard_FieldFlags r"
    using assms by (simp_all add: fixed_words_def ard_ok_def nth_append)
  have "unat (ard_BufLen r) = length (ard_Buf r)" using assms by (simp add: ard_ok_def)
  then show ?thesis
    unfolding fromWireFormat_def rd by (simp add: dec parts Let_def del: One_nat_def)
qed

lemma wire_decodes: "ard_ok r \<Longrightarrow> fromWireFormat bo (ard_toWireFormat bo r) = Ok r"
proof -
  assume ok: "ard_ok r"
  obtain k where "pad4 (encode_u32s bo (fixed_words r) @ ard_Buf r)
      = (encode_u32s bo (fixed_words r) @ ard_Buf r) @ replicate k 0"
    using pad4_eq [of "encode_u32s bo (fixed_words r) @ ard_Buf r"] by (elim exE conjE) rule
  then show ?thesis
    unfolding ard_toWireFormat_def by (simp only: append_assoc fromWireFormat_append [OF ok])
qed

text \<open>
  The binary form of a rule is read back as that rule, and its length is a multiple of four
  bytes, as the kernel expects.
\<close>

theorem wire_roundtrip:
  assumes "ard_ok r"
  shows "fromWireFormat bo (ard_toWireFormat bo r) = Ok r \<and> length (ard_toWireFormat bo r) mod 4 = 0"
  using wire_decodes [OF assms, of bo] pad4_length [of "encode_u32s bo (fixed_words r) @ ard_Buf r"]
  unfolding ard_toWireFormat_def by (rule conjI)

theorem wire_roundtrip_witness:
  "fromWireFormat BigEndian (ard_toWireFormat BigEndian
      \<lparr>ard_Flags = 4, ard_Action = 2, ard_FieldCount = 1, ard_Mask = replicate 64 0,
       ard_Fields = 0xd2 # replicate 63 0, ard_Values = 3 # replicate 63 0,
       ard_FieldFlags = 0x40000000 # replicate 63 0, ard_BufLen = 3, ard_Buf = [97, 98, 99]\<rparr>)
     = Ok \<lparr>ard_Flags = 4, ard_Action = 2, ard_FieldCount = 1, ard_Mask = replicate 64 0,
       ard_Fields = 0xd2 # replicate 63 0, ard_Values = 3 # replicate 63 0,
       ard_FieldFlags = 0x40000000 # replicate 63 0, ard_BufLen = 3, ard_Buf = [97, 98, 99]\<rparr>"
  by (rule wire_roundtrip [THEN conjunct1]) (simp add: ard_ok_def)

text \<open>
  Everything \<^verbatim>\<open>fromWireFormat\<close> accepts has arrays of the right length and a buffer as long as
  it says; anything shorter than the fixed part is refused, and so is a buffer cut short.
\<close>

theorem fromWireFormat_well_formed:
  "(fromWireFormat bo data = Ok r \<longrightarrow> ard_ok r)
   \<and> (length data < 1040 \<longrightarrow> fromWireFormat bo data = Err (ErrRuleData (if data = [] then EOF else ErrUnexpectedEOF)))
   \<and> fromWireFormat bo data \<noteq> Panic p"
  by (auto simp: fromWireFormat_def read_full_def ard_ok_def Let_def split: if_splits)

theorem fromWireFormat_well_formed_witness:
  "fromWireFormat LittleEndian [1, 2, 3] = Err (ErrRuleData ErrUnexpectedEOF)"
  using fromWireFormat_well_formed [of LittleEndian "[1, 2, 3]"] by simp

end
