(* ===== verification/Rule_Build.thy ===== *)
theory Rule_Build
  imports Rule_Binary Audit_Msg_Types
begin

unbundle bit_operations_syntax

text \<open>
  \<^verbatim>\<open>rule/rule.go\<close>, first part: building a rule (\<^verbatim>\<open>Build\<close> and what it calls) and the conversions
  between \<^verbatim>\<open>ruleData\<close> and the kernel's struct. What the code asks the system for (the
  architecture, the user and group databases, whether a path is a directory) is the
  parameter \<open>host\<close>.
\<close>

section \<open>Environment and errors\<close>

text \<open>A user is looked up by name to its id (a numeral), and by id to its name; groups likewise.\<close>

record host =
  GOARCH :: string
  user_Lookup :: "string \<Rightarrow> string option"
  user_LookupGroup :: "string \<Rightarrow> string option"
  user_LookupId :: "string \<Rightarrow> string option"
  user_LookupGroupId :: "string \<Rightarrow> string option"
  stat_IsDir :: "string \<Rightarrow> bool"

datatype rule_error =
    RErr string string
  | RNum string num_error
  | RTooManyFields
  | RWire wire_error
  | RMsgType msg_type_error
  | RWrap string rule_error

definition rule_wrap :: "string \<Rightarrow> (rule_error, 'a) outcome \<Rightarrow> (rule_error, 'a) outcome" where
  "rule_wrap m r = (case r of Err e \<Rightarrow> Err (RWrap m e) | _ \<Rightarrow> r)"

definition need :: "rule_error \<Rightarrow> 'a option \<Rightarrow> (rule_error, 'a) outcome" where
  "need e x = (case x of None \<Rightarrow> Err e | Some a \<Rightarrow> Ok a)"

section \<open>Rule data\<close>

record ruleData =
  rd_flags :: filter_flags
  rd_action :: action
  rd_allSyscalls :: bool
  rd_syscalls :: "u32 list"
  rd_fields :: "field list"
  rd_values :: "u32 list"
  rd_fieldFlags :: "operator list"
  rd_strings :: "string list"
  rd_arch :: string

definition zero_ruleData :: ruleData where
  "zero_ruleData = \<lparr>rd_flags = 0, rd_action = 0, rd_allSyscalls = False, rd_syscalls = [], rd_fields = [],
     rd_values = [], rd_fieldFlags = [], rd_strings = [], rd_arch = []\<rparr>"

text \<open>The fields whose value is the length of a string in the buffer.\<close>

definition is_string_field :: "field \<Rightarrow> bool" where
  "is_string_field f = (f \<in> {objectUserField, objectRoleField, objectTypeField, objectLevelLowField,
     objectLevelHighField, pathField, dirField, subjectUserField, subjectRoleField, subjectTypeField,
     subjectSensitivityField, subjectClearanceField, keyField, exeField})"

section \<open>To and from the kernel's struct\<close>

text \<open>
  The mask of the listed system calls. The test lets the word number be equal to the length
  of the mask, and the access then panics.
\<close>

primrec set_syscalls :: "u32 list \<Rightarrow> u32 list \<Rightarrow> (rule_error, u32 list) outcome" where
  "set_syscalls [] msk = Ok msk"
| "set_syscalls (n # ns) msk =
     (let w = unat n div 32 in
      if w > length msk then Err (RErr ''invalid syscall number'' (format_uint (unat n)))
      else if w = length msk then Panic IndexOutOfRange
      else set_syscalls ns (msk[w := msk ! w OR push_bit (unat n mod 32) 1]))"

definition syscall_mask :: "ruleData \<Rightarrow> (rule_error, u32 list) outcome" where
  "syscall_mask d =
     (if rd_allSyscalls d then Ok (replicate 63 0xFFFFFFFF @ [0])
      else set_syscalls (rd_syscalls d) (replicate syscallBitmaskSize 0))"

definition pad_array :: "'a::zero list \<Rightarrow> 'a list" where
  "pad_array xs = xs @ replicate (maxFields - length xs) 0"

definition toAuditRuleData :: "ruleData \<Rightarrow> (rule_error, auditRuleData) outcome" where
  "toAuditRuleData d =
     bind_outcome (syscall_mask d) (\<lambda>msk.
     let n = length (rd_fields d); buf = concat (map bytes_of_string (rd_strings d)) in
     if n > maxFields then Err RTooManyFields
     else if length (rd_fieldFlags d) < n \<or> length (rd_values d) < n then Panic IndexOutOfRange
     else Ok \<lparr>ard_Flags = rd_flags d, ard_Action = rd_action d, ard_FieldCount = of_nat n,
              ard_Mask = msk, ard_Fields = pad_array (rd_fields d),
              ard_Values = pad_array (take n (rd_values d)), ard_FieldFlags = pad_array (take n (rd_fieldFlags d)),
              ard_BufLen = of_nat (length buf), ard_Buf = buf\<rparr>)"

text \<open>The numbers of the bits set in the mask, in ascending order.\<close>

definition word_bits :: "nat \<Rightarrow> u32 \<Rightarrow> u32 list" where
  "word_bits w bits = map (\<lambda>b. of_nat w * 32 + of_nat b) (filter (\<lambda>b. bit bits b) [0..<32])"

definition mask_syscalls :: "u32 list \<Rightarrow> u32 list" where
  "mask_syscalls msk = concat (map (\<lambda>(w, bits). word_bits w bits) (zip [0..<length msk] msk))"

text \<open>The loop over the fields that cuts the strings out of the buffer, from field \<open>i\<close>.\<close>

primrec cut_strings :: "auditRuleData \<Rightarrow> nat \<Rightarrow> nat \<Rightarrow> u32 \<Rightarrow> (rule_error, string list) outcome" where
  "cut_strings r 0 i offset = Ok []"
| "cut_strings r (Suc n) i offset =
     (if length (ard_Fields r) \<le> i then Panic IndexOutOfRange
      else if is_string_field (ard_Fields r ! i) then
        (let end = ard_Values r ! i + offset in
         if end > ard_BufLen r then Err (RErr ''field overflows buffer'' (format_uint i))
         else bind_outcome (slice (ard_Buf r) (unat offset) (unat end)) (\<lambda>b.
              bind_outcome (cut_strings r n (Suc i) end) (\<lambda>ss. Ok (string_of_bytes b # ss))))
      else cut_strings r n (Suc i) offset)"

definition fromAuditRuleData :: "auditRuleData \<Rightarrow> (rule_error, ruleData) outcome" where
  "fromAuditRuleData r =
     (let n = unat (ard_FieldCount r);
          all = (\<forall>i < length (ard_Mask r) - 1. ard_Mask r ! i = 0xFFFFFFFF) in
      bind_outcome (cut_strings r n 0 0) (\<lambda>ss.
      Ok \<lparr>rd_flags = ard_Flags r, rd_action = ard_Action r, rd_allSyscalls = all,
          rd_syscalls = (if all then [] else mask_syscalls (ard_Mask r)),
          rd_fields = take n (ard_Fields r), rd_values = take n (ard_Values r),
          rd_fieldFlags = take n (ard_FieldFlags r), rd_strings = ss, rd_arch = []\<rparr>))"

section \<open>Lists and actions\<close>

definition setList :: "string \<Rightarrow> ruleData \<Rightarrow> (rule_error, ruleData) outcome" where
  "setList list d =
     (if list = ''exit'' then Ok (d\<lparr>rd_flags := exitFilter\<rparr>)
      else if list = ''task'' then Ok (d\<lparr>rd_flags := taskFilter\<rparr>)
      else if list = ''user'' then Ok (d\<lparr>rd_flags := userFilter\<rparr>)
      else if list = ''exclude'' then Ok (d\<lparr>rd_flags := excludeFilter\<rparr>)
      else Err (RErr ''invalid list'' list))"

definition getList :: "ruleData \<Rightarrow> (rule_error, string) outcome" where
  "getList d =
     (if rd_flags d = exitFilter then Ok ''exit''
      else if rd_flags d = taskFilter then Ok ''task''
      else if rd_flags d = userFilter then Ok ''user''
      else if rd_flags d = excludeFilter then Ok ''exclude''
      else Err (RErr ''invalid list flag'' (format_uint (unat (rd_flags d)))))"

definition setAction :: "string \<Rightarrow> ruleData \<Rightarrow> (rule_error, ruleData) outcome" where
  "setAction act d =
     (if act = ''always'' then Ok (d\<lparr>rd_action := alwaysAction\<rparr>)
      else if act = ''never'' then Ok (d\<lparr>rd_action := neverAction\<rparr>)
      else Err (RErr ''invalid action'' act))"

definition getAction :: "ruleData \<Rightarrow> (rule_error, string) outcome" where
  "getAction d =
     (if rd_action d = alwaysAction then Ok ''always''
      else if rd_action d = neverAction then Ok ''never''
      else Err (RErr ''invalid action'' (format_uint (unat (rd_action d)))))"

section \<open>Values\<close>

text \<open>\<^verbatim>\<open>getRuntimeArch\<close>.\<close>

definition getRuntimeArch :: "host \<Rightarrow> (rule_error, string) outcome" where
  "getRuntimeArch H =
     (let a = GOARCH H in
      if a = ''arm'' then Ok ''arm''
      else if a = ''arm64'' then Ok ''aarch64''
      else if a = ''386'' then Ok ''i386''
      else if a = ''amd64'' then Ok ''x86_64''
      else if a \<in> {''ppc64'', ''ppc64le'', ''ppc''} then Ok a
      else if a = ''s390'' then Ok ''s390''
      else if a = ''s390x'' then Ok ''s390x''
      else Err (RErr ''unsupported arch'' a))"

definition arch_b64 :: "string \<Rightarrow> (rule_error, string) outcome" where
  "arch_b64 a = (if a \<in> {''aarch64'', ''x86_64'', ''ppc64''} then Ok a else Err (RErr ''cannot use b64 on'' a))"

definition arch_b32 :: "string \<Rightarrow> (rule_error, string) outcome" where
  "arch_b32 a =
     (if a \<in> {''arm'', ''i386''} then Ok a
      else if a = ''aarch64'' then Ok ''arm''
      else if a = ''x86_64'' then Ok ''i386''
      else if a = ''ppc64'' then Ok ''ppc''
      else Err (RErr ''cannot use b32 on'' a))"

definition getArch :: "host \<Rightarrow> string \<Rightarrow> (rule_error, string \<times> u32) outcome" where
  "getArch H name =
     (let real = (if to_lower name = ''b64'' then bind_outcome (getRuntimeArch H) arch_b64
                  else if to_lower name = ''b32'' then bind_outcome (getRuntimeArch H) arch_b32
                  else Ok name) in
      bind_outcome real (\<lambda>realArch.
      bind_outcome (need (RErr ''unknown arch'' name) (map_of reverseArch realArch)) (\<lambda>archValue.
      Ok (realArch, archValue))))"

text \<open>A number, or when it is not one (a syntax error) what \<open>other\<close> makes of the text.\<close>

definition number_or ::
  "string \<Rightarrow> string \<Rightarrow> nat \<times> num_error option \<Rightarrow> (rule_error, u32) outcome \<Rightarrow> (rule_error, u32) outcome" where
  "number_or what s r other =
     (case snd r of
        None \<Rightarrow> Ok (of_nat (fst r))
      | Some ErrRange \<Rightarrow> Err (RWrap what (RNum s ErrRange))
      | Some ErrSyntax \<Rightarrow> other)"

definition looked_up :: "string \<Rightarrow> string \<Rightarrow> string option \<Rightarrow> (rule_error, u32) outcome" where
  "looked_up what name r =
     bind_outcome (need (RErr what name) r) (\<lambda>s.
     case parse_uint s 10 32 of
       (v, None) \<Rightarrow> Ok (of_nat v)
     | (_, Some e) \<Rightarrow> Err (RWrap ''failed to parse id'' (RNum s e)))"

definition getUID :: "host \<Rightarrow> string \<Rightarrow> (rule_error, u32) outcome" where
  "getUID H uid =
     (if uid = ''unset'' \<or> uid = ''-1'' then Ok 4294967295
      else number_or ''failed to parse uid'' uid (parse_uint uid 10 32)
             (looked_up ''failed to convert user to a numeric ID'' uid (user_Lookup H uid)))"

definition getGID :: "host \<Rightarrow> string \<Rightarrow> (rule_error, u32) outcome" where
  "getGID H gid =
     number_or ''failed to parse gid'' gid (parse_uint gid 10 32)
       (looked_up ''failed to convert group to a numeric ID'' gid (user_LookupGroup H gid))"

text \<open>The exit code as an \<^verbatim>\<open>int32\<close>.\<close>

definition getExitCode :: "string \<Rightarrow> (rule_error, int) outcome" where
  "getExitCode exit =
     (case parse_int exit 0 32 of
        (v, None) \<Rightarrow> Ok v
      | (_, Some ErrRange) \<Rightarrow> Err (RWrap ''failed to parse exit code'' (RNum exit ErrRange))
      | (_, Some ErrSyntax) \<Rightarrow>
          (let neg = has_prefix exit ''-''; errname = (if neg then tl exit else exit) in
           bind_outcome (need (RErr ''failed to convert error to exit code'' exit) (map_of AuditErrnoToNum errname))
             (\<lambda>num. Ok (if neg then - num else num))))"

definition getAuditMsgType :: "string \<Rightarrow> (rule_error, u32) outcome" where
  "getAuditMsgType msgType =
     number_or ''failed to parse msgtype'' msgType (parse_uint msgType 0 32)
       (case GetAuditMessageType msgType of
          Ok t \<Rightarrow> Ok (ucast t)
        | Err e \<Rightarrow> Err (RWrap ''failed to convert msgtype to numeric value'' (RMsgType e))
        | Panic p \<Rightarrow> Panic p)"

definition perm_bit :: "rune \<Rightarrow> permission option" where
  "perm_bit p = (if p = 114 then Some readPerm else if p = 119 then Some writePerm
     else if p = 120 then Some execPerm else if p = 97 then Some attrPerm else None)"

primrec perm_bits :: "permission \<Rightarrow> rune list \<Rightarrow> (rule_error, permission) outcome" where
  "perm_bits acc [] = Ok acc"
| "perm_bits acc (p # ps) =
     (case perm_bit p of
        None \<Rightarrow> Err (RErr ''invalid permission access type'' (format_uint p))
      | Some b \<Rightarrow> perm_bits (acc OR b) ps)"

definition getPerm :: "string \<Rightarrow> (rule_error, u32) outcome" where
  "getPerm perm = perm_bits 0 (map snd (runes_from 0 perm))"

definition permission_String :: "permission \<Rightarrow> string" where
  "permission_String bits =
     (if bits AND readPerm \<noteq> 0 then ''r'' else []) @ (if bits AND writePerm \<noteq> 0 then ''w'' else [])
     @ (if bits AND execPerm \<noteq> 0 then ''x'' else []) @ (if bits AND attrPerm \<noteq> 0 then ''a'' else [])"

definition filetype_names :: "(string \<times> filetype) list" where
  "filetype_names = [(''file'', fileFiletype), (''dir'', dirFiletype), (''socket'', socketFiletype),
     (''symlink'', linkFiletype), (''char'', characterFiletype), (''block'', blockFiletype), (''fifo'', fifoFiletype)]"

definition getFiletype :: "string \<Rightarrow> (rule_error, filetype) outcome" where
  "getFiletype ft = need (RErr ''invalid filetype'' ft) (map_of filetype_names (to_lower ft))"

definition filetype_String :: "filetype \<Rightarrow> string" where
  "filetype_String ft = (case map_of (swap_table filetype_names) ft of
     Some n \<Rightarrow> n | None \<Rightarrow> ''UNKNOWN:'' @ format_base 16 (unat ft))"

definition parseNum :: "string \<Rightarrow> (rule_error, u32) outcome" where
  "parseNum num =
     (if has_prefix num ''-'' then
        (case parse_int num 0 32 of (v, None) \<Rightarrow> Ok (word_of_int v) | (_, Some e) \<Rightarrow> Err (RNum num e))
      else
        (case parse_uint num 0 32 of (v, None) \<Rightarrow> Ok (of_nat v) | (_, Some e) \<Rightarrow> Err (RNum num e)))"

section \<open>Adding filters\<close>

definition require :: "bool \<Rightarrow> rule_error \<Rightarrow> (rule_error, 'a) outcome \<Rightarrow> (rule_error, 'a) outcome" where
  "require b e r = (if b then r else Err e)"

definition excludable :: "field \<Rightarrow> bool" where
  "excludable f = (f \<in> {pidField, uidField, gidField, auidField, msgTypeField, subjectUserField,
     subjectRoleField, subjectTypeField, subjectSensitivityField, subjectClearanceField})"

definition exit_only :: "field \<Rightarrow> bool" where
  "exit_only f = (f \<in> {objectUserField, objectRoleField, objectTypeField, objectLevelLowField,
     objectLevelHighField, pathField, dirField, devMajorField, devMinorField, successField, ppidField})"

abbreviation maxKeyLength :: nat where "maxKeyLength \<equiv> 256"
abbreviation pathMax :: nat where "pathMax \<equiv> 4096"

text \<open>
  The switch of \<^verbatim>\<open>addFilter\<close>: the value to append, the string to append if any, and the
  architecture if it is set.
\<close>

definition filter_value ::
  "host \<Rightarrow> filter_flags \<Rightarrow> string \<Rightarrow> operator \<Rightarrow> field \<Rightarrow> string
     \<Rightarrow> (rule_error, u32 \<times> string option \<times> string option) outcome" where
  "filter_value H flags lhs op f rhs =
     (let number = (\<lambda>r. bind_outcome r (\<lambda>v. Ok (v, None, None)));
          on_exit = require (flags = exitFilter) (RErr ''filter can only be applied to the syscall exit'' lhs);
          eq_or_ne = require (op = equalOperator \<or> op = notEqualOperator) (RErr ''only supports the = and != operators'' lhs) in
      if f \<in> {uidField, euidField, suidField, fsuidField, auidField, objectUIDField} then number (getUID H rhs)
      else if f \<in> {gidField, egidField, sgidField, fsgidField, objectGIDField} then number (getGID H rhs)
      else if f = exitField then
        on_exit (bind_outcome (getExitCode rhs) (\<lambda>v. Ok (word_of_int v, None, None)))
      else if f = msgTypeField then
        require (flags = userFilter \<or> flags = excludeFilter)
          (RErr ''msgtype filter can only be applied to the user or exclude lists'' lhs) (number (getAuditMsgType rhs))
      else if is_string_field f then
        require (exit_only f \<longrightarrow> flags = exitFilter) (RErr ''filter can only be applied to the syscall exit'' lhs)
          (require (length rhs \<le> (if f = keyField then maxKeyLength else pathMax)) (RErr ''too long'' lhs)
             (Ok (of_nat (length rhs), Some rhs, None)))
      else if f = archField then
        eq_or_ne (bind_outcome (getArch H rhs) (\<lambda>na. Ok (snd na, None, Some (fst na))))
      else if f = permField then
        on_exit (require (op = equalOperator) (RErr ''only support the = operator'' lhs) (number (getPerm rhs)))
      else if f = filetypeField then on_exit (number (getFiletype rhs))
      else if f \<in> {arg0Field, arg1Field, arg2Field, arg3Field} then number (parseNum rhs)
      else if f = inodeField then on_exit (eq_or_ne (number (parseNum rhs)))
      else if exit_only f then on_exit (number (parseNum rhs))
      else number (parseNum rhs))"

definition addFilter :: "host \<Rightarrow> string \<Rightarrow> string \<Rightarrow> string \<Rightarrow> ruleData \<Rightarrow> (rule_error, ruleData) outcome" where
  "addFilter H lhs comparator rhs d =
     bind_outcome (need (RErr ''invalid operator'' comparator) (map_of operatorsTable comparator)) (\<lambda>op.
     bind_outcome (need (RErr ''invalid field on left'' lhs) (map_of fieldsTable lhs)) (\<lambda>f.
     require (rd_flags d = excludeFilter \<longrightarrow> excludable f) (RErr ''field cannot be used the exclude flag'' lhs)
       (bind_outcome (filter_value H (rd_flags d) lhs op f rhs) (\<lambda>(v, s, a).
        Ok (d\<lparr>rd_values := rd_values d @ [v],
              rd_strings := rd_strings d @ (case s of None \<Rightarrow> [] | Some t \<Rightarrow> [t]),
              rd_arch := (case a of None \<Rightarrow> rd_arch d | Some n \<Rightarrow> n),
              rd_fields := rd_fields d @ [f], rd_fieldFlags := rd_fieldFlags d @ [op]\<rparr>)))))"

definition addInterFieldComparator ::
  "string \<Rightarrow> string \<Rightarrow> string \<Rightarrow> ruleData \<Rightarrow> (rule_error, ruleData) outcome" where
  "addInterFieldComparator lhs comparator rhs d =
     bind_outcome (need (RErr ''invalid operator'' comparator) (map_of operatorsTable comparator)) (\<lambda>op.
     require (op = equalOperator \<or> op = notEqualOperator) (RErr ''invalid operator'' comparator)
      (bind_outcome (need (RErr ''invalid field on left'' lhs) (map_of fieldsTable lhs)) (\<lambda>leftField.
       bind_outcome (need (RErr ''invalid field on right'' lhs) (map_of fieldsTable rhs)) (\<lambda>rightField.
       bind_outcome (need (RErr ''field cannot be used in an interfield comparison'' lhs)
           (map_of comparisonsTable leftField)) (\<lambda>table.
       bind_outcome (need (RErr ''field cannot be used in an interfield comparison'' rhs)
           (map_of table rightField)) (\<lambda>comparison.
       Ok (d\<lparr>rd_fields := rd_fields d @ [fieldCompare], rd_fieldFlags := rd_fieldFlags d @ [op],
             rd_values := rd_values d @ [comparison]\<rparr>)))))))"

definition addKeys :: "host \<Rightarrow> string list \<Rightarrow> ruleData \<Rightarrow> (rule_error, ruleData) outcome" where
  "addKeys H keys d =
     (if keys \<noteq> [] then rule_wrap ''failed to add keys''
        (addFilter H ''key'' ''='' (str_join [char_of (1::nat)] keys) d)
      else Ok d)"

definition addSyscall :: "host \<Rightarrow> string \<Rightarrow> ruleData \<Rightarrow> (rule_error, ruleData) outcome" where
  "addSyscall H syscall d0 =
     (if syscall = ''all'' then Ok (d0\<lparr>rd_allSyscalls := True\<rparr>)
      else
        (let d = d0\<lparr>rd_allSyscalls := False\<rparr>;
             add = (\<lambda>n. Ok (d\<lparr>rd_syscalls := rd_syscalls d @ [word_of_int n]\<rparr>)) in
         case atoi syscall of
           (n, None) \<Rightarrow> add n
         | (_, Some ErrRange) \<Rightarrow> Err (RWrap ''failed to parse syscall number'' (RNum syscall ErrRange))
         | (_, Some ErrSyntax) \<Rightarrow>
             bind_outcome (if rd_arch d = [] then rule_wrap ''failed to add syscall'' (getRuntimeArch H)
                           else Ok (rd_arch d)) (\<lambda>arch.
             bind_outcome (need (RErr ''syscall table not found for arch'' arch) (reverseSyscall arch)) (\<lambda>table.
             bind_outcome (need (RErr ''unknown syscall'' syscall) (map_of table syscall)) add))))"

section \<open>File watches\<close>

text \<open>
  \<^verbatim>\<open>filepath.Clean\<close> on Unix: empty and \<^verbatim>\<open>.\<close> elements are dropped, \<^verbatim>\<open>..\<close> removes the element before
  it, and at the root is dropped itself.
\<close>

primrec clean_elems :: "bool \<Rightarrow> string list \<Rightarrow> string list \<Rightarrow> string list" where
  "clean_elems rooted acc [] = rev acc"
| "clean_elems rooted acc (e # es) =
     (if e = [] \<or> e = ''.'' then clean_elems rooted acc es
      else if e = ''..'' then
        (case acc of
           [] \<Rightarrow> clean_elems rooted (if rooted then [] else [e]) es
         | a # as \<Rightarrow> clean_elems rooted (if a = ''..'' then e # acc else as) es)
      else clean_elems rooted (e # acc) es)"

definition path_Clean :: "string \<Rightarrow> string" where
  "path_Clean path =
     (let rooted = has_prefix path ''/''; es = clean_elems rooted [] (split_byte (CHR ''/'') path) in
      if rooted then CHR ''/'' # str_join ''/'' es
      else if es = [] then ''.'' else str_join ''/'' es)"

definition access_char :: "AccessType \<Rightarrow> string" where
  "access_char p = (case p of ReadAccessType \<Rightarrow> ''r'' | WriteAccessType \<Rightarrow> ''w''
     | ExecuteAccessType \<Rightarrow> ''x'' | AttributeChangeAccessType \<Rightarrow> ''a'')"

definition addFileWatch :: "host \<Rightarrow> FileWatchRule \<Rightarrow> ruleData \<Rightarrow> (rule_error, ruleData) outcome" where
  "addFileWatch H rule d0 =
     (let path = path_Clean (watch_Path rule) in
      if \<not> has_prefix path ''/'' then Err (RErr ''path must be absolute'' path)
      else
        (let watchType = (if stat_IsDir H path then ''dir'' else ''path'');
             perms = (if watch_Permissions rule = [] then ''rwxa''
                      else concat (map access_char (watch_Permissions rule)));
             d = d0\<lparr>rd_flags := exitFilter, rd_action := alwaysAction, rd_allSyscalls := True\<rparr> in
         bind_outcome (addFilter H watchType ''='' path d) (\<lambda>d.
         bind_outcome (addFilter H ''perm'' ''='' perms d) (\<lambda>d.
         addKeys H (watch_Keys rule) d))))"

section \<open>Build\<close>

primrec add_filters :: "host \<Rightarrow> FilterSpec list \<Rightarrow> ruleData \<Rightarrow> (rule_error, ruleData) outcome" where
  "add_filters H [] d = Ok d"
| "add_filters H (f # fs) d =
     bind_outcome
       (case filter_Type f of
          ValueFilterType \<Rightarrow> rule_wrap ''failed to add filter''
            (addFilter H (filter_LHS f) (filter_Comparator f) (filter_RHS f) d)
        | InterFieldFilterType \<Rightarrow> rule_wrap ''failed to add interfield comparison''
            (addInterFieldComparator (filter_LHS f) (filter_Comparator f) (filter_RHS f) d))
       (\<lambda>d. add_filters H fs d)"

primrec add_syscalls :: "host \<Rightarrow> string list \<Rightarrow> ruleData \<Rightarrow> (rule_error, ruleData) outcome" where
  "add_syscalls H [] d = Ok d"
| "add_syscalls H (s # ss) d =
     bind_outcome (rule_wrap ''failed to add syscall'' (addSyscall H s d)) (\<lambda>d. add_syscalls H ss d)"

definition rule_data :: "host \<Rightarrow> Rule \<Rightarrow> (rule_error, ruleData) outcome" where
  "rule_data H rule =
     (let d = zero_ruleData\<lparr>rd_allSyscalls := True\<rparr> in
      case rule of
        RSyscall v \<Rightarrow>
          bind_outcome (setList (sys_List v) d) (\<lambda>d.
          bind_outcome (setAction (sys_Action v) d) (\<lambda>d.
          bind_outcome (add_filters H (sys_Filters v) d) (\<lambda>d.
          bind_outcome (add_syscalls H (sys_Syscalls v) d) (\<lambda>d.
          addKeys H (sys_Keys v) d))))
      | RFileWatch v \<Rightarrow> addFileWatch H v d
      | RDeleteAll v \<Rightarrow> Err (RErr ''unknown rule type'' ''*rule.DeleteAllRule''))"

definition Build :: "host \<Rightarrow> byte_order \<Rightarrow> Rule \<Rightarrow> (rule_error, bytes) outcome" where
  "Build H bo rule =
     bind_outcome (rule_data H rule) (\<lambda>d.
     bind_outcome (toAuditRuleData d) (\<lambda>ard.
     Ok (ard_toWireFormat bo ard)))"

end
