(* ===== verification/Rule_CommandLine.thy ===== *)
theory Rule_CommandLine
  imports Rule_Build
begin

unbundle bit_operations_syntax

text \<open>
  \<^verbatim>\<open>rule/rule.go\<close>, second part: \<^verbatim>\<open>ToCommandLine\<close>, which prints a binary rule as the arguments of
  \<^verbatim>\<open>auditctl\<close>.
\<close>

section \<open>Architectures for display\<close>

definition getDisplayArch :: "host \<Rightarrow> u32 \<Rightarrow> (rule_error, string) outcome" where
  "getDisplayArch H requested =
     bind_outcome (getRuntimeArch H) (\<lambda>name.
     bind_outcome (need (RErr ''current architecture not supported'' name) (map_of reverseArch name)) (\<lambda>runtime.
     if requested = runtime \<and> requested \<in> {AUDIT_ARCH_AARCH64, AUDIT_ARCH_X86_64, AUDIT_ARCH_PPC64} then Ok ''b64''
     else if requested = runtime \<and> requested \<in> {AUDIT_ARCH_ARM, AUDIT_ARCH_I386, AUDIT_ARCH_PPC} then Ok ''b32''
     else if requested \<noteq> runtime \<and> (runtime = AUDIT_ARCH_AARCH64 \<and> requested = AUDIT_ARCH_ARM
               \<or> runtime = AUDIT_ARCH_X86_64 \<and> requested = AUDIT_ARCH_I386
               \<or> runtime = AUDIT_ARCH_PPC64 \<and> requested = AUDIT_ARCH_PPC) then Ok ''b32''
     else need (RErr ''unsupported arch in rule'' (format_base 16 (unat requested)))
            (map_of AuditArchNames requested)))"

text \<open>The table used to name the system calls of a rule for the displayed architecture.\<close>

definition syscall_arch :: "string \<Rightarrow> string \<Rightarrow> (rule_error, string) outcome" where
  "syscall_arch shown runtime =
     (if shown = ''b32'' then
        (if runtime \<in> {''i386'', ''arm'', ''ppc''} then Ok runtime
         else if runtime = ''aarch64'' then Ok ''arm''
         else if runtime = ''x86_64'' then Ok ''i386''
         else if runtime \<in> {''ppc64'', ''ppc64le''} then Ok ''ppc''
         else Err (RErr ''invalid arch for b32'' runtime))
      else if shown \<noteq> [] \<and> shown \<noteq> ''b64'' then Ok shown
      else Ok runtime)"

section \<open>Watches\<close>

text \<open>
  A watch has the fields perm, key, path and dir only. The loop collects the path and the key
  and notes other fields; it fails when the strings run out.
\<close>

primrec watch_loop ::
  "field list \<Rightarrow> string list \<Rightarrow> bool \<times> string \<times> string \<Rightarrow> (rule_error, bool \<times> string \<times> string) outcome" where
  "watch_loop [] ss st = Ok st"
| "watch_loop (f # fs) ss st =
     (case st of (extra, path, key) \<Rightarrow>
       if f \<in> {keyField, pathField, dirField} then
         (case ss of
            [] \<Rightarrow> Err (RErr ''no buffer data for path field'' (format_uint (unat f)))
          | s # ss' \<Rightarrow> watch_loop fs ss' (if f = keyField then (extra, path, s) else (extra, s, key)))
       else if f = permField then watch_loop fs ss st
       else watch_loop fs ss (True, path, key))"

text \<open>The index kept for a field is the last one.\<close>

definition last_index :: "field \<Rightarrow> field list \<Rightarrow> nat option" where
  "last_index f fs = map_of (rev (zip fs [0..<length fs])) f"

section \<open>Fields\<close>

definition id_text :: "bool \<Rightarrow> (string \<Rightarrow> string option) \<Rightarrow> u32 \<Rightarrow> string" where
  "id_text resolveIds lookup v =
     (let rhs = itoa (sint v) in
      if resolveIds then (case lookup rhs of Some n \<Rightarrow> n | None \<Rightarrow> rhs) else rhs)"

definition exit_text :: "u32 \<Rightarrow> string" where
  "exit_text v =
     (case map_of AuditErrnoToName (- sint v) of
        Some n \<Rightarrow> ''-'' @ n
      | None \<Rightarrow> itoa (sint v))"

definition msgtype_text :: "u32 \<Rightarrow> string" where
  "msgtype_text v =
     (if unat v \<le> 65535 then type_String (ucast v) else ''UNKNOWN['' @ format_uint (unat v) @ '']'')"

text \<open>The text of a value that is not a string.\<close>

definition value_text :: "host \<Rightarrow> bool \<Rightarrow> field \<Rightarrow> u32 \<Rightarrow> string" where
  "value_text H resolveIds f v =
     (if f = exitField then exit_text v
      else if f \<in> {uidField, euidField, suidField, fsuidField, auidField, objectUIDField}
        then id_text resolveIds (user_LookupId H) v
      else if f \<in> {gidField, egidField, sgidField, fsgidField, objectGIDField}
        then id_text resolveIds (user_LookupGroupId H) v
      else if f = msgTypeField then msgtype_text v
      else if f = permField then permission_String v
      else if f = filetypeField then (if resolveIds then filetype_String v else format_uint (unat v))
      else format_uint (unat v))"

definition compare_text :: "string \<Rightarrow> comparison \<Rightarrow> (rule_error, string) outcome" where
  "compare_text op c =
     bind_outcome (need (RErr ''comparision code not valid'' []) (reverseComparisonsTable c)) (\<lambda>ids.
     let ids = (if snd ids < fst ids then (snd ids, fst ids) else ids) in
     bind_outcome (need (RErr ''unknown field'' (format_uint (unat (fst ids)))) (map_of reverseFieldsTable (fst ids))) (\<lambda>a.
     bind_outcome (need (RErr ''unknown field'' (format_uint (unat (snd ids)))) (map_of reverseFieldsTable (snd ids))) (\<lambda>b.
     Ok (''-C '' @ a @ op @ b))))"

text \<open>The loop over the fields, with the strings not yet used.\<close>

fun field_args ::
  "host \<Rightarrow> bool \<Rightarrow> (field \<times> u32 \<times> operator) list \<Rightarrow> string list \<Rightarrow> (rule_error, string list) outcome" where
  "field_args H resolveIds [] ss = Ok []"
| "field_args H resolveIds ((f, v, o') # fs) ss =
     bind_outcome (need (RErr ''field operator not found'' (format_base 16 (unat o'))) (map_of reverseOperatorsTable o')) (\<lambda>op.
     if f = archField then field_args H resolveIds fs ss
     else if f = fieldCompare then
       bind_outcome (compare_text op v) (\<lambda>arg.
       bind_outcome (field_args H resolveIds fs ss) (\<lambda>args. Ok (arg # args)))
     else
       bind_outcome (need (RErr ''field not found'' (format_base 16 (unat f))) (map_of reverseFieldsTable f)) (\<lambda>lhs.
       if is_string_field f then
         (case ss of
            [] \<Rightarrow> Err (RErr ''string buffer overflow'' [])
          | s # ss' \<Rightarrow>
             bind_outcome (field_args H resolveIds fs ss') (\<lambda>args. Ok ((''-F '' @ lhs @ op @ s) # args)))
       else
         bind_outcome (field_args H resolveIds fs ss) (\<lambda>args.
         Ok ((''-F '' @ lhs @ op @ value_text H resolveIds f v) # args))))"

section \<open>ToCommandLine\<close>

primrec map_names :: "string \<Rightarrow> syscall_table \<Rightarrow> u32 list \<Rightarrow> (rule_error, string list) outcome" where
  "map_names a t [] = Ok []"
| "map_names a t (n # ns) =
     bind_outcome (need (RErr ''syscall not found for arch'' a) (map_of t (uint n))) (\<lambda>name.
     bind_outcome (map_names a t ns) (\<lambda>names. Ok (name # names)))"

definition syscall_args :: "host \<Rightarrow> ruleData \<Rightarrow> string \<Rightarrow> (rule_error, string list) outcome" where
  "syscall_args H r shown =
     (if rd_allSyscalls r then
        Ok (if rd_flags r = exitFilter \<or> rd_flags r = entryFilter then [''-S'', ''all''] else [])
      else if rd_syscalls r = [] then Ok []
      else
        bind_outcome (getRuntimeArch H) (\<lambda>runtime.
        bind_outcome (syscall_arch shown runtime) (\<lambda>a.
        bind_outcome (need (RErr ''no syscall table for arch'' a) (AuditSyscalls a)) (\<lambda>table.
        bind_outcome (map_names a table (rd_syscalls r)) (\<lambda>names.
        Ok [''-S'', str_join '','' names])))))"

definition watch_line :: "ruleData \<Rightarrow> (rule_error, string option) outcome" where
  "watch_line r =
     (case last_index permField (rd_fields r) of
        None \<Rightarrow> Ok None
      | Some permIdx \<Rightarrow>
         if \<not> rd_allSyscalls r then Ok None
         else
           bind_outcome (watch_loop (rd_fields r) (rd_strings r) (False, [], [])) (\<lambda>(extra, path, key).
           if extra then Ok None
           else Ok (Some (str_join '' '' ([''-w'', path, ''-p'', permission_String (rd_values r ! permIdx)]
                  @ (if key \<noteq> [] then [''-k'', key] else []))))))"

definition syscall_line :: "host \<Rightarrow> bool \<Rightarrow> ruleData \<Rightarrow> string \<Rightarrow> string \<Rightarrow> (rule_error, string) outcome" where
  "syscall_line H resolveIds r act list =
     bind_outcome (case last_index archField (rd_fields r) of
          None \<Rightarrow> Ok ([], [])
        | Some i \<Rightarrow> bind_outcome (getDisplayArch H (rd_values r ! i)) (\<lambda>a. Ok (a, [''-F'', ''arch='' @ a])))
       (\<lambda>(shown, arch_arg).
     bind_outcome (syscall_args H r shown) (\<lambda>sys_arg.
     bind_outcome (field_args H resolveIds (zip (rd_fields r) (zip (rd_values r) (rd_fieldFlags r))) (rd_strings r))
       (\<lambda>flds.
     Ok (str_join '' '' ([''-a'', act @ '','' @ list] @ arch_arg @ sys_arg @ flds)))))"

definition ToCommandLine :: "host \<Rightarrow> byte_order \<Rightarrow> bytes \<Rightarrow> bool \<Rightarrow> (rule_error, string) outcome" where
  "ToCommandLine H bo data resolveIds =
     bind_outcome (case fromWireFormat bo data of
         Ok ar \<Rightarrow> Ok ar
       | Err e \<Rightarrow> Err (RWrap ''failed to parse wire format'' (RWire e))
       | Panic p \<Rightarrow> Panic p) (\<lambda>ar.
     bind_outcome (rule_wrap ''failed to parse audit rule'' (fromAuditRuleData ar)) (\<lambda>r.
     bind_outcome (getList r) (\<lambda>list.
     bind_outcome (getAction r) (\<lambda>act.
     bind_outcome (watch_line r) (\<lambda>w.
     case w of
       Some line \<Rightarrow> Ok line
     | None \<Rightarrow> syscall_line H resolveIds r act list)))))"

end
