(* ===== verification/Rule_Laws.thy ===== *)
theory Rule_Laws
  imports Rule_CommandLine
begin

unbundle bit_operations_syntax

text \<open>
  Properties of the rule package: every rule that is built is well formed, it survives the way
  through the kernel's binary form, and what \<^verbatim>\<open>ToCommandLine\<close> prints for it.
\<close>

section \<open>Sequencing\<close>

lemma need_Ok [simp]: "need e x = Ok a \<longleftrightarrow> x = Some a"
  by (cases x) (auto simp: need_def)

lemma rule_wrap_Ok [simp]: "rule_wrap m r = Ok a \<longleftrightarrow> r = Ok a"
  by (cases r) (auto simp: rule_wrap_def)

lemma require_Ok [simp]: "require b e r = Ok a \<longleftrightarrow> b \<and> r = Ok a"
  by (simp add: require_def)

section \<open>Rules that are built are well formed\<close>

text \<open>
  Every field has a value and an operator, the values of string fields are the lengths of the
  strings, in order, and no string is longer than a path.
\<close>

definition string_values :: "field list \<Rightarrow> u32 list \<Rightarrow> u32 list" where
  "string_values fs vs = map snd (filter (\<lambda>fv. is_string_field (fst fv)) (zip fs vs))"

definition rd_ok :: "ruleData \<Rightarrow> bool" where
  "rd_ok d = (length (rd_values d) = length (rd_fields d) \<and> length (rd_fieldFlags d) = length (rd_fields d)
     \<and> string_values (rd_fields d) (rd_values d) = map (\<lambda>s. of_nat (length s)) (rd_strings d)
     \<and> (\<forall>s \<in> set (rd_strings d). length s \<le> pathMax))"

lemma string_values_snoc:
  "length fs = length vs \<Longrightarrow>
     string_values (fs @ [f]) (vs @ [v]) = string_values fs vs @ (if is_string_field f then [v] else [])"
  by (simp add: string_values_def)

lemma filter_value_string:
  assumes "filter_value H flags lhs op f rhs = Ok (v, s, a)"
  shows "if is_string_field f then s = Some rhs \<and> v = of_nat (length rhs) \<and> length rhs \<le> pathMax else s = None"
proof (cases "is_string_field f")
  case True
  then have "f \<notin> {uidField, euidField, suidField, fsuidField, auidField, objectUIDField}"
    "f \<notin> {gidField, egidField, sgidField, fsgidField, objectGIDField}" "f \<noteq> exitField" "f \<noteq> msgTypeField"
    by (auto simp: is_string_field_def)
  with True assms show ?thesis
    by (auto simp: filter_value_def Let_def split: if_splits)
next
  case False
  with assms show ?thesis
    by (auto simp: filter_value_def Let_def bind_outcome_Ok split: if_splits)
qed

lemma addFilter_ok:
  assumes "rd_ok d" and "addFilter H lhs c rhs d = Ok d'"
  shows "rd_ok d'"
proof -
  obtain op f v s a where r: "filter_value H (rd_flags d) lhs op f rhs = Ok (v, s, a)"
    and d': "d' = d\<lparr>rd_values := rd_values d @ [v],
              rd_strings := rd_strings d @ (case s of None \<Rightarrow> [] | Some t \<Rightarrow> [t]),
              rd_arch := (case a of None \<Rightarrow> rd_arch d | Some n \<Rightarrow> n),
              rd_fields := rd_fields d @ [f], rd_fieldFlags := rd_fieldFlags d @ [op]\<rparr>"
    using assms(2) by (auto simp: addFilter_def bind_outcome_Ok)
  show ?thesis
    using assms(1) filter_value_string [OF r]
    by (auto simp: d' rd_ok_def string_values_snoc split: if_splits)
qed

lemma addInterFieldComparator_ok:
  assumes "rd_ok d" and "addInterFieldComparator lhs c rhs d = Ok d'"
  shows "rd_ok d'"
proof -
  obtain op v where "d' = d\<lparr>rd_fields := rd_fields d @ [fieldCompare], rd_fieldFlags := rd_fieldFlags d @ [op],
             rd_values := rd_values d @ [v]\<rparr>"
    using assms(2) by (auto simp: addInterFieldComparator_def bind_outcome_Ok)
  moreover have "\<not> is_string_field fieldCompare" by (simp add: is_string_field_def)
  ultimately show ?thesis using assms(1) by (simp add: rd_ok_def string_values_snoc)
qed

lemma addKeys_ok: "rd_ok d \<Longrightarrow> addKeys H ks d = Ok d' \<Longrightarrow> rd_ok d'"
  by (auto simp: addKeys_def split: if_splits intro: addFilter_ok)

lemma add_filters_ok: "rd_ok d \<Longrightarrow> add_filters H fs d = Ok d' \<Longrightarrow> rd_ok d'"
proof (induction fs arbitrary: d)
  case (Cons f fs)
  then obtain d1 where "rd_ok d1" "add_filters H fs d1 = Ok d'"
    by (cases "filter_Type f")
       (auto simp: bind_outcome_Ok intro: addFilter_ok addInterFieldComparator_ok)
  then show ?case by (rule Cons.IH)
qed simp

lemma addSyscall_ok:
  assumes "rd_ok d" and "addSyscall H s d = Ok d'"
  shows "rd_ok d'"
proof (cases "s = ''all''")
  case True
  then show ?thesis using assms by (auto simp: addSyscall_def rd_ok_def)
next
  case False
  then obtain n where "d' = d\<lparr>rd_allSyscalls := False, rd_syscalls := rd_syscalls d @ [n]\<rparr>"
    using assms(2)
    by (auto simp: addSyscall_def Let_def bind_outcome_Ok split: prod.splits option.splits num_error.splits)
  then show ?thesis using assms(1) by (simp add: rd_ok_def)
qed

lemma add_syscalls_ok: "rd_ok d \<Longrightarrow> add_syscalls H ss d = Ok d' \<Longrightarrow> rd_ok d'"
  by (induction ss arbitrary: d) (auto simp: bind_outcome_Ok dest: addSyscall_ok)

lemma rd_ok_update:
  "rd_ok (d\<lparr>rd_flags := a\<rparr>) = rd_ok d" "rd_ok (d\<lparr>rd_action := b\<rparr>) = rd_ok d"
  "rd_ok (d\<lparr>rd_allSyscalls := c\<rparr>) = rd_ok d"
  by (simp_all add: rd_ok_def)

lemma rd_ok_zero: "rd_ok zero_ruleData"
  by (simp add: rd_ok_def zero_ruleData_def string_values_def)

lemma setList_ok: "setList l d = Ok d' \<Longrightarrow> rd_ok d' = rd_ok d"
  by (auto simp: setList_def rd_ok_update split: if_splits)

lemma setAction_ok: "setAction l d = Ok d' \<Longrightarrow> rd_ok d' = rd_ok d"
  by (auto simp: setAction_def rd_ok_update split: if_splits)

text \<open>What a watch consists of.\<close>

definition watch_start :: "ruleData \<Rightarrow> ruleData" where
  "watch_start d = d\<lparr>rd_flags := exitFilter, rd_action := alwaysAction, rd_allSyscalls := True\<rparr>"

definition watch_kind :: "host \<Rightarrow> string \<Rightarrow> string" where
  "watch_kind H path = (if stat_IsDir H path then ''dir'' else ''path'')"

definition watch_perms :: "FileWatchRule \<Rightarrow> string" where
  "watch_perms rule = (if watch_Permissions rule = [] then ''rwxa''
     else concat (map access_char (watch_Permissions rule)))"

lemma addFileWatch_eq:
  "addFileWatch H rule d =
     (let path = path_Clean (watch_Path rule) in
      if \<not> has_prefix path ''/'' then Err (RErr ''path must be absolute'' path)
      else
        bind_outcome (addFilter H (watch_kind H path) ''='' path (watch_start d)) (\<lambda>d.
        bind_outcome (addFilter H ''perm'' ''='' (watch_perms rule) d) (\<lambda>d.
        addKeys H (watch_Keys rule) d)))"
  unfolding addFileWatch_def watch_kind_def watch_perms_def watch_start_def Let_def ..

lemma addFileWatch_ok:
  assumes "rd_ok d" and "addFileWatch H w d = Ok d'"
  shows "rd_ok d'"
proof -
  have "rd_ok (watch_start d)" using assms(1) by (simp add: watch_start_def rd_ok_update)
  moreover obtain d1 d2 where
    "addFilter H (watch_kind H (path_Clean (watch_Path w))) ''='' (path_Clean (watch_Path w)) (watch_start d) = Ok d1"
    "addFilter H ''perm'' ''='' (watch_perms w) d1 = Ok d2" "addKeys H (watch_Keys w) d2 = Ok d'"
    using assms(2) unfolding addFileWatch_eq Let_def by (auto simp: bind_outcome_Ok split: if_split_asm)
  ultimately show ?thesis by (metis addFilter_ok addKeys_ok)
qed

lemma rule_data_ok:
  assumes "rule_data H rule = Ok d"
  shows "rd_ok d"
proof (cases rule)
  case (RSyscall v)
  have "rd_ok (zero_ruleData\<lparr>rd_allSyscalls := True\<rparr>)" by (simp add: rd_ok_update rd_ok_zero)
  with assms RSyscall show ?thesis
    by (auto simp: rule_data_def bind_outcome_Ok Let_def setList_ok setAction_ok
        dest!: addKeys_ok [rotated] add_syscalls_ok [rotated] add_filters_ok [rotated])
next
  case (RFileWatch w)
  then show ?thesis
    using assms addFileWatch_ok [of "zero_ruleData\<lparr>rd_allSyscalls := True\<rparr>" H w d]
    by (simp add: rule_data_def rd_ok_update rd_ok_zero)
qed (use assms in \<open>simp add: rule_data_def Let_def\<close>)

section \<open>The mask of system calls\<close>

lemma unat_word_bit: "w < 2 ^ 26 \<Longrightarrow> b < 32 \<Longrightarrow> unat (of_nat w * 32 + of_nat b :: u32) = w * 32 + b"
proof -
  assume "w < 2 ^ 26" "b < 32"
  then have "w * 32 + b < 2 ^ 32" by simp
  moreover have "(of_nat w * 32 + of_nat b :: u32) = of_nat (w * 32 + b)" by simp
  ultimately show ?thesis by (simp only: unsigned_of_nat take_bit_eq_mod) simp
qed

lemma word_bits_iff:
  "w < 2 ^ 26 \<Longrightarrow> n \<in> set (word_bits w x) \<longleftrightarrow> unat n div 32 = w \<and> bit x (unat n mod 32)"
proof -
  assume w: "w < 2 ^ 26"
  show ?thesis
  proof
    assume "n \<in> set (word_bits w x)"
    then obtain b where b: "b < 32" "bit x b" "n = of_nat w * 32 + of_nat b"
      by (auto simp: word_bits_def)
    then show "unat n div 32 = w \<and> bit x (unat n mod 32)" using unat_word_bit [OF w b(1)] by simp
  next
    assume a: "unat n div 32 = w \<and> bit x (unat n mod 32)"
    have "n = of_nat (unat n div 32 * 32 + unat n mod 32)" by simp
    then have "n = of_nat w * 32 + of_nat (unat n mod 32)" using a by (metis of_nat_add of_nat_mult of_nat_numeral)
    with a show "n \<in> set (word_bits w x)" by (auto simp: word_bits_def intro!: image_eqI)
  qed
qed

lemma sorted_word_bits: "w < 2 ^ 26 \<Longrightarrow> sorted_wrt (<) (word_bits w x)"
proof -
  assume w: "w < 2 ^ 26"
  have "sorted_wrt (<) (filter (\<lambda>b. bit x b) [0..<32])" by (rule sorted_wrt_filter) simp
  then show ?thesis
    unfolding word_bits_def sorted_wrt_map
    by (rule sorted_wrt_mono_rel [rotated]) (use w in \<open>auto simp: word_less_nat_alt unat_word_bit\<close>)
qed

lemma mask_syscalls_snoc: "mask_syscalls (xs @ [x]) = mask_syscalls xs @ word_bits (length xs) x"
  by (simp add: mask_syscalls_def)

lemma mask_syscalls_iff:
  "length msk \<le> 64 \<Longrightarrow>
     n \<in> set (mask_syscalls msk) \<longleftrightarrow> unat n div 32 < length msk \<and> bit (msk ! (unat n div 32)) (unat n mod 32)"
  by (induction msk rule: rev_induct)
     (auto simp: mask_syscalls_snoc word_bits_iff nth_append mask_syscalls_def [of "[]"] less_Suc_eq)

lemma sorted_mask_syscalls: "length msk \<le> 64 \<Longrightarrow> sorted_wrt (<) (mask_syscalls msk)"
proof (induction msk rule: rev_induct)
  case (snoc x xs)
  have "m < n" if "m \<in> set (mask_syscalls xs)" "n \<in> set (word_bits (length xs) x)" for m n
  proof -
    have "unat m div 32 < length xs" "unat n div 32 = length xs"
      using that snoc.prems mask_syscalls_iff [of xs m] word_bits_iff [of "length xs" n x] by auto
    then have "unat m < unat n" by (metis div_le_mono not_less)
    then show ?thesis by (simp add: word_less_nat_alt)
  qed
  with snoc sorted_word_bits [of "length xs" x] show ?case
    by (auto simp: mask_syscalls_snoc sorted_wrt_append)
qed (simp add: mask_syscalls_def)

lemma set_syscalls_spec:
  assumes "\<forall>n \<in> set ns. unat n < 2048" and "length msk = 64"
  shows "\<exists>msk'. set_syscalls ns msk = Ok msk' \<and> length msk' = 64
    \<and> (\<forall>w < 64. \<forall>b < 32. bit (msk' ! w) b \<longleftrightarrow> bit (msk ! w) b \<or> (\<exists>n \<in> set ns. unat n = w * 32 + b))"
  using assms
proof (induction ns arbitrary: msk)
  case (Cons n ns)
  let ?w = "unat n div 32"
  let ?m = "msk[?w := msk ! ?w OR push_bit (unat n mod 32) 1]"
  have lt: "?w < 64" using Cons.prems(1) by auto
  have step: "set_syscalls (n # ns) msk = set_syscalls ns ?m"
    using lt Cons.prems(2) by (simp add: Let_def)
  obtain msk' where m': "set_syscalls ns ?m = Ok msk'" "length msk' = 64"
    "\<forall>w < 64. \<forall>b < 32. bit (msk' ! w) b \<longleftrightarrow> bit (?m ! w) b \<or> (\<exists>n \<in> set ns. unat n = w * 32 + b)"
    using Cons.IH [of ?m] Cons.prems by auto
  have "bit (?m ! w) b \<longleftrightarrow> bit (msk ! w) b \<or> unat n = w * 32 + b" if "w < 64" "b < 32" for w b
  proof (cases "w = ?w")
    case True
    have "unat n = w * 32 + unat n mod 32" using True by simp
    then have "unat n = w * 32 + b \<longleftrightarrow> b = unat n mod 32" by linarith
    with True that Cons.prems(2) show ?thesis by (auto simp: bit_simps)
  next
    case False
    then have "unat n \<noteq> w * 32 + b" using that by auto
    with False show ?thesis by simp
  qed
  with m' step show ?case by (intro exI [of _ msk']) auto
qed simp

section \<open>The strings in the buffer\<close>

lemma string_values_Cons:
  "string_values (f # fs) (v # vs) = (if is_string_field f then [v] else []) @ string_values fs vs"
  by (simp add: string_values_def)

lemma length_string_values: "length (string_values fs vs) \<le> length fs"
  unfolding string_values_def
  by (metis (no_types, lifting) length_filter_le length_map length_zip min.cobounded1 order_trans)

lemma cut_strings_ok:
  assumes "i + n \<le> length (ard_Fields r)" and "length (ard_Values r) = length (ard_Fields r)"
    and "string_values (take n (drop i (ard_Fields r))) (take n (drop i (ard_Values r)))
           = map (\<lambda>s. of_nat (length s)) ss"
    and "ard_Buf r = pre @ concat (map bytes_of_string ss)" and "unat off = length pre"
    and "unat (ard_BufLen r) = length (ard_Buf r)"
  shows "cut_strings r n i off = Ok ss"
  using assms
proof (induction n arbitrary: i off ss pre)
  case 0
  then show ?case by (simp add: string_values_def)
next
  case (Suc n)
  let ?f = "ard_Fields r ! i" and ?v = "ard_Values r ! i"
  have i: "i < length (ard_Fields r)" using Suc.prems(1) by simp
  then have drops: "drop i (ard_Fields r) = ?f # drop (Suc i) (ard_Fields r)"
    "drop i (ard_Values r) = ?v # drop (Suc i) (ard_Values r)"
    using Suc.prems(2) by (simp_all add: Cons_nth_drop_Suc)
  have vals: "(if is_string_field ?f then [?v] else [])
      @ string_values (take n (drop (Suc i) (ard_Fields r))) (take n (drop (Suc i) (ard_Values r)))
      = map (\<lambda>s. of_nat (length s)) ss"
    using Suc.prems(3) unfolding drops by (simp add: string_values_Cons)
  show ?case
  proof (cases "is_string_field ?f")
    case False
    then have "cut_strings r n (Suc i) off = Ok ss"
      using Suc.prems vals by (intro Suc.IH [of _ _ pre]) simp_all
    with False i show ?thesis by simp
  next
    case True
    then obtain s ss' where ss: "ss = s # ss'" and v: "?v = of_nat (length s)"
      and rest: "string_values (take n (drop (Suc i) (ard_Fields r))) (take n (drop (Suc i) (ard_Values r)))
        = map (\<lambda>s. of_nat (length s)) ss'"
      using vals by (cases ss) auto
    let ?pre = "pre @ bytes_of_string s"
    have buf: "ard_Buf r = ?pre @ concat (map bytes_of_string ss')" using Suc.prems(4) ss by simp
    have len: "length ?pre \<le> unat (ard_BufLen r)" using buf Suc.prems(6) by simp
    have off: "off = of_nat (length pre)" using Suc.prems(5) [symmetric] by simp
    have "?v + off = of_nat (length ?pre)" by (simp add: v off)
    moreover have "length ?pre < 2 ^ 32"
      using len unsigned_less [of "ard_BufLen r", where ?'a = nat] by simp
    ultimately have e: "unat (?v + off) = length ?pre" by (simp only: unsigned_of_nat take_bit_eq_mod) simp
    have "cut_strings r n (Suc i) (?v + off) = Ok ss'"
      using Suc.prems rest buf e by (intro Suc.IH [of _ _ ?pre]) simp_all
    moreover have "slice (ard_Buf r) (unat off) (unat (?v + off))
        = (Ok (bytes_of_string s) :: (rule_error, bytes) outcome)"
      unfolding e Suc.prems(5) buf by (simp add: slice_def)
    moreover have "\<not> ard_BufLen r < ?v + off" using len e by (simp add: word_less_nat_alt)
    ultimately show ?thesis using True i ss by (simp add: Let_def)
  qed
qed

section \<open>Through the kernel's struct and back\<close>

lemma length_pad_array [simp]: "length xs \<le> maxFields \<Longrightarrow> length (pad_array xs) = maxFields"
  by (simp add: pad_array_def)

lemma take_pad_array [simp]: "n = length xs \<Longrightarrow> take n (pad_array xs) = xs"
  by (simp add: pad_array_def)

definition syscalls_ok :: "ruleData \<Rightarrow> bool" where
  "syscalls_ok d = (rd_allSyscalls d \<or> (\<forall>n \<in> set (rd_syscalls d). unat n < 2048))"

lemma syscall_mask_ok:
  "syscalls_ok d \<Longrightarrow> \<exists>msk. syscall_mask d = Ok msk \<and> length msk = 64"
  using set_syscalls_spec [of "rd_syscalls d" "replicate 64 0"]
  by (auto simp: syscalls_ok_def syscall_mask_def)

lemma buffer_bound:
  assumes "rd_ok d" and "length (rd_fields d) \<le> maxFields"
  shows "length (concat (map bytes_of_string (rd_strings d))) < 2 ^ 32"
proof -
  have "length (rd_strings d) \<le> maxFields"
    using assms length_string_values [of "rd_fields d" "rd_values d"] by (simp add: rd_ok_def)
  moreover have "length (concat (map bytes_of_string ss)) \<le> pathMax * length ss"
    if "\<forall>s \<in> set ss. length s \<le> pathMax" for ss
    using that by (induction ss) auto
  ultimately have "length (concat (map bytes_of_string (rd_strings d))) \<le> pathMax * maxFields"
    using assms(1) unfolding rd_ok_def by (meson mult_le_mono2 order_trans)
  then show ?thesis by simp
qed

lemma toAuditRuleData_ok:
  assumes "rd_ok d" and "syscalls_ok d" and "length (rd_fields d) \<le> maxFields"
  shows "\<exists>r msk. toAuditRuleData d = Ok r \<and> ard_ok r \<and> syscall_mask d = Ok msk \<and> r =
    \<lparr>ard_Flags = rd_flags d, ard_Action = rd_action d, ard_FieldCount = of_nat (length (rd_fields d)),
     ard_Mask = msk, ard_Fields = pad_array (rd_fields d),
     ard_Values = pad_array (rd_values d), ard_FieldFlags = pad_array (rd_fieldFlags d),
     ard_BufLen = of_nat (length (concat (map bytes_of_string (rd_strings d)))),
     ard_Buf = concat (map bytes_of_string (rd_strings d))\<rparr>"
proof -
  obtain msk where m: "syscall_mask d = Ok msk" "length msk = 64" using syscall_mask_ok [OF assms(2)] by blast
  let ?buf = "concat (map bytes_of_string (rd_strings d))"
  have "unat (of_nat (length ?buf) :: u32) = length ?buf"
    using buffer_bound [OF assms(1,3)] by (simp only: unsigned_of_nat take_bit_eq_mod) simp
  then show ?thesis
    using assms(1,3) m by (simp add: toAuditRuleData_def rd_ok_def Let_def ard_ok_def)
qed

lemma fromAuditRuleData_struct:
  assumes "rd_ok d" and "length (rd_fields d) \<le> maxFields"
    and "r = \<lparr>ard_Flags = rd_flags d, ard_Action = rd_action d, ard_FieldCount = of_nat (length (rd_fields d)),
     ard_Mask = msk, ard_Fields = pad_array (rd_fields d),
     ard_Values = pad_array (rd_values d), ard_FieldFlags = pad_array (rd_fieldFlags d),
     ard_BufLen = of_nat (length (concat (map bytes_of_string (rd_strings d)))),
     ard_Buf = concat (map bytes_of_string (rd_strings d))\<rparr>"
    and "all = (\<forall>i < length msk - 1. msk ! i = 0xFFFFFFFF)"
  shows "fromAuditRuleData r = Ok (d\<lparr>rd_allSyscalls := all, rd_arch := [],
      rd_syscalls := (if all then [] else mask_syscalls msk)\<rparr>)"
proof -
  let ?n = "length (rd_fields d)" and ?buf = "concat (map bytes_of_string (rd_strings d))"
  have n: "unat (of_nat ?n :: u32) = ?n" using assms(2) by (simp add: unsigned_of_nat take_bit_eq_mod)
  have b: "unat (of_nat (length ?buf) :: u32) = length ?buf"
    using buffer_bound [OF assms(1,2)] by (simp only: unsigned_of_nat take_bit_eq_mod) simp
  have "cut_strings r ?n 0 0 = Ok (rd_strings d)"
    using assms b by (intro cut_strings_ok [of _ _ _ _ "[]"]) (simp_all add: rd_ok_def)
  moreover have "(\<forall>i < length (ard_Mask r) - 1. ard_Mask r ! i = 0xFFFFFFFF) = all"
    by (simp only: assms(3,4) auditRuleData.simps)
  ultimately show ?thesis
    unfolding fromAuditRuleData_def Let_def using assms(1,3) n by (simp add: rd_ok_def)
qed

lemma set_syscalls_Ok:
  "set_syscalls ns msk = Ok msk' \<Longrightarrow> length msk = 64 \<Longrightarrow> \<forall>n \<in> set ns. unat n < 2048"
  by (induction ns arbitrary: msk) (auto simp: Let_def less_mult_imp_div_less split: if_splits)

lemma all_ones_iff: "w = (0xFFFFFFFF :: u32) \<longleftrightarrow> (\<forall>b < 32. bit w b)"
proof -
  have "(0xFFFFFFFF :: u32) = - 1" by simp
  then show ?thesis by (auto simp: bit_eq_iff bit_simps)
qed

text \<open>The system calls that come back: all of them when the first 2016 are all there.\<close>

definition same_syscalls :: "ruleData \<Rightarrow> ruleData \<Rightarrow> bool" where
  "same_syscalls d d' =
     ((rd_allSyscalls d' \<longleftrightarrow> rd_allSyscalls d \<or> (\<forall>k < 2016. \<exists>n \<in> set (rd_syscalls d). unat n = k))
      \<and> (\<not> rd_allSyscalls d' \<longrightarrow> set (rd_syscalls d') = set (rd_syscalls d) \<and> sorted_wrt (<) (rd_syscalls d')))"

lemma listed_syscalls:
  assumes "set_syscalls ns (replicate 64 0) = Ok msk"
  shows "length msk = 64 \<and> sorted_wrt (<) (mask_syscalls msk) \<and> set (mask_syscalls msk) = set ns
    \<and> ((\<forall>i < length msk - 1. msk ! i = 0xFFFFFFFF) \<longleftrightarrow> (\<forall>k < 2016. \<exists>n \<in> set ns. unat n = k))"
proof -
  have bound: "\<forall>n \<in> set ns. unat n < 2048" by (rule set_syscalls_Ok [OF assms]) simp
  from set_syscalls_spec [OF bound, of "replicate 64 0"] assms
  have len: "length msk = 64"
    and bits: "\<And>w b. w < 64 \<Longrightarrow> b < 32 \<Longrightarrow> bit (msk ! w) b \<longleftrightarrow> (\<exists>n \<in> set ns. unat n = w * 32 + b)" by auto
  have mem: "n \<in> set (mask_syscalls msk) \<longleftrightarrow> n \<in> set ns" for n
  proof -
    have "n \<in> set (mask_syscalls msk) \<longleftrightarrow> unat n div 32 < 64 \<and> (\<exists>m \<in> set ns. unat m = unat n)"
      using mask_syscalls_iff [of msk n] len bits [of "unat n div 32" "unat n mod 32"] by auto
    also have "\<dots> \<longleftrightarrow> n \<in> set ns" using bound by (auto simp: less_mult_imp_div_less simp flip: word_unat_eq_iff)
    finally show ?thesis .
  qed
  have "(\<forall>i < 63. \<forall>b < 32. bit (msk ! i) b) \<longleftrightarrow> (\<forall>k < 2016. \<exists>n \<in> set ns. unat n = k)"
  proof (intro iffI allI impI)
    fix k :: nat assume a: "\<forall>i < 63. \<forall>b < 32. bit (msk ! i) b" and "k < 2016"
    then have "k div 32 < 63" "k mod 32 < 32" by auto
    with a bits [of "k div 32" "k mod 32"] show "\<exists>n \<in> set ns. unat n = k" by auto
  next
    fix i b :: nat assume "\<forall>k < 2016. \<exists>n \<in> set ns. unat n = k" and "i < 63" and "b < 32"
    with bits [of i b] show "bit (msk ! i) b" by auto
  qed
  with len mem sorted_mask_syscalls [of msk] show ?thesis by (auto simp: all_ones_iff)
qed

lemma struct_roundtrip:
  assumes "rd_ok d" and "toAuditRuleData d = Ok r"
  shows "ard_ok r \<and> (\<exists>d'. fromAuditRuleData r = Ok d' \<and> same_syscalls d d'
    \<and> d' = d\<lparr>rd_allSyscalls := rd_allSyscalls d', rd_syscalls := rd_syscalls d', rd_arch := []\<rparr>)"
proof -
  obtain msk where m: "syscall_mask d = Ok msk" and n: "length (rd_fields d) \<le> maxFields"
    using assms(2) by (auto simp: toAuditRuleData_def bind_outcome_Ok Let_def split: if_splits)
  have sys: "syscalls_ok d"
    using m set_syscalls_Ok [of "rd_syscalls d" "replicate 64 0" msk]
    by (auto simp: syscalls_ok_def syscall_mask_def split: if_splits)
  obtain msk' where r: "ard_ok r" "syscall_mask d = Ok msk'" "r =
    \<lparr>ard_Flags = rd_flags d, ard_Action = rd_action d, ard_FieldCount = of_nat (length (rd_fields d)),
     ard_Mask = msk', ard_Fields = pad_array (rd_fields d),
     ard_Values = pad_array (rd_values d), ard_FieldFlags = pad_array (rd_fieldFlags d),
     ard_BufLen = of_nat (length (concat (map bytes_of_string (rd_strings d)))),
     ard_Buf = concat (map bytes_of_string (rd_strings d))\<rparr>"
    using toAuditRuleData_ok [OF assms(1) sys n] assms(2) by auto
  let ?all = "\<forall>i < length msk' - 1. msk' ! i = 0xFFFFFFFF"
  let ?d' = "d\<lparr>rd_allSyscalls := ?all, rd_arch := [], rd_syscalls := (if ?all then [] else mask_syscalls msk')\<rparr>"
  have d': "fromAuditRuleData r = Ok ?d'"
    by (rule fromAuditRuleData_struct [OF assms(1) n r(3) refl])
  have "same_syscalls d ?d'"
  proof (cases "rd_allSyscalls d")
    case True
    then have "msk' = replicate 63 0xFFFFFFFF @ [0]" using r(2) by (simp add: syscall_mask_def)
    then have "?all" by (simp add: nth_append)
    with True show ?thesis by (simp add: same_syscalls_def)
  next
    case False
    then have "set_syscalls (rd_syscalls d) (replicate 64 0) = Ok msk'" using r(2) by (simp add: syscall_mask_def)
    from listed_syscalls [OF this] False show ?thesis by (auto simp: same_syscalls_def)
  qed
  with d' r(1) show ?thesis by (intro conjI exI [of _ ?d']) simp_all
qed

text \<open>
  (C8) A rule that is built is read back from its binary form, as the kernel lists it, with the
  same list, action, fields, operators, values and strings, and with the same system calls
  (sorted and without repetitions; a list of the first 2016 or more reads as "all").
\<close>

theorem built_rule_reads_back:
  assumes "Build H bo rule = Ok b"
  shows "\<exists>d r d'. rule_data H rule = Ok d \<and> fromWireFormat bo b = Ok r \<and> fromAuditRuleData r = Ok d'
    \<and> same_syscalls d d'
    \<and> d' = d\<lparr>rd_allSyscalls := rd_allSyscalls d', rd_syscalls := rd_syscalls d', rd_arch := []\<rparr>"
proof -
  obtain d r where d: "rule_data H rule = Ok d" "toAuditRuleData d = Ok r" "b = ard_toWireFormat bo r"
    using assms by (auto simp: Build_def bind_outcome_Ok)
  from struct_roundtrip [OF rule_data_ok [OF d(1)] d(2)] obtain d' where
    "ard_ok r" "fromAuditRuleData r = Ok d'" "same_syscalls d d'"
    "d' = d\<lparr>rd_allSyscalls := rd_allSyscalls d', rd_syscalls := rd_syscalls d', rd_arch := []\<rparr>" by blast
  moreover have "fromWireFormat bo b = Ok r" using wire_decodes [OF \<open>ard_ok r\<close>] d(3) by simp
  ultimately show ?thesis using d(1) by blast
qed

text \<open>A sample host, and a rule with one system call, given by number.\<close>

definition sample_host :: host where
  "sample_host = \<lparr>GOARCH = ''amd64'', user_Lookup = (\<lambda>_. None), user_LookupGroup = (\<lambda>_. None),
     user_LookupId = (\<lambda>_. None), user_LookupGroupId = (\<lambda>_. None), stat_IsDir = (\<lambda>_. False)\<rparr>"

definition sample_rule :: "string \<Rightarrow> SyscallRule" where
  "sample_rule s = \<lparr>sys_Type = AppendSyscallRuleType, sys_List = ''exit'', sys_Action = ''always'',
     sys_Filters = [], sys_Syscalls = [s], sys_Keys = []\<rparr>"

lemma sample_atoi: "atoi ''2048'' = (2048, None)" "atoi ''2'' = (2, None)"
  by (simp_all add: atoi_def parse_int_def parse_uint_def digit_val_def is_digit_def Let_def)

lemma sample_rule_data:
  assumes "atoi s = (n, None)" and "s \<noteq> ''all''"
  shows "rule_data sample_host (RSyscall (sample_rule s)) = Ok (zero_ruleData\<lparr>rd_flags := exitFilter,
     rd_action := alwaysAction, rd_allSyscalls := False, rd_syscalls := [word_of_int n]\<rparr>)"
  using assms by (simp add: rule_data_def sample_rule_def setList_def setAction_def addSyscall_def addKeys_def
      zero_ruleData_def rule_wrap_def)

lemma sorted_singleton:
  fixes xs :: "'a::order list"
  assumes "set xs = {a}" and "sorted_wrt (<) xs"
  shows "xs = [a]"
proof -
  obtain x ys where xs: "xs = x # ys" using assms(1) by (cases xs) auto
  then have "\<forall>y \<in> set ys. x < y \<and> y = a" and "x = a" using assms by auto
  then have "ys = []" by (cases ys) auto
  with xs \<open>x = a\<close> show ?thesis by simp
qed

theorem built_rule_reads_back_witness:
  "\<exists>b. Build sample_host LittleEndian (RSyscall (sample_rule ''2'')) = Ok b
     \<and> (\<exists>r d'. fromWireFormat LittleEndian b = Ok r \<and> fromAuditRuleData r = Ok d'
          \<and> rd_flags d' = exitFilter \<and> rd_syscalls d' = [2])"
proof -
  let ?d = "zero_ruleData\<lparr>rd_flags := exitFilter, rd_action := alwaysAction, rd_allSyscalls := False,
     rd_syscalls := [2]\<rparr>"
  have d: "rule_data sample_host (RSyscall (sample_rule ''2'')) = Ok ?d"
    using sample_rule_data [OF sample_atoi(2)] by simp
  have "syscalls_ok ?d" "length (rd_fields ?d) \<le> maxFields"
    by (simp_all add: syscalls_ok_def zero_ruleData_def)
  then obtain r where "toAuditRuleData ?d = Ok r"
    using toAuditRuleData_ok [OF rule_data_ok [OF d]] by blast
  with d obtain b where b: "Build sample_host LittleEndian (RSyscall (sample_rule ''2'')) = Ok b"
    by (simp add: Build_def)
  from built_rule_reads_back [OF b] d obtain r d' where "fromWireFormat LittleEndian b = Ok r"
    "fromAuditRuleData r = Ok d'" "same_syscalls ?d d'" "rd_flags d' = rd_flags ?d"
    by (metis (no_types, lifting) outcome.inject(1) ruleData.select_convs(1) ruleData.surjective ruleData.update_convs(1,3,4,9))
  moreover have "rd_syscalls d' = [2]"
  proof -
    have "\<not> rd_allSyscalls d'"
      using \<open>same_syscalls ?d d'\<close> by (auto simp: same_syscalls_def zero_ruleData_def intro!: exI [of _ 0])
    then have "set (rd_syscalls d') = {2}" "sorted_wrt (<) (rd_syscalls d')"
      using \<open>same_syscalls ?d d'\<close> by (simp_all add: same_syscalls_def)
    then show ?thesis by (rule sorted_singleton)
  qed
  ultimately show ?thesis using b by auto
qed

section \<open>Watches on the command line\<close>

lemma op_equal: "map_of operatorsTable ''='' = Some equalOperator"
  by (simp add: operatorsTable_def)

lemma watch_fields:
  "map_of fieldsTable ''path'' = Some pathField" "map_of fieldsTable ''dir'' = Some dirField"
  "map_of fieldsTable ''perm'' = Some permField" "map_of fieldsTable ''key'' = Some keyField"
  by (simp_all add: fieldsTable_def)

lemma filter_value_path:
  "f \<in> {pathField, dirField} \<Longrightarrow> length rhs \<le> pathMax \<Longrightarrow>
     filter_value H exitFilter lhs op f rhs = Ok (of_nat (length rhs), Some rhs, None)"
  by (auto simp: filter_value_def Let_def is_string_field_def require_def)

lemma filter_value_key:
  "length rhs \<le> maxKeyLength \<Longrightarrow> filter_value H fl lhs op keyField rhs = Ok (of_nat (length rhs), Some rhs, None)"
  by (simp add: filter_value_def Let_def is_string_field_def require_def exit_only_def)

lemma filter_value_perm:
  "getPerm rhs = Ok v \<Longrightarrow> filter_value H exitFilter lhs equalOperator permField rhs = Ok (v, None, None)"
  by (simp add: filter_value_def Let_def is_string_field_def require_def)

definition access_bit :: "AccessType \<Rightarrow> nat" where
  "access_bit p = (case p of ReadAccessType \<Rightarrow> 2 | WriteAccessType \<Rightarrow> 1 | ExecuteAccessType \<Rightarrow> 0
     | AttributeChangeAccessType \<Rightarrow> 3)"

lemma perm_bits_access:
  "\<exists>v. perm_bits acc (map code (concat (map access_char ps))) = Ok v
     \<and> (\<forall>n. bit v n \<longleftrightarrow> bit acc n \<or> (\<exists>p \<in> set ps. n = access_bit p))"
proof (induction ps arbitrary: acc)
  case (Cons p ps)
  let ?b = "2 ^ access_bit p :: u32"
  have b: "perm_bits acc (map code (concat (map access_char (p # ps))))
      = perm_bits (acc OR ?b) (map code (concat (map access_char ps)))"
    by (cases p) (simp_all add: access_char_def access_bit_def perm_bit_def)
  have "access_bit p < 32" by (cases p) (simp_all add: access_bit_def)
  then have "bit ?b n \<longleftrightarrow> n = access_bit p" for n by (auto simp: bit_exp_iff)
  with Cons.IH [of "acc OR ?b"] b show ?case by (auto simp: bit_or_iff)
qed simp

lemma ascii_access: "ascii (concat (map access_char ps))"
  by (induction ps) (auto simp: access_char_def split: AccessType.splits)

lemma AND_numeral_bit:
  "v AND readPerm \<noteq> 0 \<longleftrightarrow> bit v 2" "v AND writePerm \<noteq> 0 \<longleftrightarrow> bit v 1" "v AND execPerm \<noteq> 0 \<longleftrightarrow> bit v 0"
  "v AND attrPerm \<noteq> 0 \<longleftrightarrow> bit v 3" for v :: u32
  using and_exp_eq_0_iff_not_bit [of v 2] and_exp_eq_0_iff_not_bit [of v 1] and_exp_eq_0_iff_not_bit [of v 0]
    and_exp_eq_0_iff_not_bit [of v 3] by simp_all

text \<open>The permissions of a watch in the order in which they are printed.\<close>

definition shown_perms :: "FileWatchRule \<Rightarrow> string" where
  "shown_perms w = (let ps = watch_Permissions w; has = (\<lambda>p. ps = [] \<or> p \<in> set ps) in
     (if has ReadAccessType then ''r'' else []) @ (if has WriteAccessType then ''w'' else [])
     @ (if has ExecuteAccessType then ''x'' else []) @ (if has AttributeChangeAccessType then ''a'' else []))"

lemma getPerm_access: "getPerm (concat (map access_char ps)) = perm_bits 0 (map code (concat (map access_char ps)))"
  unfolding getPerm_def runes_from_ascii [OF ascii_access] by (simp only: map_snd_zip length_upt length_map add_diff_cancel_left')

lemma getPerm_watch: "\<exists>v. getPerm (watch_perms w) = Ok v \<and> permission_String v = shown_perms w"
proof -
  define ps where "ps = (if watch_Permissions w = [] then [ReadAccessType, WriteAccessType, ExecuteAccessType,
      AttributeChangeAccessType] else watch_Permissions w)"
  have w: "watch_perms w = concat (map access_char ps)" by (simp add: watch_perms_def access_char_def ps_def)
  obtain v where v: "getPerm (watch_perms w) = Ok v" "\<forall>n. bit v n \<longleftrightarrow> (\<exists>p \<in> set ps. n = access_bit p)"
    using perm_bits_access [of 0 ps] by (auto simp: w getPerm_access)
  have inj: "access_bit p = access_bit q \<longleftrightarrow> p = q" for p q
    by (cases p; cases q) (simp_all add: access_bit_def)
  have "bit v (access_bit p) \<longleftrightarrow> p \<in> set ps" for p using v(2) by (auto simp: inj)
  from this [of ReadAccessType] this [of WriteAccessType] this [of ExecuteAccessType]
    this [of AttributeChangeAccessType]
  have "permission_String v = shown_perms w"
    unfolding permission_String_def AND_numeral_bit shown_perms_def by (simp add: access_bit_def ps_def Let_def)
  with v(1) show ?thesis by blast
qed

section \<open>The line of a watch\<close>

definition watch_text :: "FileWatchRule \<Rightarrow> string" where
  "watch_text w = str_join '' '' ([''-w'', path_Clean (watch_Path w), ''-p'', shown_perms w]
     @ (let k = str_join [char_of (1::nat)] (watch_Keys w) in if k = [] then [] else [''-k'', k]))"

lemma watch_data:
  assumes "has_prefix (path_Clean (watch_Path w)) ''/''" and "length (path_Clean (watch_Path w)) \<le> pathMax"
    and "length (str_join [char_of (1::nat)] (watch_Keys w)) \<le> maxKeyLength"
  shows "\<exists>d f v. rule_data H (RFileWatch w) = Ok d \<and> f \<in> {pathField, dirField}
    \<and> rd_allSyscalls d \<and> rd_flags d = exitFilter \<and> rd_action d = alwaysAction
    \<and> permission_String v = shown_perms w \<and> rd_values d ! 1 = v
    \<and> (if watch_Keys w = [] then rd_fields d = [f, permField] \<and> rd_strings d = [path_Clean (watch_Path w)]
       else rd_fields d = [f, permField, keyField]
         \<and> rd_strings d = [path_Clean (watch_Path w), str_join [char_of (1::nat)] (watch_Keys w)])"
proof -
  let ?path = "path_Clean (watch_Path w)"
  obtain v where v: "getPerm (watch_perms w) = Ok v" "permission_String v = shown_perms w"
    using getPerm_watch by blast
  obtain f where f: "f \<in> {pathField, dirField}" "map_of fieldsTable (watch_kind H ?path) = Some f"
    by (cases "stat_IsDir H ?path") (auto simp: watch_kind_def watch_fields)
  have "watch_start (zero_ruleData\<lparr>rd_allSyscalls := True\<rparr>) = zero_ruleData\<lparr>rd_flags := exitFilter,
      rd_action := alwaysAction, rd_allSyscalls := True\<rparr>" by (simp add: watch_start_def)
  then have "rule_data H (RFileWatch w) =
     bind_outcome (addFilter H (watch_kind H ?path) ''='' ?path (zero_ruleData\<lparr>rd_flags := exitFilter,
        rd_action := alwaysAction, rd_allSyscalls := True\<rparr>)) (\<lambda>d.
     bind_outcome (addFilter H ''perm'' ''='' (watch_perms w) d) (\<lambda>d. addKeys H (watch_Keys w) d))"
    using assms(1) by (simp add: rule_data_def addFileWatch_eq Let_def)
  also have "\<dots> = addKeys H (watch_Keys w) (zero_ruleData\<lparr>rd_flags := exitFilter, rd_action := alwaysAction,
      rd_allSyscalls := True, rd_fields := [f, permField], rd_values := [of_nat (length ?path), v],
      rd_fieldFlags := [equalOperator, equalOperator], rd_strings := [?path]\<rparr>)"
    using f assms(2) v(1)
    by (simp add: addFilter_def op_equal watch_fields filter_value_path filter_value_perm need_def require_def
        zero_ruleData_def)
  finally show ?thesis
    using f v(2) assms(3)
    by (cases "watch_Keys w = []")
       (auto simp: addKeys_def addFilter_def op_equal watch_fields filter_value_key need_def require_def
         zero_ruleData_def rule_wrap_def)
qed

lemma watch_line_text:
  assumes "f \<in> {pathField, dirField}" and "rd_allSyscalls d" and "permission_String (rd_values d ! 1) = shown_perms w"
    and "if watch_Keys w = [] then rd_fields d = [f, permField] \<and> rd_strings d = [path_Clean (watch_Path w)]
       else rd_fields d = [f, permField, keyField]
         \<and> rd_strings d = [path_Clean (watch_Path w), str_join [char_of (1::nat)] (watch_Keys w)]"
  shows "watch_line d = Ok (Some (watch_text w))"
  using assms by (cases "watch_Keys w = []") (auto simp: watch_line_def last_index_def watch_text_def Let_def)

lemma watch_prints:
  assumes "has_prefix (path_Clean (watch_Path w)) ''/''" and "length (path_Clean (watch_Path w)) \<le> pathMax"
    and "length (str_join [char_of (1::nat)] (watch_Keys w)) \<le> maxKeyLength"
  shows "\<exists>b. Build H bo (RFileWatch w) = Ok b \<and> ToCommandLine H bo b resolveIds = Ok (watch_text w)"
proof -
  obtain d f v where d: "rule_data H (RFileWatch w) = Ok d" "f \<in> {pathField, dirField}"
    "rd_allSyscalls d" "rd_flags d = exitFilter" "rd_action d = alwaysAction"
    "permission_String v = shown_perms w" "rd_values d ! 1 = v"
    "if watch_Keys w = [] then rd_fields d = [f, permField] \<and> rd_strings d = [path_Clean (watch_Path w)]
       else rd_fields d = [f, permField, keyField]
         \<and> rd_strings d = [path_Clean (watch_Path w), str_join [char_of (1::nat)] (watch_Keys w)]"
    using watch_data [OF assms, of H] by blast
  have ok: "rd_ok d" by (rule rule_data_ok [OF d(1)])
  have "length (rd_fields d) \<le> maxFields" using d(8) by (simp split: if_splits)
  then obtain r where r: "toAuditRuleData d = Ok r" "ard_ok r"
    using toAuditRuleData_ok [OF ok] d(3) by (auto simp: syscalls_ok_def)
  obtain d' where d': "fromAuditRuleData r = Ok d'" "same_syscalls d d'"
    "d' = d\<lparr>rd_allSyscalls := rd_allSyscalls d', rd_syscalls := rd_syscalls d', rd_arch := []\<rparr>"
    using struct_roundtrip [OF ok r(1)] by blast
  have same: "rd_allSyscalls d'" "rd_fields d' = rd_fields d" "rd_values d' = rd_values d"
    "rd_strings d' = rd_strings d" "rd_flags d' = exitFilter" "rd_action d' = alwaysAction"
    using d'(2) d(3,4,5) arg_cong [OF d'(3), of rd_fields] arg_cong [OF d'(3), of rd_values]
      arg_cong [OF d'(3), of rd_strings] arg_cong [OF d'(3), of rd_flags] arg_cong [OF d'(3), of rd_action]
    by (simp_all add: same_syscalls_def)
  have line: "watch_line d' = Ok (Some (watch_text w))"
    using d same by (intro watch_line_text [of f]) simp_all
  have "fromWireFormat bo (ard_toWireFormat bo r) = Ok r"
    using wire_decodes [OF r(2)] .
  then show ?thesis
    using d(1) r(1) d'(1) same line
    by (simp add: Build_def ToCommandLine_def rule_wrap_def getList_def getAction_def)
qed

text \<open>
  A file watch is built, and \<^verbatim>\<open>ToCommandLine\<close> prints its binary form as the watch that
  \<^verbatim>\<open>auditctl\<close> would list: the cleaned path, the permissions in the order rwxa, and the keys.
\<close>

theorem watch_command_line:
  assumes "has_prefix (path_Clean (watch_Path w)) ''/''" and "length (path_Clean (watch_Path w)) \<le> pathMax"
    and "length (str_join [char_of (1::nat)] (watch_Keys w)) \<le> maxKeyLength"
  shows "\<exists>b. Build H bo (RFileWatch w) = Ok b \<and> ToCommandLine H bo b resolveIds = Ok (watch_text w)"
  by (rule watch_prints [OF assms])

text \<open>A watch for writes and attribute changes with a key.\<close>

definition sample_watch :: FileWatchRule where
  "sample_watch = \<lparr>watch_Type = FileWatchRuleType, watch_Path = ''/etc/../etc/passwd'',
     watch_Permissions = [AttributeChangeAccessType, WriteAccessType], watch_Keys = [''identity'']\<rparr>"

theorem watch_command_line_witness:
  "\<exists>b. Build sample_host LittleEndian (RFileWatch sample_watch) = Ok b
     \<and> ToCommandLine sample_host LittleEndian b False = Ok ''-w /etc/passwd -p wa -k identity''"
  using watch_command_line [of sample_watch sample_host LittleEndian False]
  by (simp add: sample_watch_def watch_text_def shown_perms_def path_Clean_def has_prefix_def Let_def)

end
