(* ===== verification/Rule_Errors.thy ===== *)
theory Rule_Errors
  imports Rule_Laws
begin

unbundle bit_operations_syntax

text \<open>
  The rule package outside its normal path: system call numbers beyond the mask, structs
  that claim too many fields, the comparison of fields, and the permissions.
\<close>

section \<open>Numbers beyond the mask\<close>

lemma set_syscalls_find:
  "length msk = 64 \<Longrightarrow>
     (case find (\<lambda>n. 2048 \<le> unat n) ns of
        None \<Rightarrow> \<exists>msk'. set_syscalls ns msk = Ok msk'
      | Some n \<Rightarrow> set_syscalls ns msk =
          (if unat n < 2080 then Panic IndexOutOfRange
           else Err (RErr ''invalid syscall number'' (format_uint (unat n)))))"
proof (induction ns arbitrary: msk)
  case (Cons n ns)
  show ?case
  proof (cases "2048 \<le> unat n")
    case True
    then have "64 \<le> unat n div 32" using div_le_mono [of 2048 "unat n" 32] by simp
    moreover have "unat n div 32 < 65 \<longleftrightarrow> unat n < 2080" by (simp add: div_less_iff_less_mult)
    ultimately show ?thesis using True Cons.prems by (auto simp: Let_def)
  next
    case False
    then have "unat n div 32 < 64" by (simp add: div_less_iff_less_mult)
    then have "set_syscalls (n # ns) msk
        = set_syscalls ns (msk[unat n div 32 := msk ! (unat n div 32) OR push_bit (unat n mod 32) 1])"
      using Cons.prems by (simp add: Let_def)
    then show ?thesis
      using False Cons.prems Cons.IH [of "msk[unat n div 32 := msk ! (unat n div 32) OR push_bit (unat n mod 32) 1]"]
      by (simp only: find.simps if_False length_list_update)
  qed
qed simp

text \<open>
  (C37) Which system call numbers can be put in a rule. The first number of 2048 or more decides:
  from 2080 on it is reported as invalid, but the 32 numbers from 2048 index the mask out of
  range, so \<^verbatim>\<open>Build\<close> panics.
\<close>

theorem syscall_number_bounds:
  assumes "rule_data H rule = Ok d" and "\<not> rd_allSyscalls d"
    and "find (\<lambda>n. 2048 \<le> unat n) (rd_syscalls d) = Some n"
  shows "Build H bo rule = (if unat n < 2080 then Panic IndexOutOfRange
           else Err (RErr ''invalid syscall number'' (format_uint (unat n))))"
  using assms set_syscalls_find [of "replicate 64 0" "rd_syscalls d"]
  by (simp add: Build_def toAuditRuleData_def syscall_mask_def)

theorem syscall_number_bounds_witness:
  "Build sample_host LittleEndian (RSyscall (sample_rule ''2048'')) = Panic IndexOutOfRange"
  using syscall_number_bounds [OF sample_rule_data [OF sample_atoi(1)], of 2048 LittleEndian]
  by (simp add: zero_ruleData_def)

section \<open>Structs that claim too many fields\<close>

text \<open>The struct with \<open>n\<close> as its field count and nothing else.\<close>

definition claiming :: "u32 \<Rightarrow> auditRuleData" where
  "claiming n = \<lparr>ard_Flags = exitFilter, ard_Action = alwaysAction, ard_FieldCount = n, ard_Mask = replicate 64 0,
     ard_Fields = replicate 64 0, ard_Values = replicate 64 0, ard_FieldFlags = replicate 64 0,
     ard_BufLen = 0, ard_Buf = []\<rparr>"

lemma cut_strings_beyond:
  "(\<forall>f \<in> set (ard_Fields r). \<not> is_string_field f) \<Longrightarrow> i \<le> length (ard_Fields r) \<Longrightarrow>
     length (ard_Fields r) < i + n \<Longrightarrow> cut_strings r n i off = Panic IndexOutOfRange"
  by (induction n arbitrary: i) auto

lemma claiming_ok: "ard_ok (claiming n)"
  by (simp add: ard_ok_def claiming_def)

text \<open>
  (C38) \<^verbatim>\<open>ToCommandLine\<close> panics on a rule in the kernel's format whose field count is above 64: the
  count is read from the data and not compared with the size of the array it bounds.
\<close>

theorem field_count_unchecked:
  assumes "64 < unat n"
  shows "\<exists>b. fromWireFormat bo b = Ok (claiming n) \<and> ToCommandLine H bo b resolveIds = Panic IndexOutOfRange"
proof -
  have "cut_strings (claiming n) (unat n) 0 0 = Panic IndexOutOfRange"
    using assms by (intro cut_strings_beyond) (auto simp: claiming_def is_string_field_def)
  then have "fromAuditRuleData (claiming n) = Panic IndexOutOfRange"
    by (simp add: fromAuditRuleData_def Let_def claiming_def)
  then show ?thesis
    using wire_decodes [OF claiming_ok [of n], of bo]
    by (intro exI [of _ "ard_toWireFormat bo (claiming n)"]) (simp add: ToCommandLine_def rule_wrap_def)
qed

theorem field_count_unchecked_witness:
  "\<exists>b. fromWireFormat LittleEndian b = Ok (claiming 65)
     \<and> ToCommandLine sample_host LittleEndian b False = Panic IndexOutOfRange"
  by (rule field_count_unchecked) simp

section \<open>Comparisons and permissions\<close>

text \<open>
  Two pairs of fields with the same comparison have the same members, so it does not matter
  which of them the reverse table keeps.
\<close>

lemma comparison_pairs_unordered:
  "list_all (\<lambda>(c, a, b). list_all (\<lambda>(c', x, y). c = c' \<longrightarrow> x = a \<and> y = b \<or> x = b \<and> y = a) comparison_pairs)
     comparison_pairs"
  by code_simp

end
