(* ===== verification/Rule_Flags.thy ===== *)
theory Rule_Flags
  imports Rule_Types Go_Regexp Go_Strconv
begin

text \<open>
  \<^verbatim>\<open>rule/flags/flags.go\<close>: rules as the command line of \<^verbatim>\<open>auditctl\<close>. The parser is Go's \<^verbatim>\<open>flag\<close>
  package over the values defined in the file; the part of \<^verbatim>\<open>FlagSet.Parse\<close> that the package
  uses is \<open>parseOne\<close> and \<open>parse_flags\<close> below.
\<close>

section \<open>Errors\<close>

datatype value_error =
    InvalidComparison string
  | InvalidFilter string
  | TooManyParts string
  | InvalidPart string
  | MissingListType
  | MissingAction
  | InvalidAccessType char
  | InvalidBool string

datatype flag_error =
    BadFlagSyntax string
  | ErrHelp
  | FlagNotDefined string
  | FlagNeedsArgument string
  | InvalidValue string string value_error
  | MissingOperation
  | MutuallyExclusive "string list"
  | NeitherPrependNorAppend
  | BothPrependAndAppend

section \<open>Values of flags\<close>

record addFlag =
  add_List :: string
  add_Action :: string

definition zero_addFlag :: addFlag where
  "zero_addFlag = \<lparr>add_List = [], add_Action = []\<rparr>"

text \<open>The loop over the parts of \<^verbatim>\<open>-a\<close> and \<^verbatim>\<open>-A\<close>.\<close>

primrec add_parts :: "string list \<Rightarrow> addFlag \<Rightarrow> (value_error, addFlag) outcome" where
  "add_parts [] f = Ok f"
| "add_parts (p # ps) f =
     (let part = trim_space p in
      if part \<in> {''task'', ''exit'', ''user'', ''exclude''} then add_parts ps (f\<lparr>add_List := part\<rparr>)
      else if part \<in> {''never'', ''always''} then add_parts ps (f\<lparr>add_Action := part\<rparr>)
      else Err (InvalidPart part))"

definition addFlag_Set :: "string \<Rightarrow> addFlag \<Rightarrow> (value_error, addFlag) outcome" where
  "addFlag_Set value f =
     (let parts = split_byte (CHR '','') value in
      if length parts > 2 then Err (TooManyParts value)
      else bind_outcome (add_parts parts f) (\<lambda>f.
        if add_List f = [] then Err MissingListType
        else if add_Action f = [] then Err MissingAction
        else Ok f))"

definition addFlag_String :: "addFlag \<Rightarrow> string" where
  "addFlag_String f = add_List f @ '','' @ add_Action f"

text \<open>Filters, matched by regular expressions.\<close>

definition comparisonRegexp :: matcher where
  "comparisonRegexp = m_seqs [m_cap (m_rep 1 re_word), m_rep 0 re_space,
     m_cap (m_seq (m_opt (m_lit ''!'')) (m_lit ''='')), m_cap (m_rep 1 re_word)]"

definition filterRegexp :: matcher where
  "filterRegexp = m_seqs [m_cap (m_rep 1 re_word), m_rep 0 re_space,
     m_cap (foldr (\<lambda>w. m_alt (m_lit w)) [''<='', ''>='', ''&='', ''='', ''!='', ''<'', ''>'', ''&''] (\<lambda>s. [])),
     m_cap (m_rep 1 (\<lambda>c. \<not> re_space c))]"

definition interFieldFilter_Set :: "string \<Rightarrow> (value_error, FilterSpec) outcome" where
  "interFieldFilter_Set value =
     (case find_match comparisonRegexp value of
        Some ([lhs, op, rhs], _) \<Rightarrow>
          Ok \<lparr>filter_Type = InterFieldFilterType, filter_LHS = lhs, filter_Comparator = op, filter_RHS = rhs\<rparr>
      | _ \<Rightarrow> Err (InvalidComparison value))"

definition valueFilter_Set :: "string \<Rightarrow> (value_error, FilterSpec) outcome" where
  "valueFilter_Set value =
     (case find_match filterRegexp value of
        Some ([lhs, op, rhs], _) \<Rightarrow>
          Ok \<lparr>filter_Type = ValueFilterType, filter_LHS = lhs, filter_Comparator = op, filter_RHS = rhs\<rparr>
      | _ \<Rightarrow> Err (InvalidFilter value))"

definition interFieldFilterList_Set :: "string \<Rightarrow> FilterSpec list \<Rightarrow> (value_error, FilterSpec list) outcome" where
  "interFieldFilterList_Set value l = bind_outcome (interFieldFilter_Set value) (\<lambda>f. Ok (l @ [f]))"

definition valueFilterList_Set :: "string \<Rightarrow> FilterSpec list \<Rightarrow> (value_error, FilterSpec list) outcome" where
  "valueFilterList_Set value l = bind_outcome (valueFilter_Set value) (\<lambda>f. Ok (l @ [f]))"

text \<open>The separator is written after index \<open>i\<close> when \<open>i > len(l)-1\<close>.\<close>

definition filterList_String :: "FilterSpec list \<Rightarrow> string" where
  "filterList_String l = ''['' @ concat (map (\<lambda>(i, v). FilterSpec_String v @ (if int i > int (length l) - 1 then '', '' else []))
     (zip [0..<length l] l)) @ '']''"

definition stringList_Set :: "string \<Rightarrow> string list \<Rightarrow> string list" where
  "stringList_Set value l = l @ map trim_space (split_byte (CHR '','') value)"

definition stringList_String :: "string list \<Rightarrow> string" where
  "stringList_String l = ''['' @ str_join '', '' l @ '']''"

primrec fileAccessTypeFlags_Set :: "string \<Rightarrow> AccessType list \<Rightarrow> (value_error, AccessType list) outcome" where
  "fileAccessTypeFlags_Set [] f = Ok f"
| "fileAccessTypeFlags_Set (v # vs) f =
     (if v = CHR ''r'' then fileAccessTypeFlags_Set vs (f @ [ReadAccessType])
      else if v = CHR ''w'' then fileAccessTypeFlags_Set vs (f @ [WriteAccessType])
      else if v = CHR ''x'' then fileAccessTypeFlags_Set vs (f @ [ExecuteAccessType])
      else if v = CHR ''a'' then fileAccessTypeFlags_Set vs (f @ [AttributeChangeAccessType])
      else Err (InvalidAccessType v))"

definition fileAccessTypeFlags_String :: "AccessType list \<Rightarrow> string" where
  "fileAccessTypeFlags_String f = ''['' @ str_join ''|'' (map AccessType_String f) @ '']''"

text \<open>\<^verbatim>\<open>strconv.ParseBool\<close>, used by flags of type bool.\<close>

definition parse_bool :: "string \<Rightarrow> (value_error, bool) outcome" where
  "parse_bool s =
     (if s \<in> {''1'', ''t'', ''T'', ''TRUE'', ''true'', ''True''} then Ok True
      else if s \<in> {''0'', ''f'', ''F'', ''FALSE'', ''false'', ''False''} then Ok False
      else Err (InvalidBool s))"

section \<open>The set of flags\<close>

text \<open>\<open>actual\<close> holds the names of the flags that were given, as \<^verbatim>\<open>FlagSet.Visit\<close> enumerates them.\<close>

record ruleFlagSet =
  rfs_DeleteAll :: bool
  rfs_Prepend :: addFlag
  rfs_Append :: addFlag
  rfs_Filters :: "FilterSpec list"
  rfs_Syscalls :: "string list"
  rfs_Path :: string
  rfs_Permissions :: "AccessType list"
  rfs_Key :: "string list"
  rfs_actual :: "string list"

definition newRuleFlagSet :: ruleFlagSet where
  "newRuleFlagSet = \<lparr>rfs_DeleteAll = False, rfs_Prepend = zero_addFlag, rfs_Append = zero_addFlag,
     rfs_Filters = [], rfs_Syscalls = [], rfs_Path = [], rfs_Permissions = [], rfs_Key = [], rfs_actual = []\<rparr>"

text \<open>The flags that \<^verbatim>\<open>newRuleFlagSet\<close> defines, and how each takes its value.\<close>

definition flag_names :: "string list" where
  "flag_names = [''D'', ''a'', ''A'', ''C'', ''F'', ''S'', ''p'', ''w'', ''k'']"

definition set_flag :: "string \<Rightarrow> string \<Rightarrow> ruleFlagSet \<Rightarrow> (value_error, ruleFlagSet) outcome" where
  "set_flag name value r =
     (if name = ''D'' then bind_outcome (parse_bool value) (\<lambda>b. Ok (r\<lparr>rfs_DeleteAll := b\<rparr>))
      else if name = ''a'' then bind_outcome (addFlag_Set value (rfs_Append r)) (\<lambda>f. Ok (r\<lparr>rfs_Append := f\<rparr>))
      else if name = ''A'' then bind_outcome (addFlag_Set value (rfs_Prepend r)) (\<lambda>f. Ok (r\<lparr>rfs_Prepend := f\<rparr>))
      else if name = ''C'' then
        bind_outcome (interFieldFilterList_Set value (rfs_Filters r)) (\<lambda>l. Ok (r\<lparr>rfs_Filters := l\<rparr>))
      else if name = ''F'' then
        bind_outcome (valueFilterList_Set value (rfs_Filters r)) (\<lambda>l. Ok (r\<lparr>rfs_Filters := l\<rparr>))
      else if name = ''S'' then Ok (r\<lparr>rfs_Syscalls := stringList_Set value (rfs_Syscalls r)\<rparr>)
      else if name = ''p'' then
        bind_outcome (fileAccessTypeFlags_Set value (rfs_Permissions r)) (\<lambda>p. Ok (r\<lparr>rfs_Permissions := p\<rparr>))
      else if name = ''w'' then Ok (r\<lparr>rfs_Path := value\<rparr>)
      else Ok (r\<lparr>rfs_Key := stringList_Set value (rfs_Key r)\<rparr>))"

section \<open>FlagSet.Parse\<close>

text \<open>The name of a flag and the value after the first equals sign, which cannot come first.\<close>

definition name_value :: "string \<Rightarrow> string \<times> string option" where
  "name_value name =
     (case index_byte (CHR ''='') (tl name) of
        None \<Rightarrow> (name, None)
      | Some i \<Rightarrow> (take (Suc i) name, Some (drop (i + 2) name)))"

text \<open>Giving a flag its value: the arguments left and the flags, now with the name recorded.\<close>

definition give_flag ::
  "string \<Rightarrow> string option \<Rightarrow> string list \<Rightarrow> ruleFlagSet \<Rightarrow> (flag_error, string list \<times> ruleFlagSet) outcome" where
  "give_flag name value args r =
     (let set_to = (\<lambda>v args. case set_flag name v r of
              Ok r' \<Rightarrow> Ok (args, r'\<lparr>rfs_actual := name # rfs_actual r'\<rparr>)
            | Err e \<Rightarrow> Err (InvalidValue name v e)
            | Panic p \<Rightarrow> Panic p) in
      if name = ''D'' then set_to (case value of Some v \<Rightarrow> v | None \<Rightarrow> ''true'') args
      else
        (case value of
           Some v \<Rightarrow> set_to v args
         | None \<Rightarrow> (case args of [] \<Rightarrow> Err (FlagNeedsArgument name) | v # args' \<Rightarrow> set_to v args')))"

text \<open>
  \<^verbatim>\<open>parseOne\<close> on the first argument: \<open>None\<close> when it is not a flag or ends the flags, otherwise the
  arguments left and the flags.
\<close>

definition parseOne ::
  "string \<Rightarrow> string list \<Rightarrow> ruleFlagSet \<Rightarrow> (flag_error, (string list \<times> ruleFlagSet) option) outcome" where
  "parseOne s args r =
     (if length s < 2 \<or> hd s \<noteq> CHR ''-'' then Ok None
      else if s = ''--'' then Ok None
      else
        (let name = (if s ! 1 = CHR ''-'' then drop 2 s else drop 1 s) in
         if name = [] \<or> hd name = CHR ''-'' \<or> hd name = CHR ''='' then Err (BadFlagSyntax s)
         else
           (let nv = name_value name in
            if fst nv \<notin> set flag_names then
              (if fst nv = ''help'' \<or> fst nv = ''h'' then Err ErrHelp else Err (FlagNotDefined (fst nv)))
            else bind_outcome (give_flag (fst nv) (snd nv) args r) (\<lambda>x. Ok (Some x)))))"

lemma give_flag_length: "give_flag name value args r = Ok (args', r') \<Longrightarrow> length args' \<le> length args"
  by (auto simp: give_flag_def Let_def split: if_splits option.splits list.splits outcome.splits)

lemma parseOne_length: "parseOne s args r = Ok (Some (args', r')) \<Longrightarrow> length args' < Suc (length args)"
  by (auto simp: parseOne_def Let_def less_Suc_eq_le bind_outcome_Ok split: if_splits dest: give_flag_length)

function parse_flags :: "string list \<Rightarrow> ruleFlagSet \<Rightarrow> (flag_error, ruleFlagSet) outcome" where
  "parse_flags [] r = Ok r"
| "parse_flags (s # args) r =
     (case parseOne s args r of
        Err e \<Rightarrow> Err e
      | Panic p \<Rightarrow> Panic p
      | Ok None \<Rightarrow> Ok r
      | Ok (Some (args', r')) \<Rightarrow> parse_flags args' r')"
  by pat_completeness auto
termination
  by (relation "measure (\<lambda>(args, r). length args)") (auto simp: parseOne_length)

section \<open>Validation\<close>

definition has_flag :: "string list \<Rightarrow> ruleFlagSet \<Rightarrow> bool" where
  "has_flag names r = (\<exists>n \<in> set (rfs_actual r). n \<in> set names)"

text \<open>\<^verbatim>\<open>validate\<close> returns the type it stores in the set.\<close>

definition validate :: "ruleFlagSet \<Rightarrow> (flag_error, RuleType) outcome" where
  "validate r =
     (let deleteAll = has_flag [''D''] r; fileWatch = has_flag [''w'', ''p''] r;
          syscall = has_flag [''a'', ''A'', ''C'', ''F'', ''S''] r in
      if \<not> deleteAll \<and> \<not> fileWatch \<and> \<not> syscall then Err MissingOperation
      else if deleteAll \<and> fileWatch \<or> deleteAll \<and> syscall \<or> fileWatch \<and> syscall then
        Err (MutuallyExclusive ((if deleteAll then [''delete all [-D]''] else [])
          @ (if fileWatch then [''file watch [-w|-p]''] else [])
          @ (if syscall then [''audit rule [-a|-A|-S|-C|-F]''] else [])))
      else if deleteAll then Ok DeleteAllRuleType
      else if fileWatch then Ok FileWatchRuleType
      else if rfs_Prepend r = zero_addFlag \<and> rfs_Append r = zero_addFlag then Err NeitherPrependNorAppend
      else if rfs_Prepend r \<noteq> zero_addFlag \<and> rfs_Append r \<noteq> zero_addFlag then Err BothPrependAndAppend
      else if rfs_Prepend r \<noteq> zero_addFlag then Ok PrependSyscallRuleType
      else Ok AppendSyscallRuleType)"

section \<open>Parse\<close>

definition rule_of_flags :: "RuleType \<Rightarrow> ruleFlagSet \<Rightarrow> Rule" where
  "rule_of_flags t r =
     (case t of
        DeleteAllRuleType \<Rightarrow> RDeleteAll \<lparr>del_Type = DeleteAllRuleType, del_Keys = rfs_Key r\<rparr>
      | FileWatchRuleType \<Rightarrow> RFileWatch \<lparr>watch_Type = FileWatchRuleType, watch_Path = rfs_Path r,
          watch_Permissions = rfs_Permissions r, watch_Keys = rfs_Key r\<rparr>
      | AppendSyscallRuleType \<Rightarrow> RSyscall \<lparr>sys_Type = t, sys_List = add_List (rfs_Append r),
          sys_Action = add_Action (rfs_Append r), sys_Filters = rfs_Filters r,
          sys_Syscalls = rfs_Syscalls r, sys_Keys = rfs_Key r\<rparr>
      | PrependSyscallRuleType \<Rightarrow> RSyscall \<lparr>sys_Type = t, sys_List = add_List (rfs_Prepend r),
          sys_Action = add_Action (rfs_Prepend r), sys_Filters = rfs_Filters r,
          sys_Syscalls = rfs_Syscalls r, sys_Keys = rfs_Key r\<rparr>)"

definition flags_Parse :: "string \<Rightarrow> (flag_error, Rule) outcome" where
  "flags_Parse args =
     bind_outcome (parse_flags (str_fields args) newRuleFlagSet) (\<lambda>r.
     bind_outcome (validate r) (\<lambda>t.
     Ok (rule_of_flags t r)))"

end
