(* ===== verification/Rule_Flags_Laws.thy ===== *)
theory Rule_Flags_Laws
  imports Rule_Flags Rule_Laws
begin

text \<open>
  Properties of the flags parser: a rule written as a command line is parsed back, what
  \<^verbatim>\<open>ToCommandLine\<close> prints for a watch can be parsed and built again, and what is parsed has a
  list and an action that \<^verbatim>\<open>Build\<close> accepts.
\<close>

declare parse_flags.simps(2) [simp del]

section \<open>Filters\<close>

definition filter_ok :: "FilterSpec \<Rightarrow> bool" where
  "filter_ok f = (filter_LHS f \<noteq> [] \<and> list_all re_word (filter_LHS f) \<and>
     (case filter_Type f of
        InterFieldFilterType \<Rightarrow> filter_Comparator f \<in> {''='', ''!=''} \<and> filter_RHS f \<noteq> []
          \<and> list_all re_word (filter_RHS f)
      | ValueFilterType \<Rightarrow> filter_Comparator f \<in> {''<='', ''>='', ''&='', ''='', ''!='', ''<'', ''>'', ''&''}
          \<and> plain (filter_RHS f) \<and> hd (filter_RHS f) \<noteq> CHR ''=''))"

definition filter_text :: "FilterSpec \<Rightarrow> string" where
  "filter_text f = filter_LHS f @ filter_Comparator f @ filter_RHS f"

lemma re_word_plain: "re_word c \<Longrightarrow> code c < 0x80 \<and> \<not> is_space (code c)"
  by (auto simp: re_word_def is_space_def)

lemma re_space_plain: "\<not> is_space (code c) \<Longrightarrow> \<not> re_space c"
  by (auto simp: re_space_def is_space_def)

lemma match_comparison:
  assumes "lhs \<noteq> []" "list_all re_word lhs" "op \<in> {''='', ''!=''}" "rhs \<noteq> []" "list_all re_word rhs"
  shows "find_match comparisonRegexp (lhs @ op @ rhs) = Some ([lhs, op, rhs], [])"
proof -
  have ops: "op \<noteq> []" "\<not> re_word (hd op)" "\<not> re_space (hd op)"
    using assms(3) by (auto simp: re_word_def re_space_def)
  have f1: "first (m_cap (m_rep 1 re_word)) (lhs @ op @ rhs) [lhs] (op @ rhs)"
    using assms(1,2) ops by (intro first_cap first_rep) (simp_all add: Suc_le_eq)
  have f2: "first (m_rep 0 re_space) (op @ rhs) [] (op @ rhs)"
    using first_rep [of re_space "[]" "op @ rhs" 0] ops by simp
  have "first (m_seq (m_opt (m_lit ''!'')) (m_lit ''='')) (op @ rhs) [] rhs"
    using assms(3) by (auto simp: first_def m_seq_def m_opt_def m_lit_def)
  then have f3: "first (m_cap (m_seq (m_opt (m_lit ''!'')) (m_lit ''=''))) (op @ rhs) [op] rhs"
    by (rule first_cap)
  have f4: "first (m_cap (m_rep 1 re_word)) rhs [rhs] []"
    using first_cap [of _ rhs "[]"] first_rep [of re_word rhs "[]" 1] assms(4,5) by (simp add: Suc_le_eq)
  have "first (m_seqs []) [] [] []" by (simp add: first_def)
  from first_seqs [OF f1 first_seqs [OF f2 first_seqs [OF f3 first_seqs [OF f4 this]]]]
  have "first comparisonRegexp (lhs @ op @ rhs) [lhs, op, rhs] []" by (simp add: comparisonRegexp_def)
  then show ?thesis by (rule find_match_first)
qed

lemma match_filter:
  assumes "lhs \<noteq> []" "list_all re_word lhs" "op \<in> {''<='', ''>='', ''&='', ''='', ''!='', ''<'', ''>'', ''&''}"
    "plain rhs" "hd rhs \<noteq> CHR ''=''"
  shows "find_match filterRegexp (lhs @ op @ rhs) = Some ([lhs, op, rhs], [])"
proof -
  have ops: "op \<noteq> []" "\<not> re_word (hd op)" "\<not> re_space (hd op)"
    using assms(3) by (auto simp: re_word_def re_space_def)
  let ?alt = "foldr (\<lambda>w. m_alt (m_lit w)) [''<='', ''>='', ''&='', ''='', ''!='', ''<'', ''>'', ''&''] (\<lambda>s. [])"
  have f1: "first (m_cap (m_rep 1 re_word)) (lhs @ op @ rhs) [lhs] (op @ rhs)"
    using assms(1,2) ops by (intro first_cap first_rep) (simp_all add: Suc_le_eq)
  have f2: "first (m_rep 0 re_space) (op @ rhs) [] (op @ rhs)"
    using first_rep [of re_space "[]" "op @ rhs" 0] ops by simp
  obtain c cs where "rhs = c # cs" "c \<noteq> CHR ''=''" using assms(4,5) by (cases rhs) (auto simp: plain_def)
  then have "first ?alt (op @ rhs) [] rhs"
    using assms(3) by (auto simp: first_def m_alt_def m_lit_def)
  then have f3: "first (m_cap ?alt) (op @ rhs) [op] rhs"
    by (rule first_cap)
  have f4: "first (m_cap (m_rep 1 (\<lambda>c. \<not> re_space c))) rhs [rhs] []"
    using first_cap [of _ rhs "[]"] first_rep [of "\<lambda>c. \<not> re_space c" rhs "[]" 1] assms(4)
    by (simp add: Suc_le_eq plain_def list_all_iff re_space_plain)
  have "first (m_seqs []) [] [] []" by (simp add: first_def)
  from first_seqs [OF f1 first_seqs [OF f2 first_seqs [OF f3 first_seqs [OF f4 this]]]]
  have "first filterRegexp (lhs @ op @ rhs) [lhs, op, rhs] []" by (simp add: filterRegexp_def)
  then show ?thesis by (rule find_match_first)
qed

section \<open>Flags with an argument\<close>

lemma parse_flags_step:
  assumes "[n] \<in> set flag_names" and "[n] \<noteq> ''D''"
  shows "parse_flags ([CHR ''-'', n] # v # args) r =
    (case set_flag [n] v r of
       Ok r' \<Rightarrow> parse_flags args (r'\<lparr>rfs_actual := [n] # rfs_actual r'\<rparr>)
     | Err e \<Rightarrow> Err (InvalidValue [n] v e)
     | Panic p \<Rightarrow> Panic p)"
proof -
  have "n \<noteq> CHR ''-''" "n \<noteq> CHR ''=''" using assms(1) by (auto simp: flag_names_def)
  then have "parseOne [CHR ''-'', n] (v # args) r = bind_outcome (give_flag [n] None (v # args) r) (\<lambda>x. Ok (Some x))"
    using assms(1) by (simp add: parseOne_def name_value_def index_byte_def)
  then show ?thesis
    using assms(2) by (cases "set_flag [n] v r") (simp_all add: parse_flags.simps(2) give_flag_def)
qed

definition filter_args :: "FilterSpec \<Rightarrow> string list" where
  "filter_args f = [case filter_Type f of InterFieldFilterType \<Rightarrow> ''-C'' | ValueFilterType \<Rightarrow> ''-F'', filter_text f]"

definition filter_flag :: "FilterSpec \<Rightarrow> string" where
  "filter_flag f = (case filter_Type f of InterFieldFilterType \<Rightarrow> ''C'' | ValueFilterType \<Rightarrow> ''F'')"

lemma parse_filter:
  assumes "filter_ok f"
  shows "parse_flags (filter_args f @ args) r =
    parse_flags args (r\<lparr>rfs_Filters := rfs_Filters r @ [f], rfs_actual := filter_flag f # rfs_actual r\<rparr>)"
proof (cases "filter_Type f")
  case InterFieldFilterType
  with assms have "interFieldFilter_Set (filter_text f) = Ok f"
    by (simp add: interFieldFilter_Set_def filter_text_def filter_ok_def match_comparison)
  with InterFieldFilterType show ?thesis
    by (simp add: filter_args_def filter_flag_def parse_flags_step flag_names_def set_flag_def
        interFieldFilterList_Set_def)
next
  case ValueFilterType
  with assms have "valueFilter_Set (filter_text f) = Ok f"
    by (simp add: valueFilter_Set_def filter_text_def filter_ok_def match_filter)
  with ValueFilterType show ?thesis
    by (simp add: filter_args_def filter_flag_def parse_flags_step flag_names_def set_flag_def
        valueFilterList_Set_def)
qed

lemma parse_filters:
  "list_all filter_ok fs \<Longrightarrow> parse_flags (concat (map filter_args fs) @ args) r =
    parse_flags args (r\<lparr>rfs_Filters := rfs_Filters r @ fs, rfs_actual := rev (map filter_flag fs) @ rfs_actual r\<rparr>)"
  by (induction fs arbitrary: r) (simp_all add: parse_filter)

text \<open>Lists of names.\<close>

definition name_ok :: "string \<Rightarrow> bool" where
  "name_ok w = (plain w \<and> CHR '','' \<notin> set w)"

lemma stringList_Set_join:
  assumes "ws \<noteq> []" and "list_all name_ok ws"
  shows "stringList_Set (str_join '','' ws) l = l @ ws"
proof -
  have "split_byte (CHR '','') (str_join '','' ws) = ws"
    using assms by (intro split_byte_join) (auto simp: name_ok_def list_all_iff)
  moreover have "map trim_space ws = ws"
    using assms(2) by (induction ws) (auto simp: name_ok_def plain_trim)
  ultimately show ?thesis by (simp add: stringList_Set_def)
qed

definition names_args :: "char \<Rightarrow> string list \<Rightarrow> string list" where
  "names_args n ws = (if ws = [] then [] else [[CHR ''-'', n], str_join '','' ws])"

text \<open>A syscall rule as a command line.\<close>

definition rule_args :: "SyscallRule \<Rightarrow> string list" where
  "rule_args s = [if sys_Type s = PrependSyscallRuleType then ''-A'' else ''-a'', sys_Action s @ '','' @ sys_List s]
     @ concat (map filter_args (sys_Filters s)) @ names_args (CHR ''S'') (sys_Syscalls s)
     @ names_args (CHR ''k'') (sys_Keys s)"

definition rule_text :: "SyscallRule \<Rightarrow> string" where
  "rule_text s = str_join '' '' (rule_args s)"

definition syscall_rule_ok :: "SyscallRule \<Rightarrow> bool" where
  "syscall_rule_ok s = (sys_Type s \<in> {AppendSyscallRuleType, PrependSyscallRuleType}
     \<and> sys_List s \<in> {''task'', ''exit'', ''user'', ''exclude''} \<and> sys_Action s \<in> {''never'', ''always''}
     \<and> list_all filter_ok (sys_Filters s) \<and> list_all name_ok (sys_Syscalls s) \<and> list_all name_ok (sys_Keys s))"

lemma parse_names:
  assumes "list_all name_ok ws" and "n = CHR ''S'' \<or> n = CHR ''k''"
  shows "parse_flags (names_args n ws @ args) r = parse_flags args
    (if ws = [] then r
     else if n = CHR ''S'' then r\<lparr>rfs_Syscalls := rfs_Syscalls r @ ws, rfs_actual := [n] # rfs_actual r\<rparr>
     else r\<lparr>rfs_Key := rfs_Key r @ ws, rfs_actual := [n] # rfs_actual r\<rparr>)"
  using assms
  by (auto simp: names_args_def parse_flags_step flag_names_def set_flag_def stringList_Set_join)

lemma addFlag_Set_pair:
  assumes "l \<in> {''task'', ''exit'', ''user'', ''exclude''}" and "a \<in> {''never'', ''always''}"
  shows "addFlag_Set (a @ '','' @ l) f = Ok \<lparr>add_List = l, add_Action = a\<rparr>"
proof -
  have p: "plain a" "plain l" using assms by (auto simp: plain_def is_space_def)
  have "CHR '','' \<notin> set a" "CHR '','' \<notin> set l" using assms by auto
  then have "split_byte (CHR '','') (a @ '','' @ l) = [a, l]"
    by (simp add: split_byte_append split_byte_single)
  moreover have "add_parts [a, l] f = Ok (f\<lparr>add_Action := a, add_List := l\<rparr>)"
    using assms by (auto simp: plain_trim [OF p(1)] plain_trim [OF p(2)] Let_def)
  ultimately show ?thesis using assms by (cases f) (auto simp: addFlag_Set_def Let_def)
qed

lemma parse_rule_args:
  assumes "syscall_rule_ok s"
  shows "\<exists>r act. parse_flags (rule_args s) newRuleFlagSet = Ok r \<and> r =
    newRuleFlagSet\<lparr>rfs_Filters := sys_Filters s, rfs_Syscalls := sys_Syscalls s, rfs_Key := sys_Keys s,
      rfs_Append := (if sys_Type s = AppendSyscallRuleType then \<lparr>add_List = sys_List s, add_Action = sys_Action s\<rparr>
        else zero_addFlag),
      rfs_Prepend := (if sys_Type s = PrependSyscallRuleType then \<lparr>add_List = sys_List s, add_Action = sys_Action s\<rparr>
        else zero_addFlag), rfs_actual := act\<rparr>
    \<and> set act \<subseteq> {''a'', ''A'', ''C'', ''F'', ''S'', ''k''} \<and> (''a'' \<in> set act \<or> ''A'' \<in> set act)"
proof -
  have f_ok: "list_all filter_ok (sys_Filters s)" and s_ok: "list_all name_ok (sys_Syscalls s)"
    and k_ok: "list_all name_ok (sys_Keys s)" using assms by (simp_all add: syscall_rule_ok_def)
  have A: "addFlag_Set (sys_Action s @ CHR '','' # sys_List s) f = Ok \<lparr>add_List = sys_List s, add_Action = sys_Action s\<rparr>" for f
    using addFlag_Set_pair [of "sys_List s" "sys_Action s" f] assms by (simp add: syscall_rule_ok_def)
  have S: "parse_flags (rule_args s) newRuleFlagSet =
      parse_flags (concat (map filter_args (sys_Filters s)) @ names_args (CHR ''S'') (sys_Syscalls s)
        @ names_args (CHR ''k'') (sys_Keys s) @ [])
      (if sys_Type s = PrependSyscallRuleType
       then newRuleFlagSet\<lparr>rfs_Prepend := \<lparr>add_List = sys_List s, add_Action = sys_Action s\<rparr>, rfs_actual := [''A'']\<rparr>
       else newRuleFlagSet\<lparr>rfs_Append := \<lparr>add_List = sys_List s, add_Action = sys_Action s\<rparr>, rfs_actual := [''a'']\<rparr>)"
    by (simp add: rule_args_def parse_flags_step flag_names_def set_flag_def A newRuleFlagSet_def)
  have fl: "set (map filter_flag fs) \<subseteq> {''C'', ''F''}" for fs
    by (auto simp: filter_flag_def split: FilterType.splits)
  have rest: "\<exists>act. parse_flags (concat (map filter_args (sys_Filters s)) @ names_args (CHR ''S'') (sys_Syscalls s)
        @ names_args (CHR ''k'') (sys_Keys s) @ []) r0
      = Ok (r0\<lparr>rfs_Filters := rfs_Filters r0 @ sys_Filters s, rfs_Syscalls := rfs_Syscalls r0 @ sys_Syscalls s,
          rfs_Key := rfs_Key r0 @ sys_Keys s, rfs_actual := act @ rfs_actual r0\<rparr>)
      \<and> set act \<subseteq> {''C'', ''F'', ''S'', ''k''}" for r0
    using fl [of "sys_Filters s"]
    unfolding parse_filters [OF f_ok] parse_names [OF s_ok disjI1 [OF refl]] parse_names [OF k_ok disjI2 [OF refl]]
    by (intro exI [of _ "(if sys_Keys s = [] then [] else [''k'']) @ (if sys_Syscalls s = [] then [] else [''S''])
        @ rev (map filter_flag (sys_Filters s))"]) auto
  show ?thesis
  proof (cases "sys_Type s = PrependSyscallRuleType")
    case True
    with S rest [of "newRuleFlagSet\<lparr>rfs_Prepend := \<lparr>add_List = sys_List s, add_Action = sys_Action s\<rparr>,
        rfs_actual := [''A'']\<rparr>"] show ?thesis
      by (auto simp: newRuleFlagSet_def)
  next
    case False
    then have "sys_Type s = AppendSyscallRuleType" using assms by (auto simp: syscall_rule_ok_def)
    with S rest [of "newRuleFlagSet\<lparr>rfs_Append := \<lparr>add_List = sys_List s, add_Action = sys_Action s\<rparr>,
        rfs_actual := [''a'']\<rparr>"] show ?thesis
      by (auto simp: newRuleFlagSet_def)
  qed
qed

lemma plain_join: "list_all name_ok ws \<Longrightarrow> ws \<noteq> [] \<Longrightarrow> plain (str_join '','' ws)"
  by (induction "'','' :: string" ws rule: str_join.induct) (auto simp: name_ok_def plain_def is_space_def)

lemma plain_append: "plain a \<Longrightarrow> plain b \<Longrightarrow> plain (a @ b)"
  by (simp add: plain_def)

lemma plain_words: "w \<noteq> [] \<Longrightarrow> list_all re_word w \<Longrightarrow> plain w"
  by (simp add: plain_def list_all_iff re_word_plain)

lemma plain_operators:
  "list_all plain [''<='', ''>='', ''&='', ''='', ''!='', ''<'', ''>'', ''&'']"
  by (simp add: plain_def is_space_def)

lemma plain_filter:
  assumes "filter_ok f"
  shows "plain (filter_text f)"
proof -
  have "filter_Comparator f \<in> set [''<='', ''>='', ''&='', ''='', ''!='', ''<'', ''>'', ''&'']"
    using assms by (cases "filter_Type f") (auto simp: filter_ok_def)
  then have "plain (filter_Comparator f)" using plain_operators unfolding list_all_iff by blast
  moreover have "plain (filter_LHS f)" "plain (filter_RHS f)"
    using assms by (cases "filter_Type f"; simp add: filter_ok_def plain_words)+
  ultimately show ?thesis by (simp add: filter_text_def plain_append)
qed

lemma plain_rule_args:
  assumes "syscall_rule_ok s"
  shows "list_all plain (rule_args s)"
proof -
  have "plain (sys_Action s @ '','' @ sys_List s)"
    using assms by (auto simp: syscall_rule_ok_def plain_def is_space_def)
  moreover have "list_all plain (names_args n ws)" if "list_all name_ok ws" "n \<in> {CHR ''S'', CHR ''k''}" for n ws
    using that plain_join [of ws] by (auto simp: names_args_def plain_def is_space_def)
  moreover have "list_all plain (concat (map filter_args fs))" if "list_all filter_ok fs" for fs
    using that by (induction fs)
      (auto simp: filter_args_def plain_filter, auto simp: plain_def is_space_def split: FilterType.splits)
  ultimately show ?thesis
    using assms by (simp add: rule_args_def syscall_rule_ok_def) (simp add: plain_def is_space_def)
qed

lemma parse_rule_text:
  assumes "syscall_rule_ok s"
  shows "flags_Parse (rule_text s) = Ok (RSyscall s)"
proof -
  obtain r act where r: "parse_flags (rule_args s) newRuleFlagSet = Ok r" and r_def: "r =
    newRuleFlagSet\<lparr>rfs_Filters := sys_Filters s, rfs_Syscalls := sys_Syscalls s, rfs_Key := sys_Keys s,
      rfs_Append := (if sys_Type s = AppendSyscallRuleType then \<lparr>add_List = sys_List s, add_Action = sys_Action s\<rparr>
        else zero_addFlag),
      rfs_Prepend := (if sys_Type s = PrependSyscallRuleType then \<lparr>add_List = sys_List s, add_Action = sys_Action s\<rparr>
        else zero_addFlag), rfs_actual := act\<rparr>"
    and act: "set act \<subseteq> {''a'', ''A'', ''C'', ''F'', ''S'', ''k''}" "''a'' \<in> set act \<or> ''A'' \<in> set act"
    using parse_rule_args [OF assms] by blast
  have "\<not> has_flag [''D''] r" "\<not> has_flag [''w'', ''p''] r" "has_flag [''a'', ''A'', ''C'', ''F'', ''S''] r"
    using act by (auto simp: has_flag_def r_def)
  moreover have "sys_List s \<noteq> []" "sys_Type s \<in> {AppendSyscallRuleType, PrependSyscallRuleType}"
    using assms by (auto simp: syscall_rule_ok_def)
  ultimately have "validate r = Ok (sys_Type s)"
    by (auto simp: validate_def r_def zero_addFlag_def)
  moreover have "rule_of_flags (sys_Type s) r = RSyscall s"
    using assms by (auto simp: rule_of_flags_def r_def newRuleFlagSet_def syscall_rule_ok_def)
  ultimately show ?thesis
    using r by (simp add: flags_Parse_def rule_text_def str_fields_join [OF plain_rule_args [OF assms]])
qed

text \<open>
  (C12) A syscall rule written as an \<^verbatim>\<open>auditctl\<close> command line (list and action, filters and field
  comparisons in order, system calls, keys) is parsed back to exactly that rule.
\<close>

theorem flags_Parse_rule_text:
  assumes "syscall_rule_ok s"
  shows "flags_Parse (rule_text s) = Ok (RSyscall s)"
  by (rule parse_rule_text [OF assms])

text \<open>A rule with a field comparison and a filter.\<close>

definition sample_syscall_rule :: SyscallRule where
  "sample_syscall_rule = \<lparr>sys_Type = AppendSyscallRuleType, sys_List = ''exit'', sys_Action = ''always'',
     sys_Filters = [\<lparr>filter_Type = InterFieldFilterType, filter_LHS = ''uid'', filter_Comparator = ''!='', filter_RHS = ''auid''\<rparr>,
       \<lparr>filter_Type = ValueFilterType, filter_LHS = ''a1'', filter_Comparator = ''>='', filter_RHS = ''0x10''\<rparr>],
     sys_Syscalls = [''open'', ''59''], sys_Keys = [''k1'', ''k2'']\<rparr>"

lemma sample_syscall_rule_ok: "syscall_rule_ok sample_syscall_rule"
  by (simp add: syscall_rule_ok_def sample_syscall_rule_def filter_ok_def name_ok_def plain_def re_word_def is_space_def)

theorem flags_Parse_rule_text_witness:
  "flags_Parse ''-a always,exit -C uid!=auid -F a1>=0x10 -S open,59 -k k1,k2'' = Ok (RSyscall sample_syscall_rule)"
proof -
  have "rule_text sample_syscall_rule = ''-a always,exit -C uid!=auid -F a1>=0x10 -S open,59 -k k1,k2''"
    by (simp add: rule_text_def rule_args_def sample_syscall_rule_def filter_args_def filter_text_def names_args_def)
  then show ?thesis using flags_Parse_rule_text [OF sample_syscall_rule_ok] by simp
qed

section \<open>Cleaned paths\<close>

definition path_elem :: "string \<Rightarrow> bool" where
  "path_elem e = (e \<noteq> [] \<and> e \<noteq> ''.'' \<and> e \<noteq> ''..'' \<and> CHR ''/'' \<notin> set e)"

lemma split_byte_no_sep: "w \<in> set (split_byte sep s) \<Longrightarrow> sep \<notin> set w"
  by (induction s arbitrary: w) (auto split: if_splits list.splits)

lemma clean_elems_rooted:
  "list_all path_elem acc \<Longrightarrow> list_all (\<lambda>e. CHR ''/'' \<notin> set e) es \<Longrightarrow> list_all path_elem (clean_elems True acc es)"
proof (induction es arbitrary: acc)
  case (Cons e es)
  then show ?case by (cases acc) (auto simp: path_elem_def)
qed (simp add: list_all_iff)

lemma clean_elems_id: "list_all path_elem es \<Longrightarrow> clean_elems r acc es = rev acc @ es"
  by (induction es arbitrary: acc) (simp_all add: path_elem_def)

lemma path_Clean_rooted:
  assumes "has_prefix p ''/''"
  obtains es where "path_Clean p = CHR ''/'' # str_join ''/'' es" and "list_all path_elem es"
proof
  show "path_Clean p = CHR ''/'' # str_join ''/'' (clean_elems True [] (split_byte (CHR ''/'') p))"
    using assms by (simp add: path_Clean_def Let_def)
  show "list_all path_elem (clean_elems True [] (split_byte (CHR ''/'') p))"
    by (rule clean_elems_rooted) (auto simp: list_all_iff dest: split_byte_no_sep)
qed

lemma clean_elems_relative:
  "list_all (\<lambda>e. e \<noteq> [] \<and> CHR ''/'' \<notin> set e) acc \<Longrightarrow> list_all (\<lambda>e. CHR ''/'' \<notin> set e) es \<Longrightarrow>
     list_all (\<lambda>e. e \<noteq> [] \<and> CHR ''/'' \<notin> set e) (clean_elems r acc es)"
proof (induction es arbitrary: acc)
  case (Cons e es)
  then show ?case by (cases acc) auto
qed (simp add: list_all_iff)

lemma hd_str_join: "list_all (\<lambda>e. e \<noteq> []) (e # es) \<Longrightarrow> hd (str_join sep (e # es)) = hd e \<and> str_join sep (e # es) \<noteq> []"
  by (cases es) simp_all

lemma path_Clean_absolute:
  assumes "has_prefix (path_Clean p) ''/''"
  shows "has_prefix p ''/''"
proof (rule ccontr)
  assume rel: "\<not> has_prefix p ''/''"
  let ?es = "clean_elems False [] (split_byte (CHR ''/'') p)"
  have es: "list_all (\<lambda>e. e \<noteq> [] \<and> CHR ''/'' \<notin> set e) ?es"
    by (rule clean_elems_relative) (auto simp: list_all_iff dest: split_byte_no_sep)
  have "\<not> has_prefix (str_join ''/'' (e # es)) ''/''" if "list_all (\<lambda>e. e \<noteq> [] \<and> CHR ''/'' \<notin> set e) (e # es)" for e es
    using that hd_str_join [of e es "''/''"] hd_in_set [of e]
    by (cases "str_join ''/'' (e # es)") (auto simp: has_prefix_def list_all_iff)
  with es have "?es \<noteq> [] \<Longrightarrow> \<not> has_prefix (str_join ''/'' ?es) ''/''" by (metis list.exhaust)
  with rel assms show False by (simp add: path_Clean_def Let_def has_prefix_def split: if_splits)
qed

lemma path_Clean_idem:
  assumes "has_prefix p ''/''"
  shows "path_Clean (path_Clean p) = path_Clean p"
proof -
  obtain es where es: "path_Clean p = CHR ''/'' # str_join ''/'' es" "list_all path_elem es"
    using path_Clean_rooted [OF assms] .
  have "clean_elems True [] (split_byte (CHR ''/'') (str_join ''/'' es)) = es"
  proof (cases "es = []")
    case False
    then have "split_byte (CHR ''/'') (str_join ''/'' es) = es"
      using es(2) by (intro split_byte_join) (auto simp: list_all_iff path_elem_def)
    then show ?thesis using clean_elems_id [OF es(2), of True "[]"] by simp
  qed simp
  then show ?thesis unfolding es(1) by (simp add: path_Clean_def has_prefix_def Let_def)
qed

section \<open>Watches, printed and parsed\<close>

primrec access_of :: "string \<Rightarrow> AccessType list" where
  "access_of [] = []"
| "access_of (c # cs) = (if c = CHR ''r'' then ReadAccessType else if c = CHR ''w'' then WriteAccessType
     else if c = CHR ''x'' then ExecuteAccessType else AttributeChangeAccessType) # access_of cs"

lemma fileAccessTypeFlags_Set_ok:
  "set s \<subseteq> set ''rwxa'' \<Longrightarrow> fileAccessTypeFlags_Set s f = Ok (f @ access_of s)"
  by (induction s arbitrary: f) auto

text \<open>The watch that is parsed from the printed line of a watch.\<close>

definition parsed_watch :: "FileWatchRule \<Rightarrow> FileWatchRule" where
  "parsed_watch w = \<lparr>watch_Type = FileWatchRuleType, watch_Path = path_Clean (watch_Path w),
     watch_Permissions = access_of (shown_perms w),
     watch_Keys = (if watch_Keys w = [] then [] else [str_join [char_of (1::nat)] (watch_Keys w)])\<rparr>"

lemma access_of_shown:
  "set (access_of (shown_perms w)) =
     (if watch_Permissions w = [] then UNIV else set (watch_Permissions w))"
  (is "_ = ?ps")
proof -
  have "p \<in> set (access_of (shown_perms w)) \<longleftrightarrow> watch_Permissions w = [] \<or> p \<in> set (watch_Permissions w)" for p
    by (cases p) (auto simp: shown_perms_def Let_def)
  then show ?thesis by auto
qed

lemma set_shown: "set (shown_perms w) \<subseteq> set ''rwxa''"
  by (auto simp: shown_perms_def Let_def)

lemma shown_not_Nil: "shown_perms w \<noteq> []"
proof (cases "watch_Permissions w")
  case (Cons p ps)
  then show ?thesis by (cases p) (auto simp: shown_perms_def Let_def)
qed (simp add: shown_perms_def)

lemma getPerm_parsed: "getPerm (watch_perms (parsed_watch w)) = getPerm (watch_perms w)"
proof -
  let ?all = "[ReadAccessType, WriteAccessType, ExecuteAccessType, AttributeChangeAccessType]"
  define ps where "ps = (if watch_Permissions w = [] then ?all else watch_Permissions w)"
  define qs where "qs = access_of (shown_perms w)"
  have "UNIV = set ?all" using AccessType.exhaust by auto
  then have same: "set qs = set ps" by (auto simp: qs_def ps_def access_of_shown)
  have "qs \<noteq> []" using same by (auto simp: ps_def split: if_splits)
  then have q: "watch_perms (parsed_watch w) = concat (map access_char qs)"
    by (simp add: watch_perms_def parsed_watch_def qs_def)
  have p: "watch_perms w = concat (map access_char ps)" by (simp add: watch_perms_def access_char_def ps_def)
  obtain u v where uv: "getPerm (watch_perms w) = Ok u" "getPerm (watch_perms (parsed_watch w)) = Ok v"
    "\<forall>n. bit u n \<longleftrightarrow> bit v n"
    using perm_bits_access [of 0 ps] perm_bits_access [of 0 qs] same unfolding p q getPerm_access by auto
  then have "u = v" by (intro bit_eqI) auto
  with uv show ?thesis by simp
qed

lemma addFilter_perm:
  assumes "getPerm a = getPerm b"
  shows "addFilter H ''perm'' ''='' a d = addFilter H ''perm'' ''='' b d"
proof -
  have "filter_value H fl ''perm'' equalOperator permField a = filter_value H fl ''perm'' equalOperator permField b" for fl
    using assms by (simp add: filter_value_def is_string_field_def Let_def)
  then show ?thesis by (simp add: addFilter_def op_equal watch_fields need_def)
qed

lemma rule_data_parsed:
  assumes "has_prefix (path_Clean (watch_Path w)) ''/''"
  shows "rule_data H (RFileWatch (parsed_watch w)) = rule_data H (RFileWatch w)"
proof -
  have path: "path_Clean (watch_Path (parsed_watch w)) = path_Clean (watch_Path w)"
    using path_Clean_idem [OF path_Clean_absolute [OF assms]] by (simp add: parsed_watch_def)
  have "addKeys H (watch_Keys (parsed_watch w)) = addKeys H (watch_Keys w)"
    by (rule ext) (simp add: parsed_watch_def addKeys_def)
  moreover have "addFilter H ''perm'' ''='' (watch_perms (parsed_watch w)) d = addFilter H ''perm'' ''='' (watch_perms w) d" for d
    by (rule addFilter_perm [OF getPerm_parsed])
  ultimately show ?thesis
    by (simp add: rule_data_def addFileWatch_eq path Let_def)
qed

lemma key_separator: "char_of (1::nat) = CHR 0x01"
  by code_simp

lemma name_ok_join:
  "ws \<noteq> [] \<Longrightarrow> list_all name_ok ws \<Longrightarrow> name_ok (str_join [char_of (1::nat)] ws)"
  unfolding key_separator
  by (induction "[CHR 0x01]" ws rule: str_join.induct) (auto simp: name_ok_def plain_def is_space_def)

lemma parse_watch_text:
  assumes "plain (path_Clean (watch_Path w))" and "list_all name_ok (watch_Keys w)"
  shows "flags_Parse (watch_text w) = Ok (RFileWatch (parsed_watch w))"
proof -
  let ?k = "str_join [char_of (1::nat)] (watch_Keys w)"
  let ?args = "[''-w'', path_Clean (watch_Path w), ''-p'', shown_perms w]
    @ (if watch_Keys w = [] then [] else [''-k'', ?k])"
  have k: "name_ok ?k" if "watch_Keys w \<noteq> []"
    using name_ok_join [OF that assms(2)] .
  have perms: "plain (shown_perms w)"
    using set_shown [of w] shown_not_Nil [of w] by (auto simp: plain_def list_all_iff is_space_def)
  have "list_all plain ?args"
    using assms(1) k perms by (auto simp: name_ok_def) (auto simp: plain_def is_space_def)
  moreover have "watch_text w = str_join '' '' ?args"
    using k by (auto simp: watch_text_def name_ok_def plain_def)
  ultimately have "str_fields (watch_text w) = ?args" by (simp only: str_fields_join)
  moreover have "stringList_Set ?k l = l @ [?k]" if "watch_Keys w \<noteq> []" for l
    using stringList_Set_join [of "[?k]" l] k that by simp
  ultimately show ?thesis
    using set_shown [of w]
    by (auto simp: flags_Parse_def parse_flags_step flag_names_def set_flag_def fileAccessTypeFlags_Set_ok
        validate_def has_flag_def rule_of_flags_def parsed_watch_def newRuleFlagSet_def)
qed

text \<open>
  (C13) Printing a built watch and parsing the line gives a watch that builds to the same bytes, for an absolute path and keys
  that are not too long, without white space and characters outside ASCII; the keys are not empty and have no commas either.
\<close>

theorem watch_print_parse:
  assumes "has_prefix (path_Clean (watch_Path w)) ''/''" and "length (path_Clean (watch_Path w)) \<le> pathMax"
    and "length (str_join [char_of (1::nat)] (watch_Keys w)) \<le> maxKeyLength"
    and "plain (path_Clean (watch_Path w))" and "list_all name_ok (watch_Keys w)"
  shows "\<exists>b line r. Build H bo (RFileWatch w) = Ok b \<and> ToCommandLine H bo b resolveIds = Ok line
    \<and> flags_Parse line = Ok r \<and> Build H bo r = Ok b"
proof -
  obtain b where b: "Build H bo (RFileWatch w) = Ok b" "ToCommandLine H bo b resolveIds = Ok (watch_text w)"
    using watch_prints [OF assms(1,2,3)] by blast
  moreover have "Build H bo (RFileWatch (parsed_watch w)) = Ok b"
    using b(1) rule_data_parsed [OF assms(1)] by (simp add: Build_def)
  ultimately show ?thesis using parse_watch_text [OF assms(4,5)] by blast
qed

theorem watch_print_parse_witness:
  "\<exists>b line r. Build sample_host LittleEndian (RFileWatch sample_watch) = Ok b
    \<and> ToCommandLine sample_host LittleEndian b True = Ok line
    \<and> flags_Parse line = Ok r \<and> Build sample_host LittleEndian r = Ok b"
  by (rule watch_print_parse)
     (simp_all add: sample_watch_def path_Clean_def has_prefix_def plain_def name_ok_def is_space_def)

end
