(* ===== verification/Rule_Flags_Wf.thy ===== *)
theory Rule_Flags_Wf
  imports Rule_Flags_Laws
begin

text \<open>
  What the flags parser can return: an invariant of the set of flags, kept by every flag, and
  its consequences for \<^verbatim>\<open>Build\<close>.
\<close>

section \<open>Well-formed filters\<close>

definition filter_wf :: "FilterSpec \<Rightarrow> bool" where
  "filter_wf f = (filter_LHS f \<noteq> [] \<and> list_all re_word (filter_LHS f) \<and> filter_RHS f \<noteq> []
     \<and> filter_Comparator f \<in> set (map fst operatorsTable))"

lemma valueFilter_Set_wf:
  assumes "valueFilter_Set v = Ok f"
  shows "filter_wf f"
proof -
  let ?ops = "[''<='', ''>='', ''&='', ''='', ''!='', ''<'', ''>'', ''&'']"
  obtain lhs op rhs x where m: "find_match filterRegexp v = Some ([lhs, op, rhs], x)"
    and f: "f = \<lparr>filter_Type = ValueFilterType, filter_LHS = lhs, filter_Comparator = op, filter_RHS = rhs\<rparr>"
    using assms by (auto simp: valueFilter_Set_def split: option.splits list.splits prod.splits)
  obtain t where "([lhs, op, rhs], x) \<in> set (filterRegexp t)" using find_match_sound [OF m] by blast
  then obtain w1 w2 w3 where "[lhs, op, rhs] = [w1, w2, w3]" "list_all re_word w1" "1 \<le> length w1"
    "w2 \<in> set ?ops" "1 \<le> length w3"
    unfolding filterRegexp_def m_seqs_Cons
    by (auto dest!: m_seq_sound m_cap_rep_sound m_cap_alts_sound m_rep_sound simp del: foldr.simps list.set)
  then show ?thesis by (auto simp: f filter_wf_def operatorsTable_def)
qed

lemma comparison_op_sound:
  "(c, r) \<in> set (m_cap (m_seq (m_opt (m_lit ''!'')) (m_lit ''='')) s) \<Longrightarrow> c = [''!=''] \<or> c = [''='']"
  by (drule m_cap_sound) (auto simp: m_seq_def m_opt_def m_lit_def prefix_def split: if_splits)

lemma interFieldFilter_Set_wf:
  assumes "interFieldFilter_Set v = Ok f"
  shows "filter_wf f"
proof -
  obtain lhs op rhs x where m: "find_match comparisonRegexp v = Some ([lhs, op, rhs], x)"
    and f: "f = \<lparr>filter_Type = InterFieldFilterType, filter_LHS = lhs, filter_Comparator = op, filter_RHS = rhs\<rparr>"
    using assms by (auto simp: interFieldFilter_Set_def split: option.splits list.splits prod.splits)
  obtain t where "([lhs, op, rhs], x) \<in> set (comparisonRegexp t)" using find_match_sound [OF m] by blast
  then obtain w1 w2 w3 where "[lhs, op, rhs] = [w1, w2, w3]" "list_all re_word w1" "1 \<le> length w1"
    "w2 = ''!='' \<or> w2 = ''=''" "1 \<le> length w3"
    unfolding comparisonRegexp_def m_seqs_Cons
    by (auto dest!: m_seq_sound m_cap_rep_sound comparison_op_sound m_rep_sound)
  then show ?thesis by (auto simp: f filter_wf_def operatorsTable_def)
qed

section \<open>The invariant\<close>

definition add_ok :: "addFlag \<Rightarrow> bool" where
  "add_ok f = (f = zero_addFlag \<or> add_List f \<in> {''task'', ''exit'', ''user'', ''exclude''}
     \<and> add_Action f \<in> {''never'', ''always''})"

definition flags_inv :: "ruleFlagSet \<Rightarrow> bool" where
  "flags_inv r = (add_ok (rfs_Prepend r) \<and> add_ok (rfs_Append r) \<and> list_all filter_wf (rfs_Filters r))"

lemma add_parts_ok:
  "add_List f \<in> {[], ''task'', ''exit'', ''user'', ''exclude''} \<Longrightarrow> add_Action f \<in> {[], ''never'', ''always''} \<Longrightarrow>
     add_parts ps f = Ok f' \<Longrightarrow>
     add_List f' \<in> {[], ''task'', ''exit'', ''user'', ''exclude''} \<and> add_Action f' \<in> {[], ''never'', ''always''}"
proof (induction ps arbitrary: f)
  case (Cons p ps)
  let ?L = "{''task'', ''exit'', ''user'', ''exclude''} :: string set" and ?A = "{''never'', ''always''} :: string set"
  consider (l) "trim_space p \<in> ?L" "add_parts ps (f\<lparr>add_List := trim_space p\<rparr>) = Ok f'"
    | (a) "trim_space p \<in> ?A" "add_parts ps (f\<lparr>add_Action := trim_space p\<rparr>) = Ok f'"
    using Cons.prems(3) unfolding add_parts.simps Let_def by (metis outcome.distinct(1))
  then show ?case
  proof cases
    case l
    then have "add_List (f\<lparr>add_List := trim_space p\<rparr>) \<in> insert [] ?L" by simp
    from Cons.IH [OF this _ l(2)] Cons.prems(2) show ?thesis by simp
  next
    case a
    then have "add_Action (f\<lparr>add_Action := trim_space p\<rparr>) \<in> insert [] ?A" by simp
    from Cons.IH [OF _ this a(2)] Cons.prems(1) show ?thesis by simp
  qed
qed simp

lemma addFlag_Set_ok: "add_ok f \<Longrightarrow> addFlag_Set v f = Ok f' \<Longrightarrow> add_ok f'"
  using add_parts_ok [of f "split_byte (CHR '','') v" f']
  by (auto simp: addFlag_Set_def Let_def bind_outcome_Ok add_ok_def zero_addFlag_def split: if_splits)

lemma set_flag_inv: "flags_inv r \<Longrightarrow> set_flag n v r = Ok r' \<Longrightarrow> flags_inv r'"
  by (auto simp: set_flag_def bind_outcome_Ok flags_inv_def interFieldFilterList_Set_def valueFilterList_Set_def
      split: if_splits intro: addFlag_Set_ok valueFilter_Set_wf interFieldFilter_Set_wf)

lemma give_flag_inv:
  "flags_inv r \<Longrightarrow> give_flag name value args r = Ok (args', r') \<Longrightarrow> flags_inv r'"
  by (auto simp: give_flag_def Let_def flags_inv_def split: if_splits option.splits list.splits outcome.splits
      dest!: set_flag_inv [unfolded flags_inv_def, rotated])

lemma parseOne_inv: "flags_inv r \<Longrightarrow> parseOne s args r = Ok (Some (args', r')) \<Longrightarrow> flags_inv r'"
  by (auto simp: parseOne_def Let_def bind_outcome_Ok split: if_splits intro: give_flag_inv)

lemma parse_flags_inv: "flags_inv r \<Longrightarrow> parse_flags args r = Ok r' \<Longrightarrow> flags_inv r'"
  by (induction args r rule: parse_flags.induct)
     (auto simp: parse_flags.simps(2) split: outcome.splits option.splits prod.splits dest: parseOne_inv)

text \<open>
  (C20) Whatever text is parsed, a rule that is returned has the type of its kind; a syscall rule has
  a list and an action that \<^verbatim>\<open>Build\<close> accepts, and its filters have a non-empty field name and value
  and an operator of the table. Nothing is said here of the path, permissions and keys of a watch.
\<close>

theorem flags_Parse_well_typed:
  assumes "flags_Parse args = Ok r"
  shows "case r of
      RDeleteAll d \<Rightarrow> del_Type d = DeleteAllRuleType
    | RFileWatch w \<Rightarrow> watch_Type w = FileWatchRuleType
    | RSyscall s \<Rightarrow> sys_Type s \<in> {AppendSyscallRuleType, PrependSyscallRuleType}
        \<and> is_Ok (setList (sys_List s) d) \<and> is_Ok (setAction (sys_Action s) d)
        \<and> (\<forall>f \<in> set (sys_Filters s). filter_LHS f \<noteq> [] \<and> filter_RHS f \<noteq> []
             \<and> map_of operatorsTable (filter_Comparator f) \<noteq> None)"
proof -
  obtain fs t where fs: "parse_flags (str_fields args) newRuleFlagSet = Ok fs" "validate fs = Ok t"
    "r = rule_of_flags t fs"
    using assms by (auto simp: flags_Parse_def bind_outcome_Ok)
  have "flags_inv newRuleFlagSet" by (simp add: flags_inv_def newRuleFlagSet_def add_ok_def)
  then have inv: "flags_inv fs" using fs(1) parse_flags_inv by blast
  have ok: "is_Ok (setList (add_List f) d) \<and> is_Ok (setAction (add_Action f) d)" if "add_ok f" "f \<noteq> zero_addFlag" for f
    using that by (auto simp: add_ok_def setList_def setAction_def)
  have filters: "filter_LHS f \<noteq> [] \<and> filter_RHS f \<noteq> [] \<and> map_of operatorsTable (filter_Comparator f) \<noteq> None"
    if "f \<in> set (rfs_Filters fs)" for f
    using inv that by (auto simp: flags_inv_def list_all_iff filter_wf_def map_of_eq_None_iff)
  have "rfs_Append fs \<noteq> zero_addFlag" if "t = AppendSyscallRuleType"
    using fs(2) that by (auto simp: validate_def Let_def split: if_splits)
  moreover have "rfs_Prepend fs \<noteq> zero_addFlag" if "t = PrependSyscallRuleType"
    using fs(2) that by (auto simp: validate_def Let_def split: if_splits)
  ultimately show ?thesis
    using inv ok filters by (cases t) (simp_all add: fs(3) rule_of_flags_def flags_inv_def)
qed

theorem flags_Parse_well_typed_witness:
  "flags_Parse (rule_text sample_syscall_rule) = Ok (RSyscall sample_syscall_rule)
   \<and> is_Ok (setList (sys_List sample_syscall_rule) zero_ruleData)
   \<and> list_all (\<lambda>f. map_of operatorsTable (filter_Comparator f) \<noteq> None) (sys_Filters sample_syscall_rule)"
  using flags_Parse_well_typed [OF parse_rule_text [OF sample_syscall_rule_ok], of zero_ruleData]
    parse_rule_text [OF sample_syscall_rule_ok] by (simp add: list_all_iff)

section \<open>Two oddities\<close>

text \<open>No separator is ever written between the filters of a list.\<close>

lemma filterList_String_unseparated:
  "filterList_String l = ''['' @ concat (map FilterSpec_String l) @ '']''"
proof -
  have "map (\<lambda>(i, v). FilterSpec_String v @ (if int i > int (length l) - 1 then '', '' else [])) (zip [0..<length l] l)
      = map FilterSpec_String l"
    by (rule nth_equalityI) simp_all
  then show ?thesis by (simp add: filterList_String_def)
qed

text \<open>The first argument that is not a flag ends the parsing, and everything after it is ignored.\<close>

lemma positional_ends_flags:
  "s = [] \<or> hd s \<noteq> CHR ''-'' \<Longrightarrow> parse_flags (s # args) r = Ok r"
  by (auto simp: parse_flags.simps(2) parseOne_def)

end
