(* ===== verification/Rule_PrintParse.thy ===== *)
theory Rule_PrintParse
  imports Rule_Flags_Laws
begin

text \<open>
  What \<^verbatim>\<open>ToCommandLine\<close> prints for a syscall rule can be parsed by \<^verbatim>\<open>flags.Parse\<close> and built again, and
  the bytes are the same. The rule has to be written the way the values of its filters are
  printed (\<open>printed_alone\<close>): a user by number, an error code by name, and so on.
\<close>

section \<open>Filters that are printed as they are written\<close>





text \<open>What one filter appends to the data of a rule.\<close>

record entry =
  en_field :: field
  en_value :: u32
  en_op :: operator
  en_strings :: "string list"
  en_arch :: "string option"

definition append_entry :: "entry \<Rightarrow> ruleData \<Rightarrow> ruleData" where
  "append_entry e d = d\<lparr>rd_fields := rd_fields d @ [en_field e], rd_values := rd_values d @ [en_value e],
     rd_fieldFlags := rd_fieldFlags d @ [en_op e], rd_strings := rd_strings d @ en_strings e,
     rd_arch := (case en_arch e of None \<Rightarrow> rd_arch d | Some n \<Rightarrow> n)\<rparr>"






section \<open>The arguments for a list of filters\<close>

lemma bind_outcome_unit [simp]: "bind_outcome r Ok = r"
  by (cases r) simp_all







lemma fold_append_entry [simp]:
  "rd_fields (fold append_entry es d) = rd_fields d @ map en_field es"
  "rd_values (fold append_entry es d) = rd_values d @ map en_value es"
  "rd_fieldFlags (fold append_entry es d) = rd_fieldFlags d @ map en_op es"
  "rd_strings (fold append_entry es d) = rd_strings d @ concat (map en_strings es)"
  "rd_flags (fold append_entry es d) = rd_flags d" "rd_action (fold append_entry es d) = rd_action d"
  "rd_allSyscalls (fold append_entry es d) = rd_allSyscalls d" "rd_syscalls (fold append_entry es d) = rd_syscalls d"
  by (induction es arbitrary: d) (simp_all add: append_entry_def)





lemma key_names: "map_of fieldsTable ''key'' = Some keyField" "map_of reverseFieldsTable keyField = Some ''key''"
  "map_of operatorsTable ''='' = Some equalOperator" "map_of reverseOperatorsTable equalOperator = Some ''=''"
  by code_simp+



section \<open>Names of system calls\<close>
























section \<open>System calls in the data of a rule\<close>







section \<open>Printing\<close>








section \<open>Parsing what was printed\<close>







section \<open>Printing, parsing and building again\<close>

definition list_filter :: "string \<Rightarrow> filter_flags" where
  "list_filter l = (if l = ''exit'' then exitFilter else if l = ''task'' then taskFilter
     else if l = ''user'' then userFilter else excludeFilter)"


text \<open>The data of a rule before its filters.\<close>

definition start_data :: "string \<Rightarrow> string \<Rightarrow> ruleData" where
  "start_data l act = zero_ruleData\<lparr>rd_allSyscalls := True, rd_flags := list_filter l,
     rd_action := (if act = ''always'' then alwaysAction else neverAction)\<rparr>"



lemma start_data_fields [simp]:
  "rd_fields (start_data l act) = []" "rd_values (start_data l act) = []" "rd_fieldFlags (start_data l act) = []"
  "rd_strings (start_data l act) = []" "rd_arch (start_data l act) = []" "rd_syscalls (start_data l act) = []"
  "rd_allSyscalls (start_data l act)" "rd_flags (start_data l act) = list_filter l"
  by (simp_all add: start_data_def zero_ruleData_def)











section \<open>A rule that is printed, parsed and built again\<close>










section \<open>The operator of the architecture\<close>

text \<open>The architecture is printed with \<^verbatim>\<open>=\<close> whatever its operator: \<^verbatim>\<open>arch!=b64\<close> and \<^verbatim>\<open>arch=b64\<close> print the same.\<close>

lemma arch_operator_lost:
  assumes "rd_fields d = archField # fs" and "rd_values d = v # vs"
  shows "syscall_line H b (d\<lparr>rd_fieldFlags := notEqualOperator # ops\<rparr>) act l
    = syscall_line H b (d\<lparr>rd_fieldFlags := equalOperator # ops\<rparr>) act l"
proof -
  have "map_of reverseOperatorsTable notEqualOperator = Some ''!=''" by code_simp
  moreover have "syscall_args H (d\<lparr>rd_fieldFlags := x\<rparr>) shown = syscall_args H d shown" for x shown
    by (simp add: syscall_args_def cong: if_cong)
  ultimately show ?thesis using assms
    by (simp add: syscall_line_def key_names need_def cong: option.case_cong)
qed

end
