(* ===== verification/Aucoalesce_Event.thy ===== *)
theory Aucoalesce_Event
  imports Auparse_Enrich
begin

unbundle bit_operations_syntax

text \<open>
  The data of package aucoalesce: \<^verbatim>\<open>event_type.go\<close>, the types of \<^verbatim>\<open>coalesce.go\<close>, and the accessors
  of an event that the normalizations use. A map that is nil and an empty map are the same
  function here: the code tests for nil only before it allocates the map.
\<close>

section \<open>Event types\<close>

type_synonym AuditEventType = u16

abbreviation EventTypeUnknown :: AuditEventType where "EventTypeUnknown \<equiv> 0"
abbreviation EventTypeUserspace :: AuditEventType where "EventTypeUserspace \<equiv> 1"
abbreviation EventTypeSystemServices :: AuditEventType where "EventTypeSystemServices \<equiv> 2"
abbreviation EventTypeConfig :: AuditEventType where "EventTypeConfig \<equiv> 3"
abbreviation EventTypeTTY :: AuditEventType where "EventTypeTTY \<equiv> 4"
abbreviation EventTypeUserAccount :: AuditEventType where "EventTypeUserAccount \<equiv> 5"
abbreviation EventTypeUserLogin :: AuditEventType where "EventTypeUserLogin \<equiv> 6"
abbreviation EventTypeAuditDaemon :: AuditEventType where "EventTypeAuditDaemon \<equiv> 7"
abbreviation EventTypeMACDecision :: AuditEventType where "EventTypeMACDecision \<equiv> 8"
abbreviation EventTypeAnomaly :: AuditEventType where "EventTypeAnomaly \<equiv> 9"
abbreviation EventTypeIntegrity :: AuditEventType where "EventTypeIntegrity \<equiv> 10"
abbreviation EventTypeAnomalyResponse :: AuditEventType where "EventTypeAnomalyResponse \<equiv> 11"
abbreviation EventTypeMAC :: AuditEventType where "EventTypeMAC \<equiv> 12"
abbreviation EventTypeCrypto :: AuditEventType where "EventTypeCrypto \<equiv> 13"
abbreviation EventTypeVirt :: AuditEventType where "EventTypeVirt \<equiv> 14"
abbreviation EventTypeAuditRule :: AuditEventType where "EventTypeAuditRule \<equiv> 15"
abbreviation EventTypeDACDecision :: AuditEventType where "EventTypeDACDecision \<equiv> 16"
abbreviation EventTypeGroupChange :: AuditEventType where "EventTypeGroupChange \<equiv> 17"

definition auditEventTypeNames :: "(AuditEventType \<times> string) list" where
  "auditEventTypeNames = [
    (EventTypeUnknown, ''unknown''), (EventTypeUserspace, ''user-space''),
    (EventTypeSystemServices, ''system-services''), (EventTypeConfig, ''configuration''),
    (EventTypeTTY, ''TTY''), (EventTypeUserAccount, ''user-account''),
    (EventTypeUserLogin, ''user-login''), (EventTypeAuditDaemon, ''audit-daemon''),
    (EventTypeMACDecision, ''mac-decision''), (EventTypeAnomaly, ''anomaly''),
    (EventTypeIntegrity, ''integrity''), (EventTypeAnomalyResponse, ''anomaly-response''),
    (EventTypeMAC, ''mac''), (EventTypeCrypto, ''crypto''), (EventTypeVirt, ''virt''),
    (EventTypeAuditRule, ''audit-rule''), (EventTypeDACDecision, ''dac-decision''),
    (EventTypeGroupChange, ''group-change'')]"

definition eventType_String :: "AuditEventType \<Rightarrow> string" where
  "eventType_String t = (case map_of auditEventTypeNames t of
     Some name \<Rightarrow> name
   | None \<Rightarrow> the (map_of auditEventTypeNames EventTypeUnknown))"

definition eventType_MarshalText :: "AuditEventType \<Rightarrow> bytes" where
  "eventType_MarshalText t = bytes_of_string (eventType_String t)"

definition in_range :: "AuditMessageType \<Rightarrow> AuditMessageType \<Rightarrow> AuditMessageType \<Rightarrow> bool" where
  "in_range lo t hi = (lo \<le> t \<and> t \<le> hi)"

definition GetAuditEventType :: "AuditMessageType \<Rightarrow> AuditEventType" where
  "GetAuditEventType t =
     (if in_range AUDIT_USER_AUTH t AUDIT_USER_END \<or> in_range AUDIT_USER_CHAUTHTOK t AUDIT_CRED_REFR
         \<or> in_range AUDIT_USER_LOGIN t AUDIT_USER_LOGOUT \<or> t = AUDIT_GRP_AUTH then EventTypeUserLogin
      else if in_range AUDIT_ADD_USER t AUDIT_DEL_GROUP \<or> in_range AUDIT_GRP_MGMT t AUDIT_GRP_CHAUTHTOK
         \<or> in_range AUDIT_ACCT_LOCK t AUDIT_ACCT_UNLOCK then EventTypeUserAccount
      else if t = AUDIT_KERNEL \<or> in_range AUDIT_SYSTEM_BOOT t AUDIT_SERVICE_STOP then EventTypeSystemServices
      else if t = AUDIT_USYS_CONFIG \<or> t = AUDIT_CONFIG_CHANGE \<or> t = AUDIT_NETFILTER_CFG
         \<or> in_range AUDIT_FEATURE_CHANGE t AUDIT_REPLACE then EventTypeConfig
      else if t = AUDIT_SECCOMP then EventTypeDACDecision
      else if in_range AUDIT_CHGRP_ID t AUDIT_TRUSTED_APP \<or> t = AUDIT_USER_CMD \<or> t = AUDIT_CHUSER_ID
         then EventTypeUserspace
      else if t = AUDIT_USER_TTY \<or> t = AUDIT_TTY then EventTypeTTY
      else if in_range AUDIT_DAEMON_START t AUDIT_LAST_DAEMON then EventTypeAuditDaemon
      else if t = AUDIT_USER_SELINUX_ERR \<or> t = AUDIT_USER_AVC
         \<or> in_range AUDIT_APPARMOR_ALLOWED t AUDIT_APPARMOR_DENIED \<or> t = AUDIT_APPARMOR_ERROR
         \<or> in_range AUDIT_AVC t AUDIT_AVC_PATH then EventTypeMACDecision
      else if in_range AUDIT_INTEGRITY_DATA t AUDIT_INTEGRITY_LAST_MSG \<or> t = AUDIT_ANOM_RBAC_INTEGRITY_FAIL
         then EventTypeIntegrity
      else if in_range AUDIT_ANOM_PROMISCUOUS t AUDIT_LAST_KERN_ANOM_MSG
         \<or> in_range AUDIT_ANOM_LOGIN_FAILURES t AUDIT_ANOM_RBAC_FAIL
         \<or> in_range AUDIT_ANOM_CRYPTO_FAIL t AUDIT_LAST_ANOM_MSG then EventTypeAnomaly
      else if in_range AUDIT_RESP_ANOMALY t AUDIT_LAST_ANOM_RESP then EventTypeAnomalyResponse
      else if in_range AUDIT_MAC_POLICY_LOAD t AUDIT_LAST_SELINUX \<or> in_range AUDIT_AA t AUDIT_APPARMOR_AUDIT
         \<or> in_range AUDIT_APPARMOR_HINT t AUDIT_APPARMOR_STATUS
         \<or> in_range AUDIT_USER_ROLE_CHANGE t AUDIT_LAST_USER_LSPP_MSG then EventTypeMAC
      else if in_range AUDIT_FIRST_KERN_CRYPTO_MSG t AUDIT_LAST_KERN_CRYPTO_MSG
         \<or> in_range AUDIT_CRYPTO_TEST_USER t AUDIT_LAST_CRYPTO_MSG then EventTypeCrypto
      else if in_range AUDIT_VIRT_CONTROL t AUDIT_LAST_VIRT_MSG then EventTypeVirt
      else if in_range AUDIT_SYSCALL t AUDIT_SOCKETCALL \<or> in_range AUDIT_SOCKADDR t AUDIT_MQ_GETSETATTR
         \<or> in_range AUDIT_FD_PAIR t AUDIT_OBJ_PID \<or> in_range AUDIT_BPRM_FCAPS t AUDIT_NETFILTER_PKT
         then EventTypeAuditRule
      else EventTypeUnknown)"

section \<open>Events\<close>

record ECSEvent =
  ecs_Category :: "string list"
  ecs_Type :: "string list"
  ecs_Outcome :: string

record ECSEntityData =
  ent_Name :: string
  ent_ID :: string

text \<open>The embedded \<^verbatim>\<open>ECSEntityData\<close> is the field \<open>ent_Data\<close>.\<close>

record ECSEntity =
  ent_Data :: ECSEntityData
  ent_Effective :: ECSEntityData
  ent_Target :: ECSEntityData
  ent_Changes :: ECSEntityData

record ECSFields =
  ecs_Event :: ECSEvent
  ecs_User :: ECSEntity
  ecs_Group :: ECSEntityData

record Actor =
  act_Primary :: string
  act_Secondary :: string

record Object =
  obj_Type :: string
  obj_Primary :: string
  obj_Secondary :: string

record Summary =
  sum_Actor :: Actor
  sum_Action :: string
  sum_Object :: Object
  sum_How :: string

record Process =
  proc_PID :: string
  proc_PPID :: string
  proc_Title :: string
  proc_Name :: string
  proc_Exe :: string
  proc_CWD :: string
  proc_Args :: "string list"

definition process_IsEmpty :: "Process \<Rightarrow> bool" where
  "process_IsEmpty p = (proc_PID p = [] \<and> proc_PPID p = [] \<and> proc_Title p = [] \<and> proc_Name p = []
     \<and> proc_Exe p = [] \<and> proc_CWD p = [] \<and> proc_Args p = [])"

record User =
  user_IDs :: "string \<rightharpoonup> string"
  user_Names :: "string \<rightharpoonup> string"
  user_SELinux :: "string \<rightharpoonup> string"

record File =
  file_Path :: string
  file_Device :: string
  file_Inode :: string
  file_Mode :: string
  file_UID :: string
  file_GID :: string
  file_Owner :: string
  file_Group :: string
  file_SELinux :: "string \<rightharpoonup> string"

type_synonym Direction = u8

abbreviation IncomingDir :: Direction where "IncomingDir \<equiv> 1"
abbreviation OutgoingDir :: Direction where "OutgoingDir \<equiv> 2"

definition Direction_String :: "Direction \<Rightarrow> string" where
  "Direction_String d =
     (if d = IncomingDir then ''ingress'' else if d = OutgoingDir then ''egress'' else ''unknown'')"

definition Direction_MarshalText :: "Direction \<Rightarrow> bytes" where
  "Direction_MarshalText d = bytes_of_string (Direction_String d)"

record Address =
  addr_Hostname :: string
  addr_IP :: string
  addr_Port :: string
  addr_Path :: string

text \<open>The errors kept as warnings.\<close>

datatype warning =
    WData parse_error
  | WSockaddr parse_error
  | WSockaddrNoSyscall
  | WPath parse_error
  | WExecve parse_error
  | WNoArgc
  | WArgc string num_error
  | WNoArg string
  | WMessage parse_error
  | WDuplicateKey string AuditMessageType
  | WNoNormalization
  | WNotFound string "string list"

record Event =
  ev_Timestamp :: gotime
  ev_Sequence :: u32
  ev_Category :: AuditEventType
  ev_Type :: AuditMessageType
  ev_Result :: string
  ev_Session :: string
  ev_Tags :: "string list"
  ev_Summary :: Summary
  ev_User :: User
  ev_Process :: Process
  ev_File :: "File option"
  ev_Source :: "Address option"
  ev_Dest :: "Address option"
  ev_Net :: "Direction option"
  ev_Data :: "string \<rightharpoonup> string"
  ev_Paths :: "(string \<rightharpoonup> string) list"
  ev_ECS :: ECSFields
  ev_Warnings :: "warning list"

definition zero_entity :: ECSEntityData where
  "zero_entity = \<lparr>ent_Name = [], ent_ID = []\<rparr>"

definition zero_ECS :: ECSFields where
  "zero_ECS = \<lparr>ecs_Event = \<lparr>ecs_Category = [], ecs_Type = [], ecs_Outcome = []\<rparr>,
     ecs_User = \<lparr>ent_Data = zero_entity, ent_Effective = zero_entity, ent_Target = zero_entity, ent_Changes = zero_entity\<rparr>,
     ecs_Group = zero_entity\<rparr>"

definition zero_Summary :: Summary where
  "zero_Summary = \<lparr>sum_Actor = \<lparr>act_Primary = [], act_Secondary = []\<rparr>, sum_Action = [],
     sum_Object = \<lparr>obj_Type = [], obj_Primary = [], obj_Secondary = []\<rparr>, sum_How = []\<rparr>"

definition zero_Process :: Process where
  "zero_Process = \<lparr>proc_PID = [], proc_PPID = [], proc_Title = [], proc_Name = [], proc_Exe = [], proc_CWD = [], proc_Args = []\<rparr>"

definition zero_File :: File where
  "zero_File = \<lparr>file_Path = [], file_Device = [], file_Inode = [], file_Mode = [], file_UID = [], file_GID = [],
     file_Owner = [], file_Group = [], file_SELinux = Map.empty\<rparr>"

section \<open>Changing one field\<close>

definition warn :: "warning \<Rightarrow> Event \<Rightarrow> Event" where
  "warn w ev = ev\<lparr>ev_Warnings := ev_Warnings ev @ [w]\<rparr>"

definition set_actor_primary :: "string \<Rightarrow> Event \<Rightarrow> Event" where
  "set_actor_primary v ev =
     (let s = ev_Summary ev in ev\<lparr>ev_Summary := s\<lparr>sum_Actor := (sum_Actor s)\<lparr>act_Primary := v\<rparr>\<rparr>\<rparr>)"

definition set_actor_secondary :: "string \<Rightarrow> Event \<Rightarrow> Event" where
  "set_actor_secondary v ev =
     (let s = ev_Summary ev in ev\<lparr>ev_Summary := s\<lparr>sum_Actor := (sum_Actor s)\<lparr>act_Secondary := v\<rparr>\<rparr>\<rparr>)"

definition set_object_primary :: "string \<Rightarrow> Event \<Rightarrow> Event" where
  "set_object_primary v ev =
     (let s = ev_Summary ev in ev\<lparr>ev_Summary := s\<lparr>sum_Object := (sum_Object s)\<lparr>obj_Primary := v\<rparr>\<rparr>\<rparr>)"

definition set_object_secondary :: "string \<Rightarrow> Event \<Rightarrow> Event" where
  "set_object_secondary v ev =
     (let s = ev_Summary ev in ev\<lparr>ev_Summary := s\<lparr>sum_Object := (sum_Object s)\<lparr>obj_Secondary := v\<rparr>\<rparr>\<rparr>)"

definition set_object_type :: "string \<Rightarrow> Event \<Rightarrow> Event" where
  "set_object_type v ev =
     (let s = ev_Summary ev in ev\<lparr>ev_Summary := s\<lparr>sum_Object := (sum_Object s)\<lparr>obj_Type := v\<rparr>\<rparr>\<rparr>)"

definition set_how :: "string \<Rightarrow> Event \<Rightarrow> Event" where
  "set_how v ev = ev\<lparr>ev_Summary := (ev_Summary ev)\<lparr>sum_How := v\<rparr>\<rparr>"

definition set_action :: "string \<Rightarrow> Event \<Rightarrow> Event" where
  "set_action v ev = ev\<lparr>ev_Summary := (ev_Summary ev)\<lparr>sum_Action := v\<rparr>\<rparr>"

definition delete_data :: "string \<Rightarrow> Event \<Rightarrow> Event" where
  "delete_data k ev = ev\<lparr>ev_Data := (ev_Data ev)(k := None)\<rparr>"

definition data_or_empty :: "string \<Rightarrow> (string \<rightharpoonup> string) \<Rightarrow> string" where
  "data_or_empty k m = (case m k of None \<Rightarrow> [] | Some v \<Rightarrow> v)"

section \<open>Entities\<close>

definition entity_set :: "string \<Rightarrow> ECSEntityData \<Rightarrow> ECSEntityData" where
  "entity_set value e =
     (if value = [] \<or> value = ''unset'' \<or> value = ''4294967295'' \<or> value = ''-1'' then \<lparr>ent_Name = [], ent_ID = ''unset''\<rparr>
      else if snd (parse_uint value 10 64) = None then e\<lparr>ent_ID := value\<rparr>
      else e\<lparr>ent_Name := value\<rparr>)"

end
