(* ===== verification/Aucoalesce_Normalize.thy ===== *)
theory Aucoalesce_Normalize
  imports Aucoalesce_Event
begin

text \<open>
  \<^verbatim>\<open>normalize.go\<close>: the normalizations, the references between an event and its ECS fields, and
  the tables built from a configuration. The decoding of the YAML text is third-party code and
  a parameter of \<open>LoadNormalizationConfig\<close>; of the methods it calls back, the model has what they
  do with the value it decodes.
\<close>

section \<open>References\<close>

type_synonym readReference = "Event \<Rightarrow> string"
type_synonym writeReference = "string \<Rightarrow> Event \<Rightarrow> Event"

definition fromFieldReferences :: "(string \<times> readReference) list" where
  "fromFieldReferences = [
    (''subject.primary'', \<lambda>ev. act_Primary (sum_Actor (ev_Summary ev))),
    (''subject.secondary'', \<lambda>ev. act_Secondary (sum_Actor (ev_Summary ev))),
    (''object.primary'', \<lambda>ev. obj_Primary (sum_Object (ev_Summary ev))),
    (''object.secondary'', \<lambda>ev. obj_Secondary (sum_Object (ev_Summary ev)))]"

definition fromDictReferences :: "(string \<times> (string \<Rightarrow> readReference)) list" where
  "fromDictReferences = [
    (''data'', \<lambda>key ev. data_or_empty key (ev_Data ev)),
    (''uid'', \<lambda>key ev. data_or_empty key (user_IDs (ev_User ev)))]"

definition update_user :: "(ECSEntity \<Rightarrow> ECSEntity) \<Rightarrow> Event \<Rightarrow> Event" where
  "update_user f ev = ev\<lparr>ev_ECS := (ev_ECS ev)\<lparr>ecs_User := f (ecs_User (ev_ECS ev))\<rparr>\<rparr>"

definition toFieldReferences :: "(string \<times> writeReference) list" where
  "toFieldReferences = [
    (''user'', \<lambda>s. update_user (\<lambda>u. u\<lparr>ent_Data := entity_set s (ent_Data u)\<rparr>)),
    (''user.effective'', \<lambda>s. update_user (\<lambda>u. u\<lparr>ent_Effective := entity_set s (ent_Effective u)\<rparr>)),
    (''user.target'', \<lambda>s. update_user (\<lambda>u. u\<lparr>ent_Target := entity_set s (ent_Target u)\<rparr>)),
    (''user.changes'', \<lambda>s. update_user (\<lambda>u. u\<lparr>ent_Changes := entity_set s (ent_Changes u)\<rparr>)),
    (''group'', \<lambda>s ev. ev\<lparr>ev_ECS := (ev_ECS ev)\<lparr>ecs_Group := entity_set s (ecs_Group (ev_ECS ev))\<rparr>\<rparr>)]"

definition resolveFieldReference :: "string \<Rightarrow> readReference option" where
  "resolveFieldReference fieldRef =
     (case map_of fromFieldReferences fieldRef of
        Some ref \<Rightarrow> Some ref
      | None \<Rightarrow>
         (case index_byte (CHR ''.'') fieldRef of
            None \<Rightarrow> None
          | Some dot \<Rightarrow> map_option (\<lambda>accessor. accessor (drop (Suc dot) fieldRef))
                          (map_of fromDictReferences (take dot fieldRef))))"

section \<open>Normalizations\<close>

text \<open>A mapping with a side left out in the configuration has no reference there.\<close>

record ECSFieldMapping =
  map_From :: "readReference option"
  map_To :: "writeReference option"

record ECSMapping =
  em_Category :: "string list"
  em_Type :: "string list"
  em_Mappings :: "ECSFieldMapping list"

record SubjectMapping =
  sm_Primary :: "string list"
  sm_Secondary :: "string list"

record ObjectMapping =
  om_Primary :: "string list"
  om_Secondary :: "string list"
  om_What :: string
  om_PathIndex :: int

record Normalization =
  norm_Subject :: SubjectMapping
  norm_Action :: string
  norm_Object :: ObjectMapping
  norm_How :: "string list"
  norm_RecordTypes :: "string list"
  norm_Syscalls :: "string list"
  norm_SourceIP :: "string list"
  norm_HasFields :: "string list"
  norm_ECS :: ECSMapping

section \<open>Loading a configuration\<close>

text \<open>The name of a reference in the configuration, or none; an unknown name is an error.\<close>

datatype norm_error =
    YamlError string
  | BadFromReference string
  | BadToReference string
  | DuplicateSyscall string
  | DuplicateRecordType string

text \<open>
  \<^verbatim>\<open>Strings.UnmarshalYAML\<close>: a value that the YAML library can read as a string is a list of one, and
  otherwise it is read as a list; the two readings are arguments.
\<close>

definition Strings_UnmarshalYAML :: "('e, string) outcome \<Rightarrow> ('e, string list) outcome \<Rightarrow> ('e, string list) outcome" where
  "Strings_UnmarshalYAML as_string as_list = (case as_string of Ok v \<Rightarrow> Ok [v] | Err e \<Rightarrow> as_list | Panic p \<Rightarrow> Panic p)"

definition readReference_UnmarshalYAML :: "string \<Rightarrow> (norm_error, readReference) outcome" where
  "readReference_UnmarshalYAML fieldRef =
     (case resolveFieldReference fieldRef of None \<Rightarrow> Err (BadFromReference fieldRef) | Some r \<Rightarrow> Ok r)"

definition writeReference_UnmarshalYAML :: "string \<Rightarrow> (norm_error, writeReference) outcome" where
  "writeReference_UnmarshalYAML fieldRef =
     (case map_of toFieldReferences fieldRef of None \<Rightarrow> Err (BadToReference fieldRef) | Some r \<Rightarrow> Ok r)"

text \<open>
  The tables hold pointers to normalizations. Each normalization of the configuration has its
  own variable, so a pointer is its index with the normalization.
\<close>

type_synonym norm_ptr = "nat \<times> Normalization"
type_synonym syscall_norms = "string \<rightharpoonup> norm_ptr"
type_synonym record_norms = "string \<Rightarrow> norm_ptr list"

primrec load_syscalls :: "norm_ptr \<Rightarrow> string list \<Rightarrow> syscall_norms \<Rightarrow> (norm_error, syscall_norms) outcome" where
  "load_syscalls n [] tab = Ok tab"
| "load_syscalls n (s # ss) tab =
     (if tab s \<noteq> None then Err (DuplicateSyscall s) else load_syscalls n ss (tab(s \<mapsto> n)))"

primrec load_records :: "norm_ptr \<Rightarrow> string list \<Rightarrow> record_norms \<Rightarrow> (norm_error, record_norms) outcome" where
  "load_records n [] tab = Ok tab"
| "load_records n (r # rs) tab =
     (if \<exists>p \<in> set (tab r). norm_HasFields (snd p) = [] then Err (DuplicateRecordType r)
      else load_records n rs (tab(r := tab r @ [n])))"

primrec load_norms ::
  "norm_ptr list \<Rightarrow> syscall_norms \<Rightarrow> record_norms \<Rightarrow> (norm_error, syscall_norms \<times> record_norms) outcome" where
  "load_norms [] st rt = Ok (st, rt)"
| "load_norms (n # ns) st rt =
     bind_outcome (load_syscalls n (norm_Syscalls (snd n)) st) (\<lambda>st.
     bind_outcome (load_records n (norm_RecordTypes (snd n)) rt) (\<lambda>rt.
     load_norms ns st rt))"

text \<open>\<^verbatim>\<open>LoadNormalizationConfig\<close>; \<open>unmarshal\<close> is the YAML library's decoding of the normalizations.\<close>

definition LoadNormalizationConfig ::
  "(bytes \<Rightarrow> (norm_error, Normalization list) outcome) \<Rightarrow> bytes \<Rightarrow> (norm_error, syscall_norms \<times> record_norms) outcome" where
  "LoadNormalizationConfig unmarshal b =
     bind_outcome (unmarshal b) (\<lambda>ns. load_norms (zip [0..<length ns] ns) Map.empty (\<lambda>_. []))"

end
