(* ===== verification/Aucoalesce.thy ===== *)
theory Aucoalesce
  imports Aucoalesce_Normalize
begin

unbundle bit_operations_syntax

text \<open>
  \<^verbatim>\<open>coalesce.go\<close>: the messages of an event are combined into one \<^verbatim>\<open>Event\<close>, which is then normalized.
  Parameters of the operations:
  \<^item> \<open>SN\<close>, \<^verbatim>\<open>unix.SignalName\<close>;
  \<^item> \<open>rng\<close>, the order in which \<^verbatim>\<open>range\<close> visits the keys of a map, which the language leaves open;
  \<^item> the tables \<^verbatim>\<open>syscallNorms\<close> and \<^verbatim>\<open>recordTypeNorms\<close> that the package loads from its configuration.

  \<^verbatim>\<open>Data\<close> keeps its result in the message it is called on and hands out the same map, from which
  the code deletes keys, so operations on a message also return the message.
\<close>

section \<open>Messages\<close>

type_synonym range_order = "(string \<rightharpoonup> string) \<Rightarrow> string list"

definition msg_Data :: "(int \<Rightarrow> string) \<Rightarrow> AuditMessage \<Rightarrow> (parse_error, string \<rightharpoonup> string) outcome \<times> AuditMessage" where
  "msg_Data SN m =
     (case Data SN m of
        (Ok (d, None), m') \<Rightarrow> (Ok (case d of None \<Rightarrow> Map.empty | Some d \<Rightarrow> d), m')
      | (Ok (_, Some e), m') \<Rightarrow> (Err e, m')
      | (Err e, m') \<Rightarrow> (Err e, m')
      | (Panic p, m') \<Rightarrow> (Panic p, m'))"

text \<open>Deleting a key from the map that \<^verbatim>\<open>Data\<close> returned and the message keeps.\<close>

definition delete_key :: "string \<Rightarrow> AuditMessage \<Rightarrow> AuditMessage" where
  "delete_key k m = m\<lparr>msg_data := map_option (\<lambda>d. d(k := None)) (msg_data m)\<rparr>"

text \<open>
  The caller's message after an operation on a copy of it: the map is shared when the message
  had been parsed before, otherwise the copy got a map of its own.
\<close>

definition write_back :: "AuditMessage \<Rightarrow> AuditMessage \<Rightarrow> AuditMessage" where
  "write_back m copy = (if msg_data m = None then m else m\<lparr>msg_data := msg_data copy\<rparr>)"

definition filterEOE :: "AuditMessage list \<Rightarrow> AuditMessage list" where
  "filterEOE msgs = (if msgs \<noteq> [] \<and> RecordType (last msgs) = AUDIT_EOE then butlast msgs else msgs)"

section \<open>A new event\<close>

definition is_id_key :: "string \<Rightarrow> bool" where
  "is_id_key k = (has_suffix k ''uid'' \<or> has_suffix k ''gid'')"

definition is_subj_key :: "string \<Rightarrow> bool" where
  "is_subj_key k = (\<not> is_id_key k \<and> has_prefix k ''subj_'')"

text \<open>
  The loop over the data of the message: each key goes to the ids, the SELinux labels or the
  data of the event. Different keys never go to the same place, so the order does not matter.
\<close>

definition add_data :: "(string \<rightharpoonup> string) \<Rightarrow> Event \<Rightarrow> Event" where
  "add_data data ev =
     ev\<lparr>ev_User := (ev_User ev)\<lparr>
          user_IDs := user_IDs (ev_User ev) ++ (\<lambda>k. if is_id_key k then data k else None),
          user_SELinux := user_SELinux (ev_User ev) ++ (\<lambda>k. if is_subj_key (''subj_'' @ k) then data (''subj_'' @ k) else None)\<rparr>,
        ev_Data := ev_Data ev ++ (\<lambda>k. if is_id_key k \<or> is_subj_key k then None else data k)\<rparr>"

definition blank_event :: "AuditMessage \<Rightarrow> Event" where
  "blank_event msg = \<lparr>ev_Timestamp = Timestamp msg, ev_Sequence = Sequence msg,
     ev_Category = GetAuditEventType (RecordType msg), ev_Type = RecordType msg, ev_Result = [], ev_Session = [],
     ev_Tags = [], ev_Summary = zero_Summary,
     ev_User = \<lparr>user_IDs = Map.empty, user_Names = Map.empty, user_SELinux = Map.empty\<rparr>,
     ev_Process = zero_Process, ev_File = None, ev_Source = None, ev_Dest = None, ev_Net = None,
     ev_Data = Map.empty, ev_Paths = [], ev_ECS = zero_ECS, ev_Warnings = []\<rparr>"

text \<open>What \<^verbatim>\<open>newEvent\<close> takes from the data: the result, the session, the actor, and the rest.\<close>

definition event_of_data :: "(string \<rightharpoonup> string) \<Rightarrow> string list \<Rightarrow> Event \<Rightarrow> Event" where
  "event_of_data data tgs ev =
     (let ev = ev\<lparr>ev_Result := (case data ''result'' of Some r \<Rightarrow> r | None \<Rightarrow> ''unknown'')\<rparr>;
          data = data(''result'' := None);
          ev = (case data ''ses'' of Some s \<Rightarrow> ev\<lparr>ev_Session := s\<rparr> | None \<Rightarrow> ev);
          data = data(''ses'' := None);
          ev = (case data ''auid'' of Some v \<Rightarrow> set_actor_primary v ev | None \<Rightarrow> ev);
          ev = (case data ''uid'' of Some v \<Rightarrow> set_actor_secondary v ev | None \<Rightarrow> ev);
          ev = ev\<lparr>ev_Tags := tgs\<rparr>
      in add_data data ev)"

text \<open>
  \<^verbatim>\<open>newEvent\<close> with the message the event is created from and the message its data come from; the
  latter is returned as it is left.
\<close>

definition newEvent :: "(int \<Rightarrow> string) \<Rightarrow> AuditMessage \<Rightarrow> AuditMessage \<Rightarrow> (parse_error, Event) outcome \<times> AuditMessage" where
  "newEvent SN msg source =
     (case msg_Data SN source of
        (Err e, m') \<Rightarrow> (Ok (warn (WData e) (blank_event msg)), m')
      | (Panic p, m') \<Rightarrow> (Panic p, m')
      | (Ok data, m') \<Rightarrow>
          (Ok (event_of_data data (tags m') (blank_event msg)), delete_key ''ses'' (delete_key ''result'' m')))"

section \<open>Adding records\<close>

definition addAddress :: "(string \<rightharpoonup> string) \<Rightarrow> Address option \<Rightarrow> Address option" where
  "addAddress sockaddr addr =
     (let ip = data_or_empty ''addr'' sockaddr; port = data_or_empty ''port'' sockaddr;
          path = data_or_empty ''path'' sockaddr in
      if ip \<noteq> [] \<or> port \<noteq> [] \<or> path \<noteq> []
      then Some \<lparr>addr_Hostname = [], addr_IP = ip, addr_Port = port, addr_Path = path\<rparr> else addr)"

definition add_sockaddr :: "(string \<rightharpoonup> string) \<Rightarrow> Event \<Rightarrow> Event" where
  "add_sockaddr data ev =
     (case ev_Data ev ''syscall'' of
        None \<Rightarrow> warn WSockaddrNoSyscall ev
      | Some syscall \<Rightarrow>
         (let ev = ev\<lparr>ev_Data := ev_Data ev ++ (\<lambda>k. if has_prefix k ''socket_'' then data (drop 7 k) else None)\<rparr> in
          if syscall \<in> {''recvfrom'', ''recvmsg'', ''accept'', ''accept4''} then
            ev\<lparr>ev_Source := addAddress data (ev_Source ev), ev_Net := Some IncomingDir\<rparr>
          else if syscall \<in> {''connect'', ''sendto'', ''sendmsg''} then
            ev\<lparr>ev_Dest := addAddress data (ev_Dest ev), ev_Net := Some OutgoingDir\<rparr>
          else ev))"

definition addSockaddrRecord :: "(int \<Rightarrow> string) \<Rightarrow> AuditMessage \<Rightarrow> Event \<Rightarrow> (parse_error, Event) outcome \<times> AuditMessage" where
  "addSockaddrRecord SN msg ev =
     (case msg_Data SN msg of
        (Err e, m') \<Rightarrow> (Ok (warn (WSockaddr e) ev), m')
      | (Panic p, m') \<Rightarrow> (Panic p, m')
      | (Ok data, m') \<Rightarrow> (Ok (add_sockaddr data ev), m'))"

definition addPathRecord :: "(int \<Rightarrow> string) \<Rightarrow> AuditMessage \<Rightarrow> Event \<Rightarrow> (parse_error, Event) outcome \<times> AuditMessage" where
  "addPathRecord SN msg ev =
     (case msg_Data SN msg of
        (Err e, m') \<Rightarrow> (Ok (warn (WPath e) ev), m')
      | (Panic p, m') \<Rightarrow> (Panic p, m')
      | (Ok data, m') \<Rightarrow> (Ok (ev\<lparr>ev_Paths := ev_Paths ev @ [data]\<rparr>), m'))"

text \<open>
  The loop that collects the arguments \<open>i\<close> to \<open>i + n - 1\<close>: the ones found, and the key that is
  missing if any.
\<close>

definition execve_key :: "nat \<Rightarrow> string" where
  "execve_key i = CHR ''a'' # format_uint i"

primrec collect_args :: "(string \<rightharpoonup> string) \<Rightarrow> nat \<Rightarrow> nat \<Rightarrow> string list \<times> string option" where
  "collect_args data 0 i = ([], None)"
| "collect_args data (Suc n) i =
     (case data (execve_key i) of
        None \<Rightarrow> ([], Some (execve_key i))
      | Some arg \<Rightarrow> (let r = collect_args data n (Suc i) in (arg # fst r, snd r)))"

definition add_execve :: "(string \<rightharpoonup> string) \<Rightarrow> Event \<Rightarrow> Event" where
  "add_execve data ev =
     (case data ''argc'' of
        None \<Rightarrow> warn WNoArgc ev
      | Some argc \<Rightarrow>
         (let ev = ev\<lparr>ev_Data := (ev_Data ev)(''argc'' \<mapsto> argc)\<rparr> in
          case parse_uint argc 10 32 of
            (_, Some e) \<Rightarrow> warn (WArgc argc e) ev
          | (n, None) \<Rightarrow>
             (case collect_args data n 0 of
                (args, None) \<Rightarrow> ev\<lparr>ev_Process := (ev_Process ev)\<lparr>proc_Args := args\<rparr>\<rparr>
              | (args, Some key) \<Rightarrow> warn (WNoArg key) ev)))"

text \<open>The arguments that were found are deleted from the data.\<close>

definition execve_left :: "(string \<rightharpoonup> string) \<Rightarrow> AuditMessage \<Rightarrow> AuditMessage" where
  "execve_left data m =
     (case data ''argc'' of
        None \<Rightarrow> m
      | Some argc \<Rightarrow>
         (case parse_uint argc 10 32 of
            (_, Some e) \<Rightarrow> m
          | (n, None) \<Rightarrow>
              fold (\<lambda>i. delete_key (execve_key i)) [0..<length (fst (collect_args data n 0))] m))"

definition addExecveRecord :: "(int \<Rightarrow> string) \<Rightarrow> AuditMessage \<Rightarrow> Event \<Rightarrow> (parse_error, Event) outcome \<times> AuditMessage" where
  "addExecveRecord SN msg ev =
     (case msg_Data SN msg of
        (Err e, m') \<Rightarrow> (Ok (warn (WExecve e) ev), m')
      | (Panic p, m') \<Rightarrow> (Panic p, m')
      | (Ok data, m') \<Rightarrow> (Ok (add_execve data ev), execve_left data m'))"

text \<open>The loop over the keys of a message that are added to the event unless they are there.\<close>

primrec add_fields :: "AuditMessageType \<Rightarrow> (string \<rightharpoonup> string) \<Rightarrow> string list \<Rightarrow> Event \<Rightarrow> Event" where
  "add_fields t data [] ev = ev"
| "add_fields t data (k # ks) ev =
     add_fields t data ks
       (if ev_Data ev k \<noteq> None then warn (WDuplicateKey k t) ev
        else ev\<lparr>ev_Data := (ev_Data ev)(k := data k)\<rparr>)"

definition addFieldsToEventData ::
  "(int \<Rightarrow> string) \<Rightarrow> range_order \<Rightarrow> AuditMessage \<Rightarrow> Event \<Rightarrow> (parse_error, Event) outcome \<times> AuditMessage" where
  "addFieldsToEventData SN rng msg ev =
     (case msg_Data SN msg of
        (Err e, m') \<Rightarrow> (Ok (warn (WMessage e) ev), m')
      | (Panic p, m') \<Rightarrow> (Panic p, m')
      | (Ok data, m') \<Rightarrow> (Ok (add_fields (RecordType msg) data (rng data) ev), m'))"

section \<open>Compound events\<close>

text \<open>
  One iteration of the second loop of \<^verbatim>\<open>normalizeCompound\<close>, on a copy of the message.
\<close>

definition add_message ::
  "(int \<Rightarrow> string) \<Rightarrow> range_order \<Rightarrow> AuditMessage \<Rightarrow> Event \<Rightarrow> (parse_error, Event) outcome \<times> AuditMessage" where
  "add_message SN rng msg ev =
     (let t = RecordType msg in
      if t = AUDIT_SYSCALL then (Ok (delete_data ''items'' ev), msg)
      else if t = AUDIT_PATH then addPathRecord SN msg ev
      else if t = AUDIT_SOCKADDR then addSockaddrRecord SN msg ev
      else if t = AUDIT_EXECVE then addExecveRecord SN msg ev
      else addFieldsToEventData SN rng msg ev)"

primrec add_messages ::
  "(int \<Rightarrow> string) \<Rightarrow> range_order \<Rightarrow> AuditMessage list \<Rightarrow> Event \<Rightarrow> (parse_error, Event) outcome \<times> AuditMessage list" where
  "add_messages SN rng [] ev = (Ok ev, [])"
| "add_messages SN rng (m # ms) ev =
     (case add_message SN rng m ev of
        (Ok ev', m') \<Rightarrow> (let r = add_messages SN rng ms ev' in (fst r, write_back m m' # snd r))
      | (Err e, m') \<Rightarrow> (Err e, write_back m m' # ms)
      | (Panic p, m') \<Rightarrow> (Panic p, write_back m m' # ms))"

text \<open>
  The first loop of \<^verbatim>\<open>normalizeCompound\<close> stores the address of the loop variable in \<^verbatim>\<open>special\<close> and in
  \<^verbatim>\<open>syscall\<close>. The variable is the same in all iterations (the module's language version is 1.14),
  so after the loop both addresses, as far as they are set, hold the message the loop stopped
  at. The result is whether \<^verbatim>\<open>special\<close> is set, and the index and value of the variable if
  \<^verbatim>\<open>syscall\<close> is set.
\<close>

primrec find_syscall :: "nat \<Rightarrow> AuditMessage list \<Rightarrow> (nat \<times> AuditMessage) option" where
  "find_syscall i [] = None"
| "find_syscall i (m # ms) = (if RecordType m = AUDIT_SYSCALL then Some (i, m) else find_syscall (Suc i) ms)"

datatype coalesce_error = MessagesEmpty | MissingSyscall | CoalesceData parse_error

definition normalizeCompound ::
  "(int \<Rightarrow> string) \<Rightarrow> range_order \<Rightarrow> AuditMessage list \<Rightarrow> (coalesce_error, Event) outcome \<times> AuditMessage list" where
  "normalizeCompound SN rng msgs =
     (case find_syscall 0 msgs of
        None \<Rightarrow> (Err MissingSyscall, msgs)
      | Some (i, msg) \<Rightarrow>
         (let special = msg; syscall = msg in
          case newEvent SN special syscall of
            (Ok ev, m') \<Rightarrow>
              (case add_messages SN rng (msgs[i := write_back msg m']) ev of
                 (Ok ev', msgs') \<Rightarrow> (Ok ev', msgs')
               | (Err e, msgs') \<Rightarrow> (Err (CoalesceData e), msgs')
               | (Panic p, msgs') \<Rightarrow> (Panic p, msgs'))
          | (Err e, m') \<Rightarrow> (Err (CoalesceData e), msgs)
          | (Panic p, m') \<Rightarrow> (Panic p, msgs)))"

definition normalizeSimple ::
  "(int \<Rightarrow> string) \<Rightarrow> AuditMessage \<Rightarrow> (coalesce_error, Event) outcome \<times> AuditMessage" where
  "normalizeSimple SN msg =
     (case newEvent SN msg msg of
        (Ok ev, m') \<Rightarrow> (Ok ev, m')
      | (Err e, m') \<Rightarrow> (Err (CoalesceData e), m')
      | (Panic p, m') \<Rightarrow> (Panic p, m'))"

section \<open>Files\<close>

text \<open>
  \<^verbatim>\<open>os.FileMode\<close>: the type bits are at the top of the word. \<^verbatim>\<open>%#04o\<close> of the permission bits prints four
  octal digits.
\<close>

abbreviation ModeDir :: u32 where "ModeDir \<equiv> 0x80000000"
abbreviation ModeSymlink :: u32 where "ModeSymlink \<equiv> 0x08000000"
abbreviation ModeNamedPipe :: u32 where "ModeNamedPipe \<equiv> 0x02000000"
abbreviation ModeSocket :: u32 where "ModeSocket \<equiv> 0x01000000"
abbreviation ModeCharDevice :: u32 where "ModeCharDevice \<equiv> 0x00200000"
abbreviation ModeType :: u32 where "ModeType \<equiv> 0x8F280000"
abbreviation modeBlockDevice :: u32 where "modeBlockDevice \<equiv> 0x6000"

definition perm_text :: "u32 \<Rightarrow> string" where
  "perm_text m = (let p = unat (m AND 511) in
     CHR ''0'' # map (\<lambda>d. digit_char d) [p div 64, p div 8 mod 8, p mod 8])"

text \<open>The type of the object for a mode, if any case of the switch applies.\<close>

definition mode_type :: "u32 \<Rightarrow> string option" where
  "mode_type m =
     (if m AND ModeType = 0 then Some ''file''
      else if m AND ModeDir \<noteq> 0 then Some ''directory''
      else if m AND ModeCharDevice \<noteq> 0 then Some ''character-device''
      else if m AND modeBlockDevice \<noteq> 0 then Some ''block-device''
      else if m AND ModeNamedPipe \<noteq> 0 then Some ''named-pipe''
      else if m AND ModeSymlink \<noteq> 0 then Some ''symlink''
      else if m AND ModeSocket \<noteq> 0 then Some ''socket''
      else None)"

text \<open>The path record to use: the first from the hinted index that is not a parent or unknown.\<close>

definition choose_path :: "(string \<rightharpoonup> string) list \<Rightarrow> nat \<Rightarrow> string \<rightharpoonup> string" where
  "choose_path paths i =
     (case find (\<lambda>p. data_or_empty ''nametype'' p \<noteq> ''PARENT'' \<and> data_or_empty ''nametype'' p \<noteq> ''UNKNOWN'') (drop i paths) of
        Some p \<Rightarrow> p
      | None \<Rightarrow> paths ! i)"

definition update_file :: "(File \<Rightarrow> File) \<Rightarrow> Event \<Rightarrow> Event" where
  "update_file f ev = ev\<lparr>ev_File := map_option f (ev_File ev)\<rparr>"

definition when_found :: "string option \<Rightarrow> (string \<Rightarrow> Event \<Rightarrow> Event) \<Rightarrow> Event \<Rightarrow> Event" where
  "when_found v f ev = (case v of None \<Rightarrow> ev | Some x \<Rightarrow> f x ev)"

definition addFileSELinuxLabels :: "(string \<rightharpoonup> string) \<Rightarrow> Event \<Rightarrow> Event" where
  "addFileSELinuxLabels path =
     update_file (\<lambda>f. f\<lparr>file_SELinux := file_SELinux f ++ (\<lambda>k. path (''obj_'' @ k))\<rparr>)"

text \<open>The fields of the file after its mode: the owner, the group and the labels.\<close>

definition file_owner :: "(string \<rightharpoonup> string) \<Rightarrow> Event \<Rightarrow> Event" where
  "file_owner path ev =
     (let ev = when_found (path ''ouid'') (\<lambda>v. update_file (\<lambda>f. f\<lparr>file_UID := v\<rparr>)) ev;
          ev = when_found (path ''ogid'') (\<lambda>v. update_file (\<lambda>f. f\<lparr>file_GID := v\<rparr>)) ev
      in addFileSELinuxLabels path ev)"

definition file_mode :: "string \<Rightarrow> Event \<Rightarrow> Event option" where
  "file_mode value ev =
     (case parse_uint value 8 64 of
        (_, Some e) \<Rightarrow> None
      | (n, None) \<Rightarrow>
         (let m = of_nat n :: u32; ev = update_file (\<lambda>f. f\<lparr>file_Mode := perm_text m\<rparr>) ev in
          Some (case mode_type m of None \<Rightarrow> ev | Some t \<Rightarrow> set_object_type t ev)))"

text \<open>A mode that is not a number ends \<^verbatim>\<open>setFileObject\<close> with an error, which the caller ignores.\<close>

definition setFileObject :: "int \<Rightarrow> Event \<Rightarrow> (coalesce_error, Event) outcome" where
  "setFileObject pathIndexHint ev =
     (if ev_Paths ev = [] then Ok ev
      else
        (let pathIndex = (if int (length (ev_Paths ev)) > pathIndexHint then pathIndexHint else 0) in
         if pathIndex < 0 then Panic IndexOutOfRange
         else
           (let path = choose_path (ev_Paths ev) (nat pathIndex);
                ev = ev\<lparr>ev_File := Some zero_File\<rparr>;
                ev = when_found (path ''name'') (\<lambda>v ev. update_file (\<lambda>f. f\<lparr>file_Path := v\<rparr>) (set_object_primary v ev)) ev;
                ev = when_found (path ''inode'') (\<lambda>v. update_file (\<lambda>f. f\<lparr>file_Inode := v\<rparr>)) ev;
                ev = when_found (path ''rdev'') (\<lambda>v. update_file (\<lambda>f. f\<lparr>file_Device := v\<rparr>)) ev
            in case path ''mode'' of
                 None \<Rightarrow> Ok (file_owner path ev)
               | Some value \<Rightarrow>
                  (case file_mode value ev of None \<Rightarrow> Ok ev | Some ev' \<Rightarrow> Ok (file_owner path ev')))))"

definition setSocketObject :: "Event \<Rightarrow> Event" where
  "setSocketObject ev =
     (let ev = (case ev_Data ev ''socket_addr'' of
            Some v \<Rightarrow> set_object_primary v ev
          | None \<Rightarrow> when_found (ev_Data ev ''socket_path'') set_object_primary ev)
      in when_found (ev_Data ev ''socket_port'') set_object_secondary ev)"

section \<open>Normalization\<close>

definition setHowDefaults :: "Event \<Rightarrow> Event" where
  "setHowDefaults ev =
     (case (case ev_Data ev ''exe'' of Some exe \<Rightarrow> Some exe | None \<Rightarrow> ev_Data ev ''comm'') of
        None \<Rightarrow> ev
      | Some exe \<Rightarrow>
         (let ev = set_how exe ev in
          if has_prefix exe ''/usr/bin/python'' \<or> has_prefix exe ''/usr/bin/sh'' \<or> has_prefix exe ''/usr/bin/bash''
             \<or> has_prefix exe ''/usr/bin/perl''
          then when_found (ev_Data ev ''comm'') set_how ev else ev))"

definition getValue :: "string \<Rightarrow> Event \<Rightarrow> string option" where
  "getValue key ev =
     (case ev_Data ev key of Some v \<Rightarrow> Some v | None \<Rightarrow> user_IDs (ev_User ev) key)"

definition setSourceIP :: "string \<Rightarrow> Event \<Rightarrow> Event option" where
  "setSourceIP key ev =
     map_option (\<lambda>v. (delete_data key ev)\<lparr>ev_Source := Some \<lparr>addr_Hostname = [], addr_IP = v, addr_Port = [], addr_Path = []\<rparr>,
         ev_Net := Some IncomingDir\<rparr>)
       (ev_Data ev key)"

definition set_value_of :: "(string \<Rightarrow> Event \<Rightarrow> Event) \<Rightarrow> string \<Rightarrow> Event \<Rightarrow> Event option" where
  "set_value_of f key ev = map_option (\<lambda>v. f v ev) (getValue key ev)"

definition setHow :: "string \<Rightarrow> Event \<Rightarrow> Event option" where
  "setHow = set_value_of set_how"

definition setSubjectPrimary :: "string \<Rightarrow> Event \<Rightarrow> Event option" where
  "setSubjectPrimary = set_value_of set_actor_primary"

definition setSubjectSecondary :: "string \<Rightarrow> Event \<Rightarrow> Event option" where
  "setSubjectSecondary = set_value_of set_actor_secondary"

definition setObjectPrimary :: "string \<Rightarrow> Event \<Rightarrow> Event option" where
  "setObjectPrimary = set_value_of set_object_primary"

definition setObjectSecondary :: "string \<Rightarrow> Event \<Rightarrow> Event option" where
  "setObjectSecondary = set_value_of set_object_secondary"

text \<open>The loops that try keys until one is found, and warn when none is.\<close>

primrec try_keys :: "(string \<Rightarrow> Event \<Rightarrow> Event option) \<Rightarrow> string list \<Rightarrow> Event \<Rightarrow> Event option" where
  "try_keys f [] ev = None"
| "try_keys f (k # ks) ev = (case f k ev of Some ev' \<Rightarrow> Some ev' | None \<Rightarrow> try_keys f ks ev)"

definition set_from :: "string \<Rightarrow> (string \<Rightarrow> Event \<Rightarrow> Event option) \<Rightarrow> string list \<Rightarrow> Event \<Rightarrow> Event" where
  "set_from what f keys ev =
     (if keys = [] then ev
      else case try_keys f keys ev of Some ev' \<Rightarrow> ev' | None \<Rightarrow> warn (WNotFound what keys) ev)"

text \<open>
  The choice of the normalization. With several normalizations for a record type the test of
  \<^verbatim>\<open>has_fields\<close> only continues the loop over the fields, so the last normalization is taken.
\<close>

definition syscall_norm :: "syscall_norms \<Rightarrow> Event \<Rightarrow> norm_ptr option" where
  "syscall_norm sn ev =
     (case ev_Data ev ''syscall'' of
        None \<Rightarrow> None
      | Some syscall \<Rightarrow> (case sn syscall of Some n \<Rightarrow> Some n | None \<Rightarrow> sn ''*''))"

definition choose_norm :: "syscall_norms \<Rightarrow> record_norms \<Rightarrow> Event \<Rightarrow> norm_ptr option" where
  "choose_norm sn rn ev =
     (if ev_Type ev = AUDIT_SYSCALL then syscall_norm sn ev
      else (case rn (type_String (ev_Type ev)) of
              [] \<Rightarrow> None
            | [n] \<Rightarrow> Some n
            | norms \<Rightarrow> foldl (\<lambda>_ n. Some n) None norms))"

definition update_ecs_event :: "(ECSEvent \<Rightarrow> ECSEvent) \<Rightarrow> Event \<Rightarrow> Event" where
  "update_ecs_event f ev = ev\<lparr>ev_ECS := (ev_ECS ev)\<lparr>ecs_Event := f (ecs_Event (ev_ECS ev))\<rparr>\<rparr>"

definition set_categories :: "norm_ptr \<Rightarrow> norm_ptr option \<Rightarrow> Event \<Rightarrow> Event" where
  "set_categories norm syscallNorm ev =
     (let ev = update_ecs_event (\<lambda>e. e\<lparr>ecs_Category := em_Category (norm_ECS (snd norm)),
                 ecs_Type := em_Type (norm_ECS (snd norm))\<rparr>) ev in
      case syscallNorm of
        None \<Rightarrow> ev
      | Some sn \<Rightarrow>
         if fst sn = fst norm then ev
         else update_ecs_event (\<lambda>e. e\<lparr>ecs_Category := ecs_Category e @ em_Category (norm_ECS (snd sn)),
                ecs_Type := ecs_Type e @ em_Type (norm_ECS (snd sn)),
                ecs_Outcome := (if ev_Result ev = ''fail'' then ''failure'' else ecs_Outcome e)\<rparr>) ev)"

definition apply_mapping :: "ECSFieldMapping \<Rightarrow> Event \<Rightarrow> Event" where
  "apply_mapping mp ev =
     (case (map_To mp, map_From mp) of
        (Some to, Some from') \<Rightarrow> to (from' ev) ev
      | _ \<Rightarrow> ev)"

definition set_object :: "ObjectMapping \<Rightarrow> Event \<Rightarrow> (coalesce_error, Event) outcome" where
  "set_object om ev =
     (let ev = set_object_type (om_What om) ev in
      if om_What om = ''file'' \<or> om_What om = ''filesystem'' then setFileObject (om_PathIndex om) ev
      else if om_What om = ''socket'' then Ok (setSocketObject ev)
      else Ok ev)"

definition apply_norm :: "norm_ptr \<Rightarrow> norm_ptr option \<Rightarrow> Event \<Rightarrow> (coalesce_error, Event) outcome" where
  "apply_norm norm syscallNorm ev0 =
     (let n = snd norm; ev = set_action (norm_Action n) (set_categories norm syscallNorm ev0) in
      bind_outcome (set_object (norm_Object n) ev) (\<lambda>ev.
      let ev = set_from ''subject primary'' setSubjectPrimary (sm_Primary (norm_Subject n)) ev;
          ev = set_from ''subject secondary'' setSubjectSecondary (sm_Secondary (norm_Subject n)) ev;
          ev = set_from ''object primary'' setObjectPrimary (om_Primary (norm_Object n)) ev;
          ev = set_from ''object secondary'' setObjectSecondary (om_Secondary (norm_Object n)) ev;
          ev = set_from ''how'' setHow (norm_How n) ev;
          ev = (if ev_Source ev = None then set_from ''source IP'' setSourceIP (norm_SourceIP n) ev else ev)
      in Ok (fold apply_mapping (em_Mappings (norm_ECS n)) ev)))"

definition applyNormalization :: "syscall_norms \<Rightarrow> record_norms \<Rightarrow> Event \<Rightarrow> (coalesce_error, Event) outcome" where
  "applyNormalization sn rn ev0 =
     (let ev = setHowDefaults ev0 in
      case choose_norm sn rn ev of
        None \<Rightarrow> Ok (warn WNoNormalization ev)
      | Some norm \<Rightarrow> apply_norm norm (syscall_norm sn ev) ev)"

definition addProcess :: "Event \<Rightarrow> Event" where
  "addProcess ev =
     (let get = (\<lambda>k. data_or_empty k (ev_Data ev)) in
      fold delete_data [''pid'', ''ppid'', ''proctitle'', ''comm'', ''exe'', ''cwd'']
        (ev\<lparr>ev_Process := (ev_Process ev)\<lparr>proc_PID := get ''pid'', proc_PPID := get ''ppid'',
             proc_Title := get ''proctitle'', proc_Name := get ''comm'', proc_Exe := get ''exe'',
             proc_CWD := get ''cwd''\<rparr>\<rparr>))"

section \<open>CoalesceMessages\<close>

definition coalesce_event ::
  "(int \<Rightarrow> string) \<Rightarrow> range_order \<Rightarrow> AuditMessage list \<Rightarrow> (coalesce_error, Event) outcome \<times> AuditMessage list" where
  "coalesce_event SN rng msgs =
     (case msgs of
        [] \<Rightarrow> (Err MessagesEmpty, [])
      | [m] \<Rightarrow> (case normalizeSimple SN m of (r, m') \<Rightarrow> (r, [m']))
      | _ \<Rightarrow> normalizeCompound SN rng msgs)"

definition CoalesceMessages ::
  "(int \<Rightarrow> string) \<Rightarrow> range_order \<Rightarrow> syscall_norms \<Rightarrow> record_norms \<Rightarrow> AuditMessage list
     \<Rightarrow> (coalesce_error, Event) outcome \<times> AuditMessage list" where
  "CoalesceMessages SN rng sn rn msgs =
     (case coalesce_event SN rng (filterEOE msgs) of
        (r, msgs') \<Rightarrow>
          (bind_outcome r (\<lambda>ev. bind_outcome (applyNormalization sn rn ev) (\<lambda>ev. Ok (addProcess ev))),
           msgs' @ drop (length msgs') msgs))"

end
