(* ===== verification/Aucoalesce_Laws.thy ===== *)
theory Aucoalesce_Laws
  imports Aucoalesce
begin

text \<open>
  Properties of coalescing: when it fails, which message identifies the event, the
  arguments of an \<^verbatim>\<open>EXECVE\<close> record, and the tables of a configuration.
\<close>

section \<open>The fields that identify an event\<close>

text \<open>No operation after \<^verbatim>\<open>newEvent\<close> changes these.\<close>

definition ident :: "Event \<Rightarrow> gotime \<times> u32 \<times> AuditEventType \<times> AuditMessageType \<times> string \<times> string \<times> string list" where
  "ident ev = (ev_Timestamp ev, ev_Sequence ev, ev_Category ev, ev_Type ev, ev_Result ev, ev_Session ev, ev_Tags ev)"

named_theorems ident_simps

lemma ident_setters [ident_simps]:
  "ident (warn w ev) = ident ev" "ident (set_actor_primary v ev) = ident ev"
  "ident (set_actor_secondary v ev) = ident ev" "ident (set_object_primary v ev) = ident ev"
  "ident (set_object_secondary v ev) = ident ev" "ident (set_object_type v ev) = ident ev"
  "ident (set_how v ev) = ident ev" "ident (set_action v ev) = ident ev" "ident (delete_data k ev) = ident ev"
  "ident (update_file f ev) = ident ev" "ident (update_ecs_event g ev) = ident ev" "ident (update_user h ev) = ident ev"
  by (simp_all add: ident_def warn_def set_actor_primary_def set_actor_secondary_def set_object_primary_def
      set_object_secondary_def set_object_type_def set_how_def set_action_def delete_data_def update_file_def
      update_ecs_event_def update_user_def Let_def)

lemma ident_updates [ident_simps]:
  "ident (ev\<lparr>ev_Data := a\<rparr>) = ident ev" "ident (ev\<lparr>ev_Source := b\<rparr>) = ident ev" "ident (ev\<lparr>ev_Dest := c\<rparr>) = ident ev"
  "ident (ev\<lparr>ev_Net := d\<rparr>) = ident ev" "ident (ev\<lparr>ev_Paths := e\<rparr>) = ident ev" "ident (ev\<lparr>ev_Process := f\<rparr>) = ident ev"
  "ident (ev\<lparr>ev_File := g\<rparr>) = ident ev" "ident (ev\<lparr>ev_ECS := h\<rparr>) = ident ev"
  by (simp_all add: ident_def)

lemma ident_when_found [ident_simps]:
  "(\<And>x. ident (f x ev) = ident ev) \<Longrightarrow> ident (when_found v f ev) = ident ev"
  by (simp add: when_found_def split: option.splits)

lemma ident_add_sockaddr [ident_simps]: "ident (add_sockaddr data ev) = ident ev"
  by (auto simp: add_sockaddr_def Let_def ident_simps split: option.splits)

lemma ident_add_execve [ident_simps]: "ident (add_execve data ev) = ident ev"
  by (auto simp: add_execve_def Let_def ident_simps split: option.splits prod.splits)

lemma ident_add_fields [ident_simps]: "ident (add_fields t data ks ev) = ident ev"
  by (induction ks arbitrary: ev) (simp_all add: ident_simps)

lemma ident_add_message: "add_message SN rng m ev = (Ok ev', m') \<Longrightarrow> ident ev' = ident ev"
  by (auto simp: add_message_def addPathRecord_def addSockaddrRecord_def addExecveRecord_def addFieldsToEventData_def
      Let_def ident_simps split: if_splits prod.splits outcome.splits)

lemma ident_add_messages: "add_messages SN rng ms ev = (Ok ev', ms') \<Longrightarrow> ident ev' = ident ev"
proof (induction ms arbitrary: ev ms')
  case (Cons m ms)
  then obtain ev1 m1 where "add_message SN rng m ev = (Ok ev1, m1)" "fst (add_messages SN rng ms ev1) = Ok ev'"
    by (auto simp: Let_def split: prod.splits outcome.splits)
  then show ?case using ident_add_message Cons.IH [of ev1 "snd (add_messages SN rng ms ev1)"] by (metis prod.collapse)
qed simp

lemma ident_file_owner [ident_simps]: "ident (file_owner path ev) = ident ev"
  by (simp add: file_owner_def Let_def addFileSELinuxLabels_def ident_simps)

lemma ident_file_mode: "file_mode v ev = Some ev' \<Longrightarrow> ident ev' = ident ev"
  by (auto simp: file_mode_def Let_def ident_simps split: prod.splits option.splits)

lemma ident_setFileObject: "setFileObject i ev = Ok ev' \<Longrightarrow> ident ev' = ident ev"
  by (auto simp: setFileObject_def Let_def ident_simps dest!: ident_file_mode split: if_splits option.splits)

lemma ident_set_object: "set_object om ev = Ok ev' \<Longrightarrow> ident ev' = ident ev"
  by (auto simp: set_object_def setSocketObject_def Let_def ident_simps dest!: ident_setFileObject
      split: if_splits option.splits)

text \<open>The setters that are tried for a list of keys.\<close>

definition keeps_ident :: "(string \<Rightarrow> Event \<Rightarrow> Event option) \<Rightarrow> bool" where
  "keeps_ident f = (\<forall>k ev ev'. f k ev = Some ev' \<longrightarrow> ident ev' = ident ev)"

lemma keeps_ident_setters [ident_simps]:
  "keeps_ident setHow" "keeps_ident setSubjectPrimary" "keeps_ident setSubjectSecondary"
  "keeps_ident setObjectPrimary" "keeps_ident setObjectSecondary" "keeps_ident setSourceIP"
  by (auto simp: keeps_ident_def setHow_def setSubjectPrimary_def setSubjectSecondary_def setObjectPrimary_def
      setObjectSecondary_def setSourceIP_def set_value_of_def ident_simps)

lemma ident_set_from [ident_simps]:
  assumes "keeps_ident f"
  shows "ident (set_from what f keys ev) = ident ev"
proof -
  have "try_keys f ks ev = Some ev' \<Longrightarrow> ident ev' = ident ev" for ks ev'
    using assms by (induction ks) (auto simp: keeps_ident_def split: option.splits)
  then show ?thesis by (auto simp: set_from_def ident_simps split: option.splits)
qed

text \<open>Mappings whose target is one of the known references, as every loaded one is.\<close>

definition norm_ok :: "Normalization \<Rightarrow> bool" where
  "norm_ok n = (\<forall>mp \<in> set (em_Mappings (norm_ECS n)). case map_To mp of
     None \<Rightarrow> True | Some to \<Rightarrow> \<exists>name. map_of toFieldReferences name = Some to)"

lemma ident_reference: "map_of toFieldReferences name = Some to \<Longrightarrow> ident (to s ev) = ident ev"
  by (auto simp: toFieldReferences_def ident_simps split: if_splits)

lemma ident_mappings:
  "\<forall>mp \<in> set mps. (case map_To mp of None \<Rightarrow> True | Some to \<Rightarrow> \<exists>name. map_of toFieldReferences name = Some to) \<Longrightarrow>
     ident (fold apply_mapping mps ev) = ident ev"
  by (induction mps arbitrary: ev)
     (auto simp: apply_mapping_def ident_reference split: option.splits)

lemma ident_set_categories [ident_simps]: "ident (set_categories n sn ev) = ident ev"
  by (auto simp: set_categories_def Let_def ident_simps split: option.splits)

lemma ident_apply_norm:
  "norm_ok (snd n) \<Longrightarrow> apply_norm n sn ev = Ok ev' \<Longrightarrow> ident ev' = ident ev"
  by (auto simp: apply_norm_def Let_def bind_outcome_Ok norm_ok_def ident_mappings ident_simps dest!: ident_set_object)

lemma ident_setHowDefaults [ident_simps]: "ident (setHowDefaults ev) = ident ev"
  by (auto simp: setHowDefaults_def Let_def ident_simps split: option.splits)

definition norms_ok :: "syscall_norms \<Rightarrow> record_norms \<Rightarrow> bool" where
  "norms_ok sn rn = ((\<forall>s n. sn s = Some n \<longrightarrow> norm_ok (snd n)) \<and> (\<forall>t. \<forall>n \<in> set (rn t). norm_ok (snd n)))"

lemma foldl_last: "foldl (\<lambda>_ n. Some n) a xs = (if xs = [] then a else Some (last xs))"
  by (induction xs arbitrary: a) simp_all

text \<open>With several normalizations for a record type the last is taken, whatever fields it asks for.\<close>

lemma choose_norm_last:
  "ev_Type ev \<noteq> AUDIT_SYSCALL \<Longrightarrow> choose_norm sn rn ev =
     (if rn (type_String (ev_Type ev)) = [] then None else Some (last (rn (type_String (ev_Type ev)))))"
  by (auto simp: choose_norm_def foldl_last split: list.splits)

lemma choose_norm_ok:
  assumes "norms_ok sn rn" and "choose_norm sn rn ev = Some n"
  shows "norm_ok (snd n)"
proof (cases "ev_Type ev = AUDIT_SYSCALL")
  case True
  then show ?thesis using assms by (cases n) (auto simp: choose_norm_def syscall_norm_def norms_ok_def split: option.splits)
next
  case False
  let ?ns = "rn (type_String (ev_Type ev))"
  have "?ns \<noteq> []" "n = last ?ns" using assms(2) choose_norm_last [OF False] by (auto split: if_splits)
  then have "n \<in> set ?ns" by simp
  then show ?thesis using assms(1) unfolding norms_ok_def by blast
qed

lemma ident_addProcess [ident_simps]: "ident (addProcess ev) = ident ev"
  by (simp add: addProcess_def Let_def ident_simps)

lemma ident_applyNormalization:
  "norms_ok sn rn \<Longrightarrow> applyNormalization sn rn ev = Ok ev' \<Longrightarrow> ident ev' = ident ev"
  by (auto simp: applyNormalization_def Let_def ident_simps split: option.splits
      dest!: ident_apply_norm [OF choose_norm_ok])

section \<open>When coalescing fails\<close>

lemma newEvent_no_Err [simp]: "newEvent SN msg src \<noteq> (Err e, m)"
  by (auto simp: newEvent_def split: prod.splits outcome.splits)

lemma add_message_no_Err [simp]: "add_message SN rng m ev \<noteq> (Err e, m')"
  by (auto simp: add_message_def addPathRecord_def addSockaddrRecord_def addExecveRecord_def addFieldsToEventData_def
      Let_def split: prod.splits outcome.splits)

lemma add_messages_no_Err [simp]: "fst (add_messages SN rng ms ev) \<noteq> Err e"
  by (induction ms arbitrary: ev) (auto simp: Let_def split: prod.splits outcome.splits)

lemma setFileObject_no_Err: "setFileObject i ev \<noteq> Err e"
  by (auto simp: setFileObject_def Let_def split: option.splits)

lemma bind_outcome_Err: "bind_outcome m f = Err e \<longleftrightarrow> m = Err e \<or> (\<exists>a. m = Ok a \<and> f a = Err e)"
  by (cases m) auto

lemma applyNormalization_no_Err: "applyNormalization sn rn ev \<noteq> Err e"
  by (auto simp: applyNormalization_def apply_norm_def set_object_def setFileObject_no_Err bind_outcome_Err Let_def
      split: option.splits if_splits)

lemma find_syscall_None: "find_syscall i ms = None \<longleftrightarrow> (\<forall>m \<in> set ms. RecordType m \<noteq> AUDIT_SYSCALL)"
  by (induction ms arbitrary: i) auto

lemma find_syscall_Some:
  "find_syscall i ms = Some (j, m) \<Longrightarrow> m \<in> set ms \<and> RecordType m = AUDIT_SYSCALL"
  by (induction ms arbitrary: i) (auto split: if_splits)

lemma normalizeCompound_Err:
  "fst (normalizeCompound SN rng ms) = Err e \<longleftrightarrow> e = MissingSyscall \<and> (\<forall>m \<in> set ms. RecordType m \<noteq> AUDIT_SYSCALL)"
proof (cases "find_syscall 0 ms")
  case None
  then have "fst (normalizeCompound SN rng ms) = Err MissingSyscall" by (simp add: normalizeCompound_def)
  moreover have "\<forall>m \<in> set ms. RecordType m \<noteq> AUDIT_SYSCALL" using None find_syscall_None by blast
  ultimately show ?thesis by auto
next
  case (Some im)
  obtain i m where im: "im = (i, m)" by (cases im)
  have "\<not> (\<forall>m \<in> set ms. RecordType m \<noteq> AUDIT_SYSCALL)" using Some find_syscall_None [of 0 ms] by simp
  moreover have "fst (normalizeCompound SN rng ms) \<noteq> Err e"
    using add_messages_no_Err by (auto simp: normalizeCompound_def Some im Let_def split: prod.splits outcome.splits)
       (metis fst_conv add_messages_no_Err)+
  ultimately show ?thesis by blast
qed

text \<open>
  (C15) Coalescing fails for no other reason than the two it documents: there is no message besides
  an EOE, or there are several and none is a \<^verbatim>\<open>SYSCALL\<close> message. Messages that cannot be parsed and
  fields that are missing never make it fail.
\<close>

theorem CoalesceMessages_fails_iff:
  "fst (CoalesceMessages SN rng sn rn msgs) = Err e \<longleftrightarrow>
     (filterEOE msgs = [] \<and> e = MessagesEmpty) \<or>
     (2 \<le> length (filterEOE msgs) \<and> e = MissingSyscall \<and> (\<forall>m \<in> set (filterEOE msgs). RecordType m \<noteq> AUDIT_SYSCALL))"
proof -
  let ?ms = "filterEOE msgs"
  have "fst (CoalesceMessages SN rng sn rn msgs) = Err e \<longleftrightarrow> fst (coalesce_event SN rng ?ms) = Err e"
    by (auto simp: CoalesceMessages_def bind_outcome_Err applyNormalization_no_Err split: prod.splits)
  also have "\<dots> \<longleftrightarrow> (?ms = [] \<and> e = MessagesEmpty) \<or>
     (2 \<le> length ?ms \<and> e = MissingSyscall \<and> (\<forall>m \<in> set ?ms. RecordType m \<noteq> AUDIT_SYSCALL))"
  proof (cases ?ms rule: remdups_adj.cases)
    case (2 m)
    then show ?thesis by (auto simp: coalesce_event_def normalizeSimple_def split: prod.splits outcome.splits)
  next
    case (3 m n ms)
    have "coalesce_event SN rng ?ms = normalizeCompound SN rng ?ms" by (simp add: coalesce_event_def 3)
    with 3 show ?thesis by (simp add: normalizeCompound_Err del: list.set)
  qed (auto simp: coalesce_event_def)
  finally show ?thesis .
qed

theorem CoalesceMessages_fails_iff_witness:
  "fst (CoalesceMessages (\<lambda>_. []) (\<lambda>_. []) Map.empty (\<lambda>_. []) [zero_message\<lparr>RecordType := AUDIT_EOE\<rparr>]) = Err MessagesEmpty"
  unfolding CoalesceMessages_fails_iff by (simp add: filterEOE_def)

section \<open>Which message identifies the event\<close>

lemma newEvent_ident:
  "newEvent SN msg src = (Ok ev, m') \<Longrightarrow> ev_Timestamp ev = Timestamp msg \<and> ev_Sequence ev = Sequence msg
     \<and> ev_Category ev = GetAuditEventType (RecordType msg) \<and> ev_Type ev = RecordType msg"
  by (auto simp: newEvent_def event_of_data_def add_data_def blank_event_def warn_def set_actor_primary_def
      set_actor_secondary_def Let_def split: prod.splits outcome.splits option.splits)

lemma normalizeCompound_ident:
  assumes "normalizeCompound SN rng ms = (Ok ev, ms')"
  shows "\<exists>m \<in> set ms. RecordType m = AUDIT_SYSCALL \<and> ev_Timestamp ev = Timestamp m \<and> ev_Sequence ev = Sequence m
    \<and> ev_Category ev = GetAuditEventType AUDIT_SYSCALL \<and> ev_Type ev = AUDIT_SYSCALL"
proof -
  obtain i m ev1 m1 where f: "find_syscall 0 ms = Some (i, m)" and n: "newEvent SN m m = (Ok ev1, m1)"
    and a: "add_messages SN rng (ms[i := write_back m m1]) ev1 = (Ok ev, ms')"
    using assms by (auto simp: normalizeCompound_def Let_def split: option.splits prod.splits outcome.splits)
  have "ident ev = ident ev1" by (rule ident_add_messages [OF a])
  with newEvent_ident [OF n] find_syscall_Some [OF f] show ?thesis by (auto simp: ident_def)
qed

text \<open>
  (C19) An event of several messages has the type, category, time and sequence number of a \<^verbatim>\<open>SYSCALL\<close>
  message, even when it starts with a message of another type: the code means to identify such
  an event by its first message (\<^verbatim>\<open>special\<close>), but the two pointers it keeps are the same variable.
\<close>

theorem compound_event_is_syscall:
  assumes "norms_ok sn rn" and "2 \<le> length (filterEOE msgs)"
    and "CoalesceMessages SN rng sn rn msgs = (Ok ev, msgs')"
  shows "ev_Type ev = AUDIT_SYSCALL \<and> ev_Category ev = EventTypeAuditRule
    \<and> (\<exists>m \<in> set (filterEOE msgs). RecordType m = AUDIT_SYSCALL \<and> ev_Timestamp ev = Timestamp m \<and> ev_Sequence ev = Sequence m)"
proof -
  have "coalesce_event SN rng (filterEOE msgs) = normalizeCompound SN rng (filterEOE msgs)"
    using assms(2) by (auto simp: coalesce_event_def split: list.splits)
  then obtain ev1 ev2 ms where c: "normalizeCompound SN rng (filterEOE msgs) = (Ok ev1, ms)"
    and n: "applyNormalization sn rn ev1 = Ok ev2" and p: "ev = addProcess ev2"
    using assms(3) by (auto simp: CoalesceMessages_def bind_outcome_Ok split: prod.splits)
  have "ident ev = ident ev1" using ident_applyNormalization [OF assms(1) n] by (simp add: p ident_addProcess)
  moreover have "GetAuditEventType AUDIT_SYSCALL = EventTypeAuditRule"
    by (simp add: GetAuditEventType_def in_range_def)
  ultimately show ?thesis using normalizeCompound_ident [OF c] by (auto simp: ident_def)
qed

text \<open>A firewall change with the system call that made it, as messages that were parsed before.\<close>

definition sample_messages :: "AuditMessage list" where
  "sample_messages = [zero_message\<lparr>RecordType := AUDIT_NETFILTER_CFG, msg_data := Some Map.empty\<rparr>,
     zero_message\<lparr>RecordType := AUDIT_SYSCALL, Sequence := 7, msg_data := Some [''result'' \<mapsto> ''success'']\<rparr>]"

theorem compound_event_is_syscall_witness:
  "\<exists>ev msgs'. CoalesceMessages (\<lambda>_. []) (\<lambda>_. []) Map.empty (\<lambda>_. []) sample_messages = (Ok ev, msgs')
     \<and> ev_Type ev = AUDIT_SYSCALL \<and> RecordType (hd sample_messages) = AUDIT_NETFILTER_CFG"
proof -
  define s where "s = sample_messages ! 1"
  have eoe: "filterEOE sample_messages = sample_messages" by (simp add: filterEOE_def sample_messages_def)
  have d: "msg_Data (\<lambda>_. []) (sample_messages ! 0) = (Ok Map.empty, sample_messages ! 0)"
    "msg_Data (\<lambda>_. []) s = (Ok [''result'' \<mapsto> ''success''], s)"
    by (simp_all add: msg_Data_def Data_def sample_messages_def zero_message_def s_def)
  have f: "find_syscall 0 sample_messages = Some (1, s)" by (simp add: sample_messages_def s_def)
  obtain ev1 m1 where n: "newEvent (\<lambda>_. []) s s = (Ok ev1, m1)" by (simp add: newEvent_def d)
  have "sample_messages[1 := x] = [sample_messages ! 0, x]" for x by (simp add: sample_messages_def)
  moreover have "RecordType (sample_messages ! 0) = AUDIT_NETFILTER_CFG" "RecordType (write_back s m1) = AUDIT_SYSCALL"
    by (simp_all add: sample_messages_def write_back_def s_def)
  ultimately have a: "fst (add_messages (\<lambda>_. []) (\<lambda>_. []) (sample_messages[1 := write_back s m1]) ev1) = Ok (delete_data ''items'' ev1)"
    by (simp add: add_message_def addFieldsToEventData_def d)
  have "coalesce_event (\<lambda>_. []) (\<lambda>_. []) ms = normalizeCompound (\<lambda>_. []) (\<lambda>_. []) ms" if "length ms = 2" for ms
    using that by (auto simp: coalesce_event_def split: list.splits)
  moreover have "length sample_messages = 2" by (simp add: sample_messages_def)
  moreover obtain ms where "add_messages (\<lambda>_. []) (\<lambda>_. []) (sample_messages[1 := write_back s m1]) ev1
      = (Ok (delete_data ''items'' ev1), ms)" using a by (metis prod.collapse)
  ultimately have "coalesce_event (\<lambda>_. []) (\<lambda>_. []) sample_messages = (Ok (delete_data ''items'' ev1), ms)"
    by (simp add: normalizeCompound_def f n Let_def)
  moreover have "applyNormalization Map.empty (\<lambda>_. []) e = Ok (warn WNoNormalization (setHowDefaults e))" for e
    by (simp add: applyNormalization_def choose_norm_def syscall_norm_def Let_def split: option.splits)
  ultimately obtain ev msgs' where c: "CoalesceMessages (\<lambda>_. []) (\<lambda>_. []) Map.empty (\<lambda>_. []) sample_messages = (Ok ev, msgs')"
    by (simp add: CoalesceMessages_def eoe)
  have "norms_ok Map.empty (\<lambda>_. [])" by (simp add: norms_ok_def)
  moreover have "2 \<le> length (filterEOE sample_messages)" by (simp add: sample_messages_def filterEOE_def)
  ultimately show ?thesis using compound_event_is_syscall [OF _ _ c] c by (auto simp: sample_messages_def)
qed

section \<open>Arguments of EXECVE\<close>

lemma collect_args_eq:
  "collect_args d n i =
     (case find (\<lambda>j. d (execve_key j) = None) [i..<i + n] of
        None \<Rightarrow> (map (\<lambda>j. the (d (execve_key j))) [i..<i + n], None)
      | Some j \<Rightarrow> (map (\<lambda>j. the (d (execve_key j))) [i..<j], Some (execve_key j)))"
proof (induction n arbitrary: i)
  case (Suc n)
  have upt: "[i..<i + Suc n] = i # [Suc i..<Suc i + n]" by (simp add: upt_conv_Cons)
  have "[i..<j] = i # [Suc i..<j]" if "find (\<lambda>j. d (execve_key j) = None) [Suc i..<Suc i + n] = Some j" for j
  proof -
    from that have "j \<in> set [Suc i..<Suc i + n]" by (auto simp: find_Some_iff simp del: upt_Suc)
    then have "i < j" by auto
    then show ?thesis by (rule upt_conv_Cons)
  qed
  then show ?case unfolding upt using Suc.IH [of "Suc i"] by (auto simp: Let_def split: option.splits)
qed simp

text \<open>
  An \<^verbatim>\<open>EXECVE\<close> record that says it has \<open>n\<close> arguments gives the process the arguments \<^verbatim>\<open>a0\<close> to \<open>a(n-1)\<close>
  in order, or, when one of them is missing, no arguments and a warning with the first one missing.
\<close>

theorem execve_arguments:
  assumes "d ''argc'' = Some (format_uint n)" and "n < 2 ^ 32"
  shows "add_execve d ev = (let ev' = ev\<lparr>ev_Data := (ev_Data ev)(''argc'' \<mapsto> format_uint n)\<rparr> in
    case find (\<lambda>i. d (execve_key i) = None) [0..<n] of
      None \<Rightarrow> ev'\<lparr>ev_Process := (ev_Process ev)\<lparr>proc_Args := map (\<lambda>i. the (d (execve_key i))) [0..<n]\<rparr>\<rparr>
    | Some i \<Rightarrow> warn (WNoArg (execve_key i)) ev')"
  using assms collect_args_eq [of d n 0]
  by (simp add: add_execve_def parse_uint_format_uint Let_def split: option.splits)

theorem execve_arguments_witness:
  "proc_Args (ev_Process (add_execve [''argc'' \<mapsto> ''2'', ''a0'' \<mapsto> ''ls'', ''a1'' \<mapsto> ''-l''] (blank_event zero_message)))
     = [''ls'', ''-l'']"
proof -
  have f: "format_uint 2 = ''2''" "format_uint 0 = ''0''" "format_uint 1 = ''1''"
    by code_simp+
  have "[0..<2] = [0, 1 :: nat]" by (simp add: upt_conv_Cons)
  then show ?thesis
    using f execve_arguments [of "[''argc'' \<mapsto> ''2'', ''a0'' \<mapsto> ''ls'', ''a1'' \<mapsto> ''-l'']" 2 "blank_event zero_message"]
    by (simp add: execve_key_def Let_def)
qed

section \<open>File modes\<close>

text \<open>
  The mode of a \<^verbatim>\<open>PATH\<close> record is the kernel's, whose type bits are below those of \<^verbatim>\<open>os.FileMode\<close>, so
  every object is a file, directories and devices too.
\<close>

lemma kernel_mode_is_file:
  assumes "n < 2 ^ 19"
  shows "mode_type (of_nat n) = Some ''file''"
proof -
  have t: "ModeType = push_bit 19 0x11E5" by (simp add: push_bit_eq_mult)
  have "take_bit 19 n = n" using assms by (simp add: take_bit_eq_mod)
  then have n: "(of_nat n :: u32) = take_bit 19 (of_nat n)" by (metis take_bit_of_nat)
  have "take_bit 19 x AND push_bit 19 y = 0" for x y :: u32
    by (rule bit_eqI) (auto simp: bit_simps)
  then have "(of_nat n :: u32) AND ModeType = 0" by (metis n t)
  then show ?thesis by (simp add: mode_type_def)
qed

section \<open>The tables of a configuration\<close>

lemma load_syscalls_Ok:
  "load_syscalls n ss tab = Ok tab' \<longleftrightarrow>
     distinct ss \<and> (\<forall>s \<in> set ss. tab s = None) \<and> tab' = (\<lambda>s. if s \<in> set ss then Some n else tab s)"
proof (induction ss arbitrary: tab)
  case (Cons s ss)
  show ?case by (cases "tab s = None") (auto simp: Cons.IH fun_eq_iff simp del: not_None_eq)
qed auto

text \<open>Only the last normalization of a record type may have no \<^verbatim>\<open>has_fields\<close>.\<close>

definition last_only :: "norm_ptr list \<Rightarrow> bool" where
  "last_only ps = (\<forall>p \<in> set (butlast ps). norm_HasFields (snd p) \<noteq> [])"

lemma load_records_Ok:
  "load_records n rs tab = Ok tab' \<Longrightarrow> (\<forall>t. last_only (tab t)) \<Longrightarrow>
     (\<forall>t. tab' t = tab t @ replicate (count_list rs t) n) \<and> (\<forall>t. last_only (tab' t))"
proof (induction rs arbitrary: tab)
  case (Cons r rs)
  have ok: "\<forall>p \<in> set (tab r). norm_HasFields (snd p) \<noteq> []"
    and rest: "load_records n rs (tab(r := tab r @ [n])) = Ok tab'"
    using Cons.prems(1) by (auto split: if_splits)
  have q: "\<forall>t. last_only ((tab(r := tab r @ [n])) t)" using ok Cons.prems(2) by (simp add: last_only_def)
  note IH = Cons.IH [OF rest q]
  then have "tab' t = tab t @ replicate (count_list (r # rs) t) n" for t by simp
  with IH show ?case by blast
qed simp

lemma load_norms_Ok:
  assumes "load_norms ps st rt = Ok (st', rt')" and "\<forall>t. last_only (rt t)"
  shows "(\<forall>s p. st' s = Some p \<longleftrightarrow> st s = Some p \<or> (p \<in> set ps \<and> s \<in> set (norm_Syscalls (snd p))))
    \<and> distinct (concat (map (norm_Syscalls \<circ> snd) ps)) \<and> (\<forall>p \<in> set ps. \<forall>s \<in> set (norm_Syscalls (snd p)). st s = None)
    \<and> (\<forall>t. rt' t = rt t @ concat (map (\<lambda>p. replicate (count_list (norm_RecordTypes (snd p)) t) p) ps))
    \<and> (\<forall>t. last_only (rt' t))"
  using assms
proof (induction ps arbitrary: st rt)
  case (Cons p ps)
  obtain st1 rt1 where l: "load_syscalls p (norm_Syscalls (snd p)) st = Ok st1"
    "load_records p (norm_RecordTypes (snd p)) rt = Ok rt1" "load_norms ps st1 rt1 = Ok (st', rt')"
    using Cons.prems(1) by (auto simp: bind_outcome_Ok)
  have s1: "distinct (norm_Syscalls (snd p))" "\<forall>s \<in> set (norm_Syscalls (snd p)). st s = None"
    "st1 = (\<lambda>s. if s \<in> set (norm_Syscalls (snd p)) then Some p else st s)"
    using l(1) unfolding load_syscalls_Ok by auto
  have r1: "\<forall>t. rt1 t = rt t @ replicate (count_list (norm_RecordTypes (snd p)) t) p" "\<forall>t. last_only (rt1 t)"
    using load_records_Ok [OF l(2) Cons.prems(2)] by auto
  note IH = Cons.IH [OF l(3) r1(2)]
  have fresh: "\<forall>q \<in> set ps. \<forall>s \<in> set (norm_Syscalls (snd q)). s \<notin> set (norm_Syscalls (snd p)) \<and> st s = None"
    using IH unfolding s1(3) by (metis option.distinct(1))
  have new: "st' s = Some q \<longleftrightarrow> st1 s = Some q \<or> (q \<in> set ps \<and> s \<in> set (norm_Syscalls (snd q)))" for s q
    using IH by blast
  have "st' s = Some q \<longleftrightarrow> st s = Some q \<or> (q \<in> set (p # ps) \<and> s \<in> set (norm_Syscalls (snd q)))" for s q
    unfolding new s1(3) using fresh s1(2) by auto
  moreover have "distinct (concat (map (norm_Syscalls \<circ> snd) (p # ps)))" using IH s1(1) fresh by (auto simp: comp_def)
  moreover have "\<forall>q \<in> set (p # ps). \<forall>s \<in> set (norm_Syscalls (snd q)). st s = None" using fresh s1(2) by auto
  moreover have "rt' t = rt t @ concat (map (\<lambda>p. replicate (count_list (norm_RecordTypes (snd p)) t) p) (p # ps))" for t
    using IH r1(1) by simp
  moreover have "\<forall>t. last_only (rt' t)" using IH by blast
  ultimately show ?case by blast
qed simp

lemma enumerated_iff: "(i, n) \<in> set (zip [0..<length ns] ns) \<longleftrightarrow> i < length ns \<and> n = ns ! i"
  by (auto simp: set_zip intro!: exI [of _ i])

text \<open>
  (C28) When a configuration is loaded, a system call has exactly the normalization that lists it, no
  system call is listed twice, and a record type has the normalizations that list it, in order,
  of which only the last may apply unconditionally.
\<close>

theorem LoadNormalizationConfig_tables:
  assumes "unmarshal b = Ok ns" and "LoadNormalizationConfig unmarshal b = Ok (st, rt)"
  shows "(\<forall>s i n. st s = Some (i, n) \<longleftrightarrow> i < length ns \<and> n = ns ! i \<and> s \<in> set (norm_Syscalls n))
    \<and> distinct (concat (map norm_Syscalls ns))
    \<and> (\<forall>t. rt t = concat (map (\<lambda>p. replicate (count_list (norm_RecordTypes (snd p)) t) p) (zip [0..<length ns] ns)))
    \<and> (\<forall>t. \<forall>p \<in> set (butlast (rt t)). norm_HasFields (snd p) \<noteq> [])"
proof -
  have "map (norm_Syscalls \<circ> snd) (zip [0..<length ns] ns) = map norm_Syscalls ns"
    by (simp flip: map_map)
  moreover have "load_norms (zip [0..<length ns] ns) Map.empty (\<lambda>_. []) = Ok (st, rt)"
    using assms by (simp add: LoadNormalizationConfig_def)
  ultimately show ?thesis
    using load_norms_Ok [of "zip [0..<length ns] ns" Map.empty "\<lambda>_. []" st rt]
    by (auto simp: enumerated_iff last_only_def)
qed

definition sample_norm :: "string list \<Rightarrow> string list \<Rightarrow> string list \<Rightarrow> Normalization" where
  "sample_norm syscalls types flds = \<lparr>norm_Subject = \<lparr>sm_Primary = [], sm_Secondary = []\<rparr>, norm_Action = ''opened-file'',
     norm_Object = \<lparr>om_Primary = [], om_Secondary = [], om_What = ''file'', om_PathIndex = 0\<rparr>, norm_How = [],
     norm_RecordTypes = types, norm_Syscalls = syscalls, norm_SourceIP = [], norm_HasFields = flds,
     norm_ECS = \<lparr>em_Category = [''file''], em_Type = [], em_Mappings = []\<rparr>\<rparr>"

theorem LoadNormalizationConfig_tables_witness:
  "\<exists>st rt. LoadNormalizationConfig (\<lambda>_. Ok [sample_norm [''open'', ''creat''] [] [], sample_norm [] [''AVC''] [''seresult'']]) [] = Ok (st, rt)
     \<and> st ''creat'' = Some (0, sample_norm [''open'', ''creat''] [] [])
     \<and> rt ''AVC'' = [(1, sample_norm [] [''AVC''] [''seresult''])]"
proof -
  let ?ns = "[sample_norm [''open'', ''creat''] [] [], sample_norm [] [''AVC''] [''seresult'']]"
  let ?u = "\<lambda>_ :: bytes. Ok ?ns :: (norm_error, Normalization list) outcome"
  have u: "?u [] = Ok ?ns" by simp
  obtain st rt where l: "LoadNormalizationConfig ?u [] = Ok (st, rt)"
    by (simp add: LoadNormalizationConfig_def sample_norm_def)
  from LoadNormalizationConfig_tables [OF u l] have "st ''creat'' = Some (0, sample_norm [''open'', ''creat''] [] [])"
    "rt ''AVC'' = [(1, sample_norm [] [''AVC''] [''seresult''])]"
    by (simp_all add: sample_norm_def)
  with l show ?thesis by blast
qed

end
