(* ===== verification/Aucoalesce_Lookup.thy ===== *)
theory Aucoalesce_Lookup
  imports Aucoalesce
begin

text \<open>
  \<^verbatim>\<open>id_lookup.go\<close>: the caches for user and group names and the resolution of the ids of an event.
  Times are nanoseconds since the epoch. The user and group databases are parameters, and so is
  the clock, whose \<open>n\<close>-th reading is \<open>clock n\<close>; the state counts the readings, two for each lookup. The mutex of a cache
  is held for the whole of an operation, so operations are atomic.
\<close>

section \<open>Caches\<close>

record stringItem =
  item_timeout :: int
  item_value :: string

record stringCache =
  cache_expiration :: int
  cache_data :: "string \<rightharpoonup> stringItem"

definition noExpiration :: int where
  "noExpiration = 2 ^ 63 - 2"

definition cacheTimeout :: int where
  "cacheTimeout = 60 * 1000000000"

definition isExpired :: "int \<Rightarrow> stringItem \<Rightarrow> bool" where
  "isExpired now i = (now > item_timeout i)"

text \<open>\<^verbatim>\<open>lookup\<close> with the time of the test and the time at which the result is stored.\<close>

definition cache_lookup :: "(string \<Rightarrow> string) \<Rightarrow> int \<Rightarrow> int \<Rightarrow> string \<Rightarrow> stringCache \<Rightarrow> string \<times> stringCache" where
  "cache_lookup lookupFn now now' key c =
     (if key = [] \<or> key = ''unset'' then ([], c)
      else
        (let resolve = (let resolved = lookupFn key in
               (resolved, c\<lparr>cache_data := (cache_data c)(key \<mapsto>
                  \<lparr>item_timeout = now' + cache_expiration c, item_value = resolved\<rparr>)\<rparr>)) in
         case cache_data c key of
           Some item \<Rightarrow> if isExpired now item then resolve else (item_value item, c)
         | None \<Rightarrow> resolve))"

definition hardcode :: "string \<Rightarrow> string \<Rightarrow> stringCache \<Rightarrow> stringCache" where
  "hardcode key value c =
     c\<lparr>cache_data := (cache_data c)(key \<mapsto> \<lparr>item_timeout = noExpiration, item_value = value\<rparr>)\<rparr>"

section \<open>Entity caches\<close>

text \<open>A database maps ids to names and names to ids; a lookup that fails gives the empty string.\<close>

record database =
  db_name :: "string \<rightharpoonup> string"
  db_id :: "string \<rightharpoonup> string"

definition or_empty :: "(string \<rightharpoonup> string) \<Rightarrow> string \<Rightarrow> string" where
  "or_empty f s = (case f s of None \<Rightarrow> [] | Some v \<Rightarrow> v)"

record EntityCache =
  byID :: stringCache
  byName :: stringCache

text \<open>\<^verbatim>\<open>NewUserCache\<close> and \<^verbatim>\<open>NewGroupCache\<close> differ in the database only.\<close>

definition NewEntityCache :: "int \<Rightarrow> EntityCache" where
  "NewEntityCache expiration =
     \<lparr>byID = \<lparr>cache_expiration = expiration,
        cache_data = [''0'' \<mapsto> \<lparr>item_timeout = noExpiration, item_value = ''root''\<rparr>]\<rparr>,
      byName = \<lparr>cache_expiration = expiration,
        cache_data = [''root'' \<mapsto> \<lparr>item_timeout = noExpiration, item_value = ''0''\<rparr>]\<rparr>\<rparr>"

text \<open>The two caches and the number of clock readings so far.\<close>

record lookup_state =
  users :: EntityCache
  groups :: EntityCache
  ticks :: nat

datatype entity = UserEntity | GroupEntity

definition entity_cache :: "entity \<Rightarrow> lookup_state \<Rightarrow> EntityCache" where
  "entity_cache e st = (case e of UserEntity \<Rightarrow> users st | GroupEntity \<Rightarrow> groups st)"

definition set_cache :: "entity \<Rightarrow> EntityCache \<Rightarrow> lookup_state \<Rightarrow> lookup_state" where
  "set_cache e c st = (case e of UserEntity \<Rightarrow> st\<lparr>users := c\<rparr> | GroupEntity \<Rightarrow> st\<lparr>groups := c\<rparr>)"

text \<open>The environment of the lookups: a clock and the databases.\<close>

record lookup_env =
  env_clock :: "nat \<Rightarrow> int"
  env_db :: "entity \<Rightarrow> database"

definition LookupID :: "lookup_env \<Rightarrow> entity \<Rightarrow> string \<Rightarrow> lookup_state \<Rightarrow> string \<times> lookup_state" where
  "LookupID E e uid st =
     (let r = cache_lookup (or_empty (db_name (env_db E e))) (env_clock E (ticks st)) (env_clock E (Suc (ticks st)))
                uid (byID (entity_cache e st)) in
      (fst r, (set_cache e ((entity_cache e st)\<lparr>byID := snd r\<rparr>) st)\<lparr>ticks := ticks st + 2\<rparr>))"

definition LookupName :: "lookup_env \<Rightarrow> entity \<Rightarrow> string \<Rightarrow> lookup_state \<Rightarrow> string \<times> lookup_state" where
  "LookupName E e name st =
     (let r = cache_lookup (or_empty (db_id (env_db E e))) (env_clock E (ticks st)) (env_clock E (Suc (ticks st)))
                name (byName (entity_cache e st)) in
      (fst r, (set_cache e ((entity_cache e st)\<lparr>byName := snd r\<rparr>) st)\<lparr>ticks := ticks st + 2\<rparr>))"

definition HardcodeEntity :: "entity \<Rightarrow> string \<Rightarrow> string \<Rightarrow> lookup_state \<Rightarrow> lookup_state" where
  "HardcodeEntity e ident name st =
     (let c = entity_cache e st in
      set_cache e (c\<lparr>byID := hardcode ident name (byID c), byName := hardcode name ident (byName c)\<rparr>) st)"

text \<open>\<^verbatim>\<open>HardcodeUsers\<close> and \<^verbatim>\<open>HardcodeGroups\<close>, for pairs of id and name.\<close>

definition Hardcode :: "entity \<Rightarrow> (string \<times> string) list \<Rightarrow> lookup_state \<Rightarrow> lookup_state" where
  "Hardcode e us st = fold (\<lambda>(ident, name). HardcodeEntity e ident name) us st"

section \<open>Resolution\<close>

text \<open>
  The operations take the two lookups as parameters, each with a state of its own choosing: the
  code passes the caches, and the specification a lookup without a state.
\<close>

type_synonym 's finder = "entity \<Rightarrow> string \<Rightarrow> 's \<Rightarrow> string \<times> 's"

definition entity_lookup :: "'s finder \<Rightarrow> 's finder \<Rightarrow> entity \<Rightarrow> ECSEntityData \<Rightarrow> 's \<Rightarrow> ECSEntityData \<times> 's" where
  "entity_lookup findID findName e d st =
     (if (ent_ID d = []) = (ent_Name d = []) then (d, st)
      else if ent_ID d \<noteq> [] then (case findID e (ent_ID d) st of (v, st) \<Rightarrow> (d\<lparr>ent_Name := v\<rparr>, st))
      else (case findName e (ent_Name d) st of (v, st) \<Rightarrow> (d\<lparr>ent_ID := v\<rparr>, st)))"

definition ecs_lookup :: "'s finder \<Rightarrow> 's finder \<Rightarrow> entity \<Rightarrow> ECSEntity \<Rightarrow> 's \<Rightarrow> ECSEntity \<times> 's" where
  "ecs_lookup findID findName e u st =
     (let (a, st) = entity_lookup findID findName e (ent_Data u) st;
          (b, st) = entity_lookup findID findName e (ent_Effective u) st;
          (c, st) = entity_lookup findID findName e (ent_Target u) st;
          (d, st) = entity_lookup findID findName e (ent_Changes u) st
      in (\<lparr>ent_Data = a, ent_Effective = b, ent_Target = c, ent_Changes = d\<rparr>, st))"

text \<open>The name for an id of the event is looked up among the users or the groups.\<close>

definition id_entity :: "string \<Rightarrow> entity option" where
  "id_entity key = (if has_suffix key ''uid'' then Some UserEntity
     else if has_suffix key ''gid'' then Some GroupEntity else None)"

primrec resolve_names ::
  "'s finder \<Rightarrow> (string \<rightharpoonup> string) \<Rightarrow> string list \<Rightarrow> (string \<rightharpoonup> string) \<Rightarrow> 's \<Rightarrow> (string \<rightharpoonup> string) \<times> 's" where
  "resolve_names findID ids [] names st = (names, st)"
| "resolve_names findID ids (k # ks) names st =
     (case (id_entity k, ids k) of
        (Some e, Some i) \<Rightarrow>
          (case findID e i st of (v, st) \<Rightarrow> resolve_names findID ids ks (if v \<noteq> [] then names(k \<mapsto> v) else names) st)
      | _ \<Rightarrow> resolve_names findID ids ks names st)"

definition resolve_actor :: "'s finder \<Rightarrow> Event \<Rightarrow> 's \<Rightarrow> Event \<times> 's" where
  "resolve_actor findID ev st =
     (let a = sum_Actor (ev_Summary ev);
          (v, st) = findID UserEntity (act_Primary a) st;
          ev = (if v \<noteq> [] then set_actor_primary v ev else ev);
          (v, st) = findID UserEntity (act_Secondary a) st;
          ev = (if v \<noteq> [] then set_actor_secondary v ev else ev)
      in (ev, st))"

definition resolve_file :: "'s finder \<Rightarrow> Event \<Rightarrow> 's \<Rightarrow> Event \<times> 's" where
  "resolve_file findID ev st =
     (case ev_File ev of
        None \<Rightarrow> (ev, st)
      | Some f \<Rightarrow>
         (let (f, st) = (if file_UID f \<noteq> [] then (case findID UserEntity (file_UID f) st of (v, st) \<Rightarrow> (f\<lparr>file_Owner := v\<rparr>, st))
                         else (f, st));
              (f, st) = (if file_GID f \<noteq> [] then (case findID GroupEntity (file_GID f) st of (v, st) \<Rightarrow> (f\<lparr>file_Group := v\<rparr>, st))
                         else (f, st))
          in (ev\<lparr>ev_File := Some f\<rparr>, st)))"

text \<open>The names replace those of the event only when there are any.\<close>

definition resolve_user :: "'s finder \<Rightarrow> range_order \<Rightarrow> Event \<Rightarrow> 's \<Rightarrow> Event \<times> 's" where
  "resolve_user findID rng ev st =
     (let ids = user_IDs (ev_User ev); (names, st) = resolve_names findID ids (rng ids) Map.empty st in
      (if rng ids = [] \<or> (\<forall>k \<in> set (rng ids). names k = None) then ev
       else ev\<lparr>ev_User := (ev_User ev)\<lparr>user_Names := names\<rparr>\<rparr>, st))"

definition ResolveIDsWith :: "'s finder \<Rightarrow> 's finder \<Rightarrow> range_order \<Rightarrow> Event \<Rightarrow> 's \<Rightarrow> Event \<times> 's" where
  "ResolveIDsWith findID findName rng ev st =
     (let (ev, st) = resolve_actor findID ev st;
          (ev, st) = resolve_user findID rng ev st;
          (ev, st) = resolve_file findID ev st;
          (u, st) = ecs_lookup findID findName UserEntity (ecs_User (ev_ECS ev)) st;
          (g, st) = entity_lookup findID findName GroupEntity (ecs_Group (ev_ECS ev)) st
      in (ev\<lparr>ev_ECS := (ev_ECS ev)\<lparr>ecs_User := u, ecs_Group := g\<rparr>\<rparr>, st))"

definition ResolveIDsFromCaches :: "lookup_env \<Rightarrow> range_order \<Rightarrow> Event \<Rightarrow> lookup_state \<Rightarrow> Event \<times> lookup_state" where
  "ResolveIDsFromCaches E = ResolveIDsWith (LookupID E) (LookupName E)"

end
