(* ===== verification/Aucoalesce_Lookup_Laws.thy ===== *)
theory Aucoalesce_Lookup_Laws
  imports Aucoalesce_Lookup
begin

text \<open>
  Properties of the id caches: an answer is never older than the expiration time, and while the
  databases do not change, resolving the ids of events through the caches is the same as asking
  the databases each time.
\<close>

section \<open>Lookups that answer as a function\<close>

text \<open>
  What the resolution of ids relies on: the lookups keep an invariant of their state and answer
  as two functions of the entity and the key do.
\<close>

locale resolver =
  fixes findID findName :: "'s finder" and inv :: "'s \<Rightarrow> bool" and nameOf idOf :: "entity \<Rightarrow> string \<Rightarrow> string"
  assumes find_ID: "inv st \<Longrightarrow> fst (findID e k st) = nameOf e k"
    and keep_ID: "inv st \<Longrightarrow> inv (snd (findID e k st))"
    and find_Name: "inv st \<Longrightarrow> fst (findName e k st) = idOf e k"
    and keep_Name: "inv st \<Longrightarrow> inv (snd (findName e k st))"

definition answer :: "(entity \<Rightarrow> string \<Rightarrow> string) \<Rightarrow> unit finder" where
  "answer f e k st = (f e k, ())"

context resolver begin

lemma findID_cases: "inv st \<Longrightarrow> \<exists>st'. findID e k st = (nameOf e k, st') \<and> inv st'"
  using find_ID [of st e k] keep_ID [of st e k] by (metis prod.collapse)

lemma findName_cases: "inv st \<Longrightarrow> \<exists>st'. findName e k st = (idOf e k, st') \<and> inv st'"
  using find_Name [of st e k] keep_Name [of st e k] by (metis prod.collapse)

definition agrees :: "('a \<times> 's) \<Rightarrow> ('a \<times> unit) \<Rightarrow> bool" where
  "agrees r r' = (fst r = fst r' \<and> inv (snd r))"

lemma entity_lookup_agrees:
  "inv st \<Longrightarrow> agrees (entity_lookup findID findName e d st) (entity_lookup (answer nameOf) (answer idOf) e d ())"
  using findID_cases [of st e "ent_ID d"] findName_cases [of st e "ent_Name d"]
  by (auto simp: agrees_def entity_lookup_def answer_def)

lemma agrees_step: "agrees r r' \<Longrightarrow> \<exists>a st'. r = (a, st') \<and> r' = (a, ()) \<and> inv st'"
  unfolding agrees_def by (metis old.unit.exhaust prod.collapse)

lemma ecs_lookup_agrees:
  assumes "inv st"
  shows "agrees (ecs_lookup findID findName e u st) (ecs_lookup (answer nameOf) (answer idOf) e u ())"
proof -
  obtain a s1 where 1: "entity_lookup findID findName e (ent_Data u) st = (a, s1)"
    "entity_lookup (answer nameOf) (answer idOf) e (ent_Data u) () = (a, ())" "inv s1"
    using agrees_step [OF entity_lookup_agrees [OF assms]] by blast
  obtain b s2 where 2: "entity_lookup findID findName e (ent_Effective u) s1 = (b, s2)"
    "entity_lookup (answer nameOf) (answer idOf) e (ent_Effective u) () = (b, ())" "inv s2"
    using agrees_step [OF entity_lookup_agrees [OF 1(3)]] by blast
  obtain c s3 where 3: "entity_lookup findID findName e (ent_Target u) s2 = (c, s3)"
    "entity_lookup (answer nameOf) (answer idOf) e (ent_Target u) () = (c, ())" "inv s3"
    using agrees_step [OF entity_lookup_agrees [OF 2(3)]] by blast
  obtain d s4 where 4: "entity_lookup findID findName e (ent_Changes u) s3 = (d, s4)"
    "entity_lookup (answer nameOf) (answer idOf) e (ent_Changes u) () = (d, ())" "inv s4"
    using agrees_step [OF entity_lookup_agrees [OF 3(3)]] by blast
  from 1 2 3 4 show ?thesis by (simp add: ecs_lookup_def agrees_def)
qed

lemma resolve_actor_agrees:
  assumes "inv st"
  shows "agrees (resolve_actor findID ev st) (resolve_actor (answer nameOf) ev ())"
proof -
  let ?a = "sum_Actor (ev_Summary ev)"
  obtain s1 where 1: "findID UserEntity (act_Primary ?a) st = (nameOf UserEntity (act_Primary ?a), s1)" "inv s1"
    using findID_cases [OF assms] by blast
  obtain s2 where "findID UserEntity (act_Secondary ?a) s1 = (nameOf UserEntity (act_Secondary ?a), s2)" "inv s2"
    using findID_cases [OF 1(2)] by blast
  with 1 show ?thesis by (simp add: resolve_actor_def agrees_def answer_def Let_def)
qed

lemma resolve_names_agrees:
  "inv st \<Longrightarrow> agrees (resolve_names findID ids ks names st) (resolve_names (answer nameOf) ids ks names ())"
proof (induction ks arbitrary: names st)
  case (Cons k ks)
  show ?case
  proof (cases "id_entity k = None \<or> ids k = None")
    case False
    then obtain e i where e: "id_entity k = Some e" "ids k = Some i" by auto
    obtain s1 where "findID e i st = (nameOf e i, s1)" "inv s1" using findID_cases [OF Cons.prems] by blast
    with e Cons.IH show ?thesis by (simp add: answer_def)
  qed (use Cons in \<open>auto split: option.splits\<close>)
qed (simp add: agrees_def)

lemma resolve_user_agrees:
  assumes "inv st"
  shows "agrees (resolve_user findID rng ev st) (resolve_user (answer nameOf) rng ev ())"
proof -
  let ?ids = "user_IDs (ev_User ev)"
  obtain names s1 where "resolve_names findID ?ids (rng ?ids) Map.empty st = (names, s1)"
    "resolve_names (answer nameOf) ?ids (rng ?ids) Map.empty () = (names, ())" "inv s1"
    using agrees_step [OF resolve_names_agrees [OF assms]] by blast
  then show ?thesis by (simp add: resolve_user_def agrees_def Let_def)
qed

lemma resolve_file_agrees:
  assumes "inv st"
  shows "agrees (resolve_file findID ev st) (resolve_file (answer nameOf) ev ())"
proof (cases "ev_File ev")
  case None
  then show ?thesis using assms by (simp add: resolve_file_def agrees_def)
next
  case (Some f)
  let ?u = "file_UID f" and ?g = "file_GID f"
  obtain s1 where 1: "findID UserEntity ?u st = (nameOf UserEntity ?u, s1)" "inv s1"
    using findID_cases [OF assms] by blast
  obtain s2 where 2: "findID GroupEntity ?g s1 = (nameOf GroupEntity ?g, s2)" "inv s2"
    using findID_cases [OF 1(2)] by blast
  obtain s3 where 3: "findID GroupEntity ?g st = (nameOf GroupEntity ?g, s3)" "inv s3"
    using findID_cases [OF assms] by blast
  show ?thesis
    using assms 1 2 3 Some by (cases "?u = []"; cases "?g = []") (simp_all add: resolve_file_def agrees_def answer_def)
qed

lemma ResolveIDs_agrees:
  assumes "inv st"
  shows "agrees (ResolveIDsWith findID findName rng ev st) (ResolveIDsWith (answer nameOf) (answer idOf) rng ev ())"
proof -
  obtain e1 s1 where 1: "resolve_actor findID ev st = (e1, s1)" "resolve_actor (answer nameOf) ev () = (e1, ())" "inv s1"
    using agrees_step [OF resolve_actor_agrees [OF assms]] by blast
  obtain e2 s2 where 2: "resolve_user findID rng e1 s1 = (e2, s2)" "resolve_user (answer nameOf) rng e1 () = (e2, ())" "inv s2"
    using agrees_step [OF resolve_user_agrees [OF 1(3)]] by blast
  obtain e3 s3 where 3: "resolve_file findID e2 s2 = (e3, s3)" "resolve_file (answer nameOf) e2 () = (e3, ())" "inv s3"
    using agrees_step [OF resolve_file_agrees [OF 2(3)]] by blast
  obtain u s4 where 4: "ecs_lookup findID findName UserEntity (ecs_User (ev_ECS e3)) s3 = (u, s4)"
    "ecs_lookup (answer nameOf) (answer idOf) UserEntity (ecs_User (ev_ECS e3)) () = (u, ())" "inv s4"
    using agrees_step [OF ecs_lookup_agrees [OF 3(3)]] by blast
  obtain g s5 where 5: "entity_lookup findID findName GroupEntity (ecs_Group (ev_ECS e3)) s4 = (g, s5)"
    "entity_lookup (answer nameOf) (answer idOf) GroupEntity (ecs_Group (ev_ECS e3)) () = (g, ())" "inv s5"
    using agrees_step [OF entity_lookup_agrees [OF 4(3)]] by blast
  from 1 2 3 4 5 show ?thesis by (simp add: ResolveIDsWith_def agrees_def)
qed

end

section \<open>The caches answer as the databases do\<close>

text \<open>The entries that never expire, by key.\<close>

type_synonym pinned = "entity \<Rightarrow> string \<rightharpoonup> string"

definition direct :: "(string \<rightharpoonup> string) \<Rightarrow> (string \<rightharpoonup> string) \<Rightarrow> string \<Rightarrow> string" where
  "direct pins db key = (if key = [] \<or> key = ''unset'' then [] else case pins key of Some v \<Rightarrow> v | None \<Rightarrow> or_empty db key)"

definition cache_agrees :: "(string \<rightharpoonup> string) \<Rightarrow> (string \<rightharpoonup> string) \<Rightarrow> stringCache \<Rightarrow> bool" where
  "cache_agrees pins db c =
     ((\<forall>k v. pins k = Some v \<longrightarrow> cache_data c k = Some \<lparr>item_timeout = noExpiration, item_value = v\<rparr>)
      \<and> (\<forall>k item. pins k = None \<longrightarrow> cache_data c k = Some item \<longrightarrow> item_value item = or_empty db k))"

lemma cache_lookup_cases:
  "snd (cache_lookup f now now' key c) = c \<or>
   (\<forall>item. cache_data c key = Some item \<longrightarrow> isExpired now item)
   \<and> cache_lookup f now now' key c = (f key, c\<lparr>cache_data := (cache_data c)(key \<mapsto>
        \<lparr>item_timeout = now' + cache_expiration c, item_value = f key\<rparr>)\<rparr>)"
  by (auto simp: cache_lookup_def Let_def split: option.splits)

lemma cache_lookup_agrees:
  assumes "cache_agrees pins db c" and "now \<le> noExpiration"
  shows "fst (cache_lookup (or_empty db) now now' key c) = direct pins db key"
    and "cache_agrees pins db (snd (cache_lookup (or_empty db) now now' key c))"
proof -
  have pin: "cache_data c key = Some \<lparr>item_timeout = noExpiration, item_value = v\<rparr>" if "pins key = Some v" for v
    using assms(1) that by (simp add: cache_agrees_def)
  have free: "item_value item = or_empty db key" if "pins key = None" "cache_data c key = Some item" for item
    using assms(1) that by (simp add: cache_agrees_def)
  show "fst (cache_lookup (or_empty db) now now' key c) = direct pins db key"
    using pin free assms(2)
    by (cases "pins key"; cases "cache_data c key") (auto simp: cache_lookup_def direct_def isExpired_def Let_def)
  let ?c = "snd (cache_lookup (or_empty db) now now' key c)"
  consider "?c = c" | t where "pins key = None" "?c = c\<lparr>cache_data := (cache_data c)(key \<mapsto>
      \<lparr>item_timeout = t, item_value = or_empty db key\<rparr>)\<rparr>"
  proof -
    have "pins key = None" if "\<And>item. cache_data c key = Some item \<Longrightarrow> isExpired now item"
      using pin that assms(2) by (cases "pins key") (auto simp: isExpired_def)
    then show thesis using that cache_lookup_cases [of "or_empty db" now now' key c] by (metis snd_conv)
  qed
  then show "cache_agrees pins db ?c"
  proof cases
    case (2 t)
    then show ?thesis using assms(1) by (auto simp: cache_agrees_def)
  qed (use assms(1) in simp)
qed

text \<open>The invariant of the two entity caches, for a clock that stays within the range of times.\<close>

definition caches_agree :: "lookup_env \<Rightarrow> pinned \<Rightarrow> pinned \<Rightarrow> lookup_state \<Rightarrow> bool" where
  "caches_agree E names ids st = ((\<forall>n. env_clock E n \<le> noExpiration)
     \<and> (\<forall>e. cache_agrees (names e) (db_name (env_db E e)) (byID (entity_cache e st))
           \<and> cache_agrees (ids e) (db_id (env_db E e)) (byName (entity_cache e st))))"

lemma entity_cache_set [simp]: "entity_cache e (set_cache e' c st) = (if e = e' then c else entity_cache e st)"
  by (cases e; cases e') (simp_all add: entity_cache_def set_cache_def)

lemma entity_cache_ticks [simp]: "entity_cache e (st\<lparr>ticks := n\<rparr>) = entity_cache e st"
  by (simp add: entity_cache_def split: entity.splits)

interpretation cached: resolver "LookupID E" "LookupName E" "caches_agree E names ids"
  "\<lambda>e. direct (names e) (db_name (env_db E e))" "\<lambda>e. direct (ids e) (db_id (env_db E e))"
  for E names ids
proof
  fix st e k
  assume inv: "caches_agree E names ids st"
  then have c: "env_clock E (ticks st) \<le> noExpiration"
    "cache_agrees (names e) (db_name (env_db E e)) (byID (entity_cache e st))"
    "cache_agrees (ids e) (db_id (env_db E e)) (byName (entity_cache e st))"
    by (simp_all add: caches_agree_def)
  show "fst (LookupID E e k st) = direct (names e) (db_name (env_db E e)) k"
    using cache_lookup_agrees(1) [OF c(2,1)] by (simp add: LookupID_def Let_def)
  show "fst (LookupName E e k st) = direct (ids e) (db_id (env_db E e)) k"
    using cache_lookup_agrees(1) [OF c(3,1)] by (simp add: LookupName_def Let_def)
  show "caches_agree E names ids (snd (LookupID E e k st))"
    using inv cache_lookup_agrees(2) [OF c(2,1)] by (simp add: caches_agree_def LookupID_def Let_def)
  show "caches_agree E names ids (snd (LookupName E e k st))"
    using inv cache_lookup_agrees(2) [OF c(3,1)] by (simp add: caches_agree_def LookupName_def Let_def)
qed

section \<open>Fresh caches, hardcoded entries and runs\<close>

definition fresh_state :: "int \<Rightarrow> lookup_state" where
  "fresh_state expiration = \<lparr>users = NewEntityCache expiration, groups = NewEntityCache expiration, ticks = 0\<rparr>"

definition root_name :: pinned where
  "root_name e = [''0'' \<mapsto> ''root'']"

definition root_id :: pinned where
  "root_id e = [''root'' \<mapsto> ''0'']"

lemma fresh_agrees: "(\<forall>n. env_clock E n \<le> noExpiration) \<Longrightarrow> caches_agree E root_name root_id (fresh_state x)"
  by (auto simp: caches_agree_def fresh_state_def NewEntityCache_def cache_agrees_def root_name_def root_id_def
      entity_cache_def split: entity.splits if_splits option.splits)

lemma hardcode_agrees:
  "cache_agrees pins db c \<Longrightarrow> cache_agrees (pins(k \<mapsto> v)) db (hardcode k v c)"
  by (auto simp: cache_agrees_def hardcode_def)

lemma HardcodeEntity_agrees:
  "caches_agree E names ids st \<Longrightarrow>
     caches_agree E (names(e := (names e)(i \<mapsto> n))) (ids(e := (ids e)(n \<mapsto> i))) (HardcodeEntity e i n st)"
  by (auto simp: caches_agree_def HardcodeEntity_def Let_def hardcode_agrees)

text \<open>Resolving the ids of events one after the other.\<close>

primrec resolve_all :: "lookup_env \<Rightarrow> range_order \<Rightarrow> Event list \<Rightarrow> lookup_state \<Rightarrow> Event list \<times> lookup_state" where
  "resolve_all E rng [] st = ([], st)"
| "resolve_all E rng (ev # evs) st =
     (let (ev', st') = ResolveIDsFromCaches E rng ev st; (evs', st'') = resolve_all E rng evs st' in (ev' # evs', st''))"

text \<open>Resolving an event by asking the databases, except for the pinned entries.\<close>

definition resolve_direct :: "lookup_env \<Rightarrow> pinned \<Rightarrow> pinned \<Rightarrow> range_order \<Rightarrow> Event \<Rightarrow> Event" where
  "resolve_direct E names ids rng ev = fst (ResolveIDsWith
     (answer (\<lambda>e. direct (names e) (db_name (env_db E e)))) (answer (\<lambda>e. direct (ids e) (db_id (env_db E e)))) rng ev ())"

lemma resolve_all_direct:
  "caches_agree E names ids st \<Longrightarrow> fst (resolve_all E rng evs st) = map (resolve_direct E names ids rng) evs"
proof (induction evs arbitrary: st)
  case (Cons ev evs)
  obtain ev' st' where r: "ResolveIDsFromCaches E rng ev st = (ev', st')" "ev' = resolve_direct E names ids rng ev"
    "caches_agree E names ids st'"
    using cached.ResolveIDs_agrees [OF Cons.prems, of rng ev]
    unfolding cached.agrees_def ResolveIDsFromCaches_def resolve_direct_def by (metis prod.collapse)
  with Cons.IH [OF r(3)] show ?case by (simp add: split_def)
qed simp

text \<open>
  (C9) While the user and group databases do not change, resolving the ids of any number of events
  through fresh caches, at whatever times, gives the events that asking the databases for every
  id would give, except that the ids and names of root are fixed.
\<close>

theorem caches_refine_databases:
  assumes "\<forall>n. env_clock E n \<le> noExpiration"
  shows "fst (resolve_all E rng evs (fresh_state cacheTimeout)) = map (resolve_direct E root_name root_id rng) evs"
  by (rule resolve_all_direct [OF fresh_agrees [OF assms]])

text \<open>A database with one user besides root.\<close>

definition sample_env :: lookup_env where
  "sample_env = \<lparr>env_clock = (\<lambda>n. min (int n) 1000), env_db = (\<lambda>e. \<lparr>db_name = [''1000'' \<mapsto> ''alice''], db_id = [''alice'' \<mapsto> ''1000'']\<rparr>)\<rparr>"

definition sample_event :: Event where
  "sample_event = set_actor_primary ''1000'' (blank_event zero_message)"

theorem caches_refine_databases_witness:
  "fst (resolve_all sample_env (\<lambda>_. []) [sample_event, sample_event] (fresh_state cacheTimeout))
     = map (resolve_direct sample_env root_name root_id (\<lambda>_. [])) [sample_event, sample_event]
   \<and> act_Primary (sum_Actor (ev_Summary (resolve_direct sample_env root_name root_id (\<lambda>_. []) sample_event))) = ''alice''"
proof
  show "fst (resolve_all sample_env (\<lambda>_. []) [sample_event, sample_event] (fresh_state cacheTimeout))
     = map (resolve_direct sample_env root_name root_id (\<lambda>_. [])) [sample_event, sample_event]"
    by (rule caches_refine_databases) (simp add: sample_env_def noExpiration_def min_le_iff_disj)
  show "act_Primary (sum_Actor (ev_Summary (resolve_direct sample_env root_name root_id (\<lambda>_. []) sample_event))) = ''alice''"
    by (simp add: resolve_direct_def ResolveIDsWith_def resolve_actor_def resolve_user_def resolve_file_def ecs_lookup_def
        entity_lookup_def answer_def direct_def or_empty_def root_name_def root_id_def sample_env_def
        sample_event_def blank_event_def set_actor_primary_def zero_message_def zero_Summary_def zero_ECS_def
        zero_entity_def Let_def)
qed

section \<open>Answers are not older than the expiration time\<close>

text \<open>
  A cache after a number of operations, with the lookups so far: the time at which a result would
  have been stored, and the database as it was then. The database may change between lookups.
\<close>

inductive cache_run :: "int \<Rightarrow> (int \<times> (string \<Rightarrow> string)) list \<Rightarrow> stringCache \<Rightarrow> bool" where
  start: "cache_expiration c = x \<Longrightarrow> (\<And>k item. cache_data c k = Some item \<Longrightarrow> item_timeout item = noExpiration)
     \<Longrightarrow> cache_run x [] c"
| lookup: "cache_run x h c \<Longrightarrow> cache_run x ((now', db) # h) (snd (cache_lookup db now now' key c))"
| pin: "cache_run x h c \<Longrightarrow> cache_run x h (hardcode k v c)"

text \<open>Every entry is pinned or the result of a recorded lookup, with its time.\<close>

lemma cache_run_entries:
  assumes "cache_run x h c"
  shows "cache_expiration c = x \<and> (\<forall>k item. cache_data c k = Some item \<longrightarrow>
    item_timeout item = noExpiration \<or> (\<exists>t db. (t, db) \<in> set h \<and> item_timeout item = t + x \<and> item_value item = db k))"
  using assms
proof (induction rule: cache_run.induct)
  case (lookup x h c now' db now key)
  consider "snd (cache_lookup db now now' key c) = c"
    | "snd (cache_lookup db now now' key c) = c\<lparr>cache_data := (cache_data c)(key \<mapsto>
        \<lparr>item_timeout = now' + cache_expiration c, item_value = db key\<rparr>)\<rparr>"
    using cache_lookup_cases [of db now now' key c] by (metis snd_conv)
  then show ?case
  proof cases
    case 1
    show ?thesis unfolding 1 using lookup.IH by (metis list.set_intros(2))
  next
    case 2
    show ?thesis unfolding 2 using lookup.IH by (auto split: if_splits)
  qed
qed (auto simp: hardcode_def split: if_splits)

text \<open>
  (C27) The answer of a cache to a lookup is what the database says now, or what it said at an earlier
  lookup of which no more than the expiration time has passed, or an entry that never expires.
\<close>

theorem cache_answers_fresh:
  assumes "cache_run x h c" and "key \<noteq> [] \<and> key \<noteq> ''unset''"
  shows "fst (cache_lookup db now now' key c) = db key
    \<or> (\<exists>t db'. (t, db') \<in> set h \<and> now \<le> t + x \<and> fst (cache_lookup db now now' key c) = db' key)
    \<or> cache_data c key = Some \<lparr>item_timeout = noExpiration, item_value = fst (cache_lookup db now now' key c)\<rparr>"
proof (cases "cache_data c key")
  case None
  then show ?thesis using assms(2) by (simp add: cache_lookup_def Let_def)
next
  case (Some item)
  then have "item_timeout item = noExpiration \<or> (\<exists>t db. (t, db) \<in> set h \<and> item_timeout item = t + x \<and> item_value item = db key)"
    using cache_run_entries [OF assms(1)] by blast
  moreover have "fst (cache_lookup db now now' key c) = (if isExpired now item then db key else item_value item)"
    using Some assms(2) by (simp add: cache_lookup_def Let_def)
  moreover have "now \<le> item_timeout item" if "\<not> isExpired now item" using that by (simp add: isExpired_def)
  ultimately show ?thesis using Some by (cases item) (metis stringItem.select_convs)
qed

theorem cache_answers_fresh_witness:
  "fst (cache_lookup (\<lambda>_. ''new'') 70 71 ''7'' (snd (cache_lookup (\<lambda>_. ''old'') 9 10 ''7''
      \<lparr>cache_expiration = 60, cache_data = Map.empty\<rparr>))) = ''old''
   \<and> (\<exists>t db'. (t, db') \<in> set [(10, \<lambda>_. ''old'')] \<and> (70 :: int) \<le> t + 60 \<and> ''old'' = db' ''7'')"
proof -
  let ?c = "snd (cache_lookup (\<lambda>_. ''old'') 9 10 ''7'' \<lparr>cache_expiration = 60, cache_data = Map.empty\<rparr>)"
  have r: "cache_run 60 [(10, \<lambda>_. ''old'')] ?c"
    by (rule cache_run.lookup, rule cache_run.start) simp_all
  have v: "fst (cache_lookup (\<lambda>_. ''new'') 70 71 ''7'' ?c) = ''old''"
    by (simp add: cache_lookup_def isExpired_def Let_def)
  have "cache_data ?c ''7'' \<noteq> Some \<lparr>item_timeout = noExpiration, item_value = ''old''\<rparr>"
    by (simp add: cache_lookup_def noExpiration_def Let_def)
  with v cache_answers_fresh [OF r, of "''7''" "\<lambda>_. ''new''" 70 71] show ?thesis by simp
qed

end
