(* ===== verification/Go_Bufio.thy ===== *)
theory Go_Bufio
  imports Go_Prelude "HOL-Library.AList" "HOL-Library.Multiset"
begin

text \<open>
  The parts of the standard library that the tools and generators share: \<^verbatim>\<open>bufio.Scanner\<close> with its default split
  function, and Go maps whose entries are ranged over. Such a map is an association list with
  distinct keys; the order of a \<^verbatim>\<open>range\<close> statement is a function that permutes it.
\<close>

section \<open>Lines\<close>

text \<open>
  The scanner yields lines without their end, a carriage return before the end dropped; it stops at
  a line that does not fit its buffer of 65536 bytes.
\<close>

definition drop_cr :: "string \<Rightarrow> string" where
  "drop_cr l = (if l \<noteq> [] \<and> last l = CHR 0x0D then butlast l else l)"

abbreviation maxLine :: nat where "maxLine \<equiv> 65536"

definition scan_lines :: "string \<Rightarrow> string list" where
  "scan_lines input =
     (let ls = split_byte (CHR 0x0A) input; ls = (if last ls = [] then butlast ls else ls) in
      map drop_cr (takeWhile (\<lambda>l. length l < maxLine) ls))"

definition line_text :: "string list \<Rightarrow> string" where
  "line_text ls = concat (map (\<lambda>l. l @ [CHR 0x0A]) ls)"

definition is_line :: "string \<Rightarrow> bool" where
  "is_line l = (CHR 0x0A \<notin> set l \<and> CHR 0x0D \<notin> set l \<and> length l < maxLine)"

lemma split_line_text: "list_all is_line ls \<Longrightarrow> split_byte (CHR 0x0A) (line_text ls) = ls @ [[]]"
  by (induction ls) (auto simp: line_text_def is_line_def split_byte_append)

lemma scan_line_text:
  assumes "list_all is_line ls"
  shows "scan_lines (line_text ls) = ls"
proof -
  have "takeWhile (\<lambda>l. length l < maxLine) ls = ls"
    using assms unfolding takeWhile_eq_all_conv by (simp add: list_all_iff is_line_def)
  moreover have "map drop_cr ls = ls"
    using assms by (intro map_idI) (auto simp: drop_cr_def list_all_iff is_line_def dest: last_in_set)
  ultimately show ?thesis
    by (simp only: scan_lines_def Let_def split_line_text [OF assms] last_snoc butlast_snoc if_True simp_thms)
qed

section \<open>Maps with an order of iteration\<close>

type_synonym ('k, 'v) go_map = "('k \<times> 'v) list"
type_synonym ('k, 'v) ranging = "('k, 'v) go_map \<Rightarrow> ('k \<times> 'v) list"

definition range_ok :: "('k, 'v) ranging \<Rightarrow> bool" where
  "range_ok r = (\<forall>m. mset (r m) = mset m)"

lemma range_okD:
  assumes "range_ok r"
  shows "set (r m) = set m" and "distinct (map fst (r m)) = distinct (map fst m)"
    and "length (r m) = length m" and "mset (r m) = mset m"
proof -
  have m: "mset (r m) = mset m" using assms by (simp add: range_ok_def)
  show "mset (r m) = mset m" by (rule m)
  show "set (r m) = set m" "length (r m) = length m" using m by (auto dest: mset_eq_setD mset_eq_length)
  show "distinct (map fst (r m)) = distinct (map fst m)"
    using m by (metis mset_eq_imp_distinct_iff mset_map)
qed

end
