(* ===== verification/Cmd_Flags.thy ===== *)
theory Cmd_Flags
  imports Rule_Flags
begin

text \<open>
  The flags of the command line tools: \<^verbatim>\<open>FlagSet.Parse\<close> of Go's \<^verbatim>\<open>flag\<close> package over any set of flags. A set is given by the names
  of its boolean flags, those of the others, and what a value does to the variables of the flags. The tools
  create their sets with \<^verbatim>\<open>flag.ExitOnError\<close>, so that an error ends the program.
\<close>

record 's flag_set =
  fs_bools :: "string list"
  fs_others :: "string list"
  fs_set :: "string \<Rightarrow> string \<Rightarrow> 's \<Rightarrow> 's option"

datatype tool_flag_error =
    ToolBadSyntax string
  | ToolHelp
  | ToolNotDefined string
  | ToolNeedsArgument string
  | ToolInvalidValue string string

definition give_tool_flag ::
  "'s flag_set \<Rightarrow> string \<Rightarrow> string option \<Rightarrow> string list \<Rightarrow> 's \<Rightarrow> (tool_flag_error, string list \<times> 's) outcome" where
  "give_tool_flag F name value args s =
     (let set_to = (\<lambda>v args. case fs_set F name v s of
              Some s' \<Rightarrow> Ok (args, s')
            | None \<Rightarrow> Err (ToolInvalidValue name v)) in
      if name \<in> set (fs_bools F) then set_to (case value of Some v \<Rightarrow> v | None \<Rightarrow> ''true'') args
      else
        (case value of
           Some v \<Rightarrow> set_to v args
         | None \<Rightarrow> (case args of [] \<Rightarrow> Err (ToolNeedsArgument name) | v # args' \<Rightarrow> set_to v args')))"

definition tool_parseOne ::
  "'s flag_set \<Rightarrow> string \<Rightarrow> string list \<Rightarrow> 's \<Rightarrow> (tool_flag_error, (string list \<times> 's) option) outcome" where
  "tool_parseOne F a args s =
     (if length a < 2 \<or> hd a \<noteq> CHR ''-'' then Ok None
      else if a = ''--'' then Ok None
      else
        (let name = (if a ! 1 = CHR ''-'' then drop 2 a else drop 1 a) in
         if name = [] \<or> hd name = CHR ''-'' \<or> hd name = CHR ''='' then Err (ToolBadSyntax a)
         else
           (let nv = name_value name in
            if fst nv \<notin> set (fs_bools F) \<union> set (fs_others F) then
              (if fst nv = ''help'' \<or> fst nv = ''h'' then Err ToolHelp else Err (ToolNotDefined (fst nv)))
            else bind_outcome (give_tool_flag F (fst nv) (snd nv) args s) (\<lambda>x. Ok (Some x)))))"

lemma give_tool_flag_length: "give_tool_flag F name value args s = Ok (args', s') \<Longrightarrow> length args' \<le> length args"
  by (auto simp: give_tool_flag_def Let_def split: if_splits option.splits list.splits)

lemma tool_parseOne_length: "tool_parseOne F a args s = Ok (Some (args', s')) \<Longrightarrow> length args' < Suc (length args)"
  by (auto simp: tool_parseOne_def Let_def less_Suc_eq_le bind_outcome_Ok split: if_splits dest: give_tool_flag_length)

function tool_parse :: "'s flag_set \<Rightarrow> string list \<Rightarrow> 's \<Rightarrow> (tool_flag_error, 's) outcome" where
  "tool_parse F [] s = Ok s"
| "tool_parse F (a # args) s =
     (case tool_parseOne F a args s of
        Err e \<Rightarrow> Err e
      | Panic p \<Rightarrow> Panic p
      | Ok None \<Rightarrow> Ok s
      | Ok (Some (args', s')) \<Rightarrow> tool_parse F args' s')"
  by pat_completeness auto
termination
  by (relation "measure (\<lambda>(F, args, s). length args)") (auto simp: tool_parseOne_length)

declare tool_parse.simps(2) [simp del]

text \<open>The values of a boolean flag and of a flag that is a \<^verbatim>\<open>uint\<close>.\<close>

definition bool_value :: "string \<Rightarrow> bool option" where
  "bool_value v = (case parse_bool v of Ok b \<Rightarrow> Some b | _ \<Rightarrow> None)"

definition uint_value :: "string \<Rightarrow> 64 word option" where
  "uint_value v = (case parse_uint v 0 64 of (n, None) \<Rightarrow> Some (of_nat n) | _ \<Rightarrow> None)"

text \<open>A flag with its value in the same argument, as \<^verbatim>\<open>-name=value\<close>.\<close>

definition flag_arg :: "string \<times> string \<Rightarrow> string" where
  "flag_arg x = CHR ''-'' # fst x @ ''='' @ snd x"

definition plain_name :: "string \<Rightarrow> bool" where
  "plain_name n = (n \<noteq> [] \<and> hd n \<noteq> CHR ''-'' \<and> CHR ''='' \<notin> set n)"

lemma name_value_arg: "plain_name n \<Longrightarrow> name_value (n @ ''='' @ v) = (n, Some v)"
  by (cases n) (auto simp: plain_name_def name_value_def index_byte_append)

lemma tool_parse_arg:
  assumes "plain_name n" and "n \<in> set (fs_bools F) \<union> set (fs_others F)" and "fs_set F n v s = Some s'"
  shows "tool_parse F (flag_arg (n, v) # args) s = tool_parse F args s'"
proof -
  have "name_value (n @ ''='' @ v) = (n, Some v)" by (rule name_value_arg [OF assms(1)])
  moreover obtain c n' where n: "n = c # n'" "c \<noteq> CHR ''-''" "c \<noteq> CHR ''=''" using assms(1) by (cases n) (auto simp: plain_name_def)
  ultimately have "tool_parseOne F (flag_arg (n, v)) args s = Ok (Some (args, s'))"
    using assms(2,3) by (auto simp: tool_parseOne_def flag_arg_def give_tool_flag_def Let_def)
  then show ?thesis by (simp add: tool_parse.simps(2))
qed

end
