(* ===== verification/Cmd_Auparse.thy ===== *)
theory Cmd_Auparse
  imports Reassembler Aucoalesce_Lookup Go_Bufio Cmd_Flags
begin

text \<open>
  \<^verbatim>\<open>cmd/auparse/auparse.go\<close>: the tool that reads log lines, reassembles the events and prints them.
  Marshalling to JSON and YAML is library code and a parameter; what is logged to standard error
  is left out. The goroutine that calls \<^verbatim>\<open>Maintain\<close> and the loop over the lines move in turn, in any order. A move is
  what is atomic in the code: a section under the mutex of the event list (\<^verbatim>\<open>Put\<close>, \<^verbatim>\<open>CleanUp\<close>, \<^verbatim>\<open>Clear\<close>), an access to the flag
  \<^verbatim>\<open>closed\<close>, one lookup in a cache, or one \<^verbatim>\<open>Write\<close>; the callbacks run outside of the mutex.
\<close>

section \<open>Options and environment\<close>

record auparse_options =
  opt_in :: string
  opt_out :: string
  opt_interpret :: bool
  opt_idLookup :: bool
  opt_format :: string

definition auparse_defaults :: auparse_options where
  "auparse_defaults = \<lparr>opt_in = ''-'', opt_out = ''-'', opt_interpret = False, opt_idLookup = True, opt_format = []\<rparr>"

definition auparse_flag_set :: "auparse_options flag_set" where
  "auparse_flag_set = \<lparr>fs_bools = [''i'', ''id''], fs_others = [''in'', ''out'', ''format''],
     fs_set = (\<lambda>name value s.
       if name = ''in'' then Some (s\<lparr>opt_in := value\<rparr>)
       else if name = ''out'' then Some (s\<lparr>opt_out := value\<rparr>)
       else if name = ''format'' then Some (s\<lparr>opt_format := value\<rparr>)
       else if name = ''i'' then map_option (\<lambda>b. s\<lparr>opt_interpret := b\<rparr>) (bool_value value)
       else map_option (\<lambda>b. s\<lparr>opt_idLookup := b\<rparr>) (bool_value value))\<rparr>"

text \<open>The files of the tool: what can be read from standard input and from a file, and whether a file can be created.\<close>

record auparse_files =
  af_stdin :: string
  af_open :: "string \<Rightarrow> string option"
  af_create :: "string \<Rightarrow> bool"

definition input_text :: "auparse_files \<Rightarrow> auparse_options \<Rightarrow> string option" where
  "input_text F opts = (if opt_in opts = ''-'' then Some (af_stdin F) else af_open F (opt_in opts))"

definition output_opens :: "auparse_files \<Rightarrow> auparse_options \<Rightarrow> bool" where
  "output_opens F opts = (if opt_out opts = ''-'' then True else af_create F (opt_out opts))"

text \<open>Marshalling returns nothing when it fails.\<close>

record auparse_env =
  ap_SignalName :: "int \<Rightarrow> string"
  ap_range :: range_order
  ap_syscallNorms :: syscall_norms
  ap_recordTypeNorms :: record_norms
  ap_lookup :: lookup_env
  ap_json_event :: "Event \<Rightarrow> string option"
  ap_yaml_event :: "Event \<Rightarrow> string option"
  ap_json_map :: "(string \<rightharpoonup> map_value) \<Rightarrow> string option"
  ap_yaml_map :: "(string \<rightharpoonup> map_value) \<Rightarrow> string option"

abbreviation newline :: string where "newline \<equiv> [CHR 0x0A]"

section \<open>Printing\<close>

text \<open>
  What is left to do of a callback: a call of the stream handler, the printing of one message, the resolution of the ids of an
  event (with the answers of the lookups made so far), and a call of \<^verbatim>\<open>output.Write\<close>.
\<close>

datatype action =
    HandleEvent stream_event
  | OutputSingle AuditMessage
  | ResolveEvent Event "string list"
  | WriteText string

definition print_marshalled :: "string option \<Rightarrow> action list" where
  "print_marshalled r = (case r of None \<Rightarrow> [] | Some text \<Rightarrow> [WriteText text, WriteText newline])"

definition outputSingleMessage :: "auparse_env \<Rightarrow> auparse_options \<Rightarrow> AuditMessage \<Rightarrow> (parse_error, action list) outcome" where
  "outputSingleMessage E opts m =
     (if opt_format opts = ''json'' then
        bind_outcome (fst (ToMapStr (ap_SignalName E) m)) (\<lambda>mp. Ok (print_marshalled (ap_json_map E mp)))
      else if opt_format opts = ''yaml'' then
        bind_outcome (fst (ToMapStr (ap_SignalName E) m)) (\<lambda>mp. Ok (print_marshalled (ap_yaml_map E mp)))
      else Ok [WriteText (''type='' @ type_String (RecordType m) @ '' msg='' @ RawData m @ newline)])"

text \<open>The line of an event; \<^verbatim>\<open>%v\<close> prints the tags in brackets, separated by blanks.\<close>

definition event_line :: "Event \<Rightarrow> string" where
  "event_line ev =
     (let sm = ev_Summary ev in
      ''time='' @ [CHR 0x22] @ time_String (ev_Timestamp ev) @ [CHR 0x22]
      @ '' sequence='' @ format_uint (unat (ev_Sequence ev)) @ '' category='' @ eventType_String (ev_Category ev)
      @ '' type='' @ type_String (ev_Type ev)
      @ '' actor='' @ act_Primary (sum_Actor sm) @ ''/'' @ act_Secondary (sum_Actor sm)
      @ '' action='' @ sum_Action sm
      @ '' thing='' @ obj_Primary (sum_Object sm) @ ''/'' @ obj_Secondary (sum_Object sm)
      @ '' how='' @ sum_How sm @ '' tags=['' @ str_join '' '' (ev_Tags ev) @ '']'' @ newline)"

definition output_event :: "auparse_env \<Rightarrow> auparse_options \<Rightarrow> Event \<Rightarrow> action list" where
  "output_event E opts ev =
     (if opt_format opts = ''json'' then print_marshalled (ap_json_event E ev)
      else if opt_format opts = ''yaml'' then WriteText (''---'' @ newline) # print_marshalled (ap_yaml_event E ev)
      else [WriteText (''---'' @ newline), WriteText (event_line ev)])"

text \<open>\<^verbatim>\<open>outputMultipleMessages\<close>; an event that cannot be coalesced is logged and not printed.\<close>

definition outputMultipleMessages ::
  "auparse_env \<Rightarrow> auparse_options \<Rightarrow> AuditMessage list \<Rightarrow> (coalesce_error, action list) outcome" where
  "outputMultipleMessages E opts ms =
     (if \<not> opt_interpret opts then Ok (WriteText (''---'' @ newline) # map OutputSingle ms)
      else bind_outcome (fst (CoalesceMessages (ap_SignalName E) (ap_range E) (ap_syscallNorms E) (ap_recordTypeNorms E) ms)) (\<lambda>ev.
        Ok (if opt_idLookup opts then [ResolveEvent ev []] else output_event E opts ev)))"

text \<open>The methods of \<^verbatim>\<open>streamHandler\<close>; a loss of events is only logged.\<close>

definition handle_stream_event ::
  "auparse_env \<Rightarrow> auparse_options \<Rightarrow> stream_event \<Rightarrow> (coalesce_error, action list) outcome" where
  "handle_stream_event E opts s =
     (case s of ReassemblyComplete ms \<Rightarrow> outputMultipleMessages E opts ms | EventsLost n \<Rightarrow> Ok [])"

section \<open>Resolution of ids, one lookup at a time\<close>

text \<open>
  \<^verbatim>\<open>ResolveIDs\<close> takes the mutex of a cache for each lookup, so lookups of the other goroutine may come between. The next
  lookup is found by running it on the answers so far, with a finder that stops at the first one it has no answer for.
\<close>

datatype lookup_call = ByID entity string | ByName entity string

definition replay :: "(entity \<Rightarrow> string \<Rightarrow> lookup_call) \<Rightarrow> (string list \<times> lookup_call option) finder" where
  "replay call e key st =
     (case st of
        (answers, Some c) \<Rightarrow> ([], answers, Some c)
      | ([], None) \<Rightarrow> ([], [], Some (call e key))
      | (a # answers, None) \<Rightarrow> (a, answers, None))"

definition resolve_next :: "range_order \<Rightarrow> Event \<Rightarrow> string list \<Rightarrow> Event + lookup_call" where
  "resolve_next rng ev answers =
     (case ResolveIDsWith (replay ByID) (replay ByName) rng ev (answers, None) of
        (ev', _, Some c) \<Rightarrow> Inr c
      | (ev', _, None) \<Rightarrow> Inl ev')"

definition lookup_answer :: "lookup_env \<Rightarrow> lookup_call \<Rightarrow> lookup_state \<Rightarrow> string \<times> lookup_state" where
  "lookup_answer L c st = (case c of ByID e i \<Rightarrow> LookupID L e i st | ByName e n \<Rightarrow> LookupName L e n st)"

section \<open>The goroutines\<close>

datatype goroutine = MainLoop | Maintainer

text \<open>
  Where the main goroutine stands, when it has no callback to complete: at the next line, after \<^verbatim>\<open>Put\<close>, after setting \<^verbatim>\<open>closed\<close>, at the
  end of \<^verbatim>\<open>Close\<close>, after closing the output, and the end of the program, regular or by a panic of either goroutine.
\<close>

datatype main_phase = MainScan | MainPut | MainSwapped | MainClosed | OutputClosed | Exited | Crashed runtime_panic

datatype ticker_phase = TickerWait | TickerLoaded | TickerStopped

record tool_state =
  tl_lines :: "string list"
  tl_reassembler :: Reassembler
  tl_main :: main_phase
  tl_ticker :: ticker_phase
  tl_todo :: "goroutine \<Rightarrow> action list"
  tl_lookup :: lookup_state
  tl_out :: "(goroutine \<times> string) list"
  tl_failed :: "string list"

text \<open>\<^verbatim>\<open>output.Write\<close>: once the output is closed it fails, and the error is ignored.\<close>

definition write_output :: "goroutine \<Rightarrow> string \<Rightarrow> tool_state \<Rightarrow> tool_state" where
  "write_output g text s =
     (if tl_main s = OutputClosed then s\<lparr>tl_failed := tl_failed s @ [text]\<rparr>
      else s\<lparr>tl_out := tl_out s @ [(g, text)]\<rparr>)"

definition set_todo :: "goroutine \<Rightarrow> action list \<Rightarrow> tool_state \<Rightarrow> tool_state" where
  "set_todo g acts s = s\<lparr>tl_todo := (tl_todo s)(g := acts)\<rparr>"

text \<open>Errors within a callback are logged; a panic ends the program.\<close>

definition continue_with :: "goroutine \<Rightarrow> action list \<Rightarrow> tool_state \<Rightarrow> ('e, action list) outcome \<Rightarrow> tool_state" where
  "continue_with g rest s r =
     (case r of Ok acts \<Rightarrow> set_todo g (acts @ rest) s | Err e \<Rightarrow> set_todo g rest s | Panic p \<Rightarrow> s\<lparr>tl_main := Crashed p\<rparr>)"

definition do_action ::
  "auparse_env \<Rightarrow> auparse_options \<Rightarrow> goroutine \<Rightarrow> action \<Rightarrow> action list \<Rightarrow> tool_state \<Rightarrow> tool_state" where
  "do_action E opts g a rest s =
     (case a of
        HandleEvent ev \<Rightarrow> continue_with g rest s (handle_stream_event E opts ev)
      | OutputSingle m \<Rightarrow> continue_with g rest s (outputSingleMessage E opts m)
      | ResolveEvent ev answers \<Rightarrow>
          (case resolve_next (ap_range E) ev answers of
             Inl ev' \<Rightarrow> set_todo g (output_event E opts ev' @ rest) s
           | Inr c \<Rightarrow> (case lookup_answer (ap_lookup E) c (tl_lookup s) of
                (v, st) \<Rightarrow> set_todo g (ResolveEvent ev (answers @ [v]) # rest) (s\<lparr>tl_lookup := st\<rparr>)))
      | WriteText text \<Rightarrow> set_todo g rest (write_output g text s))"

text \<open>A line that is not a log line is logged, and the zero message is pushed all the same.\<close>

definition line_message :: "string \<Rightarrow> (parse_error, AuditMessage) outcome" where
  "line_message line = (case ParseLogLine line of Err e \<Rightarrow> Ok zero_message | r \<Rightarrow> r)"

text \<open>The list after \<^verbatim>\<open>CleanUp\<close> or \<^verbatim>\<open>Clear\<close>, and the callback that the goroutine makes of what was evicted.\<close>

definition evict_into :: "goroutine \<Rightarrow> event list \<times> int \<times> eventList \<Rightarrow> tool_state \<Rightarrow> tool_state" where
  "evict_into g r s =
     (case r of (evicted, lost, l) \<Rightarrow>
        set_todo g (map HandleEvent (callback evicted lost)) (s\<lparr>tl_reassembler := (tl_reassembler s)\<lparr>rlist := l\<rparr>\<rparr>))"

text \<open>
  A move of the main goroutine: the loop over the lines with \<^verbatim>\<open>PushMessage\<close>, then the deferred calls: \<^verbatim>\<open>reassembler.Close\<close>,
  \<^verbatim>\<open>output.Close\<close>, and the end of \<^verbatim>\<open>main\<close>, which does not wait for the other goroutine. \<open>t\<close> and \<open>now\<close> are readings of the clock.
\<close>

definition main_move :: "auparse_env \<Rightarrow> auparse_options \<Rightarrow> int \<Rightarrow> (nat \<Rightarrow> int) \<Rightarrow> tool_state \<Rightarrow> tool_state" where
  "main_move E opts t now s =
     (case tl_todo s MainLoop of
        a # rest \<Rightarrow> do_action E opts MainLoop a rest s
      | [] \<Rightarrow>
         (let r = tl_reassembler s in
          case tl_main s of
            MainScan \<Rightarrow>
              (case tl_lines s of
                 line # ls \<Rightarrow>
                   (case line_message line of
                      Ok m \<Rightarrow> s\<lparr>tl_lines := ls, tl_reassembler := r\<lparr>rlist := Put t m (rlist r)\<rparr>, tl_main := MainPut\<rparr>
                    | Err e \<Rightarrow> s
                    | Panic p \<Rightarrow> s\<lparr>tl_main := Crashed p\<rparr>)
               | [] \<Rightarrow>
                   if closed r = 0 then s\<lparr>tl_reassembler := r\<lparr>closed := 1\<rparr>, tl_main := MainSwapped\<rparr>
                   else s\<lparr>tl_main := MainClosed\<rparr>)
          | MainPut \<Rightarrow> evict_into MainLoop (CleanUp now (rlist r)) (s\<lparr>tl_main := MainScan\<rparr>)
          | MainSwapped \<Rightarrow> evict_into MainLoop (Clear (rlist r)) (s\<lparr>tl_main := MainClosed\<rparr>)
          | MainClosed \<Rightarrow> s\<lparr>tl_main := OutputClosed\<rparr>
          | OutputClosed \<Rightarrow> s\<lparr>tl_main := Exited\<rparr>
          | Exited \<Rightarrow> s
          | Crashed p \<Rightarrow> s))"

text \<open>A move of the goroutine of the ticker, which calls \<^verbatim>\<open>Maintain\<close> at a tick and ends when the reassembler is closed.\<close>

definition ticker_move :: "auparse_env \<Rightarrow> auparse_options \<Rightarrow> (nat \<Rightarrow> int) \<Rightarrow> tool_state \<Rightarrow> tool_state" where
  "ticker_move E opts now s =
     (case tl_todo s Maintainer of
        a # rest \<Rightarrow> do_action E opts Maintainer a rest s
      | [] \<Rightarrow>
         (let r = tl_reassembler s in
          case tl_ticker s of
            TickerWait \<Rightarrow> s\<lparr>tl_ticker := (if closed r = 1 then TickerStopped else TickerLoaded)\<rparr>
          | TickerLoaded \<Rightarrow> evict_into Maintainer (CleanUp now (rlist r)) (s\<lparr>tl_ticker := TickerWait\<rparr>)
          | TickerStopped \<Rightarrow> s))"

text \<open>A schedule says which goroutine moves next, with its readings of the clock. Nothing moves after the end of the program.\<close>

datatype move = MoveMain int "nat \<Rightarrow> int" | MoveTicker "nat \<Rightarrow> int"

definition ended :: "tool_state \<Rightarrow> bool" where
  "ended s = (case tl_main s of Exited \<Rightarrow> True | Crashed p \<Rightarrow> True | _ \<Rightarrow> False)"

definition tool_move :: "auparse_env \<Rightarrow> auparse_options \<Rightarrow> move \<Rightarrow> tool_state \<Rightarrow> tool_state" where
  "tool_move E opts mv s =
     (if ended s then s
      else case mv of MoveMain t now \<Rightarrow> main_move E opts t now s | MoveTicker now \<Rightarrow> ticker_move E opts now s)"

definition run_tool :: "auparse_env \<Rightarrow> auparse_options \<Rightarrow> move list \<Rightarrow> tool_state \<Rightarrow> tool_state" where
  "run_tool E opts mvs s = fold (tool_move E opts) mvs s"

section \<open>processLogs\<close>

definition maxEvents :: int where "maxEvents = 5"
definition eventTimeout :: int where "eventTimeout = 2 * 1000000000"

definition start_state :: "string list \<Rightarrow> Reassembler \<Rightarrow> lookup_state \<Rightarrow> tool_state" where
  "start_state ls r st =
     \<lparr>tl_lines = ls, tl_reassembler = r, tl_main = MainScan, tl_ticker = TickerWait, tl_todo = (\<lambda>_. []),
      tl_lookup = st, tl_out = [], tl_failed = []\<rparr>"

datatype tool_error = InputNotOpened | OutputNotOpened | ReassemblerNotCreated reassembler_error

text \<open>A run of \<^verbatim>\<open>processLogs\<close> under a schedule, complete when its state is \<open>Exited\<close>: the reassembler holds five events for two seconds.\<close>

definition processLogs ::
  "auparse_files \<Rightarrow> auparse_env \<Rightarrow> auparse_options \<Rightarrow> move list \<Rightarrow> lookup_state \<Rightarrow> (tool_error, tool_state) outcome" where
  "processLogs F E opts mvs st =
     (case input_text F opts of
        None \<Rightarrow> Err InputNotOpened
      | Some text \<Rightarrow>
          if \<not> output_opens F opts then Err OutputNotOpened
          else (case NewReassembler maxEvents eventTimeout (Some ()) of
              Ok r \<Rightarrow>
                (let s = run_tool E opts mvs (start_state (scan_lines text) r st) in
                 case tl_main s of Crashed p \<Rightarrow> Panic p | _ \<Rightarrow> Ok s)
            | Err e \<Rightarrow> Err (ReassemblerNotCreated e)
            | Panic p \<Rightarrow> Panic p))"

text \<open>\<^verbatim>\<open>main\<close>: an error of the flags or of \<^verbatim>\<open>processLogs\<close> ends the program.\<close>

datatype auparse_exit = BadFlags tool_flag_error | Fatal tool_error

definition auparse_main ::
  "auparse_files \<Rightarrow> auparse_env \<Rightarrow> string list \<Rightarrow> move list \<Rightarrow> lookup_state \<Rightarrow> (auparse_exit, tool_state) outcome" where
  "auparse_main F E args mvs st =
     (case tool_parse auparse_flag_set args auparse_defaults of
        Err e \<Rightarrow> Err (BadFlags e)
      | Panic p \<Rightarrow> Panic p
      | Ok opts \<Rightarrow>
          (case processLogs F E opts mvs st of
             Ok s \<Rightarrow> Ok s
           | Err e \<Rightarrow> Err (Fatal e)
           | Panic p \<Rightarrow> Panic p))"

text \<open>What a goroutine has written.\<close>

definition written :: "goroutine \<Rightarrow> tool_state \<Rightarrow> string list" where
  "written g s = map snd (filter (\<lambda>w. fst w = g) (tl_out s))"

end
