(* ===== verification/Cmd_Auparse_Laws.thy ===== *)
theory Cmd_Auparse_Laws
  imports Cmd_Auparse Auparse_Roundtrip
begin

text \<open>
  The \<^verbatim>\<open>auparse\<close> tool from input lines to output, in its default mode and for every interleaving with the maintenance
  goroutine: what each goroutine writes, that the tool ends, and what may be lost at its end.
\<close>

section \<open>Lines\<close>

lemma ParseLogLine_no_panic: "ParseLogLine line \<noteq> Panic p"
proof -
  have "parseAuditHeader l \<noteq> Panic p" for l
    by (auto simp: parseAuditHeader_def Let_def split: option.splits prod.splits)
  then have "Parse typ l \<noteq> Panic p" for "typ" l
    by (auto simp: Parse_def Let_def split: outcome.splits)
  moreover have "GetAuditMessageType n \<noteq> Panic p" for n
    by (auto simp: GetAuditMessageType_def Let_def split: option.splits if_splits prod.splits)
  ultimately show ?thesis by (auto simp: ParseLogLine_def Let_def split: option.splits outcome.splits)
qed

definition pushed :: "string \<Rightarrow> AuditMessage" where
  "pushed line = (case ParseLogLine line of Ok m \<Rightarrow> m | _ \<Rightarrow> zero_message)"

lemma line_message_pushed: "line_message line = Ok (pushed line)"
  using ParseLogLine_no_panic [of line] by (auto simp: line_message_def pushed_def split: outcome.splits)

section \<open>Text mode\<close>

definition text_mode :: "auparse_options \<Rightarrow> bool" where
  "text_mode opts = (\<not> opt_interpret opts \<and> opt_format opts \<noteq> ''json'' \<and> opt_format opts \<noteq> ''yaml'')"

text \<open>The lines printed for a message and for an event, each with one \<^verbatim>\<open>Write\<close>.\<close>

definition message_line :: "AuditMessage \<Rightarrow> string" where
  "message_line m = ''type='' @ type_String (RecordType m) @ '' msg='' @ RawData m @ newline"

definition event_lines :: "AuditMessage list \<Rightarrow> string list" where
  "event_lines ms = (''---'' @ newline) # map message_line ms"

definition lines_of :: "event list \<Rightarrow> string list" where
  "lines_of evs = concat (map (event_lines \<circ> msgs) evs)"

text \<open>The lines that an unfinished callback will still write, when ids are not resolved.\<close>

fun action_lines :: "action \<Rightarrow> string list" where
  "action_lines (HandleEvent (ReassemblyComplete ms)) = event_lines ms"
| "action_lines (HandleEvent (EventsLost n)) = []"
| "action_lines (OutputSingle m) = [message_line m]"
| "action_lines (ResolveEvent ev answers) = []"
| "action_lines (WriteText t) = [t]"

definition unwritten :: "goroutine \<Rightarrow> tool_state \<Rightarrow> string list" where
  "unwritten g s = concat (map action_lines (tl_todo s g))"

fun plain_action :: "action \<Rightarrow> bool" where
  "plain_action (ResolveEvent ev answers) = False"
| "plain_action _ = True"

lemma lines_of_append [simp]: "lines_of (xs @ ys) = lines_of xs @ lines_of ys"
  by (simp add: lines_of_def)

lemma callback_lines: "concat (map action_lines (map HandleEvent (callback evs lost))) = lines_of evs"
  by (induction evs) (simp_all add: callback_def lines_of_def)

lemma callback_plain: "list_all plain_action (map HandleEvent (callback evs lost))"
  by (simp add: list_all_iff)

text \<open>What an action does in this mode, besides writing.\<close>

fun expand :: "action \<Rightarrow> action list" where
  "expand (HandleEvent (ReassemblyComplete ms)) = WriteText (''---'' @ newline) # map OutputSingle ms"
| "expand (OutputSingle m) = [WriteText (message_line m)]"
| "expand _ = []"

lemma do_action_text:
  assumes "text_mode opts" and "plain_action a"
  shows "do_action E opts g a rest s = set_todo g (expand a @ rest)
    (case a of WriteText t \<Rightarrow> write_output g t s | _ \<Rightarrow> s)"
  using assms
  by (cases a rule: expand.cases)
     (simp_all add: do_action_def continue_with_def handle_stream_event_def outputMultipleMessages_def outputSingleMessage_def
       text_mode_def message_line_def)

lemma expand_lines: "plain_action a \<Longrightarrow> \<forall>t. a \<noteq> WriteText t \<Longrightarrow> concat (map action_lines (expand a)) = action_lines a"
  by (cases a rule: expand.cases) (simp_all add: event_lines_def comp_def)

lemma expand_plain: "list_all plain_action (expand a)"
  by (cases a rule: expand.cases) (simp_all add: list_all_iff)

section \<open>Every interleaving\<close>

lemma shuffles_left: "zs \<in> shuffles xs ys \<Longrightarrow> zs @ ws \<in> shuffles (xs @ ws) ys"
proof (induction xs ys arbitrary: zs rule: shuffles.induct)
  case (1 ys)
  then show ?case by (induction ys arbitrary: zs) (auto simp: Cons_in_shuffles_rightI)
next
  case (2 xs)
  then show ?case by simp
next
  case (3 x xs y ys)
  then show ?case by (auto intro: Cons_in_shuffles_leftI)
qed

lemma shuffles_right: "zs \<in> shuffles xs ys \<Longrightarrow> zs @ ws \<in> shuffles xs (ys @ ws)"
  using shuffles_left [of zs ys xs ws] by (simp add: shuffles_commutes)

definition phase_inv :: "tool_state \<Rightarrow> bool" where
  "phase_inv s =
     (let r = tl_reassembler s; ended_list = (tl_lines s = [] \<and> seqs (rlist r) = []) in
      case tl_main s of
        MainScan \<Rightarrow> closed r = 0 \<and> tl_failed s = []
      | MainPut \<Rightarrow> closed r = 0 \<and> tl_failed s = [] \<and> tl_todo s MainLoop = []
      | MainSwapped \<Rightarrow> tl_lines s = [] \<and> tl_failed s = [] \<and> tl_todo s MainLoop = []
      | MainClosed \<Rightarrow> ended_list \<and> tl_failed s = []
      | OutputClosed \<Rightarrow> ended_list \<and> tl_todo s MainLoop = []
      | Exited \<Rightarrow> ended_list \<and> tl_todo s MainLoop = []
      | Crashed p \<Rightarrow> False)"

text \<open>The events handed out, and which goroutine was given each of them.\<close>

definition tool_trace :: "string list \<Rightarrow> tool_state \<Rightarrow> AuditMessage list \<Rightarrow> event list \<Rightarrow> event list \<Rightarrow> event list \<Rightarrow> bool" where
  "tool_trace ls s ps evs em et =
     (store_run Put CleanUp Clear (newEventList maxEvents eventTimeout) ps evs (rlist (tl_reassembler s))
      \<and> evs \<in> shuffles em et \<and> ps @ map pushed (tl_lines s) = map pushed ls
      \<and> written MainLoop s @ unwritten MainLoop s = lines_of em
      \<and> written Maintainer s @ tl_failed s @ unwritten Maintainer s = lines_of et)"

definition tool_inv :: "string list \<Rightarrow> tool_state \<Rightarrow> bool" where
  "tool_inv ls s = (phase_inv s \<and> (\<forall>g. list_all plain_action (tl_todo s g)) \<and> (\<exists>ps evs em et. tool_trace ls s ps evs em et))"

lemma tool_inv_start: "tool_inv ls (start_state ls \<lparr>closed = 0, rlist = newEventList maxEvents eventTimeout\<rparr> st)"
proof -
  have "tool_trace ls (start_state ls \<lparr>closed = 0, rlist = newEventList maxEvents eventTimeout\<rparr> st) [] [] [] []"
    by (simp add: tool_trace_def start_state_def run_start written_def unwritten_def lines_of_def)
  then show ?thesis by (auto simp: tool_inv_def phase_inv_def start_state_def)
qed

lemma do_action_inv:
  assumes inv: "tool_inv ls s" and todo: "tl_todo s g = a # rest" and mode: "text_mode opts" and live: "\<not> ended s"
  shows "tool_inv ls (do_action E opts g a rest s)"
proof -
  obtain ps evs em et where tr: "tool_trace ls s ps evs em et" using inv by (auto simp: tool_inv_def)
  have plain: "plain_action a" "list_all plain_action rest" "\<forall>g. list_all plain_action (tl_todo s g)"
    using inv todo unfolding tool_inv_def by (metis list.pred_inject(2))+
  let ?s = "set_todo g (expand a @ rest) (case a of WriteText t \<Rightarrow> write_output g t s | _ \<Rightarrow> s)"
  have "phase_inv ?s"
    using inv todo
    by (cases g; cases a)
       (auto simp: tool_inv_def phase_inv_def set_todo_def write_output_def Let_def split: main_phase.splits)
  moreover have "list_all plain_action (tl_todo ?s g')" for g'
    using plain expand_plain [of a] by (cases a) (auto simp: set_todo_def write_output_def list_all_append)
  moreover have "tool_trace ls ?s ps evs em et"
  proof (cases "\<exists>t. a = WriteText t")
    case True
    then obtain t where t: "a = WriteText t" by blast
    have "g = MainLoop \<Longrightarrow> tl_main s \<noteq> OutputClosed" "tl_main s \<noteq> OutputClosed \<Longrightarrow> tl_failed s = []"
      using inv todo live by (auto simp: tool_inv_def phase_inv_def ended_def Let_def split: main_phase.splits)
    then show ?thesis
      using tr todo t
      by (cases g) (auto simp: tool_trace_def set_todo_def write_output_def written_def unwritten_def)
  next
    case False
    then show ?thesis
      using tr todo expand_lines [OF plain(1)]
      by (cases a; cases g) (auto simp: tool_trace_def set_todo_def written_def unwritten_def)
  qed
  ultimately show ?thesis unfolding do_action_text [OF mode plain(1)] tool_inv_def by blast
qed


text \<open>An eviction by a goroutine that has nothing left to do.\<close>

lemma evict_into_inv:
  assumes inv: "tool_inv ls s" and todo: "tl_todo s g = []"
    and op: "R = CleanUp now (rlist (tl_reassembler s)) \<or> R = Clear (rlist (tl_reassembler s))"
    and phase: "phase_inv (evict_into g R (s\<lparr>tl_main := ph, tl_ticker := tk\<rparr>))"
  shows "tool_inv ls (evict_into g R (s\<lparr>tl_main := ph, tl_ticker := tk\<rparr>))"
proof -
  obtain new lost l where R: "R = (new, lost, l)" by (cases R) auto
  obtain ps evs em et where tr: "tool_trace ls s ps evs em et" using inv by (auto simp: tool_inv_def)
  let ?s = "evict_into g R (s\<lparr>tl_main := ph, tl_ticker := tk\<rparr>)"
  have run: "store_run Put CleanUp Clear (newEventList maxEvents eventTimeout) ps (evs @ new) l"
    using tr op R unfolding tool_trace_def by (metis run_cleanup run_clear)
  have "\<exists>em et. tool_trace ls ?s ps (evs @ new) em et"
  proof (cases g)
    case MainLoop
    have "tool_trace ls ?s ps (evs @ new) (em @ new) et"
      using tr run R todo MainLoop callback_lines [of new lost] shuffles_left [of evs em et new]
      by (simp add: tool_trace_def evict_into_def set_todo_def written_def unwritten_def)
    then show ?thesis by blast
  next
    case Maintainer
    have "tool_trace ls ?s ps (evs @ new) em (et @ new)"
      using tr run R todo Maintainer callback_lines [of new lost] shuffles_right [of evs em et new]
      by (simp add: tool_trace_def evict_into_def set_todo_def written_def unwritten_def)
    then show ?thesis by blast
  qed
  moreover have "list_all plain_action (tl_todo ?s g')" for g'
    using inv R callback_plain [of new lost] by (simp add: tool_inv_def evict_into_def set_todo_def)
  ultimately show ?thesis using phase by (auto simp: tool_inv_def)
qed

lemma CleanUp_empty: "seqs l = [] \<Longrightarrow> CleanUp now l = ([], 0, l)"
  by (simp add: CleanUp_def evict_loop.simps)

lemma ticker_move_inv:
  assumes inv: "tool_inv ls s" and mode: "text_mode opts" and live: "\<not> ended s"
  shows "tool_inv ls (ticker_move E opts now s)"
proof (cases "tl_todo s Maintainer")
  case (Cons a rest)
  then show ?thesis using do_action_inv [OF inv Cons mode live] by (simp add: ticker_move_def)
next
  case Nil
  let ?R = "CleanUp now (rlist (tl_reassembler s))"
  have "phase_inv (evict_into Maintainer ?R (s\<lparr>tl_main := tl_main s, tl_ticker := TickerWait\<rparr>))"
    using inv CleanUp_empty [of "rlist (tl_reassembler s)" now]
    by (auto simp: tool_inv_def phase_inv_def evict_into_def set_todo_def Let_def split: main_phase.splits prod.splits)
  then have "tool_inv ls (evict_into Maintainer ?R (s\<lparr>tl_main := tl_main s, tl_ticker := TickerWait\<rparr>))"
    using evict_into_inv [OF inv Nil] by blast
  moreover have "phase_inv (s\<lparr>tl_ticker := ph\<rparr>)" for ph
    using inv by (cases "tl_main s") (auto simp: tool_inv_def phase_inv_def)
  then have "tool_inv ls (s\<lparr>tl_ticker := ph\<rparr>)" for ph
    using inv by (simp add: tool_inv_def tool_trace_def written_def unwritten_def)
  ultimately show ?thesis using inv Nil by (cases "tl_ticker s") (simp_all add: ticker_move_def Let_def)
qed

lemma main_scan_inv:
  assumes inv: "tool_inv ls s" and todo: "tl_todo s MainLoop = []" and ph: "tl_main s = MainScan"
  shows "tool_inv ls (main_move E opts t now s)"
proof -
  obtain ps evs em et where tr: "tool_trace ls s ps evs em et" using inv by (auto simp: tool_inv_def)
  have "\<exists>ps. tool_trace ls (main_move E opts t now s) ps evs em et"
  proof (cases "tl_lines s")
    case Nil
    then have "tool_trace ls (main_move E opts t now s) ps evs em et"
      using tr todo ph by (auto simp: main_move_def tool_trace_def written_def unwritten_def Let_def)
    then show ?thesis ..
  next
    case (Cons line rest)
    then have "tool_trace ls (main_move E opts t now s) (ps @ [pushed line]) evs em et"
      using tr todo ph
      by (auto intro!: run_put simp: main_move_def line_message_pushed tool_trace_def written_def unwritten_def Let_def)
    then show ?thesis ..
  qed
  moreover have "phase_inv (main_move E opts t now s)" "\<forall>g. list_all plain_action (tl_todo (main_move E opts t now s) g)"
    using inv todo ph
    by (auto simp: main_move_def line_message_pushed tool_inv_def phase_inv_def Let_def split: list.splits)
  ultimately show ?thesis unfolding tool_inv_def by blast
qed

lemma tool_inv_phase: "tool_inv ls s \<Longrightarrow> phase_inv (s\<lparr>tl_main := ph\<rparr>) \<Longrightarrow> tool_inv ls (s\<lparr>tl_main := ph\<rparr>)"
  by (simp add: tool_inv_def tool_trace_def written_def unwritten_def)

lemma main_move_inv:
  assumes inv: "tool_inv ls s" and mode: "text_mode opts" and live: "\<not> ended s"
  shows "tool_inv ls (main_move E opts t now s)"
proof (cases "tl_todo s MainLoop")
  case (Cons a rest)
  then show ?thesis using do_action_inv [OF inv Cons mode live] by (simp add: main_move_def)
next
  case Nil
  let ?l = "rlist (tl_reassembler s)"
  have evict: "tool_inv ls (evict_into MainLoop R (s\<lparr>tl_main := ph\<rparr>))"
    if "phase_inv (evict_into MainLoop R (s\<lparr>tl_main := ph\<rparr>))" "R = CleanUp now ?l \<or> R = Clear ?l" for R ph
    using evict_into_inv [OF inv Nil that(2), where ph = ph and tk = "tl_ticker s"] that(1) by simp
  show ?thesis
  proof (cases "tl_main s")
    case MainScan
    then show ?thesis by (rule main_scan_inv [OF inv Nil])
  next
    case MainPut
    have "phase_inv (evict_into MainLoop (CleanUp now ?l) (s\<lparr>tl_main := MainScan\<rparr>))"
      using inv MainPut by (auto simp: tool_inv_def phase_inv_def evict_into_def set_todo_def split: prod.splits)
    then show ?thesis using evict Nil MainPut by (simp add: main_move_def)
  next
    case MainSwapped
    have "phase_inv (evict_into MainLoop (Clear ?l) (s\<lparr>tl_main := MainClosed\<rparr>))"
      using inv MainSwapped Clear_evicts(2) [of ?l]
      by (auto simp: tool_inv_def phase_inv_def evict_into_def set_todo_def split: prod.splits)
    then show ?thesis using evict Nil MainSwapped by (simp add: main_move_def)
  next
    case MainClosed
    then show ?thesis
      using inv Nil tool_inv_phase [OF inv, of OutputClosed] by (auto simp: main_move_def tool_inv_def phase_inv_def Let_def)
  next
    case OutputClosed
    then show ?thesis
      using inv Nil tool_inv_phase [OF inv, of Exited] by (auto simp: main_move_def tool_inv_def phase_inv_def Let_def)
  qed (use inv Nil in \<open>auto simp: main_move_def\<close>)
qed

lemma run_tool_inv:
  assumes "tool_inv ls s" and "text_mode opts"
  shows "tool_inv ls (run_tool E opts mvs s)"
  using assms(1)
proof (induction mvs arbitrary: s)
  case (Cons mv mvs)
  then have "tool_inv ls (tool_move E opts mv s)"
    using main_move_inv ticker_move_inv assms(2) by (auto simp: tool_move_def split: move.splits)
  from Cons.IH [OF this] show ?case by (simp add: run_tool_def)
qed (simp add: run_tool_def)

lemma exited_trace:
  assumes "tool_inv ls s" and "tl_main s = Exited"
  shows "\<exists>em et evs. evs \<in> shuffles em et
    \<and> (\<forall>q. handed_out q evs = of_seq q (kept (map pushed ls)))
    \<and> written MainLoop s = lines_of em
    \<and> written Maintainer s @ tl_failed s @ unwritten Maintainer s = lines_of et"
proof -
  obtain ps evs em et where tr: "tool_trace ls s ps evs em et" using assms by (auto simp: tool_inv_def)
  let ?l = "rlist (tl_reassembler s)"
  have ph: "tl_lines s = []" "seqs ?l = []" "tl_todo s MainLoop = []"
    using assms by (auto simp: tool_inv_def phase_inv_def)
  have run: "store_run Put CleanUp Clear (newEventList maxEvents eventTimeout) (map pushed ls) evs ?l"
    using tr ph(1) by (auto simp: tool_trace_def)
  have "pending ?l q = []" for q
    using ph(2) el.run_inv [OF run list_inv_new] by (auto simp: pending_def list_inv_def split: option.splits)
  then have "handed_out q evs = of_seq q (kept (map pushed ls))" for q
    using oel.run_waiting [OF run list_inv_new, of q] by (simp add: pending_def newEventList_def)
  then show ?thesis using tr ph(3) by (auto simp: tool_trace_def unwritten_def)
qed

lemma auparse_main_run:
  assumes "tool_parse auparse_flag_set args auparse_defaults = Ok opts" and "text_mode opts"
    and "input_text F opts = Some text" and "output_opens F opts"
  shows "\<exists>s. auparse_main F E args mvs st = Ok s \<and> tool_inv (scan_lines text) s
    \<and> s = run_tool E opts mvs (start_state (scan_lines text) \<lparr>closed = 0, rlist = newEventList maxEvents eventTimeout\<rparr> st)"
proof -
  let ?s = "run_tool E opts mvs (start_state (scan_lines text) \<lparr>closed = 0, rlist = newEventList maxEvents eventTimeout\<rparr> st)"
  have inv: "tool_inv (scan_lines text) ?s" by (rule run_tool_inv [OF tool_inv_start assms(2)])
  then have "\<forall>p. tl_main ?s \<noteq> Crashed p" by (auto simp: tool_inv_def phase_inv_def)
  then show ?thesis
    using inv assms by (auto simp: auparse_main_def processLogs_def NewReassembler_def Let_def split: main_phase.splits)
qed


section \<open>The run ends\<close>

text \<open>Moves of the main goroutine still needed, at most: its callback, its phase, the lines, and what is in flight.\<close>

fun action_weight :: "action \<Rightarrow> nat" where
  "action_weight (HandleEvent (ReassemblyComplete ms)) = 2 + 2 * length ms"
| "action_weight (OutputSingle m) = 2"
| "action_weight _ = 1"

fun phase_weight :: "main_phase \<Rightarrow> nat" where
  "phase_weight MainPut = 7"
| "phase_weight MainScan = 5"
| "phase_weight MainSwapped = 4"
| "phase_weight MainClosed = 2"
| "phase_weight OutputClosed = 1"
| "phase_weight _ = 0"

definition todo_weight :: "action list \<Rightarrow> nat" where
  "todo_weight acts = sum_list (map action_weight acts)"

definition tool_weight :: "tool_state \<Rightarrow> nat" where
  "tool_weight s = todo_weight (tl_todo s MainLoop) + phase_weight (tl_main s) + 7 * length (tl_lines s)
     + 4 * size (in_flight (rlist (tl_reassembler s)))"

lemma expand_weight: "plain_action a \<Longrightarrow> todo_weight (expand a @ rest) < action_weight a + todo_weight rest"
  by (cases a rule: expand.cases) (simp_all add: todo_weight_def comp_def sum_list_triv)

lemma callback_weight:
  assumes "\<And>e. e \<in> set evs \<Longrightarrow> event_ok (event_seq e) e"
  shows "todo_weight (map HandleEvent (callback evs lost)) \<le> 4 * size (delivered evs) + 1"
proof -
  have "todo_weight (map HandleEvent (map (\<lambda>e. ReassemblyComplete (msgs e)) evs)) \<le> 4 * size (delivered evs)"
    using assms
  proof (induction evs)
    case (Cons e evs)
    then have "msgs e \<noteq> []" by (simp add: event_ok_def)
    then have "1 \<le> length (msgs e)" by (cases "msgs e") auto
    then show ?case using Cons by (simp add: todo_weight_def delivered_def comp_def)
  qed (simp add: todo_weight_def)
  then show ?thesis by (simp add: callback_def todo_weight_def)
qed

lemma tool_list_inv: "tool_inv ls s \<Longrightarrow> list_inv (rlist (tl_reassembler s))"
  by (auto simp: tool_inv_def tool_trace_def dest: el.run_inv [OF _ list_inv_new])

lemma evict_weight:
  assumes "list_inv l" and "R = CleanUp now l \<or> R = Clear l" and "R = (evs, lost, l')"
  shows "todo_weight (map HandleEvent (callback evs lost)) + 4 * size (in_flight l') \<le> 4 * size (in_flight l) + 1"
proof -
  have "event_ok (event_seq e) e" if "e \<in> set evs" for e
    using el.cleanup_events [OF assms(1)] el.clear_events [OF assms(1)] assms(2,3) that by metis
  moreover have "in_flight l = delivered evs + in_flight l'"
    using el.cleanup_contents [OF assms(1)] el.clear_contents [OF assms(1)] assms(2,3) by metis
  ultimately show ?thesis using callback_weight [of evs lost] by fastforce
qed

lemma do_action_weight:
  assumes inv: "tool_inv ls s" and todo: "tl_todo s g = a # rest" and mode: "text_mode opts"
  shows "tool_weight (do_action E opts g a rest s) + (if g = MainLoop then 1 else 0) \<le> tool_weight s"
proof -
  have plain: "plain_action a" using inv todo unfolding tool_inv_def by (metis list.pred_inject(2))
  let ?s = "case a of WriteText t \<Rightarrow> write_output g t s | _ \<Rightarrow> s"
  have "tl_main ?s = tl_main s" "tl_lines ?s = tl_lines s" "tl_reassembler ?s = tl_reassembler s" "tl_todo ?s = tl_todo s"
    by (simp_all add: write_output_def split: action.splits)
  then show ?thesis
    using expand_weight [OF plain, of rest] todo unfolding do_action_text [OF mode plain]
    by (cases g) (simp_all add: tool_weight_def set_todo_def todo_weight_def)
qed

lemma ticker_move_weight:
  assumes inv: "tool_inv ls s" and mode: "text_mode opts"
  shows "tool_weight (ticker_move E opts now s) \<le> tool_weight s"
proof (cases "tl_todo s Maintainer")
  case (Cons a rest)
  then show ?thesis using do_action_weight [OF inv Cons mode] by (simp add: ticker_move_def)
next
  case Nil
  obtain evs lost l where R: "CleanUp now (rlist (tl_reassembler s)) = (evs, lost, l)"
    by (cases "CleanUp now (rlist (tl_reassembler s))") auto
  have "size (in_flight l) \<le> size (in_flight (rlist (tl_reassembler s)))"
    using el.cleanup_contents [OF tool_list_inv [OF inv] R] by simp
  then show ?thesis
    using Nil R by (cases "tl_ticker s") (simp_all add: ticker_move_def tool_weight_def evict_into_def set_todo_def Let_def)
qed

lemma main_move_weight:
  assumes inv: "tool_inv ls s" and mode: "text_mode opts" and live: "\<not> ended s"
  shows "tool_weight (main_move E opts t now s) < tool_weight s"
proof (cases "tl_todo s MainLoop")
  case (Cons a rest)
  then show ?thesis using do_action_weight [OF inv Cons mode] by (simp add: main_move_def Suc_le_eq)
next
  case Nil
  let ?l = "rlist (tl_reassembler s)"
  have linv: "list_inv ?l" by (rule tool_list_inv [OF inv])
  have todo: "todo_weight [] = 0" by (simp add: todo_weight_def)
  have evict: "todo_weight (map HandleEvent (callback evs lost)) + 4 * size (in_flight l') \<le> 4 * size (in_flight ?l) + 1"
    if "CleanUp now ?l = (evs, lost, l') \<or> Clear ?l = (evs, lost, l')" for evs lost l'
    using evict_weight [OF linv, of "(evs, lost, l')" now] that by metis
  have put: "size (in_flight (Put t m ?l)) \<le> size (in_flight ?l) + 1" for m
    by (simp add: el.put_contents [OF linv] kept_def)
  show ?thesis
  proof (cases "tl_main s")
    case MainScan
    then show ?thesis
    proof (cases "tl_lines s")
      case (Cons line rest)
      then show ?thesis
        using Nil MainScan put [of "pushed line"] by (simp add: main_move_def tool_weight_def line_message_pushed Let_def)
    qed (use inv Nil in \<open>simp add: main_move_def tool_weight_def tool_inv_def phase_inv_def Let_def\<close>)
  next
    case MainPut
    then show ?thesis
      using Nil todo evict
      by (cases "CleanUp now ?l") (fastforce simp: main_move_def tool_weight_def evict_into_def set_todo_def Let_def)
  next
    case MainSwapped
    then show ?thesis
      using Nil todo evict
      by (cases "Clear ?l") (fastforce simp: main_move_def tool_weight_def evict_into_def set_todo_def Let_def)
  qed (use Nil live in \<open>simp_all add: main_move_def tool_weight_def ended_def\<close>)
qed

definition main_moves :: "move list \<Rightarrow> nat" where
  "main_moves mvs = length (filter (\<lambda>mv. case mv of MoveMain _ _ \<Rightarrow> True | MoveTicker _ \<Rightarrow> False) mvs)"

lemma run_tool_ends:
  assumes "tool_inv ls s" and "text_mode opts" and "tool_weight s \<le> main_moves mvs"
  shows "tl_main (run_tool E opts mvs s) = Exited"
  using assms(1,3)
proof (induction mvs arbitrary: s)
  case Nil
  then have "phase_weight (tl_main s) = 0" by (simp add: tool_weight_def main_moves_def)
  moreover have "\<forall>p. tl_main s \<noteq> Crashed p" using Nil(1) by (auto simp: tool_inv_def phase_inv_def)
  ultimately show ?case by (cases "tl_main s") (simp_all add: run_tool_def)
next
  case (Cons mv mvs)
  have inv: "tool_inv ls (tool_move E opts mv s)"
    using run_tool_inv [OF Cons.prems(1) assms(2), of E "[mv]"] by (simp add: run_tool_def)
  show ?case
  proof (cases "ended s")
    case True
    then have "run_tool E opts mvs' s = s" for mvs' by (induction mvs') (simp_all add: run_tool_def tool_move_def)
    moreover have "tl_main s = Exited" using True Cons.prems(1) by (auto simp: ended_def tool_inv_def phase_inv_def split: main_phase.splits)
    ultimately show ?thesis by simp
  next
    case False
    have "tool_weight (tool_move E opts mv s) \<le> main_moves mvs"
    proof (cases mv)
      case (MoveMain t now)
      then show ?thesis
        using Cons.prems(2) False main_move_weight [OF Cons.prems(1) assms(2) False, of E t now]
        by (simp add: tool_move_def main_moves_def)
    next
      case (MoveTicker now)
      then show ?thesis
        using Cons.prems(2) False ticker_move_weight [OF Cons.prems(1) assms(2), of E now]
        by (simp add: tool_move_def main_moves_def)
    qed
    then show ?thesis using Cons.IH [OF inv] by (simp add: run_tool_def)
  qed
qed


lemma start_weight: "tool_weight (start_state ls \<lparr>closed = 0, rlist = newEventList maxEvents eventTimeout\<rparr> st) = 7 * length ls + 5"
  by (simp add: tool_weight_def start_state_def todo_weight_def newEventList_def in_flight_def)

lemma auparse_main_ends:
  assumes "tool_parse auparse_flag_set args auparse_defaults = Ok opts" and "text_mode opts"
    and "input_text F opts = Some text" and "output_opens F opts"
    and "7 * length (scan_lines text) + 5 \<le> main_moves mvs"
  shows "\<exists>s. auparse_main F E args mvs st = Ok s \<and> tl_main s = Exited"
  using auparse_main_run [OF assms(1-4), of E mvs st] assms(5)
    run_tool_ends [OF tool_inv_start assms(2), of "scan_lines text" st mvs E] by (auto simp: start_weight)

section \<open>What is printed\<close>

text \<open>
  (C11) Without interpretation, for every interleaving of the main loop and the goroutine that calls \<^verbatim>\<open>Maintain\<close>, whatever the clock,
  when the tool has ended: the events handed out, in the order of their eviction, are shared out between the
  goroutines, and for each sequence number they hold exactly the messages of the lines of the input with that number, in
  the order of the lines, without the end-of-event messages (a line that cannot be parsed counts as the zero message). The main
  goroutine has written, line by line, all of its events; the other one has written its events up to the lines whose
  \<^verbatim>\<open>Write\<close> came after the output was closed, or that it had no more time for. So if there are no such lines, every message is
  printed exactly once.
\<close>

theorem auparse_prints_every_message:
  assumes "tool_parse auparse_flag_set args auparse_defaults = Ok opts" and "text_mode opts"
    and "input_text F opts = Some text" and "output_opens F opts"
    and "auparse_main F E args mvs st = Ok s" and "tl_main s = Exited"
  shows "\<exists>em et evs. evs \<in> shuffles em et
    \<and> (\<forall>q. handed_out q evs = of_seq q (kept (map pushed (scan_lines text))))
    \<and> written MainLoop s = concat (map (event_lines \<circ> msgs) em)
    \<and> written Maintainer s @ tl_failed s @ unwritten Maintainer s = concat (map (event_lines \<circ> msgs) et)"
  using exited_trace [of "scan_lines text" s] auparse_main_run [OF assms(1-4), of E mvs st] assms(5,6)
  unfolding lines_of_def by auto

definition sample_line :: string where
  "sample_line = log_line AUDIT_CWD 42 11 12 [Plain ''cwd'' ''/root'']"

lemma pushed_sample_line:
  "pushed sample_line = parsed_record AUDIT_CWD 42 11 12 [Plain ''cwd'' ''/root'']"
proof -
  have "list_all tok_ok [Plain ''cwd'' ''/root'']"
    by (simp add: key_ok_def isKeyRune_def plain_char_def is_quote_def is_space_def)
  then show ?thesis by (simp add: pushed_def sample_line_def ParseLogLine_line)
qed

lemma sample_line_is_line: "is_line sample_line"
proof -
  have line: "sample_line = ''type=CWD msg=audit(42.011:12): cwd=/root''" by code_simp
  show ?thesis unfolding line by (simp add: is_line_def)
qed

definition sample_input :: auparse_files where
  "sample_input = \<lparr>af_stdin = [], af_open = [''audit.log'' \<mapsto> line_text [sample_line]], af_create = (\<lambda>_. True)\<rparr>"


abbreviation sample_args :: "string list" where "sample_args \<equiv> [''-in=audit.log'']"

definition sample_opts :: auparse_options where
  "sample_opts = auparse_defaults\<lparr>opt_in := ''audit.log''\<rparr>"

lemma sample_run:
  "tool_parse auparse_flag_set sample_args auparse_defaults = Ok sample_opts" "text_mode sample_opts"
  "input_text sample_input sample_opts = Some (line_text [sample_line])" "output_opens sample_input sample_opts"
  "scan_lines (line_text [sample_line]) = [sample_line]"
proof -
  have "tool_parse auparse_flag_set (flag_arg (''in'', ''audit.log'') # []) auparse_defaults
      = tool_parse auparse_flag_set [] sample_opts"
    by (rule tool_parse_arg) (simp_all add: plain_name_def auparse_flag_set_def sample_opts_def)
  then show "tool_parse auparse_flag_set sample_args auparse_defaults = Ok sample_opts" by (simp add: flag_arg_def)
qed (use sample_line_is_line in \<open>simp_all add: text_mode_def auparse_defaults_def output_opens_def input_text_def sample_input_def
      sample_opts_def scan_line_text\<close>)

theorem auparse_prints_every_message_witness:
  "\<forall>E st. \<exists>s em et evs. auparse_main sample_input E sample_args (replicate 12 (MoveMain 0 (\<lambda>_. 0))) st = Ok s
     \<and> tl_main s = Exited \<and> evs \<in> shuffles em et \<and> handed_out 12 evs = [pushed sample_line]
     \<and> written MainLoop s = concat (map (event_lines \<circ> msgs) em)"
proof (intro allI)
  fix E st
  have "7 * length (scan_lines (line_text [sample_line])) + 5 \<le> main_moves (replicate 12 (MoveMain 0 (\<lambda>_. 0)))"
    by (simp add: sample_run main_moves_def)
  then obtain s where s: "auparse_main sample_input E sample_args (replicate 12 (MoveMain 0 (\<lambda>_. 0))) st = Ok s" "tl_main s = Exited"
    using auparse_main_ends [OF sample_run(1-4)] by blast
  moreover have "of_seq 12 (kept (map pushed (scan_lines (line_text [sample_line])))) = [pushed sample_line]"
    by (simp add: sample_run pushed_sample_line parsed_record_def of_seq_def kept_def)
  ultimately show "\<exists>s em et evs. auparse_main sample_input E sample_args (replicate 12 (MoveMain 0 (\<lambda>_. 0))) st = Ok s
     \<and> tl_main s = Exited \<and> evs \<in> shuffles em et \<and> handed_out 12 evs = [pushed sample_line]
     \<and> written MainLoop s = concat (map (event_lines \<circ> msgs) em)"
    using auparse_prints_every_message [OF sample_run(1-4) s] by metis
qed

text \<open>
  (C21) The tool ends: however its goroutines are interleaved, it has exited once the main goroutine has made seven moves for
  each line and five more, and it never panics (without interpretation and JSON or YAML output).
\<close>

theorem auparse_ends:
  assumes "tool_parse auparse_flag_set args auparse_defaults = Ok opts" and "text_mode opts"
    and "input_text F opts = Some text" and "output_opens F opts"
    and "7 * length (scan_lines text) + 5 \<le> main_moves mvs"
  shows "\<exists>s. auparse_main F E args mvs st = Ok s \<and> tl_main s = Exited"
  using auparse_main_ends [OF assms] .

theorem auparse_ends_witness:
  "\<forall>E st. \<exists>s. auparse_main sample_input E sample_args (replicate 12 (MoveMain 0 (\<lambda>_. 0))) st = Ok s \<and> tl_main s = Exited"
  using auparse_ends [OF sample_run(1-4), of "replicate 12 (MoveMain 0 (\<lambda>_. 0))"] by (simp add: sample_run main_moves_def)

section \<open>What is lost\<close>

text \<open>
  The main goroutine does not wait for the other one: here \<^verbatim>\<open>Maintain\<close> has evicted the expired event of the only line of the
  input, and the tool ends before the callback is made, with nothing printed.
\<close>

lemma exit_loses_evicted_event:
  "\<exists>mvs s. auparse_main sample_input E sample_args mvs st = Ok s \<and> tl_main s = Exited \<and> tl_out s = []"
proof -
  let ?mvs = "[MoveMain 0 (\<lambda>_. 0), MoveMain 0 (\<lambda>_. 0), MoveTicker (\<lambda>_. 0), MoveTicker (\<lambda>_. 3000000000)] @ replicate 4 (MoveMain 0 (\<lambda>_. 0))"
  let ?m = "pushed sample_line"
  have m: "uint (Sequence ?m) = 12" "RecordType ?m = AUDIT_CWD" by (simp_all add: pushed_sample_line parsed_record_def)
  let ?l = "newEventList maxEvents eventTimeout"
  let ?e = "\<lparr>expireTime = 2000000000, msgs = [?m], complete = False\<rparr>"
  let ?l1 = "?l\<lparr>seqs := [12], events := [12 \<mapsto> ?e]\<rparr>" and ?l2 = "?l\<lparr>lastSeq := 12\<rparr>"
  have put: "Put 0 ?m ?l = ?l1"
    by (simp add: Put_def m newEventList_def event_Add_def completes_def eventTimeout_def heap_Push_def heap_up.simps [of seq_less "[12]" 0]
        parent_def Let_def)
  have keep: "CleanUp (\<lambda>_. 0) ?l1 = ([], 0, ?l1)"
    by (simp add: CleanUp_def evict_loop.simps due_def get_event_def IsExpired_def newEventList_def maxEvents_def)
  have "heap_down seq_less [12] 0 0 = [12]" "heap_Swap 0 0 [12] = [12 :: int]"
    by (simp_all add: heap_down.simps [of seq_less "[12]" 0 0] heap_Swap_def)
  then have root: "evict_root ?l1 = ?l2"
    by (simp add: evict_root_def remove_def heap_Pop_def newEventList_def Let_def)
  have stop: "evict_loop c k evs n ?l2 = (evs, n, ?l2)" for c k evs n by (simp add: evict_loop.simps newEventList_def)
  have "due (\<lambda>_. 3000000000) 0 ?l1" "gap ?l1 = 0" "get_event ?l1 12 = ?e"
    by (simp_all add: due_def get_event_def IsExpired_def gap_def newEventList_def)
  then have evict: "CleanUp (\<lambda>_. 3000000000) ?l1 = ([?e], 0, ?l2)"
    unfolding CleanUp_def by (subst evict_loop.simps) (simp add: root stop)
  have clear: "Clear ?l2 = ([], 0, ?l2)" by (simp add: Clear_def evict_loop.simps newEventList_def)
  have "tl_main (run_tool E sample_opts ?mvs (start_state [sample_line] \<lparr>closed = 0, rlist = ?l\<rparr> st)) = Exited
      \<and> tl_out (run_tool E sample_opts ?mvs (start_state [sample_line] \<lparr>closed = 0, rlist = ?l\<rparr> st)) = []"
    by (simp add: run_tool_def tool_move_def ended_def main_move_def ticker_move_def start_state_def line_message_pushed
        evict_into_def set_todo_def callback_def put keep evict clear numeral_eq_Suc)
  then show ?thesis using auparse_main_run [OF sample_run(1-4), of E ?mvs st] by (auto simp: sample_run)
qed

end
