(* ===== verification/Cmd_Audit.thy ===== *)
theory Cmd_Audit
  imports Audit_Client_Laws Cmd_Flags
begin

text \<open>
  \<^verbatim>\<open>cmd/audit/audit.go\<close>: the tool that configures the kernel and prints the audit messages it receives.
  What it logs to standard error is left out. The loop over the messages ends only with an error;
  a run that never ends is \<open>None\<close>, and the text printed so far is an argument of the loop.
\<close>

section \<open>Flags\<close>

record audit_flags =
  fl_diag :: string
  fl_rate :: "64 word"
  fl_backlog :: "64 word"
  fl_immutable :: bool
  fl_receiveOnly :: bool

definition default_flags :: audit_flags where
  "default_flags = \<lparr>fl_diag = [], fl_rate = 0, fl_backlog = 8192, fl_immutable = False, fl_receiveOnly = False\<rparr>"

definition audit_flag_set :: "audit_flags flag_set" where
  "audit_flag_set = \<lparr>fs_bools = [''immutable'', ''ro''], fs_others = [''diag'', ''rate'', ''backlog''],
     fs_set = (\<lambda>name value s.
       if name = ''diag'' then Some (s\<lparr>fl_diag := value\<rparr>)
       else if name = ''rate'' then map_option (\<lambda>n. s\<lparr>fl_rate := n\<rparr>) (uint_value value)
       else if name = ''backlog'' then map_option (\<lambda>n. s\<lparr>fl_backlog := n\<rparr>) (uint_value value)
       else if name = ''immutable'' then map_option (\<lambda>b. s\<lparr>fl_immutable := b\<rparr>) (bool_value value)
       else map_option (\<lambda>b. s\<lparr>fl_receiveOnly := b\<rparr>) (bool_value value))\<rparr>"

datatype audit_error = ErrNotRoot | ErrOpenDiag net_error | ErrClient net_error

section \<open>Configuration of the kernel\<close>

definition when_call :: "bool \<Rightarrow> string \<Rightarrow> ('n AuditClient \<Rightarrow> ('n, unit) call) \<Rightarrow> 'n AuditClient \<Rightarrow> ('n, unit) call" where
  "when_call b text f c = (if b then wrap text (f c) else return () c)"

definition configure ::
  "'n NetlinkSendReceiver \<Rightarrow> byte_order \<Rightarrow> u32 \<Rightarrow> audit_flags \<Rightarrow> 'n AuditClient \<Rightarrow> ('n, unit) call" where
  "configure ops bo getpid fl c =
     and_then (wrap ''failed to get audit status'' (GetStatus ops bo c)) (\<lambda>status c.
     and_then (when_call (Enabled status = 0) ''failed to set enabled=true'' (SetEnabled ops bo True WaitForReply) c) (\<lambda>_ c.
     and_then (when_call (RateLimit status \<noteq> ucast (fl_rate fl)) ''failed to set rate limit to unlimited''
         (SetRateLimit ops bo (ucast (fl_rate fl)) NoWait) c) (\<lambda>_ c.
     and_then (when_call (BacklogLimit status \<noteq> ucast (fl_backlog fl)) ''failed to set backlog limit''
         (SetBacklogLimit ops bo (ucast (fl_backlog fl)) NoWait) c) (\<lambda>_ c.
     and_then (when_call (Enabled status \<noteq> 2) ''failed to set kernel as immutable'' (SetImmutable ops bo NoWait) c) (\<lambda>_ c.
     wrap ''failed to set audit PID'' (SetPID ops bo getpid NoWait c))))))"

section \<open>Receiving\<close>

definition audit_record :: "RawAuditMessage \<Rightarrow> bool" where
  "audit_record ev = (\<not> (raw_Type ev < AUDIT_USER_AUTH \<or> raw_Type ev > AUDIT_LAST_USER_MSG2))"

definition event_text :: "RawAuditMessage \<Rightarrow> string" where
  "event_text ev =
     (if audit_record ev
      then ''type='' @ type_String (raw_Type ev) @ '' msg='' @ string_of_bytes (raw_Data ev) @ [CHR 0x0A]
      else [])"

definition event_of :: "(net_error, RawAuditMessage) outcome \<Rightarrow> RawAuditMessage option" where
  "event_of r = (case r of Ok ev \<Rightarrow> Some ev | _ \<Rightarrow> None)"

definition receive_end :: "(net_error, RawAuditMessage) outcome \<Rightarrow> (net_error, unit) outcome" where
  "receive_end r = (case r of
     Ok ev \<Rightarrow> Ok ()
   | Err e \<Rightarrow> Err (ErrWrapped ''receive failed'' e)
   | Panic p \<Rightarrow> Panic p)"

partial_function (option) receive ::
  "'n NetlinkSendReceiver \<Rightarrow> byte_order \<Rightarrow> string \<Rightarrow> 'n AuditClient
     \<Rightarrow> ((net_error, unit) outcome \<times> string \<times> 'n AuditClient) option" where
  "receive ops bo out c =
     Option.bind (client_Receive ops bo False c) (\<lambda>(r, c').
       case event_of r of
         Some ev \<Rightarrow> receive ops bo (out @ event_text ev) c'
       | None \<Rightarrow> Some (receive_end r, out, c'))"

section \<open>read\<close>

text \<open>The rest of \<^verbatim>\<open>read\<close> once there is a client, with the deferred \<^verbatim>\<open>client.Close()\<close>.\<close>

definition with_client ::
  "'n NetlinkSendReceiver \<Rightarrow> byte_order \<Rightarrow> u32 \<Rightarrow> audit_flags \<Rightarrow> 'n AuditClient
     \<Rightarrow> ((net_error, unit) outcome \<times> string \<times> 'n AuditClient) option" where
  "with_client ops bo getpid fl c =
     Option.bind
       (Option.bind (if fl_receiveOnly fl then return () c else configure ops bo getpid fl c) (\<lambda>(r, c).
          case r of Ok _ \<Rightarrow> receive ops bo [] c | _ \<Rightarrow> Some (r, [], c))) (\<lambda>(r, out, c).
     map_option (\<lambda>(_, c). (r, out, c)) (client_Close ops bo c))"

text \<open>\<^verbatim>\<open>read\<close>; \<open>openFile\<close> is the system's creation of the file for the diagnostics.\<close>

definition read_audit ::
  "'w kernel \<Rightarrow> byte_order \<Rightarrow> u32 \<Rightarrow> int \<Rightarrow> (string \<Rightarrow> 'w \<Rightarrow> net_error option \<times> 'w) \<Rightarrow> audit_flags \<Rightarrow> 'w
     \<Rightarrow> ((audit_error, unit) outcome \<times> string) option" where
  "read_audit K bo getpid geteuid openFile fl w =
     (if geteuid \<noteq> 0 then Some (Err ErrNotRoot, [])
      else (case (if fl_diag fl \<noteq> [] then openFile (fl_diag fl) w else (None, w)) of
          (Some e, w) \<Rightarrow> Some (Err (ErrOpenDiag e), [])
        | (None, w) \<Rightarrow>
            (case (if fl_receiveOnly fl then NewMulticastAuditClient K (fl_diag fl \<noteq> []) w
                   else NewAuditClient K (fl_diag fl \<noteq> []) w) of
               (Err e, w) \<Rightarrow> Some (Err (ErrClient (ErrWrapped
                   (if fl_receiveOnly fl then ''failed to create receive-only audit client''
                    else ''failed to create audit client'') e)), [])
             | (Panic p, w) \<Rightarrow> Some (Panic p, [])
             | (Ok c, w) \<Rightarrow>
                 map_option (\<lambda>(r, out, c). (case r of
                     Ok u \<Rightarrow> Ok u
                   | Err e \<Rightarrow> Err (ErrClient e)
                   | Panic p \<Rightarrow> Panic p, out)) (with_client (netlink_ops K bo) bo getpid fl c))))"

text \<open>\<^verbatim>\<open>main\<close>: an error of the flags or of \<^verbatim>\<open>read\<close> ends the program.\<close>

datatype audit_exit = AuditBadFlags tool_flag_error | AuditFatal audit_error

definition audit_main ::
  "'w kernel \<Rightarrow> byte_order \<Rightarrow> u32 \<Rightarrow> int \<Rightarrow> (string \<Rightarrow> 'w \<Rightarrow> net_error option \<times> 'w) \<Rightarrow> string list \<Rightarrow> 'w
     \<Rightarrow> ((audit_exit, unit) outcome \<times> string) option" where
  "audit_main K bo getpid geteuid openFile args w =
     (case tool_parse audit_flag_set args default_flags of
        Err e \<Rightarrow> Some (Err (AuditBadFlags e), [])
      | Panic p \<Rightarrow> Some (Panic p, [])
      | Ok fl \<Rightarrow>
          map_option (\<lambda>(r, out). (case r of
              Ok u \<Rightarrow> Ok u
            | Err e \<Rightarrow> Err (AuditFatal e)
            | Panic p \<Rightarrow> Panic p, out)) (read_audit K bo getpid geteuid openFile fl w))"

section \<open>What is printed\<close>

text \<open>\<open>receives ops bo n ms n'\<close>: from the state \<open>n\<close> on, the blocking reads yield the messages \<open>ms\<close>.\<close>

primrec receives :: "'n NetlinkSendReceiver \<Rightarrow> byte_order \<Rightarrow> 'n \<Rightarrow> NetlinkMessage list \<Rightarrow> 'n \<Rightarrow> bool" where
  "receives ops bo n [] n' = (n' = n)"
| "receives ops bo n (m # ms) n' =
     (\<exists>n1. op_Receive ops False (parseNetlinkAuditMessage bo) n = (Ok [m], n1) \<and> receives ops bo n1 ms n')"

definition raw_of :: "NetlinkMessage \<Rightarrow> RawAuditMessage" where
  "raw_of m = \<lparr>raw_Type = hdr_Type (Header m), raw_Data = nl_Data m\<rparr>"

definition record_line :: "RawAuditMessage \<Rightarrow> string" where
  "record_line ev = ''type='' @ type_String (raw_Type ev) @ '' msg='' @ string_of_bytes (raw_Data ev) @ [CHR 0x0A]"

lemma receive_receives:
  assumes "receives ops bo (Netlink c) ms n'"
  shows "receive ops bo out c
    = receive ops bo (out @ concat (map (event_text \<circ> raw_of) ms)) (c\<lparr>Netlink := n'\<rparr>)"
  using assms
proof (induction ms arbitrary: c out)
  case Nil
  then show ?case by simp
next
  case (Cons m ms)
  then obtain n1 where n1: "op_Receive ops False (parseNetlinkAuditMessage bo) (Netlink c) = (Ok [m], n1)"
    and rest: "receives ops bo (Netlink (c\<lparr>Netlink := n1\<rparr>)) ms n'" by auto
  have "receive ops bo out c = receive ops bo (out @ event_text (raw_of m)) (c\<lparr>Netlink := n1\<rparr>)"
    using n1 by (subst receive.simps) (simp add: client_Receive_def return_def event_of_def raw_of_def)
  with Cons.IH [OF rest] show ?case by simp
qed

lemma event_text_lines:
  "concat (map (event_text \<circ> raw_of) ms) = concat (map record_line (filter audit_record (map raw_of ms)))"
  by (induction ms) (simp_all add: event_text_def record_line_def)

lemma receive_error:
  assumes "op_Receive ops False (parseNetlinkAuditMessage bo) (Netlink c) = (Err e, n')"
  shows "receive ops bo out c = Some (Err (ErrWrapped ''receive failed'' e), out, c\<lparr>Netlink := n'\<rparr>)"
  using assms by (subst receive.simps) (simp add: client_Receive_def fail_def event_of_def receive_end_def)

text \<open>The flag \<^verbatim>\<open>-immutable\<close> is not read: the settings are made immutable whatever it says.\<close>

lemma immutable_flag_ignored: "configure ops bo getpid (fl\<lparr>fl_immutable := b\<rparr>) c = configure ops bo getpid fl c"
  by (simp add: configure_def)

text \<open>
  In receive-only mode the tool prints, in the order of arrival and until the first read that
  fails, one line for each message whose type is between \<^verbatim>\<open>AUDIT_USER_AUTH\<close> and
  \<^verbatim>\<open>AUDIT_LAST_USER_MSG2\<close>, and nothing for the others; it then returns the wrapped error of that read.
\<close>

lemma audit_prints_events:
  assumes "fl_receiveOnly fl" and "receives ops bo (Netlink c) ms n1" and "\<not> clearPIDOnClose c"
    and "op_Receive ops False (parseNetlinkAuditMessage bo) n1 = (Err e, n2)"
  shows "\<exists>c'. with_client ops bo getpid fl c
    = Some (Err (ErrWrapped ''receive failed'' e), concat (map record_line (filter audit_record (map raw_of ms))), c')"
proof -
  have r: "receive ops bo [] c = Some (Err (ErrWrapped ''receive failed'' e),
      concat (map record_line (filter audit_record (map raw_of ms))), c\<lparr>Netlink := n2\<rparr>)"
    using receive_receives [OF assms(2), of "[]"] receive_error [of ops bo "c\<lparr>Netlink := n1\<rparr>" e n2] assms(4)
    by (simp add: event_text_lines)
  have "\<exists>x c'. client_Close ops bo (c\<lparr>Netlink := n2\<rparr>) = Some (x, c')"
    using assms(3) by (auto simp: client_Close_def close_body_def return_def fail_def split: prod.splits option.splits)
  with r assms(1) show ?thesis by (auto simp: with_client_def return_def)
qed

end
