(* ===== verification/Gen_Template.thy ===== *)
theory Gen_Template
  imports Go_Bufio Cmd_Flags
begin

text \<open>
  What the code generators \<^verbatim>\<open>mk_audit_msg_types.go\<close>, \<^verbatim>\<open>mk_audit_exit_codes.go\<close> and \<^verbatim>\<open>mknormalize_data.go\<close> share: the licence
  their templates start with, the lines of a template, and \<^verbatim>\<open>main\<close> with its flag \<^verbatim>\<open>-out\<close>.
\<close>

section \<open>Templates\<close>

text \<open>A line of a template with its indentation in tabs.\<close>

definition template_line :: "nat \<times> string \<Rightarrow> string" where
  "template_line l = replicate (fst l) (CHR 0x09) @ snd l"

definition template_license :: "(nat \<times> string) list" where
  "template_license = [
    (0, ''// Licensed to Elasticsearch B.V. under one or more contributor''),
    (0, ''// license agreements. See the NOTICE file distributed with''),
    (0, ''// this work for additional information regarding copyright''),
    (0, ''// ownership. Elasticsearch B.V. licenses this file to you under''),
    (0, ''// the Apache License, Version 2.0 (the \"License\"); you may''),
    (0, ''// not use this file except in compliance with the License.''),
    (0, ''// You may obtain a copy of the License at''),
    (0, ''//''),
    (0, ''//     http://www.apache.org/licenses/LICENSE-2.0''),
    (0, ''//''),
    (0, ''// Unless required by applicable law or agreed to in writing,''),
    (0, ''// software distributed under the License is distributed on an''),
    (0, ''// \"AS IS\" BASIS, WITHOUT WARRANTIES OR CONDITIONS OF ANY''),
    (0, ''// KIND, either express or implied.  See the License for the''),
    (0, ''// specific language governing permissions and limitations''),
    (0, ''// under the License.''),
    (0, [])]"

section \<open>main\<close>

definition gen_flag_set :: "string flag_set" where
  "gen_flag_set = \<lparr>fs_bools = [], fs_others = [''out''], fs_set = (\<lambda>name value s. Some value)\<rparr>"

datatype 'e gen_exit = GenBadFlags tool_flag_error | GenNoPath | GenFailed 'e

text \<open>
  The two generators have the same \<^verbatim>\<open>main\<close> but for the default of the flag; \<open>absPath\<close> is \<^verbatim>\<open>filepath.Abs\<close>, which can fail, and \<open>run\<close>
  the text that \<^verbatim>\<open>run\<close> writes. The result is the path and the text, an error is an exit with status 1 or, for bad flags, 2.
\<close>

definition gen_main ::
  "(string \<Rightarrow> string option) \<Rightarrow> string list \<Rightarrow> string \<Rightarrow> ('e, string) outcome \<Rightarrow> ('e gen_exit, string \<times> string) outcome" where
  "gen_main absPath args out run =
     (case tool_parse gen_flag_set args out of
        Err e \<Rightarrow> Err (GenBadFlags e)
      | Panic p \<Rightarrow> Panic p
      | Ok flagOut \<Rightarrow>
          (case absPath flagOut of
             None \<Rightarrow> Err GenNoPath
           | Some path \<Rightarrow>
               (case run of Ok text \<Rightarrow> Ok (path, text) | Err e \<Rightarrow> Err (GenFailed e) | Panic p \<Rightarrow> Panic p)))"

end
