(* ===== verification/Gen_Assets.thy ===== *)
theory Gen_Assets
  imports Aucoalesce_Normalize Gen_Template
begin

text \<open>
  \<^verbatim>\<open>aucoalesce/mknormalize_data.go\<close>, which embeds files in a Go source file, \<^verbatim>\<open>asset\<close> of the file it
  generates (\<^verbatim>\<open>znormalize_data.go\<close>), and \<^verbatim>\<open>init\<close> of \<^verbatim>\<open>normalize.go\<close>, which loads the embedded
  normalizations. The generated file differs from the template in the list of assets only, and
  that list is an argument of \<open>asset\<close>.
\<close>

section \<open>Base64\<close>

text \<open>\<^verbatim>\<open>base64.StdEncoding\<close> of the standard library, with padding.\<close>

definition b64_char :: "nat \<Rightarrow> char" where
  "b64_char n = char_of (if n < 26 then 65 + n else if n < 52 then 71 + n else if n < 62 then n - 4
     else if n = 62 then 43 else 47)"

definition b64_val :: "char \<Rightarrow> nat option" where
  "b64_val c = (let n = code c in
     if 65 \<le> n \<and> n \<le> 90 then Some (n - 65) else if 97 \<le> n \<and> n \<le> 122 then Some (n - 71)
     else if 48 \<le> n \<and> n \<le> 57 then Some (n + 4) else if n = 43 then Some 62
     else if n = 47 then Some 63 else None)"

definition b64_pad :: char where "b64_pad = CHR ''=''"

fun EncodeToString :: "bytes \<Rightarrow> string" where
  "EncodeToString [] = []"
| "EncodeToString [a] = (let n = unat a in [b64_char (n div 4), b64_char (n mod 4 * 16), b64_pad, b64_pad])"
| "EncodeToString [a, b] = (let n = unat a * 256 + unat b in
     [b64_char (n div 1024), b64_char (n div 16 mod 64), b64_char (n mod 16 * 4), b64_pad])"
| "EncodeToString (a # b # c # bs) = (let n = (unat a * 256 + unat b) * 256 + unat c in
     [b64_char (n div 262144), b64_char (n div 4096 mod 64), b64_char (n div 64 mod 64), b64_char (n mod 64)]
       @ EncodeToString bs)"

text \<open>
  \<^verbatim>\<open>DecodeString\<close>, without line breaks: the bytes of the quanta up to the first corrupt one, and whether the
  whole string was decoded. Bits beyond the last byte are not looked at.
\<close>

fun decode_quanta :: "string \<Rightarrow> bytes \<times> bool" where
  "decode_quanta [] = ([], True)"
| "decode_quanta (p # q # r # s # cs) =
     (case (b64_val p, b64_val q, b64_val r, b64_val s) of
        (Some i, Some j, Some k, Some l) \<Rightarrow>
          (let n = ((i * 64 + j) * 64 + k) * 64 + l; (bs, ok) = decode_quanta cs in
           (of_nat (n div 65536) # of_nat (n div 256 mod 256) # of_nat (n mod 256) # bs, ok))
      | (Some i, Some j, Some k, None) \<Rightarrow>
          if s = b64_pad then (let n = (i * 64 + j) * 64 + k in
            ([of_nat (n div 1024), of_nat (n div 4 mod 256)], cs = [])) else ([], False)
      | (Some i, Some j, None, _) \<Rightarrow>
          if r = b64_pad \<and> s = b64_pad then ([of_nat ((i * 64 + j) div 16)], cs = []) else ([], False)
      | _ \<Rightarrow> ([], False))"
| "decode_quanta cs = ([], False)"

definition DecodeString :: "string \<Rightarrow> bytes \<times> bool" where
  "DecodeString s = decode_quanta (filter (\<lambda>c. c \<notin> {CHR 0x0A, CHR 0x0D}) s)"

section \<open>The generator\<close>

record asset_entry =
  asset_Name :: string
  asset_Data :: string

text \<open>\<^verbatim>\<open>addAsset\<close>; \<open>readFile\<close> is the file system, \<open>None\<close> an error of \<^verbatim>\<open>ioutil.ReadFile\<close>.\<close>

definition addAsset :: "(string \<Rightarrow> bytes option) \<Rightarrow> string \<Rightarrow> string \<Rightarrow> asset_entry list \<Rightarrow> bool \<times> asset_entry list" where
  "addAsset readFile key file assets =
     (case readFile file of
        None \<Rightarrow> (False, assets)
      | Some data \<Rightarrow> (True, assets @ [\<lparr>asset_Name = key, asset_Data = EncodeToString data\<rparr>]))"

fun add_assets :: "(string \<Rightarrow> bytes option) \<Rightarrow> string list \<Rightarrow> asset_entry list \<Rightarrow> asset_entry list" where
  "add_assets readFile (key # file # args) assets = add_assets readFile args (snd (addAsset readFile key file assets))"
| "add_assets readFile args assets = assets"

text \<open>The assets that \<^verbatim>\<open>main\<close> collects from its arguments: \<open>None\<close> is the exit with status 1. The errors of \<^verbatim>\<open>addAsset\<close> are dropped.\<close>

definition mk_assets :: "(string \<Rightarrow> bytes option) \<Rightarrow> string list \<Rightarrow> asset_entry list option" where
  "mk_assets readFile args = (if length args mod 2 \<noteq> 0 then None else Some (add_assets readFile args []))"

text \<open>The template: what precedes the assets, two lines for each of them, and what follows.\<close>

definition asset_template_head :: "(nat \<times> string) list" where
  "asset_template_head = [
    (0, ''// Code generated by mknormalize_data.go - DO NOT EDIT.''),
    (0, []),
    (0, ''package aucoalesce''),
    (0, []),
    (0, ''import (''),
    (1, ''\"encoding/base64\"''),
    (1, ''\"fmt\"''),
    (0, '')''),
    (0, []),
    (0, ''var assets map[string][]byte''),
    (0, []),
    (0, ''func asset(key string) ([]byte, error) {''),
    (1, ''if assets == nil {''),
    (2, ''assets = map[string][]byte{}''),
    (0, []),
    (2, ''var value []byte'')]"

definition asset_template_tail :: "(nat \<times> string) list" where
  "asset_template_tail = [
    (1, ''}''),
    (0, []),
    (1, ''if value, found := assets[key]; found {''),
    (2, ''return value, nil''),
    (1, ''}''),
    (1, ''return nil, fmt.Errorf(\"asset not found for key=%v\", key)''),
    (0, ''}'')]"

definition asset_lines :: "asset_entry \<Rightarrow> (nat \<times> string) list" where
  "asset_lines e =
     [(2, ''value, _ = base64.StdEncoding.DecodeString(\"'' @ asset_Data e @ ''\")''),
      (2, ''assets[\"'' @ asset_Name e @ ''\"] = value'')]"

definition render_assets :: "asset_entry list \<Rightarrow> string" where
  "render_assets es = CHR 0x0A # line_text (map template_line (
     template_license @ asset_template_head @ concat (map asset_lines es) @ asset_template_tail))"

text \<open>
  \<^verbatim>\<open>main\<close>: what is written to standard output; \<open>fmt\<close> is \<^verbatim>\<open>format.Source\<close>, and its error makes \<^verbatim>\<open>main\<close> panic.
\<close>

datatype asset_exit = OddArguments | FormatPanic

definition main_assets ::
  "(string \<Rightarrow> bytes option) \<Rightarrow> (string \<Rightarrow> string option) \<Rightarrow> string list \<Rightarrow> (asset_exit, string) outcome" where
  "main_assets readFile fmt args =
     (case mk_assets readFile args of
        None \<Rightarrow> Err OddArguments
      | Some es \<Rightarrow> (case fmt (render_assets es) of None \<Rightarrow> Err FormatPanic | Some text \<Rightarrow> Ok text))"

section \<open>The generated file\<close>

type_synonym asset_table = "string \<rightharpoonup> bytes"

definition fill_assets :: "asset_entry list \<Rightarrow> asset_table" where
  "fill_assets es = fold (\<lambda>e m. m(asset_Name e \<mapsto> fst (DecodeString (asset_Data e)))) es Map.empty"

text \<open>\<^verbatim>\<open>asset\<close>: the table is filled by the first call; its state is \<open>None\<close> for the nil map.\<close>

definition asset :: "asset_entry list \<Rightarrow> string \<Rightarrow> asset_table option \<Rightarrow> bytes option \<times> asset_table option" where
  "asset es key assets =
     (let m = (case assets of None \<Rightarrow> fill_assets es | Some m \<Rightarrow> m) in (m key, Some m))"

text \<open>
  \<^verbatim>\<open>init\<close> of \<^verbatim>\<open>normalize.go\<close>, which fills the two tables of the package. It reports its errors by calling
  \<^verbatim>\<open>panic\<close>, whose argument is the error here.
\<close>

datatype init_panic = AssetNotFound | BadNormalizations norm_error

definition init_norms ::
  "(bytes \<Rightarrow> (norm_error, Normalization list) outcome) \<Rightarrow> asset_entry list \<Rightarrow> (init_panic, syscall_norms \<times> record_norms) outcome" where
  "init_norms unmarshal es =
     (case fst (asset es ''normalizationData'' None) of
        None \<Rightarrow> Err AssetNotFound
      | Some data \<Rightarrow> (case LoadNormalizationConfig unmarshal data of
          Ok tables \<Rightarrow> Ok tables
        | Err e \<Rightarrow> Err (BadNormalizations e)
        | Panic p \<Rightarrow> Panic p))"

section \<open>Decoding what was encoded\<close>

lemma b64_char_code [simp]: "n < 64 \<Longrightarrow> code (b64_char n) =
   (if n < 26 then 65 + n else if n < 52 then 71 + n else if n < 62 then n - 4 else if n = 62 then 43 else 47)"
  by (simp add: b64_char_def of_char_of)

lemma b64_val_char [simp]: "n < 64 \<Longrightarrow> b64_val (b64_char n) = Some n"
  by (simp add: b64_val_def Let_def) arith

lemma b64_val_pad [simp]: "b64_val b64_pad = None"
  by (simp add: b64_val_def b64_pad_def)

lemma b64_char_line [simp]: "n < 64 \<Longrightarrow> b64_char n \<noteq> CHR 0x0A" "n < 64 \<Longrightarrow> b64_char n \<noteq> CHR 0x0D"
proof -
  have "b64_val (CHR 0x0A) = None" "b64_val (CHR 0x0D) = None" by code_simp+
  then show "n < 64 \<Longrightarrow> b64_char n \<noteq> CHR 0x0A" "n < 64 \<Longrightarrow> b64_char n \<noteq> CHR 0x0D"
    using b64_val_char by fastforce+
qed

lemma unat_u8 [simp]: "unat (a :: u8) < 256"
proof -
  have "unat a < 2 ^ LENGTH(8)" by (rule unsigned_less)
  then show ?thesis by simp
qed

lemma byte_div: "c < 256 \<Longrightarrow> (m * 256 + c) div 256 = (m :: nat)" "c < 256 \<Longrightarrow> (m * 256 + c) mod 256 = (c :: nat)"
  by simp_all

lemma of_nat_unat_u8 [simp]: "n = unat (a :: u8) \<Longrightarrow> of_nat n = a"
  by simp

lemma quantum_3:
  fixes a b c :: nat
  assumes "a < 256" "b < 256" "c < 256"
  defines "n \<equiv> (a * 256 + b) * 256 + c"
  shows "n div 262144 < 64" "((n div 262144 * 64 + n div 4096 mod 64) * 64 + n div 64 mod 64) * 64 + n mod 64 = n"
    "n div 65536 = a" "n div 256 mod 256 = b" "n mod 256 = c"
proof -
  have "n < 256 * 65536" using assms by simp
  then show "n div 262144 < 64" by simp
  have "n div 4096 = n div 64 div 64" "n div 262144 = n div 64 div 64 div 64" by (simp_all add: div_mult2_eq [symmetric])
  then show "((n div 262144 * 64 + n div 4096 mod 64) * 64 + n div 64 mod 64) * 64 + n mod 64 = n"
    by (simp only: div_mult_mod_eq)
  have "n div 65536 = n div 256 div 256" by (simp add: div_mult2_eq [symmetric])
  then show "n div 65536 = a" "n div 256 mod 256 = b" "n mod 256 = c"
    unfolding n_def by (simp_all only: byte_div assms(1-3))
qed

lemma quantum_2:
  fixes a b :: nat
  assumes "a < 256" "b < 256"
  defines "n \<equiv> a * 256 + b"
  shows "n div 1024 < 64" "n mod 16 * 4 < 64" "(n div 1024 * 64 + n div 16 mod 64) * 64 + n mod 16 * 4 = n * 4"
    "n * 4 div 1024 = a" "n * 4 div 4 mod 256 = b"
proof -
  have "n < 256 * 256" using assms by simp
  then show "n div 1024 < 64" "n mod 16 * 4 < 64" by simp_all
  have "n div 1024 = n div 16 div 64" by (simp add: div_mult2_eq [symmetric])
  then have "(n div 1024 * 64 + n div 16 mod 64) * 64 + n mod 16 * 4 = n div 16 * 64 + n mod 16 * 4"
    by (simp only: div_mult_mod_eq)
  then show "(n div 1024 * 64 + n div 16 mod 64) * 64 + n mod 16 * 4 = n * 4"
    using div_mult_mod_eq [of n 16] by linarith
  have "n * 4 div 1024 = n div 256" "n * 4 div 4 = n" by (simp_all add: div_mult2_eq [symmetric])
  then show "n * 4 div 1024 = a" "n * 4 div 4 mod 256 = b"
    unfolding n_def by (simp_all only: byte_div assms(1,2))
qed

lemma decode_quanta_Encode: "decode_quanta (EncodeToString bs) = (bs, True)"
proof (induction bs rule: EncodeToString.induct)
  case (2 a)
  have "unat a div 4 < 64" "unat a mod 4 * 16 < 64" "(unat a div 4 * 64 + unat a mod 4 * 16) div 16 = unat a"
    using unat_u8 [of a] div_mult_mod_eq [of "unat a" 4] by linarith+
  then show ?case by (simp add: Let_def)
next
  case (3 a b)
  show ?case using quantum_2 [OF unat_u8 [of a] unat_u8 [of b]] by (simp add: Let_def)
next
  case (4 a b c bs)
  show ?case using quantum_3 [OF unat_u8 [of a] unat_u8 [of b] unat_u8 [of c]] 4 by (simp add: Let_def)
qed simp

definition b64_text :: "string \<Rightarrow> bool" where
  "b64_text s = list_all (\<lambda>c. c \<notin> {CHR 0x0A, CHR 0x0D}) s"

lemma b64_text_Encode: "b64_text (EncodeToString bs)"
proof (induction bs rule: EncodeToString.induct)
  case (2 a)
  have "unat a div 4 < 64" using unat_u8 [of a] by linarith
  then show ?case by (simp add: b64_text_def b64_pad_def Let_def)
next
  case (3 a b)
  show ?case using quantum_2 [OF unat_u8 [of a] unat_u8 [of b]] by (simp add: b64_text_def b64_pad_def Let_def)
next
  case (4 a b c bs)
  show ?case using quantum_3 [OF unat_u8 [of a] unat_u8 [of b] unat_u8 [of c]] 4 by (simp add: b64_text_def Let_def)
qed (simp add: b64_text_def)

lemma DecodeString_EncodeToString: "DecodeString (EncodeToString bs) = (bs, True)"
proof -
  have "filter (\<lambda>c. c \<notin> {CHR 0x0A, CHR 0x0D}) (EncodeToString bs) = EncodeToString bs"
    using b64_text_Encode [of bs] by (simp add: b64_text_def list_all_iff filter_id_conv)
  then show ?thesis by (simp add: DecodeString_def decode_quanta_Encode)
qed

section \<open>The assets are the files\<close>

text \<open>The file of a key among the arguments: the last one that can be read.\<close>

fun embedded :: "(string \<Rightarrow> bytes option) \<Rightarrow> string list \<Rightarrow> asset_table" where
  "embedded readFile (key # file # args) =
     (case readFile file of None \<Rightarrow> Map.empty | Some data \<Rightarrow> [key \<mapsto> data]) ++ embedded readFile args"
| "embedded readFile args = Map.empty"

lemma fill_assets_snoc:
  "fill_assets (es @ [e]) = (fill_assets es)(asset_Name e \<mapsto> fst (DecodeString (asset_Data e)))"
  by (simp add: fill_assets_def)

lemma fill_add_assets: "fill_assets (add_assets readFile args es) = fill_assets es ++ embedded readFile args"
proof (induction readFile args es rule: add_assets.induct)
  case (1 readFile key path args es)
  show ?case
  proof (cases "readFile path")
    case None
    with 1 show ?thesis by (simp add: addAsset_def)
  next
    case (Some data)
    then have e: "snd (addAsset readFile key path es) = es @ [\<lparr>asset_Name = key, asset_Data = EncodeToString data\<rparr>]"
      by (simp add: addAsset_def)
    have f: "fill_assets (snd (addAsset readFile key path es)) = (fill_assets es)(key \<mapsto> data)"
      unfolding e fill_assets_snoc by (simp add: DecodeString_EncodeToString)
    show ?thesis unfolding add_assets.simps 1 f embedded.simps Some by simp
  qed
qed simp_all

text \<open>
  (C29) What the generator embeds is read back: after a run of \<^verbatim>\<open>mknormalize_data\<close> with pairs of keys and files, every
  call of the generated \<^verbatim>\<open>asset\<close>, the first one that fills the table as well as the later ones, returns the
  bytes of the file given last for the key, and the tables that \<^verbatim>\<open>init\<close> makes are those of the bytes of the
  normalizations file.
\<close>

theorem assets_are_files:
  assumes "mk_assets readFile args = Some es"
  shows "asset es key None = (embedded readFile args key, Some (embedded readFile args))
    \<and> asset es key (snd (asset es key' None)) = asset es key None
    \<and> init_norms unmarshal es =
        (case embedded readFile args ''normalizationData'' of
           None \<Rightarrow> Err AssetNotFound
         | Some data \<Rightarrow> (case LoadNormalizationConfig unmarshal data of
             Ok tables \<Rightarrow> Ok tables
           | Err e \<Rightarrow> Err (BadNormalizations e)
           | Panic p \<Rightarrow> Panic p))"
proof -
  have "es = add_assets readFile args []" using assms by (simp add: mk_assets_def split: if_splits)
  then have "fill_assets es = embedded readFile args"
    using fill_add_assets [of readFile args "[]"] by (simp add: fill_assets_def)
  then show ?thesis by (simp add: asset_def init_norms_def Let_def)
qed

text \<open>Two files for the same key, with one that cannot be read after them.\<close>

definition sample_files :: "string \<Rightarrow> bytes option" where
  "sample_files path = (if path = ''a'' then Some [1, 2] else if path = ''b'' then Some [0xFF, 0, 7, 64] else None)"

definition sample_args :: "string list" where
  "sample_args = [''k'', ''a'', ''k'', ''b'', ''k'', ''missing'']"

theorem assets_are_files_witness:
  "\<exists>es. mk_assets sample_files sample_args = Some es \<and> map asset_Data es = [''AQI='', ''/wAHQA=='']
     \<and> fst (asset es ''k'' None) = Some [0xFF, 0, 7, 64]
     \<and> fst (asset es ''k'' (snd (asset es ''j'' None))) = Some [0xFF, 0, 7, 64]
     \<and> init_norms (\<lambda>_. Ok []) es = Err AssetNotFound"
proof -
  let ?es = "[\<lparr>asset_Name = ''k'', asset_Data = ''AQI=''\<rparr>, \<lparr>asset_Name = ''k'', asset_Data = ''/wAHQA==''\<rparr>]"
  have "EncodeToString [1, 2] = ''AQI=''" "EncodeToString [0xFF, 0, 7, 64] = ''/wAHQA==''"
    by (simp_all add: b64_char_def b64_pad_def Let_def char_of_def bit_Suc_0_iff)
  then have es: "mk_assets sample_files sample_args = Some ?es"
    by (simp add: mk_assets_def sample_files_def sample_args_def addAsset_def)
  have "embedded sample_files sample_args ''k'' = Some [0xFF, 0, 7, 64]"
    "embedded sample_files sample_args ''normalizationData'' = None"
    by (simp_all add: sample_files_def sample_args_def)
  then show ?thesis
    using assets_are_files [OF es, of "''k''" "''j''" "\<lambda>_. Ok []"] es by (intro exI [of _ ?es]) simp
qed

text \<open>A file that cannot be read is left out without an error, and the package that uses the file panics when it is loaded.\<close>

lemma unreadable_asset_ignored:
  assumes "readFile file = None"
  shows "mk_assets readFile [''normalizationData'', file] = Some []" and "init_norms unmarshal [] = Err AssetNotFound"
  using assms by (simp_all add: mk_assets_def addAsset_def init_norms_def asset_def fill_assets_def)

end
