(* ===== verification/Gen_Msg_Types.thy ===== *)
theory Gen_Msg_Types
  imports Gen_Template Go_Regexp Audit_Msg_Types "HOL-Library.List_Lexorder" "HOL-Library.Char_ord"
begin

text \<open>
  \<^verbatim>\<open>auparse/mk_audit_msg_types.go\<close>, which makes \<^verbatim>\<open>zaudit_msg_types.go\<close> from the headers of the Linux audit project.
  The network, the file system and the C preprocessor are parameters (record \<open>msg_env\<close>); so are the
  orders in which the maps are iterated. What the run writes is the text of the file, before \<^verbatim>\<open>gofmt\<close>.
\<close>

section \<open>Patterns\<close>

text \<open>The match of a pattern that starts with \<^verbatim>\<open>^\<close>: its captures.\<close>

definition match_start :: "matcher \<Rightarrow> string \<Rightarrow> string list option" where
  "match_start m s = (case m s of [] \<Rightarrow> None | (caps, _) # _ \<Rightarrow> Some caps)"

definition audit_word :: matcher where
  "audit_word = m_cap (m_seq (m_lit ''AUDIT_'') (m_rep 1 re_word))"

definition nameMappingRegex :: matcher where
  "nameMappingRegex = m_seqs
     [m_lit ''_S('', audit_word, m_lit '','', m_rep 1 re_space, m_lit ''\"'', m_cap (m_rep 1 re_word), m_lit ''\"'']"

definition recordTypeDefinitionRegex :: matcher where
  "recordTypeDefinitionRegex = m_seqs
     [m_lit ''#define'', m_rep 1 re_space, audit_word, m_rep 1 re_space, m_cap (m_rep 1 is_digit)]"

definition nameExtractorRegex :: matcher where
  "nameExtractorRegex = m_seqs [m_lit ''AUDIT_'', m_cap (m_rep 1 re_word)]"

section \<open>Reading the headers\<close>

datatype gen_error =
    TempDirFailed
  | HttpGetFailed
  | BadStatus int
  | OutputFileFailed
  | CopyFailed
  | DownloadFailed string gen_error
  | ChdirFailed
  | OpenFailed string
  | GccFailed
  | MissingDefinition string
  | CreateFailed
  | WriteFailed

text \<open>The response to a request: its status, and its body if it can be read to the end.\<close>

datatype http_response = HttpError | Response int "string option"

type_synonym directory = "string \<rightharpoonup> string"

record msg_env =
  env_tempdir :: bool
  env_http :: "string \<Rightarrow> http_response"
  env_create :: "string \<Rightarrow> bool"
  env_chdir :: bool
  env_gcc :: "directory \<Rightarrow> string option"
  env_range_names :: "(string, string) ranging"
  env_range_nums :: "(string, int) ranging"
  env_create_out :: bool
  env_write :: bool

definition headers :: "string list" where
  "headers = [
    ''https://raw.githubusercontent.com/torvalds/linux/v4.16/include/uapi/linux/audit.h'',
    ''https://raw.githubusercontent.com/linux-audit/audit-userspace/4d933301b1835cafa08b9e9ef705c8fb6c96cb62/lib/libaudit.h'',
    ''https://raw.githubusercontent.com/linux-audit/audit-userspace/4d933301b1835cafa08b9e9ef705c8fb6c96cb62/lib/msg_typetab.h'']"

text \<open>\<^verbatim>\<open>filepath.Base\<close>: the last element of a path that does not end with a slash.\<close>

definition path_Base :: "string \<Rightarrow> string" where
  "path_Base p =
     (if p = [] then ''.''
      else (let q = rev (dropWhile (\<lambda>c. c = CHR ''/'') (rev p)) in
            if q = [] then ''/'' else last (split_byte (CHR ''/'') q)))"

definition DownloadFile :: "msg_env \<Rightarrow> string \<Rightarrow> directory \<Rightarrow> (gen_error, directory) outcome" where
  "DownloadFile E url dir =
     (case env_http E url of
        HttpError \<Rightarrow> Err HttpGetFailed
      | Response status body \<Rightarrow>
          if status \<noteq> 200 then Err (BadStatus status)
          else if \<not> env_create E (path_Base url) then Err OutputFileFailed
          else (case body of None \<Rightarrow> Err CopyFailed | Some text \<Rightarrow> Ok (dir(path_Base url \<mapsto> text))))"

primrec download_all :: "msg_env \<Rightarrow> string list \<Rightarrow> directory \<Rightarrow> (gen_error, directory) outcome" where
  "download_all E [] dir = Ok dir"
| "download_all E (url # urls) dir =
     (case DownloadFile E url dir of
        Ok dir' \<Rightarrow> download_all E urls dir'
      | Err e \<Rightarrow> Err (DownloadFailed url e)
      | Panic p \<Rightarrow> Panic p)"

definition name_line :: "string \<Rightarrow> (string, string) go_map \<Rightarrow> (string, string) go_map" where
  "name_line l m = (case match_start nameMappingRegex l of Some [t, n] \<Rightarrow> AList.update t n m | _ \<Rightarrow> m)"

definition readMessageTypeTable :: "directory \<Rightarrow> (gen_error, (string, string) go_map) outcome" where
  "readMessageTypeTable dir =
     (case dir ''msg_typetab.h'' of
        None \<Rightarrow> Err (OpenFailed ''msg_typetab.h'')
      | Some text \<Rightarrow> Ok (fold name_line (scan_lines text) []))"

definition minRecordNum :: int where "minRecordNum = 1000"
definition maxRecordNum :: int where "maxRecordNum = 3000"

definition define_line :: "string \<Rightarrow> (string, int) go_map \<Rightarrow> (string, int) go_map" where
  "define_line l m =
     (case match_start recordTypeDefinitionRegex l of
        Some [t, digits] \<Rightarrow>
          (let recordNum = fst (atoi digits) in
           if minRecordNum \<le> recordNum \<and> recordNum \<le> maxRecordNum then AList.update t recordNum m else m)
      | _ \<Rightarrow> m)"

definition readRecordTypes :: "msg_env \<Rightarrow> directory \<Rightarrow> (gen_error, (string, int) go_map) outcome" where
  "readRecordTypes E dir =
     (case env_gcc E dir of
        None \<Rightarrow> Err GccFailed
      | Some out \<Rightarrow> Ok (fold define_line (scan_lines out) []))"

section \<open>The tables\<close>

text \<open>The two loops of \<^verbatim>\<open>run\<close>: types with a name of their own first, then the numbers that are left.\<close>

primrec number_named ::
  "(string, int) go_map \<Rightarrow> (string \<times> string) list \<Rightarrow> (int, string) go_map \<Rightarrow> (gen_error, (int, string) go_map) outcome" where
  "number_named nums [] types = Ok types"
| "number_named nums (x # xs) types =
     (case map_of nums (fst x) of
        None \<Rightarrow> Err (MissingDefinition (fst x))
      | Some num \<Rightarrow> number_named nums xs (AList.update num (fst x) types))"

primrec number_rest ::
  "(string \<times> int) list \<Rightarrow> (int, string) go_map \<Rightarrow> (string, string) go_map \<Rightarrow> (int, string) go_map \<times> (string, string) go_map" where
  "number_rest [] types names = (types, names)"
| "number_rest (x # xs) types names =
     (if map_of types (snd x) \<noteq> None then number_rest xs types names
      else number_rest xs (AList.update (snd x) (fst x) types)
        (case match_start nameExtractorRegex (fst x) of
           Some [n] \<Rightarrow> AList.update (fst x) n names
         | _ \<Rightarrow> names))"

record TemplateParams =
  Command :: string
  RecordTypes :: "(int, string) go_map"
  RecordNames :: "(string, string) go_map"

definition record_tables ::
  "msg_env \<Rightarrow> string \<Rightarrow> (string, string) go_map \<Rightarrow> (string, int) go_map \<Rightarrow> (gen_error, TemplateParams) outcome" where
  "record_tables E command names nums =
     bind_outcome (number_named nums (env_range_names E names) []) (\<lambda>types.
       let (types, names) = number_rest (env_range_nums E nums) types names in
       Ok \<lparr>Command = command, RecordTypes = types, RecordNames = names\<rparr>)"

section \<open>The template\<close>

text \<open>
  The template line by line, each with its indentation in tabs, cut at its actions. The actions iterate over a
  map in the order of its keys, as \<^verbatim>\<open>text/template\<close> does; \<^verbatim>\<open>{{-\<close> removes the line break before it.
\<close>

definition template_types :: "(nat \<times> string) list" where
  "template_types = [
    (0, []),
    (0, ''package auparse''),
    (0, []),
    (0, ''import (''),
    (1, ''\"errors\"''),
    (1, ''\"fmt\"''),
    (1, ''\"strconv\"''),
    (1, ''\"strings\"''),
    (0, '')''),
    (0, []),
    (0, ''var errInvalidAuditMessageTypName = errors.New(\"invalid message type\")''),
    (0, []),
    (0, ''// AuditMessageType represents an audit message type used by the kernel.''),
    (0, ''type AuditMessageType uint16''),
    (0, []),
    (0, ''// List of AuditMessageTypes.''),
    (0, ''const('')]"

definition template_names :: "(nat \<times> string) list" where
  "template_names = [
    (0, '')''),
    (0, []),
    (0, ''var auditMessageTypeToName = map[AuditMessageType]string{'')]"

definition template_methods :: "(nat \<times> string) list" where
  "template_methods = [
    (0, ''}''),
    (0, []),
    (0, ''func (t AuditMessageType) String() string {''),
    (1, ''name, found := auditMessageTypeToName[t]''),
    (1, ''if found {''),
    (2, ''return name''),
    (1, ''}''),
    (0, []),
    (1, ''return fmt.Sprintf(\"UNKNOWN[%d]\", uint16(t))''),
    (0, ''}''),
    (0, []),
    (0, ''func (t AuditMessageType) MarshalText() (text []byte, err error) {''),
    (1, ''return []byte(strings.ToLower(t.String())), nil''),
    (0, ''}''),
    (0, []),
    (0, ''func (t *AuditMessageType) UnmarshalText(text []byte) error {''),
    (1, ''messageType, err := GetAuditMessageType(string(text))''),
    (1, ''if err != nil {''),
    (2, ''return err''),
    (1, ''}''),
    (1, ''*t = messageType''),
    (1, ''return nil''),
    (0, ''}''),
    (0, []),
    (0, ''var auditMessageNameToType = map[string]AuditMessageType{'')]"

definition template_lookup :: "(nat \<times> string) list" where
  "template_lookup = [
    (0, ''}''),
    (0, []),
    (0, ''// GetAuditMessageType accepts a type name and returns its numerical''),
    (0, ''// representation. If the name is unknown and error is returned.''),
    (0, ''func GetAuditMessageType(name string) (AuditMessageType, error) {''),
    (1, ''name = strings.ToUpper(name)''),
    (0, []),
    (1, ''typ, found := auditMessageNameToType[name]''),
    (1, ''if found {''),
    (2, ''return typ, nil''),
    (1, ''}''),
    (0, []),
    (1, ''// Parse type from UNKNOWN[1329].''),
    (1, ''start := strings.IndexByte(name, '[')''),
    (1, ''if start == -1 {''),
    (2, ''return 0, errInvalidAuditMessageTypName''),
    (1, ''}''),
    (1, ''name = name[start+1:]''),
    (0, []),
    (1, ''end := strings.IndexByte(name, ']')''),
    (1, ''if end == -1 {''),
    (2, ''return 0, errInvalidAuditMessageTypName''),
    (1, ''}''),
    (1, ''name = name[:end]''),
    (0, []),
    (1, ''num, err := strconv.ParseUint(name, 10, 16)''),
    (1, ''if err != nil {''),
    (2, ''return 0, errInvalidAuditMessageTypName''),
    (1, ''}''),
    (0, []),
    (1, ''return AuditMessageType(num), nil''),
    (0, ''}'')]"

definition render :: "TemplateParams \<Rightarrow> string" where
  "render p = CHR 0x0A # line_text (map template_line (
     template_license
     @ [(0, ''// Code generated by '' @ Command p @ '' - DO NOT EDIT.'')]
     @ template_types
     @ map (\<lambda>(num, t). (1, t @ '' AuditMessageType = '' @ itoa num)) (sort_key fst (RecordTypes p))
     @ template_names
     @ map (\<lambda>(t, n). (1, t @ '': \"'' @ n @ ''\",'')) (sort_key fst (RecordNames p))
     @ template_methods
     @ map (\<lambda>(t, n). (1, ''\"'' @ n @ ''\": '' @ t @ '','')) (sort_key fst (RecordNames p))
     @ template_lookup))"

section \<open>run\<close>

definition run_msg_types :: "msg_env \<Rightarrow> string \<Rightarrow> (gen_error, string) outcome" where
  "run_msg_types E command =
     (if \<not> env_tempdir E then Err TempDirFailed
      else bind_outcome (download_all E headers Map.empty) (\<lambda>dir.
        if \<not> env_chdir E then Err ChdirFailed
        else bind_outcome (readMessageTypeTable dir) (\<lambda>names.
          bind_outcome (readRecordTypes E dir) (\<lambda>nums.
          bind_outcome (record_tables E command names nums) (\<lambda>params.
            if \<not> env_create_out E then Err CreateFailed
            else if \<not> env_write E then Err WriteFailed
            else Ok (render params))))))"

text \<open>\<^verbatim>\<open>main\<close>: the path of the file and its text.\<close>

definition main_msg_types ::
  "(string \<Rightarrow> string option) \<Rightarrow> string list \<Rightarrow> msg_env \<Rightarrow> string \<Rightarrow> (gen_error gen_exit, string \<times> string) outcome" where
  "main_msg_types absPath args E command = gen_main absPath args ''zaudit_msg_types.go'' (run_msg_types E command)"

section \<open>What the readers find\<close>

definition audit_name :: "string \<Rightarrow> bool" where
  "audit_name t = (\<exists>w. t = ''AUDIT_'' @ w \<and> w \<noteq> [] \<and> list_all re_word w)"

lemma audit_word_sound:
  assumes "(c, r) \<in> set (audit_word s)"
  shows "\<exists>t. c = [t] \<and> audit_name t"
proof -
  obtain c' where c: "c = take (length s - length r) s # c'" "(c', r) \<in> set (m_seq (m_lit ''AUDIT_'') (m_rep 1 re_word) s)"
    using m_cap_sound assms unfolding audit_word_def by blast
  then obtain w where w: "c' = []" "s = (''AUDIT_'' @ w) @ r" "list_all re_word w" "1 \<le> length w"
    by (fastforce dest!: m_seq_sound m_rep_sound simp: m_lit_def prefix_def split: if_splits)
  have "take (length (u @ r) - length r) (u @ r) = u" for u by simp
  then have "c = [''AUDIT_'' @ w]" unfolding c(1) w(1,2) by blast
  with w(3,4) show ?thesis by (auto simp: audit_name_def)
qed

lemma match_start_sound: "match_start m s = Some c \<Longrightarrow> \<exists>r. (c, r) \<in> set (m s)"
  by (auto simp: match_start_def split: list.splits)

lemma define_match_sound:
  assumes "match_start recordTypeDefinitionRegex l = Some [t, d]"
  shows "audit_name t"
  using match_start_sound [OF assms] unfolding recordTypeDefinitionRegex_def m_seqs_Cons
  by (fastforce dest!: m_seq_sound m_cap_rep_sound m_rep_sound audit_word_sound simp: m_lit_def split: if_splits)

lemma update_mem: "x \<in> set (AList.update k v m) \<Longrightarrow> x = (k, v) \<or> x \<in> set m"
  by (induction m) (auto split: if_splits)

definition nums_ok :: "(string, int) go_map \<Rightarrow> bool" where
  "nums_ok m = (distinct (map fst m) \<and> (\<forall>x \<in> set m. audit_name (fst x) \<and> snd x \<in> {minRecordNum..maxRecordNum}))"

lemma define_line_ok: "nums_ok m \<Longrightarrow> nums_ok (define_line l m)"
  using define_match_sound
  by (auto simp: nums_ok_def define_line_def Let_def distinct_update
      split: option.splits list.splits dest!: update_mem)

lemma define_lines_ok: "nums_ok m \<Longrightarrow> nums_ok (fold define_line ls m)"
  by (induction ls arbitrary: m) (simp_all add: define_line_ok)

lemma name_lines_distinct: "distinct (map fst m) \<Longrightarrow> distinct (map fst (fold name_line ls m))"
proof (induction ls arbitrary: m)
  case (Cons l ls)
  have "distinct (map fst (name_line l m))"
    using Cons.prems by (auto simp: name_line_def distinct_update split: option.splits list.splits)
  then show ?case using Cons.IH by simp
qed simp

section \<open>The tables are consistent\<close>

lemma extract_audit_name:
  assumes "audit_name t"
  obtains w where "match_start nameExtractorRegex t = Some [w]" and "t = ''AUDIT_'' @ w"
proof -
  obtain w where w: "t = ''AUDIT_'' @ w" "w \<noteq> []" "list_all re_word w" using assms by (auto simp: audit_name_def)
  have "first (m_cap (m_rep 1 re_word)) (w @ []) [w] []"
    by (rule first_cap, rule first_rep) (use w in \<open>auto simp: Suc_le_eq\<close>)
  moreover have "first (m_lit ''AUDIT_'') (''AUDIT_'' @ w @ []) [] (w @ [])" by (rule first_lit)
  ultimately have "first nameExtractorRegex (''AUDIT_'' @ w @ []) ([] @ [w] @ []) []"
    unfolding nameExtractorRegex_def by (intro first_seqs) (auto simp: first_def)
  then have "match_start nameExtractorRegex t = Some [w]" unfolding w(1) by (auto simp: first_def match_start_def)
  from that [OF this w(1)] show thesis .
qed

text \<open>The types numbered so far, for the names read from the table and the numbers read from the headers.\<close>

definition tables_inv ::
  "(string, string) go_map \<Rightarrow> (string, int) go_map \<Rightarrow> (int, string) go_map \<Rightarrow> (string, string) go_map \<Rightarrow> bool" where
  "tables_inv names0 nums types names =
     (distinct (map fst types) \<and> distinct (map fst names)
      \<and> (\<forall>n t. map_of types n = Some t \<longrightarrow> map_of nums t = Some n)
      \<and> dom (map_of names) = ran (map_of types)
      \<and> map_of names0 \<subseteq>\<^sub>m map_of names
      \<and> (\<forall>t s. map_of names t = Some s \<longrightarrow> map_of names0 t = Some s \<or> t = ''AUDIT_'' @ s))"

lemma number_named_fold:
  "list_all (\<lambda>x. map_of nums (fst x) \<noteq> None) xs \<Longrightarrow>
    number_named nums xs types = Ok (fold (\<lambda>x. AList.update (the (map_of nums (fst x))) (fst x)) xs types)"
  by (induction xs arbitrary: types) auto

lemma number_named_tables:
  fixes nums :: "(string, int) go_map" and xs :: "(string \<times> string) list"
  defines "num \<equiv> \<lambda>x. the (map_of nums (fst x))"
  assumes "list_all (\<lambda>x. map_of nums (fst x) \<noteq> None) xs" and "inj_on num (set xs)"
  shows "\<exists>types. number_named nums xs [] = Ok types \<and> distinct (map fst types)
    \<and> map_of types = (\<lambda>n. map_option fst (find (\<lambda>x. num x = n) (rev xs)))"
proof -
  let ?f = "\<lambda>x. AList.update (num x) (fst x)"
  have "distinct (map fst (fold ?f xs []))"
    by (induction xs rule: rev_induct) (simp_all add: distinct_update)
  moreover have "map_of (fold ?f xs []) = (\<lambda>n. map_option fst (find (\<lambda>x. num x = n) (rev xs)))"
    by (induction xs rule: rev_induct) (auto simp: update_conv' fun_eq_iff)
  ultimately show ?thesis using number_named_fold [OF assms(2), of "[]"] by (simp add: num_def)
qed

lemma number_rest_inv:
  assumes "tables_inv names0 nums types names" and "set xs \<subseteq> set nums" and "nums_ok nums"
    and "\<And>t n. t \<in> dom (map_of names0) \<Longrightarrow> map_of nums t = Some n \<Longrightarrow> n \<in> dom (map_of types)"
    and "number_rest xs types names = (types', names')"
  shows "tables_inv names0 nums types' names' \<and> dom (map_of types') = dom (map_of types) \<union> snd ` set xs"
  using assms
proof (induction xs arbitrary: types names)
  case (Cons x xs)
  obtain t n where x: "x = (t, n)" by (cases x)
  have nt: "map_of nums t = Some n" using Cons.prems(2,3) x by (auto simp: nums_ok_def)
  show ?case
  proof (cases "map_of types n")
    case (Some u)
    with Cons show ?thesis by (auto simp: x)
  next
    case None
    have "audit_name t" using Cons.prems(2,3) x by (auto simp: nums_ok_def)
    then obtain w where w: "match_start nameExtractorRegex t = Some [w]" "t = ''AUDIT_'' @ w"
      by (rule extract_audit_name)
    have "t \<notin> ran (map_of types)"
    proof
      assume "t \<in> ran (map_of types)"
      then obtain m where m: "map_of types m = Some t" by (auto simp: ran_def)
      then have "map_of nums t = Some m" using Cons.prems(1) by (simp add: tables_inv_def)
      with nt m None show False by simp
    qed
    then have fresh: "map_of names t = None" using Cons.prems(1) by (metis domIff tables_inv_def)
    moreover have "map_of names0 t = None" using Cons.prems(4) [OF _ nt] None by (metis domIff)
    ultimately have inv: "tables_inv names0 nums (AList.update n t types) (AList.update t w names)"
      using Cons.prems(1) None nt w(2)
      by (auto simp: tables_inv_def update_conv' distinct_update ran_map_upd map_le_def)
    have "number_rest xs (AList.update n t types) (AList.update t w names) = (types', names')"
      using Cons.prems(5) None w(1) by (simp add: x)
    moreover have grown: "dom (map_of (AList.update n t types)) = insert n (dom (map_of types))"
      by (simp add: dom_map_of_conv_image_fst dom_update)
    moreover have "m \<in> insert n (dom (map_of types))" if "u \<in> dom (map_of names0)" "map_of nums u = Some m" for u m
      using Cons.prems(4) that by blast
    moreover have "set xs \<subseteq> set nums" using Cons.prems(2) by simp
    ultimately show ?thesis using Cons.IH [OF inv _ Cons.prems(3)] unfolding grown by (simp add: x)
  qed
qed simp

lemma find_inj:
  assumes "x \<in> set xs" and "inj_on f (set xs)"
  shows "find (\<lambda>y. f y = f x) xs = Some x"
  using assms by (induction xs) (auto simp: inj_on_def)

lemma number_named_inv:
  fixes nums :: "(string, int) go_map" and names xs :: "(string, string) go_map"
  assumes xs: "set xs = set names" "distinct (map fst names)"
    and defined: "\<forall>t \<in> fst ` set names. map_of nums t \<noteq> None"
    and inj: "inj_on (\<lambda>t. the (map_of nums t)) (fst ` set names)"
  obtains types where "number_named nums xs [] = Ok types" and "tables_inv names nums types names"
    and "\<And>t n. t \<in> dom (map_of names) \<Longrightarrow> map_of nums t = Some n \<Longrightarrow> n \<in> dom (map_of types)"
proof -
  let ?num = "\<lambda>x. the (map_of nums (fst x))"
  have injx: "inj_on ?num (set xs)"
  proof (rule inj_onI)
    fix x y assume "x \<in> set xs" "y \<in> set xs" "?num x = ?num y"
    then have "fst x = fst y" using inj xs(1) by (auto simp: inj_on_def)
    then show "x = y" using \<open>x \<in> set xs\<close> \<open>y \<in> set xs\<close> xs by (metis map_of_is_SomeI option.inject prod.collapse prod_eqI)
  qed
  have "list_all (\<lambda>x. map_of nums (fst x) \<noteq> None) xs" using defined xs(1) by (auto simp: list_all_iff)
  then obtain types where types: "number_named nums xs [] = Ok types" "distinct (map fst types)"
    "map_of types = (\<lambda>n. map_option fst (find (\<lambda>x. ?num x = n) (rev xs)))"
    using number_named_tables [OF _ injx] by blast
  have found: "map_of types n = Some t" if "t \<in> fst ` set names" "map_of nums t = Some n" for t n
    using that xs(1) find_inj [of _ "rev xs" ?num] injx by (fastforce simp: types(3))
  have only: "t \<in> fst ` set names \<and> map_of nums t = Some n" if t: "map_of types n = Some t" for t n
  proof -
    obtain x where x: "find (\<lambda>x. ?num x = n) (rev xs) = Some x" "t = fst x" using t by (auto simp: types(3))
    from x(1) have "x \<in> set (rev xs)" "?num x = n" unfolding find_Some_iff by (metis nth_mem)+
    then show ?thesis using x(2) xs(1) defined by auto
  qed
  have "dom (map_of names) = ran (map_of types)"
  proof -
    have "t \<in> ran (map_of types)" if t: "t \<in> fst ` set names" for t
    proof -
      obtain n where "map_of nums t = Some n" using bspec [OF defined t] by blast
      with found t show ?thesis by (blast intro: ranI)
    qed
    moreover have "t \<in> fst ` set names" if "t \<in> ran (map_of types)" for t
      using only that unfolding ran_def by blast
    ultimately show ?thesis unfolding dom_map_of_conv_image_fst by blast
  qed
  then have "tables_inv names nums types names"
    using types(2) xs(2) only by (simp add: tables_inv_def)
  moreover have "n \<in> dom (map_of types)" if "t \<in> dom (map_of names)" "map_of nums t = Some n" for t n
    using found [OF _ that(2)] that(1) unfolding dom_map_of_conv_image_fst [of names] by blast
  ultimately show thesis using that [OF types(1)] by blast
qed

text \<open>The generated file declares what it uses, once: the tables of a consistent set of parameters.\<close>

definition consistent :: "(string, string) go_map \<Rightarrow> (string, int) go_map \<Rightarrow> TemplateParams \<Rightarrow> bool" where
  "consistent names nums p =
     (distinct (map fst (RecordTypes p)) \<and> distinct (map snd (RecordTypes p)) \<and> distinct (map fst (RecordNames p))
      \<and> fst ` set (RecordTypes p) = snd ` set nums
      \<and> (\<forall>(n, t) \<in> set (RecordTypes p). (t, n) \<in> set nums \<and> n \<in> {minRecordNum..maxRecordNum})
      \<and> fst ` set (RecordNames p) = snd ` set (RecordTypes p)
      \<and> set names \<subseteq> set (RecordNames p)
      \<and> (\<forall>(t, s) \<in> set (RecordNames p). (t, s) \<in> set names \<or> t = ''AUDIT_'' @ s))"

lemma tables_consistent:
  assumes inv: "tables_inv names nums types names'" and dist: "distinct (map fst names)" and nums: "nums_ok nums"
    and dom: "dom (map_of types) = snd ` set nums"
  shows "consistent names nums \<lparr>Command = command, RecordTypes = types, RecordNames = names'\<rparr>"
proof -
  have d: "distinct (map fst types)" "distinct (map fst names')" "distinct (map fst nums)"
    using inv nums by (simp_all add: tables_inv_def nums_ok_def)
  have num: "(t, n) \<in> set nums" if "(n, t) \<in> set types" for n t
    using inv that d map_of_eq_Some_iff by (metis tables_inv_def)
  have "inj_on snd (set types)"
    using eq_key_imp_eq_value [OF d(3) num num] by (force intro!: inj_onI)
  then have "distinct (map snd types)" using d(1) by (simp add: distinct_map)
  moreover have "fst ` set types = snd ` set nums" using dom by (simp add: dom_map_of_conv_image_fst)
  moreover have "fst ` set names' = snd ` set types"
    using inv d(1) by (simp add: tables_inv_def dom_map_of_conv_image_fst ran_distinct)
  moreover have "set names \<subseteq> set names'"
  proof clarify
    fix t s assume "(t, s) \<in> set names"
    then have "map_of names t = Some s" using dist by (simp add: map_of_eq_Some_iff)
    then have "map_of names' t = Some s" using inv unfolding tables_inv_def map_le_def by (metis domI)
    then show "(t, s) \<in> set names'" by (rule map_of_SomeD)
  qed
  moreover have "(t, s) \<in> set names \<or> t = ''AUDIT_'' @ s" if "(t, s) \<in> set names'" for t s
  proof -
    have "map_of names' t = Some s" using that d(2) by simp
    then have "map_of names t = Some s \<or> t = ''AUDIT_'' @ s" using inv unfolding tables_inv_def by blast
    then show ?thesis by (blast dest: map_of_SomeD)
  qed
  ultimately show ?thesis using d num nums by (fastforce simp: consistent_def nums_ok_def)
qed

lemma record_tables_consistent:
  assumes names: "distinct (map fst names)" and nums: "nums_ok nums"
    and ranges: "range_ok (env_range_names E)" "range_ok (env_range_nums E)"
    and defined: "\<forall>t \<in> fst ` set names. map_of nums t \<noteq> None"
      "inj_on (\<lambda>t. the (map_of nums t)) (fst ` set names)"
  shows "\<exists>p. record_tables E command names nums = Ok p \<and> Command p = command \<and> consistent names nums p"
proof -
  obtain types where types: "number_named nums (env_range_names E names) [] = Ok types" "tables_inv names nums types names"
    "\<And>t n. t \<in> dom (map_of names) \<Longrightarrow> map_of nums t = Some n \<Longrightarrow> n \<in> dom (map_of types)"
    using number_named_inv [OF range_okD(1) [OF ranges(1)] names defined] by blast
  obtain types' names' where rest: "number_rest (env_range_nums E nums) types names = (types', names')" by fastforce
  have r: "set (env_range_nums E nums) = set nums" by (rule range_okD(1) [OF ranges(2)])
  have "tables_inv names nums types' names'" "dom (map_of types') = dom (map_of types) \<union> snd ` set nums"
    using number_rest_inv [OF types(2) _ nums types(3) rest] r by auto
  moreover have "dom (map_of types) \<subseteq> snd ` set nums"
  proof
    fix n assume "n \<in> dom (map_of types)"
    then obtain t where "map_of types n = Some t" by blast
    then have "map_of nums t = Some n" using types(2) by (simp add: tables_inv_def)
    from map_of_SomeD [OF this] show "n \<in> snd ` set nums" using image_iff by fastforce
  qed
  ultimately have "consistent names nums \<lparr>Command = command, RecordTypes = types', RecordNames = names'\<rparr>"
    by (intro tables_consistent [OF _ names nums]) blast+
  then show ?thesis using types(1) rest by (simp add: record_tables_def)
qed

section \<open>Headers as they are printed\<close>

definition name_text :: "string \<times> string \<Rightarrow> string" where
  "name_text x = ''_S('' @ fst x @ '', \"'' @ snd x @ ''\"         )''"

definition define_text :: "string \<times> int \<Rightarrow> string" where
  "define_text x = ''#define '' @ fst x @ '' '' @ itoa (snd x)"

definition word_name :: "string \<Rightarrow> bool" where
  "word_name s = (s \<noteq> [] \<and> list_all re_word s)"

lemma first_seqs_Nil: "first (m_seqs []) s [] s"
  by (simp add: first_def)

lemma first_audit_word:
  assumes "audit_name t" and "r = [] \<or> \<not> re_word (hd r)"
  shows "first audit_word (t @ r) [t] r"
proof -
  obtain w where w: "t = ''AUDIT_'' @ w" "w \<noteq> []" "list_all re_word w" using assms(1) by (auto simp: audit_name_def)
  have "first (m_seq (m_lit ''AUDIT_'') (m_rep 1 re_word)) (''AUDIT_'' @ w @ r) ([] @ []) r"
    by (rule first_seq, rule first_lit, rule first_rep) (use w assms(2) in \<open>auto simp: Suc_le_eq\<close>)
  then show ?thesis unfolding audit_word_def using first_cap [where w = t and r = r] by (simp add: w(1))
qed

lemma first_match_start: "first m s c r \<Longrightarrow> match_start m s = Some c"
  by (auto simp: first_def match_start_def)

lemma audit_name_hd: "audit_name t \<Longrightarrow> \<exists>t'. t = CHR ''A'' # t'"
  by (auto simp: audit_name_def)

lemma match_name_text:
  assumes "audit_name t" and "word_name n"
  shows "match_start nameMappingRegex (name_text (t, n)) = Some [t, n]"
proof -
  let ?e = "''         )''"
  have 1: "first (m_lit ''_S('') (''_S('' @ t @ '','' @ '' '' @ ''\"'' @ n @ ''\"'' @ ?e) [] (t @ '','' @ '' '' @ ''\"'' @ n @ ''\"'' @ ?e)"
    by (rule first_lit)
  have 2: "first audit_word (t @ '','' @ '' '' @ ''\"'' @ n @ ''\"'' @ ?e) [t] ('','' @ '' '' @ ''\"'' @ n @ ''\"'' @ ?e)"
    by (rule first_audit_word [OF assms(1)]) (simp add: re_word_def)
  have 3: "first (m_lit '','') ('','' @ '' '' @ ''\"'' @ n @ ''\"'' @ ?e) [] ('' '' @ ''\"'' @ n @ ''\"'' @ ?e)" by (rule first_lit)
  have 4: "first (m_rep 1 re_space) ('' '' @ ''\"'' @ n @ ''\"'' @ ?e) [] (''\"'' @ n @ ''\"'' @ ?e)"
    by (rule first_rep) (auto simp: re_space_def)
  have 5: "first (m_lit ''\"'') (''\"'' @ n @ ''\"'' @ ?e) [] (n @ ''\"'' @ ?e)" by (rule first_lit)
  have 6: "first (m_cap (m_rep 1 re_word)) (n @ ''\"'' @ ?e) [n] (''\"'' @ ?e)"
    by (rule first_cap, rule first_rep) (use assms(2) in \<open>auto simp: word_name_def re_word_def Suc_le_eq\<close>)
  have 7: "first (m_lit ''\"'') (''\"'' @ ?e) [] ?e" by (rule first_lit)
  have "first nameMappingRegex (''_S('' @ t @ '','' @ '' '' @ ''\"'' @ n @ ''\"'' @ ?e) ([] @ [t] @ [] @ [] @ [] @ [n] @ [] @ []) ?e"
    unfolding nameMappingRegex_def by (rule first_seqs 1 2 3 4 5 6 7 first_seqs_Nil)+
  from first_match_start [OF this] show ?thesis by (simp add: name_text_def)
qed

lemma match_define_text:
  assumes "audit_name t" and "0 \<le> n"
  shows "match_start recordTypeDefinitionRegex (define_text (t, n)) = Some [t, itoa n]"
proof -
  let ?d = "format_uint (nat n)"
  have d: "list_all is_digit ?d" using format_uint_digit by (auto simp: list_all_iff)
  have nb: "hd (?d @ []) = hd ?d" "\<not> re_space (hd ?d)"
    using hd_format_uint_digit [of "nat n"] by (auto simp: is_digit_def re_space_def)
  have 1: "first (m_lit ''#define'') (''#define'' @ '' '' @ t @ '' '' @ ?d @ []) [] ('' '' @ t @ '' '' @ ?d @ [])" by (rule first_lit)
  have 2: "first (m_rep 1 re_space) ('' '' @ t @ '' '' @ ?d @ []) [] (t @ '' '' @ ?d @ [])"
    using audit_name_hd [OF assms(1)] by (intro first_rep) (auto simp: re_space_def)
  have 3: "first audit_word (t @ '' '' @ ?d @ []) [t] ('' '' @ ?d @ [])"
    by (rule first_audit_word [OF assms(1)]) (simp add: re_word_def)
  have 4: "first (m_rep 1 re_space) ('' '' @ ?d @ []) [] (?d @ [])"
    using nb by (intro first_rep) (auto simp: re_space_def)
  have 5: "first (m_cap (m_rep 1 is_digit)) (?d @ []) [?d] []"
    by (rule first_cap, rule first_rep) (use d in \<open>auto simp: Suc_le_eq\<close>)
  have "first recordTypeDefinitionRegex (''#define'' @ '' '' @ t @ '' '' @ ?d @ []) ([] @ [] @ [t] @ [] @ [?d] @ []) []"
    unfolding recordTypeDefinitionRegex_def by (rule first_seqs 1 2 3 4 5 first_seqs_Nil)+
  from first_match_start [OF this] show ?thesis using assms(2) by (simp add: define_text_def itoa_def)
qed

lemma update_new: "k \<notin> fst ` set m \<Longrightarrow> AList.update k v m = m @ [(k, v)]"
  by (induction m) auto

lemma fold_name_text:
  assumes "list_all (\<lambda>x. audit_name (fst x) \<and> word_name (snd x)) xs" and "distinct (map fst (m @ xs))"
  shows "fold name_line (map name_text xs) m = m @ xs"
  using assms
proof (induction xs arbitrary: m)
  case (Cons x xs)
  have "name_line (name_text x) m = m @ [x]"
    using Cons.prems match_name_text [of "fst x" "snd x"] by (auto simp: name_line_def update_new)
  then show ?case using Cons.IH [of "m @ [x]"] Cons.prems by simp
qed simp

lemma fold_define_text:
  assumes "list_all (\<lambda>x. audit_name (fst x) \<and> snd x \<in> {minRecordNum..maxRecordNum}) xs" and "distinct (map fst (m @ xs))"
  shows "fold define_line (map define_text xs) m = m @ xs"
  using assms
proof (induction xs arbitrary: m)
  case (Cons x xs)
  have n: "0 \<le> snd x" "- (2 ^ 63) \<le> snd x" "snd x < 2 ^ 63"
    using Cons.prems(1) by (auto simp: minRecordNum_def maxRecordNum_def)
  have "fst (atoi (itoa (snd x))) = snd x" using n parse_int_itoa [of 64 "snd x"] by (simp add: atoi_def)
  then have "define_line (define_text x) m = m @ [x]"
    using Cons.prems match_define_text [of "fst x" "snd x"] n(1) by (auto simp: define_line_def update_new)
  then show ?case using Cons.IH [of "m @ [x]"] Cons.prems by simp
qed simp

lemma re_word_no_break: "re_word c \<Longrightarrow> c \<noteq> CHR 0x0A" "re_word c \<Longrightarrow> c \<noteq> CHR 0x0D"
  by (auto simp: re_word_def)

lemma digit_no_break: "is_digit c \<Longrightarrow> c \<noteq> CHR 0x0A" "is_digit c \<Longrightarrow> c \<noteq> CHR 0x0D"
  by (auto simp: is_digit_def)

lemma audit_name_words: "audit_name t \<Longrightarrow> list_all re_word t"
  by (auto simp: audit_name_def re_word_def)

lemma word_no_break:
  assumes "list_all re_word w"
  shows "CHR 0x0A \<notin> set w" and "CHR 0x0D \<notin> set w"
  using assms by (auto simp: list_all_iff dest: re_word_no_break)

lemma is_line_name_text:
  "audit_name t \<Longrightarrow> word_name n \<Longrightarrow> length t + length n < 65000 \<Longrightarrow> is_line (name_text (t, n))"
  using word_no_break [of t] word_no_break [of n] audit_name_words [of t]
  by (simp add: is_line_def name_text_def word_name_def)

lemma length_format_uint: "n < 10 ^ Suc k \<Longrightarrow> length (format_uint n) \<le> Suc k"
proof (induction k arbitrary: n)
  case 0
  then show ?case by (simp add: format_uint_def format_base.simps [of 10 n])
next
  case (Suc k)
  show ?case
  proof (cases "n < 10")
    case False
    have "n div 10 < 10 ^ Suc k" using Suc.prems by (simp add: less_mult_imp_div_less mult.commute)
    with Suc.IH [OF this] False show ?thesis by (simp add: format_uint_def format_base.simps [of 10 n])
  qed (simp add: format_uint_def format_base.simps [of 10 n])
qed

lemma is_line_define_text:
  assumes "audit_name t" and "n \<in> {minRecordNum..maxRecordNum}" and "length t < 65000"
  shows "is_line (define_text (t, n))"
proof -
  have n: "0 \<le> n" "nat n < 10 ^ Suc 3" using assms(2) by (auto simp: minRecordNum_def maxRecordNum_def)
  have "CHR 0x0A \<notin> set (format_uint (nat n))" "CHR 0x0D \<notin> set (format_uint (nat n))"
    using digit_no_break format_uint_digit by blast+
  then show ?thesis
    using word_no_break [OF audit_name_words [OF assms(1)]] length_format_uint [OF n(2)] n(1) assms(3)
    by (simp add: is_line_def define_text_def itoa_def)
qed

text \<open>
  (C17) If every type of the name table is defined in the headers and no two of these types share a number, the generator, in whatever
  order the maps are iterated and whatever else the headers define, makes tables of which the generated file is a correct program: each number found in the headers has exactly one constant, defined with that
  number in the headers; the name tables have exactly the declared constants as keys; the names of the table
  are kept, and the other constants are named by what follows \<^verbatim>\<open>AUDIT_\<close>.
\<close>

theorem generated_tables_consistent:
  assumes "readMessageTypeTable dir = Ok names" and "readRecordTypes E dir = Ok nums"
    and "range_ok (env_range_names E)" and "range_ok (env_range_nums E)"
    and "\<forall>t \<in> fst ` set names. map_of nums t \<noteq> None"
    and "inj_on (\<lambda>t. the (map_of nums t)) (fst ` set names)"
  shows "\<exists>p. record_tables E command names nums = Ok p \<and> Command p = command \<and> consistent names nums p"
proof (rule record_tables_consistent [OF _ _ assms(3-6)])
  show "distinct (map fst names)"
    using assms(1) name_lines_distinct [of "[]"] by (auto simp: readMessageTypeTable_def split: option.splits)
  show "nums_ok nums"
    using assms(2) define_lines_ok [of "[]"] by (auto simp: readRecordTypes_def nums_ok_def split: option.splits)
qed

text \<open>A table with one name, and headers in which two constants share a number.\<close>

definition sample_names :: "(string, string) go_map" where
  "sample_names = [(''AUDIT_AA'', ''APPARMOR'')]"

definition sample_nums :: "(string, int) go_map" where
  "sample_nums = [(''AUDIT_GET'', 1000), (''AUDIT_FIRST_AA'', 1500), (''AUDIT_AA'', 1500)]"

definition sample_headers :: "(string, string) go_map \<Rightarrow> (string, int) go_map \<Rightarrow> msg_env" where
  "sample_headers names nums =
     \<lparr>env_tempdir = True, env_http = (\<lambda>_. Response 200 (Some (line_text (map name_text names)))), env_create = (\<lambda>_. True),
      env_chdir = True, env_gcc = (\<lambda>_. Some (line_text (map define_text nums))), env_range_names = rev,
      env_range_nums = rev, env_create_out = True, env_write = True\<rparr>"

lemma readMessageTypeTable_text:
  assumes "list_all (\<lambda>x. audit_name (fst x) \<and> word_name (snd x) \<and> length (fst x) + length (snd x) < 65000) names"
    and "distinct (map fst names)" and "dir ''msg_typetab.h'' = Some (line_text (map name_text names))"
  shows "readMessageTypeTable dir = Ok names"
proof -
  have "list_all is_line (map name_text names)"
    using assms(1) is_line_name_text by (auto simp: list_all_iff)
  moreover have "fold name_line (map name_text names) [] = names"
    using fold_name_text [of names "[]"] assms(1,2) by (simp add: list_all_iff)
  ultimately show ?thesis using assms(3) by (simp add: readMessageTypeTable_def scan_line_text)
qed

lemma readRecordTypes_text:
  assumes "list_all (\<lambda>x. audit_name (fst x) \<and> snd x \<in> {minRecordNum..maxRecordNum} \<and> length (fst x) < 65000) nums"
    and "distinct (map fst nums)" and "env_gcc E dir = Some (line_text (map define_text nums))"
  shows "readRecordTypes E dir = Ok nums"
proof -
  have "list_all is_line (map define_text nums)"
    using assms(1) is_line_define_text by (auto simp: list_all_iff)
  moreover have "fold define_line (map define_text nums) [] = nums"
    using fold_define_text [of nums "[]"] assms(1,2) by (simp add: list_all_iff)
  ultimately show ?thesis using assms(3) by (simp add: readRecordTypes_def scan_line_text)
qed

lemma audit_nameI: "w \<noteq> [] \<Longrightarrow> list_all re_word w \<Longrightarrow> audit_name (''AUDIT_'' @ w)"
  by (auto simp: audit_name_def)

lemma range_ok_rev: "range_ok rev"
  by (simp add: range_ok_def)

theorem generated_tables_consistent_witness:
  "\<exists>p. record_tables (sample_headers sample_names sample_nums) ''gen'' sample_names sample_nums = Ok p
     \<and> consistent sample_names sample_nums p
     \<and> RecordTypes p = [(1500, ''AUDIT_AA''), (1000, ''AUDIT_GET'')]
     \<and> RecordNames p = [(''AUDIT_AA'', ''APPARMOR''), (''AUDIT_GET'', ''GET'')]"
proof -
  let ?E = "sample_headers sample_names sample_nums" and ?dir = "[''msg_typetab.h'' \<mapsto> line_text (map name_text sample_names)]"
  have w: "audit_name ''AUDIT_AA''" "audit_name ''AUDIT_GET''" "audit_name ''AUDIT_FIRST_AA''"
    using audit_nameI [of "''AA''"] audit_nameI [of "''GET''"] audit_nameI [of "''FIRST_AA''"] by (simp_all add: re_word_def)
  have names: "readMessageTypeTable ?dir = Ok sample_names"
    by (rule readMessageTypeTable_text) (use w in \<open>simp_all add: sample_names_def word_name_def re_word_def\<close>)
  have nums: "readRecordTypes ?E ?dir = Ok sample_nums"
    by (rule readRecordTypes_text)
       (use w in \<open>simp_all add: sample_nums_def sample_headers_def minRecordNum_def maxRecordNum_def\<close>)
  have "match_start nameExtractorRegex ''AUDIT_GET'' = Some [''GET'']" by code_simp
  then have "record_tables ?E ''gen'' sample_names sample_nums = Ok \<lparr>Command = ''gen'',
      RecordTypes = [(1500, ''AUDIT_AA''), (1000, ''AUDIT_GET'')],
      RecordNames = [(''AUDIT_AA'', ''APPARMOR''), (''AUDIT_GET'', ''GET'')]\<rparr>"
    by (simp add: record_tables_def sample_headers_def sample_names_def sample_nums_def)
  moreover have "\<exists>p. record_tables ?E ''gen'' sample_names sample_nums = Ok p \<and> Command p = ''gen''
      \<and> consistent sample_names sample_nums p"
    by (rule generated_tables_consistent [OF names nums])
       (simp_all add: sample_headers_def range_ok_rev sample_names_def sample_nums_def)
  ultimately show ?thesis by auto
qed

end
