(* ===== verification/Gen_Exit_Codes.thy ===== *)
theory Gen_Exit_Codes
  imports Gen_Msg_Types Audit_Tables
begin

text \<open>
  \<^verbatim>\<open>auparse/mk_audit_exit_codes.go\<close>, which makes \<^verbatim>\<open>zaudit_exit_codes.go\<close> from the error numbers of the C library. The
  C preprocessor, \<^verbatim>\<open>cgo\<close>, \<^verbatim>\<open>gofmt\<close> and the file system are parameters (record \<open>errno_env\<close>). \<^verbatim>\<open>sort.Slice\<close> leaves open
  how it orders equal elements; here they keep the order in which the map was iterated, which is arbitrary.
\<close>

section \<open>Reading the error numbers\<close>

record ErrorNumber =
  err_Name :: string
  err_Value :: int

record errno_env =
  en_tempdir :: bool
  en_chdir :: bool
  en_gcc :: "string \<Rightarrow> string option"
  en_range :: "(string, int) ranging"
  en_create :: bool
  en_write :: bool
  en_cgo :: "string \<Rightarrow> string option"
  en_write_out :: bool
  en_gofmt :: "string \<Rightarrow> string option"

datatype errno_error =
    ErrnoTempDir | ErrnoChdir | ErrnoGcc | ErrnoCreate | ErrnoTemplate | ErrnoCgo | ErrnoWrite | ErrnoGofmt

definition includeErrno :: string where
  "includeErrno = CHR 0x0A # ''#include <asm-generic/errno.h>'' @ [CHR 0x0A]"

definition errnoDefRegex :: matcher where
  "errnoDefRegex = m_seqs
     [m_lit ''#define'', m_rep 1 re_space, m_cap (m_seq (m_lit ''E'') (m_rep 1 re_word)), m_rep 1 re_space,
      m_cap (m_rep 1 re_word)]"

definition errno_line :: "string \<Rightarrow> (string, int) go_map \<Rightarrow> (string, int) go_map" where
  "errno_line l m =
     (case match_start errnoDefRegex l of
        Some [name, value] \<Rightarrow>
          (let (errno, err) = atoi value in AList.update name (if err \<noteq> None then - 1 else errno) m)
      | _ \<Rightarrow> m)"

definition readErrorNumbers :: "errno_env \<Rightarrow> (errno_error, ErrorNumber list) outcome" where
  "readErrorNumbers E =
     (case en_gcc E includeErrno of
        None \<Rightarrow> Err ErrnoGcc
      | Some out \<Rightarrow>
          (let errorToNum = fold errno_line (scan_lines out) [];
               errnos = map (\<lambda>(name, value). \<lparr>err_Name = name, err_Value = value\<rparr>) (en_range E errorToNum) in
           Ok (sort_key err_Value errnos)))"

section \<open>The templates\<close>

record ErrnoParams =
  errno_Command :: string
  NameToNum :: "ErrorNumber list"
  NumToName :: "ErrorNumber list"

text \<open>The licence is the one all templates start with.\<close>

definition errno_header :: "ErrnoParams \<Rightarrow> string" where
  "errno_header p = CHR 0x0A # line_text (map template_line (
     template_license @ [(0, ''// Code generated by '' @ errno_Command p @ '' - DO NOT EDIT.'')]))"

definition godefs_text :: "ErrnoParams \<Rightarrow> string" where
  "godefs_text p = CHR 0x0A # line_text (map template_line (
     [(0, ''package auparse''), (0, []), (0, ''/*''), (0, ''#include <asm-generic/errno.h>''), (0, ''*/''),
      (0, ''import \"C\"''), (0, []),
      (0, ''// AuditErrnoToNum contains a mapping of POSIX error names to errnos (error numbers).''),
      (0, ''var AuditErrnoToNum = map[string]int{'')]
     @ map (\<lambda>err. (1, ''\"'' @ err_Name err @ ''\":'' @ [CHR 0x09] @ ''C.'' @ err_Name err @ '','')) (NameToNum p)
     @ [(0, ''}''), (0, []),
        (0, ''// AuditErrnoToName contains a mapping of errnos (error numbers) to POSIX names.''),
        (0, ''var AuditErrnoToName = map[int]string{'')]
     @ map (\<lambda>err. (1, itoa (err_Value err) @ '':'' @ [CHR 0x09] @ ''\"'' @ err_Name err @ ''\",'')) (NumToName p)
     @ [(0, ''}'')]))"

section \<open>run\<close>

definition errno_params :: "string \<Rightarrow> ErrorNumber list \<Rightarrow> ErrnoParams" where
  "errno_params command errnos =
     \<lparr>errno_Command = command, NameToNum = errnos, NumToName = filter (\<lambda>e. 0 \<le> err_Value e) errnos\<rparr>"

text \<open>The output of \<^verbatim>\<open>cgo\<close> below the header, without its lines of comment.\<close>

definition strip_comments :: "string \<Rightarrow> string" where
  "strip_comments out = line_text (filter (\<lambda>l. \<not> has_prefix l ''//'') (scan_lines out))"

definition run_exit_codes :: "errno_env \<Rightarrow> string \<Rightarrow> (errno_error, string) outcome" where
  "run_exit_codes E command =
     (if \<not> en_tempdir E then Err ErrnoTempDir
      else if \<not> en_chdir E then Err ErrnoChdir
      else bind_outcome (readErrorNumbers E) (\<lambda>errnos.
        let r = errno_params command errnos in
        if \<not> en_create E then Err ErrnoCreate
        else if \<not> en_write E then Err ErrnoTemplate
        else (case en_cgo E (godefs_text r) of
            None \<Rightarrow> Err ErrnoCgo
          | Some output \<Rightarrow>
              if \<not> en_write_out E then Err ErrnoWrite
              else (case en_gofmt E (errno_header r @ strip_comments output) of
                  None \<Rightarrow> Err ErrnoGofmt
                | Some text \<Rightarrow> Ok text))))"

definition main_exit_codes ::
  "(string \<Rightarrow> string option) \<Rightarrow> string list \<Rightarrow> errno_env \<Rightarrow> string \<Rightarrow> (errno_error gen_exit, string \<times> string) outcome" where
  "main_exit_codes absPath args E command = gen_main absPath args ''zaudit_exit_codes.go'' (run_exit_codes E command)"

end
