(* ===== verification/Gen_Regenerate.thy ===== *)
theory Gen_Regenerate
  imports Gen_Exit_Codes
begin

text \<open>
  The generated tables of the repository are what the generators make: run on headers that define the
  constants of \<^verbatim>\<open>zaudit_msg_types.go\<close> and \<^verbatim>\<open>zaudit_exit_codes.go\<close>, they give back these tables, for every order in
  which the maps are iterated.
\<close>

section \<open>Sorting a table\<close>

lemma singleton_list: "distinct xs \<Longrightarrow> set xs = {k} \<Longrightarrow> xs = [k]"
  by (cases xs; cases "tl xs") auto

lemma sort_key_unique:
  assumes "mset xs = mset ys" and "distinct (map f ys)" and "sorted (map f ys)"
  shows "sort_key f xs = ys"
proof (rule properties_for_sort_key)
  show "mset ys = mset xs" using assms(1) by simp
  fix k assume k: "k \<in> set ys"
  have one: "filter (\<lambda>x. f k = f x) zs = [k]" if "mset zs = mset ys" for zs
  proof -
    have zs: "set zs = set ys" "distinct (map f zs)"
      using that assms(2) by (metis mset_eq_setD, metis mset_eq_imp_distinct_iff mset_map)
    have "distinct (filter (\<lambda>x. f k = f x) zs)" using zs(2) by (simp add: distinct_map)
    moreover have "set (filter (\<lambda>x. f k = f x) zs) = {k}"
      using k zs by (auto simp: distinct_map inj_on_def)
    ultimately show ?thesis by (rule singleton_list)
  qed
  show "filter (\<lambda>x. f k = f x) ys = filter (\<lambda>x. f k = f x) xs" using one [of ys] one [of xs] assms(1) by simp
qed (rule assms(3))

section \<open>The message types\<close>

text \<open>The constants of \<^verbatim>\<open>zaudit_msg_types.go\<close> in the order of the name table, each without its prefix \<^verbatim>\<open>AUDIT_\<close>, with its number and its name.\<close>

definition message_rows :: "(string \<times> int \<times> string) list" where
  "message_rows = [
    (''AA'', 1500, ''APPARMOR''), (''ACCT_LOCK'', 1135, ''ACCT_LOCK''),
    (''ACCT_UNLOCK'', 1136, ''ACCT_UNLOCK''), (''ADD'', 1003, ''ADD''),
    (''ADD_GROUP'', 1116, ''ADD_GROUP''), (''ADD_RULE'', 1011, ''ADD_RULE''),
    (''ADD_USER'', 1114, ''ADD_USER''), (''ANOM_ABEND'', 1701, ''ANOM_ABEND''),
    (''ANOM_ACCESS_FS'', 2111, ''ANOM_ACCESS_FS''), (''ANOM_ADD_ACCT'', 2114, ''ANOM_ADD_ACCT''),
    (''ANOM_AMTU_FAIL'', 2107, ''ANOM_AMTU_FAIL''), (''ANOM_CRYPTO_FAIL'', 2110, ''ANOM_CRYPTO_FAIL''),
    (''ANOM_DEL_ACCT'', 2115, ''ANOM_DEL_ACCT''), (''ANOM_EXEC'', 2112, ''ANOM_EXEC''),
    (''ANOM_LINK'', 1702, ''ANOM_LINK''), (''ANOM_LOGIN_ACCT'', 2103, ''ANOM_LOGIN_ACCT''),
    (''ANOM_LOGIN_FAILURES'', 2100, ''ANOM_LOGIN_FAILURES''),
    (''ANOM_LOGIN_LOCATION'', 2104, ''ANOM_LOGIN_LOCATION''),
    (''ANOM_LOGIN_SERVICE'', 2118, ''ANOM_LOGIN_SERVICE''),
    (''ANOM_LOGIN_SESSIONS'', 2102, ''ANOM_LOGIN_SESSIONS''),
    (''ANOM_LOGIN_TIME'', 2101, ''ANOM_LOGIN_TIME''), (''ANOM_MAX_DAC'', 2105, ''ANOM_MAX_DAC''),
    (''ANOM_MAX_MAC'', 2106, ''ANOM_MAX_MAC''), (''ANOM_MK_EXEC'', 2113, ''ANOM_MK_EXEC''),
    (''ANOM_MOD_ACCT'', 2116, ''ANOM_MOD_ACCT''), (''ANOM_PROMISCUOUS'', 1700, ''ANOM_PROMISCUOUS''),
    (''ANOM_RBAC_FAIL'', 2108, ''ANOM_RBAC_FAIL''),
    (''ANOM_RBAC_INTEGRITY_FAIL'', 2109, ''ANOM_RBAC_INTEGRITY_FAIL''),
    (''ANOM_ROOT_TRANS'', 2117, ''ANOM_ROOT_TRANS''), (''APPARMOR_ALLOWED'', 1502, ''APPARMOR_ALLOWED''),
    (''APPARMOR_AUDIT'', 1501, ''APPARMOR_AUDIT''), (''APPARMOR_DENIED'', 1503, ''APPARMOR_DENIED''),
    (''APPARMOR_ERROR'', 1506, ''APPARMOR_ERROR''), (''APPARMOR_HINT'', 1504, ''APPARMOR_HINT''),
    (''APPARMOR_STATUS'', 1505, ''APPARMOR_STATUS''), (''AVC'', 1400, ''AVC''),
    (''AVC_PATH'', 1402, ''AVC_PATH''), (''BPRM_FCAPS'', 1321, ''BPRM_FCAPS''),
    (''CAPSET'', 1322, ''CAPSET''), (''CHGRP_ID'', 1119, ''CHGRP_ID''),
    (''CHUSER_ID'', 1125, ''CHUSER_ID''), (''CONFIG_CHANGE'', 1305, ''CONFIG_CHANGE''),
    (''CRED_ACQ'', 1103, ''CRED_ACQ''), (''CRED_DISP'', 1104, ''CRED_DISP''),
    (''CRED_REFR'', 1110, ''CRED_REFR''), (''CRYPTO_FAILURE_USER'', 2405, ''CRYPTO_FAILURE_USER''),
    (''CRYPTO_IKE_SA'', 2408, ''CRYPTO_IKE_SA''), (''CRYPTO_IPSEC_SA'', 2409, ''CRYPTO_IPSEC_SA''),
    (''CRYPTO_KEY_USER'', 2404, ''CRYPTO_KEY_USER''), (''CRYPTO_LOGIN'', 2402, ''CRYPTO_LOGIN''),
    (''CRYPTO_LOGOUT'', 2403, ''CRYPTO_LOGOUT''),
    (''CRYPTO_PARAM_CHANGE_USER'', 2401, ''CRYPTO_PARAM_CHANGE_USER''),
    (''CRYPTO_REPLAY_USER'', 2406, ''CRYPTO_REPLAY_USER''),
    (''CRYPTO_SESSION'', 2407, ''CRYPTO_SESSION''), (''CRYPTO_TEST_USER'', 2400, ''CRYPTO_TEST_USER''),
    (''CWD'', 1307, ''CWD''), (''DAC_CHECK'', 1118, ''DAC_CHECK''),
    (''DAEMON_ABORT'', 1202, ''DAEMON_ABORT''), (''DAEMON_ACCEPT'', 1207, ''DAEMON_ACCEPT''),
    (''DAEMON_CLOSE'', 1208, ''DAEMON_CLOSE''), (''DAEMON_CONFIG'', 1203, ''DAEMON_CONFIG''),
    (''DAEMON_END'', 1201, ''DAEMON_END''), (''DAEMON_ERR'', 1209, ''DAEMON_ERR''),
    (''DAEMON_RECONFIG'', 1204, ''DAEMON_RECONFIG''), (''DAEMON_RESUME'', 1206, ''DAEMON_RESUME''),
    (''DAEMON_ROTATE'', 1205, ''DAEMON_ROTATE''), (''DAEMON_START'', 1200, ''DAEMON_START''),
    (''DEL'', 1004, ''DEL''), (''DEL_GROUP'', 1117, ''DEL_GROUP''),
    (''DEL_RULE'', 1012, ''DEL_RULE''), (''DEL_USER'', 1115, ''DEL_USER''),
    (''DEV_ALLOC'', 2307, ''DEV_ALLOC''), (''DEV_DEALLOC'', 2308, ''DEV_DEALLOC''),
    (''EOE'', 1320, ''EOE''), (''EXECVE'', 1309, ''EXECVE''), (''FANOTIFY'', 1331, ''FANOTIFY''),
    (''FD_PAIR'', 1317, ''FD_PAIR''), (''FEATURE_CHANGE'', 1328, ''FEATURE_CHANGE''),
    (''FIRST_KERN_CRYPTO_MSG'', 1600, ''FIRST_KERN_CRYPTO_MSG''), (''FS_RELABEL'', 2309, ''FS_RELABEL''),
    (''GET'', 1000, ''GET''), (''GET_FEATURE'', 1019, ''GET_FEATURE''),
    (''GRP_AUTH'', 1126, ''GRP_AUTH''), (''GRP_CHAUTHTOK'', 1133, ''GRP_CHAUTHTOK''),
    (''GRP_MGMT'', 1132, ''GRP_MGMT''), (''INTEGRITY_DATA'', 1800, ''INTEGRITY_DATA''),
    (''INTEGRITY_HASH'', 1803, ''INTEGRITY_HASH''),
    (''INTEGRITY_LAST_MSG'', 1899, ''INTEGRITY_LAST_MSG''),
    (''INTEGRITY_METADATA'', 1801, ''INTEGRITY_METADATA''), (''INTEGRITY_PCR'', 1804, ''INTEGRITY_PCR''),
    (''INTEGRITY_RULE'', 1805, ''INTEGRITY_RULE''), (''INTEGRITY_STATUS'', 1802, ''INTEGRITY_STATUS''),
    (''IPC'', 1303, ''IPC''), (''IPC_SET_PERM'', 1311, ''IPC_SET_PERM''),
    (''KERNEL'', 2000, ''KERNEL''), (''KERNEL_OTHER'', 1316, ''KERNEL_OTHER''),
    (''KERN_MODULE'', 1330, ''KERN_MODULE''), (''LABEL_LEVEL_CHANGE'', 2304, ''LABEL_LEVEL_CHANGE''),
    (''LABEL_OVERRIDE'', 2303, ''LABEL_OVERRIDE''), (''LAST_ANOM_MSG'', 2199, ''LAST_ANOM_MSG''),
    (''LAST_ANOM_RESP'', 2299, ''LAST_ANOM_RESP''), (''LAST_APPARMOR'', 1599, ''LAST_APPARMOR''),
    (''LAST_CRYPTO_MSG'', 2499, ''LAST_CRYPTO_MSG''), (''LAST_DAEMON'', 1299, ''LAST_DAEMON''),
    (''LAST_EVENT'', 1399, ''LAST_EVENT''), (''LAST_KERN_ANOM_MSG'', 1799, ''LAST_KERN_ANOM_MSG''),
    (''LAST_KERN_CRYPTO_MSG'', 1699, ''LAST_KERN_CRYPTO_MSG''),
    (''LAST_SELINUX'', 1499, ''LAST_SELINUX''), (''LAST_USER_LSPP_MSG'', 2399, ''LAST_USER_LSPP_MSG''),
    (''LAST_USER_MSG'', 1199, ''LAST_USER_MSG''), (''LAST_USER_MSG2'', 2999, ''LAST_USER_MSG2''),
    (''LAST_VIRT_MSG'', 2599, ''LAST_VIRT_MSG''), (''LIST'', 1002, ''LIST''),
    (''LIST_RULES'', 1013, ''LIST_RULES''), (''LOGIN'', 1006, ''LOGIN''),
    (''MAC_CALIPSO_ADD'', 1418, ''MAC_CALIPSO_ADD''), (''MAC_CALIPSO_DEL'', 1419, ''MAC_CALIPSO_DEL''),
    (''MAC_CHECK'', 1134, ''MAC_CHECK''), (''MAC_CIPSOV4_ADD'', 1407, ''MAC_CIPSOV4_ADD''),
    (''MAC_CIPSOV4_DEL'', 1408, ''MAC_CIPSOV4_DEL''),
    (''MAC_CONFIG_CHANGE'', 1405, ''MAC_CONFIG_CHANGE''),
    (''MAC_IPSEC_ADDSA'', 1411, ''MAC_IPSEC_ADDSA''), (''MAC_IPSEC_ADDSPD'', 1413, ''MAC_IPSEC_ADDSPD''),
    (''MAC_IPSEC_DELSA'', 1412, ''MAC_IPSEC_DELSA''), (''MAC_IPSEC_DELSPD'', 1414, ''MAC_IPSEC_DELSPD''),
    (''MAC_IPSEC_EVENT'', 1415, ''MAC_IPSEC_EVENT''), (''MAC_MAP_ADD'', 1409, ''MAC_MAP_ADD''),
    (''MAC_MAP_DEL'', 1410, ''MAC_MAP_DEL''), (''MAC_POLICY_LOAD'', 1403, ''MAC_POLICY_LOAD''),
    (''MAC_STATUS'', 1404, ''MAC_STATUS''), (''MAC_UNLBL_ALLOW'', 1406, ''MAC_UNLBL_ALLOW''),
    (''MAC_UNLBL_STCADD'', 1416, ''MAC_UNLBL_STCADD''),
    (''MAC_UNLBL_STCDEL'', 1417, ''MAC_UNLBL_STCDEL''), (''MAKE_EQUIV'', 1015, ''MAKE_EQUIV''),
    (''MMAP'', 1323, ''MMAP''), (''MQ_GETSETATTR'', 1315, ''MQ_GETSETATTR''),
    (''MQ_NOTIFY'', 1314, ''MQ_NOTIFY''), (''MQ_OPEN'', 1312, ''MQ_OPEN''),
    (''MQ_SENDRECV'', 1313, ''MQ_SENDRECV''), (''NETFILTER_CFG'', 1325, ''NETFILTER_CFG''),
    (''NETFILTER_PKT'', 1324, ''NETFILTER_PKT''), (''OBJ_PID'', 1318, ''OBJ_PID''),
    (''PATH'', 1302, ''PATH''), (''PROCTITLE'', 1327, ''PROCTITLE''),
    (''REPLACE'', 1329, ''REPLACE''), (''RESP_ACCT_LOCK'', 2207, ''RESP_ACCT_LOCK''),
    (''RESP_ACCT_LOCK_TIMED'', 2205, ''RESP_ACCT_LOCK_TIMED''),
    (''RESP_ACCT_REMOTE'', 2204, ''RESP_ACCT_REMOTE''),
    (''RESP_ACCT_UNLOCK_TIMED'', 2206, ''RESP_ACCT_UNLOCK_TIMED''),
    (''RESP_ALERT'', 2201, ''RESP_ALERT''), (''RESP_ANOMALY'', 2200, ''RESP_ANOMALY''),
    (''RESP_EXEC'', 2210, ''RESP_EXEC''), (''RESP_HALT'', 2212, ''RESP_HALT''),
    (''RESP_KILL_PROC'', 2202, ''RESP_KILL_PROC''), (''RESP_ORIGIN_BLOCK'', 2213, ''RESP_ORIGIN_BLOCK''),
    (''RESP_ORIGIN_BLOCK_TIMED'', 2214, ''RESP_ORIGIN_BLOCK_TIMED''),
    (''RESP_SEBOOL'', 2209, ''RESP_SEBOOL''), (''RESP_SINGLE'', 2211, ''RESP_SINGLE''),
    (''RESP_TERM_ACCESS'', 2203, ''RESP_TERM_ACCESS''), (''RESP_TERM_LOCK'', 2208, ''RESP_TERM_LOCK''),
    (''ROLE_ASSIGN'', 2301, ''ROLE_ASSIGN''), (''ROLE_MODIFY'', 2311, ''ROLE_MODIFY''),
    (''ROLE_REMOVE'', 2302, ''ROLE_REMOVE''), (''SECCOMP'', 1326, ''SECCOMP''),
    (''SELINUX_ERR'', 1401, ''SELINUX_ERR''), (''SERVICE_START'', 1130, ''SERVICE_START''),
    (''SERVICE_STOP'', 1131, ''SERVICE_STOP''), (''SET'', 1001, ''SET''),
    (''SET_FEATURE'', 1018, ''SET_FEATURE''), (''SIGNAL_INFO'', 1010, ''SIGNAL_INFO''),
    (''SOCKADDR'', 1306, ''SOCKADDR''), (''SOCKETCALL'', 1304, ''SOCKETCALL''),
    (''SOFTWARE_UPDATE'', 1138, ''SOFTWARE_UPDATE''), (''SYSCALL'', 1300, ''SYSCALL''),
    (''SYSTEM_BOOT'', 1127, ''SYSTEM_BOOT''), (''SYSTEM_RUNLEVEL'', 1129, ''SYSTEM_RUNLEVEL''),
    (''SYSTEM_SHUTDOWN'', 1128, ''SYSTEM_SHUTDOWN''), (''TEST'', 1120, ''TEST''),
    (''TRIM'', 1014, ''TRIM''), (''TRUSTED_APP'', 1121, ''TRUSTED_APP''), (''TTY'', 1319, ''TTY''),
    (''TTY_GET'', 1016, ''TTY_GET''), (''TTY_SET'', 1017, ''TTY_SET''), (''USER'', 1005, ''USER''),
    (''USER_ACCT'', 1101, ''USER_ACCT''), (''USER_AUTH'', 1100, ''USER_AUTH''),
    (''USER_AVC'', 1107, ''USER_AVC''), (''USER_CHAUTHTOK'', 1108, ''USER_CHAUTHTOK''),
    (''USER_CMD'', 1123, ''USER_CMD''), (''USER_DEVICE'', 1137, ''USER_DEVICE''),
    (''USER_END'', 1106, ''USER_END''), (''USER_ERR'', 1109, ''USER_ERR''),
    (''USER_LABELED_EXPORT'', 2305, ''USER_LABELED_EXPORT''), (''USER_LOGIN'', 1112, ''USER_LOGIN''),
    (''USER_LOGOUT'', 1113, ''USER_LOGOUT''),
    (''USER_MAC_CONFIG_CHANGE'', 2312, ''USER_MAC_CONFIG_CHANGE''),
    (''USER_MAC_POLICY_LOAD'', 2310, ''USER_MAC_POLICY_LOAD''), (''USER_MGMT'', 1102, ''USER_MGMT''),
    (''USER_ROLE_CHANGE'', 2300, ''USER_ROLE_CHANGE''),
    (''USER_SELINUX_ERR'', 1122, ''USER_SELINUX_ERR''), (''USER_START'', 1105, ''USER_START''),
    (''USER_TTY'', 1124, ''USER_TTY''), (''USER_UNLABELED_EXPORT'', 2306, ''USER_UNLABELED_EXPORT''),
    (''USYS_CONFIG'', 1111, ''USYS_CONFIG''), (''VIRT_CONTROL'', 2500, ''VIRT_CONTROL''),
    (''VIRT_CREATE'', 2504, ''VIRT_CREATE''), (''VIRT_DESTROY'', 2505, ''VIRT_DESTROY''),
    (''VIRT_INTEGRITY_CHECK'', 2503, ''VIRT_INTEGRITY_CHECK''),
    (''VIRT_MACHINE_ID'', 2502, ''VIRT_MACHINE_ID''), (''VIRT_MIGRATE_IN'', 2506, ''VIRT_MIGRATE_IN''),
    (''VIRT_MIGRATE_OUT'', 2507, ''VIRT_MIGRATE_OUT''), (''VIRT_RESOURCE'', 2501, ''VIRT_RESOURCE''),
    (''WATCH_INS'', 1007, ''WATCH_INS''), (''WATCH_LIST'', 1009, ''WATCH_LIST''),
    (''WATCH_REM'', 1008, ''WATCH_REM'')]"

definition row_type :: "string \<times> int \<times> string \<Rightarrow> string" where
  "row_type r = ''AUDIT_'' @ fst r"

definition row_num :: "string \<times> int \<times> string \<Rightarrow> string \<times> int" where
  "row_num r = (row_type r, fst (snd r))"

definition row_name :: "string \<times> int \<times> string \<Rightarrow> string \<times> string" where
  "row_name r = (row_type r, snd (snd r))"

lemma rows_are_the_table: "auditMessageTypeToName = map (\<lambda>r. (of_int (snd (row_num r)), snd (row_name r))) message_rows"
  by (simp add: auditMessageTypeToName_def message_rows_def row_num_def row_name_def)

fun chain :: "string list \<Rightarrow> bool" where
  "chain (x # y # zs) = (x \<le> y \<and> chain (y # zs))"
| "chain xs = True"

lemma chain_sorted: "chain xs \<Longrightarrow> sorted xs"
  by (induction xs rule: chain.induct) (auto simp: sorted2_simps)

lemma rows_sorted: "sorted (map row_type message_rows)"
  by (rule chain_sorted) code_simp

lemma rows_distinct: "distinct (map row_type message_rows)"
  by (rule distinct_by_key [where f = str_key]) code_simp

lemma row_numbers_distinct: "distinct (map (\<lambda>r. fst (snd r)) message_rows)"
  by (rule distinct_by_key [where f = id]) code_simp

text \<open>The checks on the rows compute with integers.\<close>

definition upper_word :: "char \<Rightarrow> bool" where
  "upper_word c = (let n = of_char c :: int in 48 \<le> n \<and> n \<le> 57 \<or> 65 \<le> n \<and> n \<le> 90 \<or> n = 95)"

lemma upper_word_re_word: "upper_word c \<Longrightarrow> re_word c"
  by (auto simp: upper_word_def code_of_char re_word_def Let_def)

primrec int_length :: "string \<Rightarrow> int" where
  "int_length [] = 0"
| "int_length (c # cs) = 1 + int_length cs"

lemma int_length_eq: "int_length s = int (length s)"
  by (induction s) simp_all

definition row_ok :: "string \<times> int \<times> string \<Rightarrow> bool" where
  "row_ok r = (case r of (w, n, s) \<Rightarrow> w \<noteq> [] \<and> list_all upper_word w \<and> int_length w < 100 \<and> 1000 \<le> n \<and> n \<le> 3000
     \<and> s \<noteq> [] \<and> list_all upper_word s \<and> int_length s < 100)"

lemma rows_ok: "list_all row_ok message_rows"
  by code_simp

lemma row_facts:
  assumes "r \<in> set message_rows"
  shows "audit_name (row_type r)" "length (row_type r) < 200" "word_name (snd (row_name r))" "length (snd (row_name r)) < 100"
    "snd (row_num r) \<in> {minRecordNum..maxRecordNum}" "fst (row_num r) = row_type r" "fst (row_name r) = row_type r"
proof -
  have "row_ok r" using rows_ok assms by (simp add: list_all_iff)
  then show "audit_name (row_type r)" "length (row_type r) < 200" "word_name (snd (row_name r))" "length (snd (row_name r)) < 100"
    "snd (row_num r) \<in> {minRecordNum..maxRecordNum}"
    using upper_word_re_word
    by (auto simp: row_ok_def row_type_def row_num_def row_name_def audit_name_def word_name_def int_length_eq list_all_iff
        minRecordNum_def maxRecordNum_def)
qed (simp_all add: row_num_def row_name_def)

lemma header_names:
  "map path_Base headers = [''audit.h'', ''libaudit.h'', ''msg_typetab.h'']"
  by code_simp

text \<open>A run of the system in which nothing fails.\<close>

definition no_failure :: "msg_env \<Rightarrow> bool" where
  "no_failure E = (env_tempdir E \<and> env_chdir E \<and> env_create_out E \<and> env_write E \<and> env_create E = (\<lambda>_. True)
     \<and> range_ok (env_range_names E) \<and> range_ok (env_range_nums E)
     \<and> (\<forall>url \<in> set headers. \<exists>text. env_http E url = Response 200 (Some text)))"

lemma download_headers:
  assumes "no_failure E" and "env_http E (last headers) = Response 200 (Some text)"
  shows "\<exists>dir. download_all E headers Map.empty = Ok dir \<and> dir ''msg_typetab.h'' = Some text"
proof -
  obtain u1 u2 u3 where h: "headers = [u1, u2, u3]" by (simp add: headers_def)
  obtain t1 t2 where "env_http E u1 = Response 200 (Some t1)" "env_http E u2 = Response 200 (Some t2)"
    "env_http E u3 = Response 200 (Some text)" "env_create E = (\<lambda>_. True)"
    using assms unfolding no_failure_def h by auto
  moreover have "path_Base u3 = ''msg_typetab.h''" using header_names by (simp add: h)
  ultimately show ?thesis by (simp add: h DownloadFile_def)
qed

lemma sort_key_mset:
  assumes "mset xs = mset ys" and "distinct (map f ys)"
  shows "sort_key f xs = sort_key f ys"
proof (rule sort_key_unique)
  show "mset xs = mset (sort_key f ys)" using assms(1) by simp
  show "distinct (map f (sort_key f ys))"
    using assms(2) by (metis mset_eq_imp_distinct_iff mset_map mset_sort)
qed simp

lemma mset_table:
  "distinct (map fst xs) \<Longrightarrow> distinct (map fst ys) \<Longrightarrow> set xs = set ys \<Longrightarrow> mset xs = mset ys"
  by (metis distinct_map set_eq_iff_mset_eq_distinct)

definition row_params :: "string \<Rightarrow> TemplateParams" where
  "row_params command = \<lparr>Command = command,
     RecordTypes = map (\<lambda>r. (snd (row_num r), row_type r)) message_rows, RecordNames = map row_name message_rows\<rparr>"

lemma consistent_types:
  assumes "consistent names nums p" and "set nums = row_num ` set message_rows"
  shows "set (RecordTypes p) = (\<lambda>r. (snd (row_num r), row_type r)) ` set message_rows"
proof
  show "set (RecordTypes p) \<subseteq> (\<lambda>r. (snd (row_num r), row_type r)) ` set message_rows"
    using assms by (force simp: consistent_def row_num_def)
  have "(n, t) \<in> set (RecordTypes p)" if "(t, n) \<in> set nums" for t n
  proof -
    have "n \<in> fst ` set (RecordTypes p)" using assms(1) imageI [OF that, of snd] by (simp add: consistent_def)
    then obtain u where u: "(n, u) \<in> set (RecordTypes p)" by auto
    then have "(u, n) \<in> set nums" using assms(1) by (auto simp: consistent_def)
    with that have "u = t" using assms(2) row_numbers_distinct
      by (auto simp: distinct_map inj_on_def row_num_def row_type_def)
    with u show ?thesis by simp
  qed
  moreover have "(row_type r, snd (row_num r)) \<in> set nums" if "r \<in> set message_rows" for r
    using imageI [OF that, of row_num] assms(2) by (simp add: row_num_def)
  ultimately show "(\<lambda>r. (snd (row_num r), row_type r)) ` set message_rows \<subseteq> set (RecordTypes p)" by blast
qed

lemma consistent_names:
  assumes "consistent names nums p" and "set nums = row_num ` set message_rows"
    and "set names = row_name ` {r \<in> set message_rows. keep r}"
    and "\<forall>r \<in> set message_rows. keep r \<or> fst r = snd (snd r)"
  shows "set (RecordNames p) = row_name ` set message_rows"
proof -
  have keys: "fst ` set (RecordNames p) = row_type ` set message_rows"
    using assms(1) consistent_types [OF assms(1,2)] by (simp add: consistent_def image_image)
  then have key: "\<exists>r \<in> set message_rows. row_type r = t" if "(t, s) \<in> set (RecordNames p)" for t s
    using imageI [OF that, of fst] by auto
  have same: "s = snd (row_name r)" if "(row_type r, s) \<in> set (RecordNames p)" "r \<in> set message_rows" for r s
  proof (cases "keep r")
    case True
    then have "(row_type r, snd (row_name r)) \<in> set (RecordNames p)"
      using assms(1,3) that(2) by (auto simp: consistent_def row_name_def)
    moreover have "distinct (map fst (RecordNames p))" using assms(1) by (simp add: consistent_def)
    ultimately show ?thesis using eq_key_imp_eq_value that(1) by metis
  next
    case False
    then have r: "row_type r = ''AUDIT_'' @ snd (row_name r)" using assms(4) that(2) by (auto simp: row_type_def row_name_def)
    have "(row_type r, s) \<notin> set names"
      using False that(2) rows_distinct unfolding assms(3) by (auto simp: row_name_def distinct_map inj_on_def)
    then have "row_type r = ''AUDIT_'' @ s" using assms(1) that(1) by (auto simp: consistent_def)
    with r show ?thesis by simp
  qed
  have "row_name r \<in> set (RecordNames p)" if "r \<in> set message_rows" for r
  proof -
    have "row_type r \<in> fst ` set (RecordNames p)" using keys that by blast
    then obtain s where "(row_type r, s) \<in> set (RecordNames p)" by auto
    with same that show ?thesis by (auto simp: row_name_def)
  qed
  moreover have "x \<in> row_name ` set message_rows" if x: "x \<in> set (RecordNames p)" for x
  proof -
    obtain t s where ts: "x = (t, s)" by (cases x)
    obtain r where r: "r \<in> set message_rows" "row_type r = t" using key x unfolding ts by blast
    have "s = snd (row_name r)" using same r x unfolding ts by blast
    then have "x = row_name r" using r(2) by (simp add: ts row_name_def)
    with r(1) show ?thesis by blast
  qed
  ultimately show ?thesis by blast
qed

lemma consistent_render:
  assumes "consistent names nums p" and "Command p = command"
    and "set nums = row_num ` set message_rows"
    and "set names = row_name ` {r \<in> set message_rows. keep r}"
    and "\<forall>r \<in> set message_rows. keep r \<or> fst r = snd (snd r)"
  shows "render p = render (row_params command)"
proof -
  have d: "distinct (map fst (RecordTypes p))" "distinct (map fst (RecordNames p))" using assms(1) by (simp_all add: consistent_def)
  have d': "distinct (map fst (RecordTypes (row_params command)))" "distinct (map fst (RecordNames (row_params command)))"
    using row_numbers_distinct rows_distinct by (simp_all add: row_params_def comp_def row_num_def row_name_def)
  have "mset (RecordTypes p) = mset (RecordTypes (row_params command))"
    by (rule mset_table [OF d(1) d'(1)]) (simp add: consistent_types [OF assms(1,3)] row_params_def)
  moreover have "mset (RecordNames p) = mset (RecordNames (row_params command))"
    by (rule mset_table [OF d(2) d'(2)]) (simp add: consistent_names [OF assms(1,3,4,5)] row_params_def)
  moreover note d'
  ultimately show ?thesis
    using assms(2) sort_key_mset [of "RecordTypes p" _ fst] sort_key_mset [of "RecordNames p" _ fst]
    by (simp add: render_def) (simp add: row_params_def)
qed

text \<open>
  (C16) \<^verbatim>\<open>zaudit_msg_types.go\<close> is a fixed point of its generator: on headers that define the constants of the file
  (in any order), with a name table that has at least the names that are not the constant without its
  prefix, a run that meets no error writes the file with exactly these constants and names, whatever the
  iteration order of the maps; its name table is in the order of the one of the repository, and its names
  are those of the table of the library.
\<close>

theorem msg_types_regenerated:
  assumes "no_failure E" and "env_http E (last headers) = Response 200 (Some (line_text (map name_text names)))"
    and "\<And>dir. env_gcc E dir = Some (line_text (map define_text nums))"
    and "mset nums = mset (map row_num message_rows)"
    and "mset names = mset (map row_name (filter keep message_rows))"
    and "\<forall>r \<in> set message_rows. keep r \<or> fst r = snd (snd r)"
    and "absPath ''zaudit_msg_types.go'' = Some path"
  shows "main_msg_types absPath [] E command = Ok (path, render (row_params command))
    \<and> sort_key fst (RecordNames (row_params command)) = map row_name message_rows
    \<and> auditMessageTypeToName = map (\<lambda>r. (of_int (snd (row_num r)), snd (row_name r))) message_rows"
proof -
  have sets: "set nums = row_num ` set message_rows" "set names = row_name ` {r \<in> set message_rows. keep r}"
    using mset_eq_setD [OF assms(4)] mset_eq_setD [OF assms(5)] by auto
  have dist: "distinct (map fst nums)" "distinct (map fst names)"
  proof -
    have "mset (map fst nums) = mset (map row_type message_rows)"
      "mset (map fst names) = mset (map row_type (filter keep message_rows))"
      using arg_cong [OF assms(4), of "image_mset fst"] arg_cong [OF assms(5), of "image_mset fst"]
      by (simp_all add: image_mset.compositionality comp_def row_num_def row_name_def)
    then show "distinct (map fst nums)" "distinct (map fst names)"
      using rows_distinct mset_eq_imp_distinct_iff distinct_map_filter by blast+
  qed
  obtain dir where dir: "download_all E headers Map.empty = Ok dir"
    "dir ''msg_typetab.h'' = Some (line_text (map name_text names))"
    using download_headers [OF assms(1,2)] by blast
  have "list_all (\<lambda>x. audit_name (fst x) \<and> word_name (snd x) \<and> length (fst x) + length (snd x) < 65000) names"
    using row_facts unfolding list_all_iff sets by fastforce
  then have "readMessageTypeTable dir = Ok names" using readMessageTypeTable_text dist(2) dir(2) by blast
  moreover have "list_all (\<lambda>x. audit_name (fst x) \<and> snd x \<in> {minRecordNum..maxRecordNum} \<and> length (fst x) < 65000) nums"
    using row_facts unfolding list_all_iff sets by fastforce
  then have "readRecordTypes E dir = Ok nums" using readRecordTypes_text dist(1) assms(3) by blast
  moreover obtain p where p: "record_tables E command names nums = Ok p" "Command p = command" "consistent names nums p"
  proof -
    have nums: "nums_ok nums" using dist(1) row_facts sets(1) by (fastforce simp: nums_ok_def)
    have num: "map_of nums (row_type r) = Some (snd (row_num r))" if "r \<in> set message_rows" for r
      using dist(1) that sets(1) by (intro map_of_is_SomeI) (auto simp: row_num_def)
    have keys: "fst ` set names \<subseteq> row_type ` set message_rows" unfolding sets(2) by (auto simp: row_name_def)
    have "inj_on (\<lambda>t. the (map_of nums t)) (row_type ` set message_rows)"
      using row_numbers_distinct num by (auto simp: inj_on_def distinct_map row_num_def row_type_def)
    then have "inj_on (\<lambda>t. the (map_of nums t)) (fst ` set names)" using keys by (rule inj_on_subset)
    moreover have "\<forall>t \<in> fst ` set names. map_of nums t \<noteq> None"
      using keys num by (metis imageE option.distinct(1) subsetD)
    ultimately show thesis
      using record_tables_consistent [OF dist(2) nums] assms(1) that unfolding no_failure_def by blast
  qed
  moreover have "render p = render (row_params command)"
    using consistent_render [OF p(3,2) sets assms(6)] .
  ultimately have "run_msg_types E command = Ok (render (row_params command))"
    using assms(1) dir(1) by (simp add: run_msg_types_def no_failure_def)
  moreover have "sort_key fst (RecordNames (row_params command)) = map row_name message_rows"
    using rows_sorted unfolding row_params_def by (simp add: sort_key_id_if_sorted comp_def row_name_def)
  ultimately show ?thesis
    using rows_are_the_table assms(7) by (simp add: main_msg_types_def gen_main_def)
qed

theorem msg_types_regenerated_witness:
  "\<exists>E. no_failure E \<and> main_msg_types Some [] E ''mk_audit_msg_types''
     = Ok (''zaudit_msg_types.go'', render (row_params ''mk_audit_msg_types''))"
proof -
  let ?nums = "map row_num message_rows" and ?names = "map row_name (filter (\<lambda>r. fst r \<noteq> snd (snd r)) message_rows)"
  let ?E = "sample_headers ?names ?nums"
  have "no_failure ?E" by (simp add: no_failure_def sample_headers_def range_ok_rev)
  moreover have "env_http ?E (last headers) = Response 200 (Some (line_text (map name_text ?names)))"
    "\<And>dir. env_gcc ?E dir = Some (line_text (map define_text ?nums))"
    by (simp_all add: sample_headers_def del: map_map)
  ultimately show ?thesis
    using msg_types_regenerated [of ?E ?names ?nums "\<lambda>r. fst r \<noteq> snd (snd r)" Some _ "''mk_audit_msg_types''"] by blast
qed

section \<open>The error numbers\<close>

definition errno_name :: "string \<Rightarrow> bool" where
  "errno_name t = (\<exists>w. t = ''E'' @ w \<and> word_name w)"

definition errno_text :: "string \<times> string \<Rightarrow> string" where
  "errno_text x = ''#define '' @ fst x @ '' '' @ snd x"

definition errno_value :: "string \<Rightarrow> int" where
  "errno_value v = (case atoi v of (n, err) \<Rightarrow> if err \<noteq> None then - 1 else n)"

lemma first_word: "word_name w \<Longrightarrow> r = [] \<or> \<not> re_word (hd r) \<Longrightarrow> first (m_rep 1 re_word) (w @ r) [] r"
  by (rule first_rep) (auto simp: word_name_def Suc_le_eq)

lemma match_errno_text:
  assumes "errno_name t" and "word_name v"
  shows "match_start errnoDefRegex (errno_text (t, v)) = Some [t, v]"
proof -
  obtain w where w: "t = ''E'' @ w" "word_name w" using assms(1) by (auto simp: errno_name_def)
  have "first (m_seq (m_lit ''E'') (m_rep 1 re_word)) (''E'' @ w @ '' '' @ v @ []) ([] @ []) ('' '' @ v @ [])"
    by (rule first_seq, rule first_lit, rule first_word) (use w in \<open>auto simp: re_word_def\<close>)
  then have 3: "first (m_cap (m_seq (m_lit ''E'') (m_rep 1 re_word))) (t @ '' '' @ v @ []) [t] ('' '' @ v @ [])"
    using first_cap [where w = t and r = "'' '' @ v @ []"] by (simp add: w(1))
  have v: "v \<noteq> []" "re_word (hd v)" using assms(2) by (auto simp: word_name_def list_all_iff)
  then have nv: "\<not> re_space (hd v)" by (auto simp: re_word_def re_space_def)
  have 1: "first (m_lit ''#define'') (''#define'' @ '' '' @ t @ '' '' @ v @ []) [] ('' '' @ t @ '' '' @ v @ [])" by (rule first_lit)
  have 2: "first (m_rep 1 re_space) ('' '' @ t @ '' '' @ v @ []) [] (t @ '' '' @ v @ [])"
    by (rule first_rep) (auto simp: re_space_def w(1))
  have 4: "first (m_rep 1 re_space) ('' '' @ v @ []) [] (v @ [])"
    by (rule first_rep) (use v nv in \<open>auto simp: re_space_def\<close>)
  have 5: "first (m_cap (m_rep 1 re_word)) (v @ []) [v] []"
    by (rule first_cap, rule first_word) (use assms(2) in auto)
  have "first errnoDefRegex (''#define'' @ '' '' @ t @ '' '' @ v @ []) ([] @ [] @ [t] @ [] @ [v] @ []) []"
    unfolding errnoDefRegex_def by (rule first_seqs 1 2 3 4 5 first_seqs_Nil)+
  from first_match_start [OF this] show ?thesis by (simp add: errno_text_def)
qed

definition def_ok :: "string \<times> string \<Rightarrow> bool" where
  "def_ok x = (errno_name (fst x) \<and> word_name (snd x) \<and> length (fst x) < 1000 \<and> length (snd x) < 1000)"

lemma is_line_errno_text: "def_ok x \<Longrightarrow> is_line (errno_text x)"
  using word_no_break [of "snd x"] word_no_break [of "tl (fst x)"]
  by (auto simp: def_ok_def errno_name_def word_name_def is_line_def errno_text_def)

lemma fold_errno_text:
  assumes "list_all def_ok xs" and "distinct (map fst m @ map fst xs)"
  shows "fold errno_line (map errno_text xs) m = m @ map (\<lambda>(t, v). (t, errno_value v)) xs"
  using assms
proof (induction xs arbitrary: m)
  case (Cons x xs)
  obtain t v where x: "x = (t, v)" by (cases x)
  have "match_start errnoDefRegex (errno_text x) = Some [t, v]"
    using Cons.prems(1) match_errno_text by (simp add: def_ok_def x)
  then have "errno_line (errno_text x) m = m @ [(t, errno_value v)]"
    using Cons.prems(2) by (auto simp: errno_line_def errno_value_def update_new x split: prod.splits)
  then show ?case using Cons.IH [of "m @ [(t, errno_value v)]"] Cons.prems by (simp add: x)
qed simp

lemma sorted_split:
  fixes f :: "'a \<Rightarrow> int"
  shows "sorted (map f xs) \<Longrightarrow> xs = filter (\<lambda>x. f x < c) xs @ filter (\<lambda>x. c \<le> f x) xs"
proof (induction xs)
  case (Cons x xs)
  have none: "filter (\<lambda>x. f x < c) xs = []" if "c \<le> f x" using Cons.prems that by (auto simp: filter_empty_conv)
  show ?case using Cons none by (cases "f x < c") auto
qed simp

text \<open>What the generator makes of a list of definitions.\<close>

lemma readErrorNumbers_text:
  assumes "range_ok (en_range E)" and "en_gcc E includeErrno = Some (line_text (map errno_text defs))"
    and "list_all def_ok defs" and "distinct (map fst defs)"
  shows "\<exists>errnos. readErrorNumbers E = Ok errnos \<and> sorted (map err_Value errnos)
    \<and> mset errnos = mset (map (\<lambda>(t, v). \<lparr>err_Name = t, err_Value = errno_value v\<rparr>) defs)"
proof -
  let ?m = "map (\<lambda>(t, v). (t, errno_value v)) defs" and ?e = "\<lambda>(name, value). \<lparr>err_Name = name, err_Value = value\<rparr>"
  have "scan_lines (line_text (map errno_text defs)) = map errno_text defs"
    using assms(3) is_line_errno_text by (intro scan_line_text) (auto simp: list_all_iff)
  then have "readErrorNumbers E = Ok (sort_key err_Value (map ?e (en_range E ?m)))"
    using fold_errno_text [of defs "[]"] assms(2-4) by (simp add: readErrorNumbers_def Let_def)
  moreover have "mset (map ?e (en_range E ?m)) = mset (map ?e ?m)"
    using arg_cong [OF range_okD(4) [OF assms(1), of ?m], of "image_mset ?e"] by (simp only: mset_map)
  ultimately show ?thesis by (auto simp: comp_def case_prod_unfold)
qed

text \<open>The definitions of the error numbers of the repository, with the two names that are defined by another name.\<close>

definition errno_aliases :: "(string \<times> string) list" where
  "errno_aliases = [(''EDEADLOCK'', ''EDEADLK''), (''EWOULDBLOCK'', ''EAGAIN'')]"

definition errno_defs :: "(string \<times> string) list" where
  "errno_defs = errno_aliases @ map (\<lambda>(n, t). (t, itoa n)) AuditErrnoToName"

definition errno_of :: "int \<times> string \<Rightarrow> ErrorNumber" where
  "errno_of x = \<lparr>err_Name = snd x, err_Value = fst x\<rparr>"

definition errno_row_ok :: "int \<times> string \<Rightarrow> bool" where
  "errno_row_ok x = (case x of (n, t) \<Rightarrow> 0 < n \<and> n < 1000 \<and> int_length t < 100
     \<and> (case t of [] \<Rightarrow> False | c # w \<Rightarrow> c = CHR ''E'' \<and> w \<noteq> [] \<and> list_all upper_word w))"

lemma errno_rows_ok: "list_all errno_row_ok AuditErrnoToName"
  by code_simp

lemma errnos_ascending: "ascending (map fst AuditErrnoToName)"
  by code_simp

lemma digits_word: "word_name (format_uint n)"
  using format_uint_digit by (fastforce simp: word_name_def list_all_iff re_word_def is_digit_def)

lemma errno_row_facts:
  assumes "(n, t) \<in> set AuditErrnoToName"
  shows "def_ok (t, itoa n)" and "errno_value (itoa n) = n" and "0 \<le> n"
proof -
  have ok: "errno_row_ok (n, t)" using errno_rows_ok assms by (simp add: list_all_iff)
  then have n: "0 \<le> n" "nat n < 10 ^ Suc 3" by (auto simp: errno_row_ok_def)
  obtain w where w: "t = ''E'' @ w" "word_name w"
    using ok upper_word_re_word by (auto simp: errno_row_ok_def word_name_def list_all_iff split: list.splits)
  have "length t < 1000" using ok by (auto simp: errno_row_ok_def int_length_eq)
  then show "def_ok (t, itoa n)"
    using w digits_word [of "nat n"] length_format_uint [OF n(2)] n(1) by (auto simp: def_ok_def errno_name_def itoa_def)
  show "errno_value (itoa n) = n" "0 \<le> n"
    using n parse_int_itoa [of 64 n] by (simp_all add: errno_value_def atoi_def)
qed

lemma errno_alias_facts:
  "list_all def_ok errno_aliases" "map (errno_value \<circ> snd) errno_aliases = [- 1, - 1]"
proof -
  have "errno_name (''E'' @ w)" if "word_name w" for w using that by (auto simp: errno_name_def)
  from this [of "''DEADLOCK''"] this [of "''WOULDBLOCK''"] show "list_all def_ok errno_aliases"
    by (simp add: errno_aliases_def def_ok_def word_name_def re_word_def)
  show "map (errno_value \<circ> snd) errno_aliases = [- 1, - 1]"
    by (simp add: errno_aliases_def errno_value_def atoi_def parse_int_def parse_uint_def digit_val_def Let_def)
qed

lemma errno_defs_distinct: "distinct (map fst errno_defs)"
proof -
  have "map fst errno_defs = map fst AuditErrnoToNum"
    by (simp add: errno_defs_def errno_aliases_def AuditErrnoToNum_def AuditErrnoToName_def)
  then show ?thesis using distinct_errno_names by simp
qed

lemma errno_defs_ok: "list_all def_ok errno_defs"
  using errno_row_facts(1) errno_alias_facts(1) by (auto simp: errno_defs_def list_all_iff)

definition errno_entry :: "string \<times> string \<Rightarrow> ErrorNumber" where
  "errno_entry x = \<lparr>err_Name = fst x, err_Value = errno_value (snd x)\<rparr>"

lemma errno_entry_eq: "(\<lambda>(t, v). \<lparr>err_Name = t, err_Value = errno_value v\<rparr>) = errno_entry"
  by (simp add: fun_eq_iff errno_entry_def)

lemma errno_entries:
  "map errno_entry errno_defs = map errno_entry errno_aliases @ map errno_of AuditErrnoToName"
  using errno_row_facts(2) by (auto simp: errno_defs_def errno_entry_def errno_of_def)

lemma alias_entries: "map err_Value (map errno_entry errno_aliases) = [- 1, - 1]"
  using errno_alias_facts(2) by (simp add: errno_entry_def comp_def)

lemma errno_filters:
  "filter (\<lambda>e. 0 \<le> err_Value e) (map errno_entry errno_defs) = map errno_of AuditErrnoToName"
  "filter (\<lambda>e. err_Value e < 0) (map errno_entry errno_defs) = map errno_entry errno_aliases"
proof -
  have a: "err_Value e = - 1" if "e \<in> set (map errno_entry errno_aliases)" for e
    using alias_entries that by (auto simp: errno_aliases_def)
  have b: "0 \<le> err_Value e" if "e \<in> set (map errno_of AuditErrnoToName)" for e
    using that errno_row_facts(3) by (auto simp: errno_of_def)
  have "filter (\<lambda>e. 0 \<le> err_Value e) (map errno_entry errno_aliases) = []"
    "filter (\<lambda>e. err_Value e < 0) (map errno_entry errno_aliases) = map errno_entry errno_aliases"
    unfolding filter_empty_conv filter_id_conv using a by fastforce+
  moreover have "filter (\<lambda>e. 0 \<le> err_Value e) (map errno_of AuditErrnoToName) = map errno_of AuditErrnoToName"
    "filter (\<lambda>e. err_Value e < 0) (map errno_of AuditErrnoToName) = []"
    unfolding filter_empty_conv filter_id_conv using b by fastforce+
  ultimately show
    "filter (\<lambda>e. 0 \<le> err_Value e) (map errno_entry errno_defs) = map errno_of AuditErrnoToName"
    "filter (\<lambda>e. err_Value e < 0) (map errno_entry errno_defs) = map errno_entry errno_aliases"
    unfolding errno_entries filter_append by simp_all
qed

lemma errno_table_sorted: "distinct (map err_Value (map errno_of AuditErrnoToName))" "sorted (map err_Value (map errno_of AuditErrnoToName))"
proof -
  have "map err_Value (map errno_of AuditErrnoToName) = map fst AuditErrnoToName" by (simp add: errno_of_def comp_def)
  moreover have "sorted_wrt (<) (map fst AuditErrnoToName)" by (rule ascending_strict [OF errnos_ascending])
  ultimately show "distinct (map err_Value (map errno_of AuditErrnoToName))" "sorted (map err_Value (map errno_of AuditErrnoToName))"
    by (simp_all only: strict_sorted_iff)
qed

lemma sorted_entries:
  assumes "sorted (map err_Value errnos)" and "mset errnos = mset (map errno_entry errno_defs)"
  shows "filter (\<lambda>e. 0 \<le> err_Value e) errnos = map errno_of AuditErrnoToName"
    and "mset (filter (\<lambda>e. err_Value e < 0) errnos) = mset (map errno_entry errno_aliases)"
proof -
  have same: "mset (filter P errnos) = mset (filter P (map errno_entry errno_defs))" for P
    using assms(2) by (simp only: mset_filter)
  have "mset (filter (\<lambda>e. 0 \<le> err_Value e) errnos) = mset (map errno_of AuditErrnoToName)"
    unfolding same errno_filters ..
  then have "sort_key err_Value (filter (\<lambda>e. 0 \<le> err_Value e) errnos) = map errno_of AuditErrnoToName"
    by (rule sort_key_unique [OF _ errno_table_sorted])
  moreover have "sorted (map err_Value (filter (\<lambda>e. 0 \<le> err_Value e) errnos))" by (rule sorted_filter [OF assms(1)])
  ultimately show "filter (\<lambda>e. 0 \<le> err_Value e) errnos = map errno_of AuditErrnoToName"
    by (simp only: sort_key_id_if_sorted)
  show "mset (filter (\<lambda>e. err_Value e < 0) errnos) = mset (map errno_entry errno_aliases)"
    unfolding same errno_filters ..
qed

text \<open>
  (C30) \<^verbatim>\<open>zaudit_exit_codes.go\<close> is a fixed point of its generator: from definitions of its error numbers, in any order, and
  of the two names that stand for another name, and whatever the iteration order of the map, the
  generator makes the table of names in exactly the order of the file, and a table of numbers with the two other
  names first and then the same entries, which has the names of the table of the library.
\<close>

theorem exit_codes_regenerated:
  assumes "range_ok (en_range E)" and "en_gcc E includeErrno = Some (line_text (map errno_text defs))"
    and "mset defs = mset errno_defs"
  shows "\<exists>errnos aliases. readErrorNumbers E = Ok errnos
    \<and> NumToName (errno_params command errnos) = map errno_of AuditErrnoToName
    \<and> NameToNum (errno_params command errnos) = aliases @ map errno_of AuditErrnoToName
    \<and> mset aliases = mset [\<lparr>err_Name = ''EDEADLOCK'', err_Value = - 1\<rparr>, \<lparr>err_Name = ''EWOULDBLOCK'', err_Value = - 1\<rparr>]
    \<and> map fst AuditErrnoToNum = map fst errno_aliases @ map err_Name (map errno_of AuditErrnoToName)"
proof -
  have set: "set defs = set errno_defs" by (rule mset_eq_setD [OF assms(3)])
  have "mset (map fst defs) = mset (map fst errno_defs)" using assms(3) by (simp only: mset_map)
  then have "distinct (map fst defs)" using errno_defs_distinct mset_eq_imp_distinct_iff by blast
  moreover have "list_all def_ok defs" using errno_defs_ok by (simp add: list_all_iff set)
  ultimately obtain errnos where e: "readErrorNumbers E = Ok errnos" "sorted (map err_Value errnos)"
    "mset errnos = mset (map (\<lambda>(t, v). \<lparr>err_Name = t, err_Value = errno_value v\<rparr>) defs)"
    using readErrorNumbers_text [OF assms(1,2)] by blast
  have "mset errnos = mset (map errno_entry errno_defs)"
    using e(3) assms(3) unfolding errno_entry_eq by (simp only: mset_map)
  note entries = sorted_entries [OF e(2) this]
  have "errnos = filter (\<lambda>x. err_Value x < 0) errnos @ map errno_of AuditErrnoToName"
    using sorted_split [OF e(2), of 0] entries(1) by simp
  moreover have "map errno_entry errno_aliases =
      [\<lparr>err_Name = ''EDEADLOCK'', err_Value = - 1\<rparr>, \<lparr>err_Name = ''EWOULDBLOCK'', err_Value = - 1\<rparr>]"
    using alias_entries by (simp add: errno_entry_def errno_aliases_def)
  moreover have "map fst AuditErrnoToNum = map fst errno_aliases @ map err_Name (map errno_of AuditErrnoToName)"
    by (simp add: errno_aliases_def AuditErrnoToNum_def AuditErrnoToName_def errno_of_def)
  ultimately show ?thesis
    using e(1) entries by (intro exI [of _ errnos] exI [of _ "filter (\<lambda>x. err_Value x < 0) errnos"]) (simp add: errno_params_def)
qed

definition sample_errno_env :: errno_env where
  "sample_errno_env = \<lparr>en_tempdir = True, en_chdir = True, en_gcc = (\<lambda>_. Some (line_text (map errno_text errno_defs))),
     en_range = rev, en_create = True, en_write = True, en_cgo = (\<lambda>_. None), en_write_out = True, en_gofmt = Some\<rparr>"

theorem exit_codes_regenerated_witness:
  "\<exists>errnos. readErrorNumbers sample_errno_env = Ok errnos
     \<and> NumToName (errno_params ''mk_audit_exit_codes'' errnos) = map errno_of AuditErrnoToName"
proof -
  have "range_ok (en_range sample_errno_env)" by (simp add: sample_errno_env_def range_ok_rev)
  moreover have "en_gcc sample_errno_env includeErrno = Some (line_text (map errno_text errno_defs))"
    by (simp add: sample_errno_env_def)
  ultimately show ?thesis using exit_codes_regenerated [of sample_errno_env errno_defs "''mk_audit_exit_codes''"] by blast
qed

text \<open>Two names with the same number stay both, and the map that is generated has a key twice, which Go does not accept.\<close>

lemma duplicate_numbers_kept:
  assumes "range_ok (en_range E)" and "en_gcc E includeErrno = Some (line_text (map errno_text [(a, v), (b, v)]))"
    and "def_ok (a, v)" "def_ok (b, v)" "a \<noteq> b" "0 \<le> errno_value v"
  shows "\<exists>errnos. readErrorNumbers E = Ok errnos \<and> map err_Value (NumToName (errno_params command errnos)) = [errno_value v, errno_value v]"
proof -
  obtain errnos where e: "readErrorNumbers E = Ok errnos"
    "mset errnos = {#\<lparr>err_Name = a, err_Value = errno_value v\<rparr>, \<lparr>err_Name = b, err_Value = errno_value v\<rparr>#}"
    using readErrorNumbers_text [OF assms(1,2)] assms(3-5) by auto
  then have "length errnos = 2" "\<forall>x \<in> set errnos. err_Value x = errno_value v"
    by (metis size_mset size_add_mset size_empty One_nat_def Suc_1, auto dest!: arg_cong [of "mset errnos" _ set_mset])
  then show ?thesis using e(1) assms(6)
    by (auto simp: errno_params_def numeral_2_eq_2 length_Suc_conv)
qed

end
