(* ===== verification/Spec2Isabelle.thy ===== *)
theory Spec2Isabelle
  imports Reassembler_Live Auparse_Syscall Audit_Client_Laws Rule_Errors Rule_Flags_Wf Rule_PrintParse Aucoalesce_Laws
    Aucoalesce_Lookup_Laws Cmd_Auparse_Laws Cmd_Audit Gen_Assets Gen_Regenerate
begin

text \<open>
  A verification of \<^verbatim>\<open>go-libaudit\<close>, a Go library for the Linux audit framework.

  \<^bold>\<open>The program.\<close> The kernel sends audit records over a netlink socket. \<^verbatim>\<open>netlink.go\<close> holds the socket and
  frames messages; \<^verbatim>\<open>audit.go\<close> is a client that configures auditing, lists, adds and deletes rules and
  receives records. \<^verbatim>\<open>auparse\<close> parses the text of a record into fields; \<^verbatim>\<open>reassembler.go\<close> collects the records
  of one event by sequence number; \<^verbatim>\<open>aucoalesce\<close> merges the records of an event and normalises it, and
  resolves user and group ids. \<^verbatim>\<open>rule\<close> translates rules to and from the kernel's binary form and \<^verbatim>\<open>rule/flags\<close>
  parses rules from the command line. \<^verbatim>\<open>cmd/audit\<close> and \<^verbatim>\<open>cmd/auparse\<close> are tools built from these parts.

  \<^bold>\<open>Conventions.\<close> A Go function is a HOL function. One that can fail returns an \<open>outcome\<close>: \<open>Ok\<close>, \<open>Err\<close> with a value
  of an error datatype for a returned error, or \<open>Panic\<close> for a run-time panic (an index or a slice out
  of range). Strings are lists of bytes as \<open>char\<close>, integers are words of their width where they wrap, and
  structs are records. State is passed explicitly. Goroutines are interleaved step by step, where a step is
  what a mutex, an atomic operation or a system call makes atomic. A loop that need not end is a partial function into
  \<open>option\<close>, where \<open>None\<close> is a run that does not return; there is no other fuel in the development. Code that is not in the
  repository is a parameter: system calls (record \<open>kernel\<close>), the clock, the byte order of the machine,
  the user and group databases, \<^verbatim>\<open>os.Stat\<close> and \<^verbatim>\<open>GOARCH\<close> (record \<open>host\<close>), \<^verbatim>\<open>unix.SignalName\<close>, the order in which a map
  is iterated (\<open>range_order\<close>, \<open>ranging\<close>), the YAML and JSON libraries, and for the generators the network, the file system
  and the tools they run (records \<open>msg_env\<close> and \<open>errno_env\<close>).

  \<^bold>\<open>The theories.\<close>
  \<^item> \<^verbatim>\<open>Go_Prelude\<close>, \<^verbatim>\<open>Go_Strconv\<close>, \<^verbatim>\<open>Go_Tables\<close>, \<^verbatim>\<open>Go_Binary\<close>, \<^verbatim>\<open>Go_Heap\<close>, \<^verbatim>\<open>Go_Regexp\<close>, \<^verbatim>\<open>Go_Bufio\<close>: the parts of the Go standard library
    the sources use (\<^verbatim>\<open>strings\<close>, \<^verbatim>\<open>strconv\<close>, \<^verbatim>\<open>encoding/binary\<close>, \<^verbatim>\<open>container/heap\<close>, \<^verbatim>\<open>regexp\<close>, \<^verbatim>\<open>bufio\<close>), with the lemmas the
    components share. \<^verbatim>\<open>Go_Heap\<close> states what an order must satisfy for the heap to work as the locale \<open>keyed_less\<close>.
  \<^item> \<^verbatim>\<open>Audit_Msg_Types\<close>, \<^verbatim>\<open>Audit_Tables\<close>, \<^verbatim>\<open>Audit_Syscalls\<close>: the generated tables \<^verbatim>\<open>auparse/zaudit_*.go\<close> and their conversions.
  \<^item> \<^verbatim>\<open>Auparse_Message\<close> (header of a record), \<^verbatim>\<open>Auparse_Hex\<close> (\<^verbatim>\<open>hex.go\<close>, \<^verbatim>\<open>sockaddr.go\<close>), \<^verbatim>\<open>Auparse_Fields\<close> (the scanner of key-value
    pairs), \<^verbatim>\<open>Auparse_Enrich\<close> (\<^verbatim>\<open>enrichData\<close> and \<^verbatim>\<open>Data\<close>), \<^verbatim>\<open>Auparse_Roundtrip\<close>, \<^verbatim>\<open>Auparse_Syscall\<close>: \<^verbatim>\<open>auparse/auparse.go\<close>. Printing a record and
    parsing it gives it back; scanning finds exactly the printed pairs; what \<^verbatim>\<open>Data\<close> makes of a \<^verbatim>\<open>SYSCALL\<close> record.
  \<^item> \<^verbatim>\<open>Reassembler\<close>, \<^verbatim>\<open>Reassembler_Live\<close>: \<^verbatim>\<open>reassembler.go\<close>. The locales \<open>event_store\<close> and \<open>ordered_event_store\<close> state what the
    reassembler relies on, and the event list is an interpretation of them. No message is lost, duplicated or
    reordered; events come in sequence order; memory is bounded; a call to \<^verbatim>\<open>Maintain\<close> after the timeout delivers everything.
  \<^item> \<^verbatim>\<open>Netlink\<close>, \<^verbatim>\<open>Audit_Client\<close>, \<^verbatim>\<open>Audit_Client_Laws\<close>: \<^verbatim>\<open>netlink.go\<close>, \<^verbatim>\<open>audit.go\<close>. The client uses the socket through the interface
    \<^verbatim>\<open>NetlinkSendReceiver\<close>; the locale \<open>netlink_transport\<close> states its laws and the netlink client is an interpretation. Replies
    are matched to requests whatever events come between, and waiting ends exactly when a reply comes.
  \<^item> \<^verbatim>\<open>Rule_Types\<close>, \<^verbatim>\<open>Rule_Binary\<close>, \<^verbatim>\<open>Rule_Build\<close>, \<^verbatim>\<open>Rule_CommandLine\<close>, \<^verbatim>\<open>Rule_Laws\<close>, \<^verbatim>\<open>Rule_Errors\<close>: package \<^verbatim>\<open>rule\<close>. A built rule is read back
    from its bytes; a watch is printed canonically; and the bounds the code does not check.
  \<^item> \<^verbatim>\<open>Rule_Flags\<close>, \<^verbatim>\<open>Rule_Flags_Laws\<close>, \<^verbatim>\<open>Rule_Flags_Wf\<close>: \<^verbatim>\<open>rule/flags/flags.go\<close> over the standard \<^verbatim>\<open>flag\<close> package. Rules written on a
    command line are parsed back, and whatever is parsed is well-formed. \<^verbatim>\<open>Rule_PrintParse\<close> composes the packages: what
    \<^verbatim>\<open>ToCommandLine\<close> prints for a syscall rule is parsed to a rule that builds to the same bytes.
  \<^item> \<^verbatim>\<open>Aucoalesce_Event\<close>, \<^verbatim>\<open>Aucoalesce_Normalize\<close>, \<^verbatim>\<open>Aucoalesce\<close>, \<^verbatim>\<open>Aucoalesce_Laws\<close>: \<^verbatim>\<open>event_type.go\<close>, \<^verbatim>\<open>normalize.go\<close>, \<^verbatim>\<open>coalesce.go\<close>. When
    coalescing fails, which message identifies an event, what the tables of a configuration are.
  \<^item> \<^verbatim>\<open>Aucoalesce_Lookup\<close>, \<^verbatim>\<open>Aucoalesce_Lookup_Laws\<close>: \<^verbatim>\<open>id_lookup.go\<close>. The specification of a lookup is the locale \<open>resolver\<close>, with the
    caches as an interpretation: they refine a direct query of the databases, and never answer with stale data.
  \<^item> \<^verbatim>\<open>Cmd_Flags\<close>, \<^verbatim>\<open>Cmd_Auparse\<close>, \<^verbatim>\<open>Cmd_Auparse_Laws\<close>, \<^verbatim>\<open>Cmd_Audit\<close>: the tools from \<^verbatim>\<open>main\<close> on, which compose the
    components: what they print. The two goroutines of \<^verbatim>\<open>auparse\<close> (record \<open>tool_state\<close>) take turns in an order given as a list of moves; a
    callback runs outside of the mutex and is a list of actions that the other goroutine may interrupt after each lookup and
    each \<^verbatim>\<open>Write\<close>, and the end of the main goroutine ends the tool, finished or not. Below in this theory the two tools are composed: the records
    of the kernel that \<^verbatim>\<open>audit\<close> prints are handed out by \<^verbatim>\<open>auparse\<close> grouped by event.
  \<^item> \<^verbatim>\<open>Gen_Template\<close>, \<^verbatim>\<open>Gen_Msg_Types\<close>, \<^verbatim>\<open>Gen_Exit_Codes\<close>, \<^verbatim>\<open>Gen_Assets\<close>, \<^verbatim>\<open>Gen_Regenerate\<close>: the generators
    \<^verbatim>\<open>mk_audit_msg_types.go\<close>, \<^verbatim>\<open>mk_audit_exit_codes.go\<close> and \<^verbatim>\<open>mknormalize_data.go\<close>. The generated tables are consistent if the
    headers define the named types with different numbers, the tables of the repository are fixed points of their generators, and what is embedded is what the
    generated lookup returns.

  \<^bold>\<open>Bounds.\<close> The ordering of events is proved for sequence numbers within a window of \<open>2 ^ 24\<close>, across the
  roll-over of the 32-bit counter, which is the range for which \<^verbatim>\<open>intHeap.Less\<close> is an order. Messages sent are shorter
  than \<open>2 ^ 32\<close> bytes, the largest length their header can hold. Cached entries are read before the year 2262, when the
  expiration time of the permanent entries passes.

  \<^bold>\<open>Not modelled.\<close> The texts of error messages, which are values of datatypes instead, and what the tools log. The
  \<^verbatim>\<open>cgo\<close> definitions (\<^verbatim>\<open>defs_*.go\<close>), which name constants of kernel headers that are not part of the repository, and the
  generators in Perl; their output is modelled as the tables above. The contents of the embedded
  normalisation data of \<^verbatim>\<open>znormalize_data.go\<close>: the lookup takes the list of assets as an argument. Sharing of the backing arrays
  of slices: \<^verbatim>\<open>append\<close> makes a new list here, also where \<^verbatim>\<open>applyNormalization\<close> appends to a slice it shares with a normalisation.
\<close>

section \<open>From the kernel to the printed events\<close>

text \<open>Records of the kernel as the tools pass them on: type, time, sequence number and fields.\<close>

type_synonym kernel_record = "AuditMessageType \<times> nat \<times> nat \<times> u32 \<times> token list"

definition record_log :: "kernel_record \<Rightarrow> string" where
  "record_log r = (case r of (t, sec, msec, seq, ts) \<Rightarrow> log_line t sec msec seq ts)"

definition record_raw :: "kernel_record \<Rightarrow> RawAuditMessage" where
  "record_raw r = (case r of (t, sec, msec, seq, ts) \<Rightarrow>
     \<lparr>raw_Type = t, raw_Data = bytes_of_string (record_text sec msec seq ts)\<rparr>)"

definition record_message :: "kernel_record \<Rightarrow> AuditMessage" where
  "record_message r = (case r of (t, sec, msec, seq, ts) \<Rightarrow> parsed_record t sec msec seq ts)"

definition record_ok :: "kernel_record \<Rightarrow> bool" where
  "record_ok r = (case r of (t, sec, msec, seq, ts) \<Rightarrow>
     sec < 2 ^ 63 \<and> msec < 1000 \<and> ts \<noteq> [] \<and> list_all tok_ok ts \<and> is_line (log_line t sec msec seq ts))"

lemma printed_records: "concat (map record_line (map record_raw rs)) = line_text (map record_log rs)"
  by (induction rs) (auto simp: line_text_def record_line_def record_raw_def record_log_def log_line_def string_bytes_inverse)

lemma pushed_records: "list_all record_ok rs \<Longrightarrow> map pushed (map record_log rs) = map record_message rs"
  by (induction rs) (auto simp: record_ok_def record_log_def record_message_def pushed_def ParseLogLine_line)

lemma record_lines: "list_all record_ok rs \<Longrightarrow> scan_lines (line_text (map record_log rs)) = map record_log rs"
  by (rule scan_line_text) (auto simp: list_all_iff record_ok_def record_log_def)

text \<open>The flag \<^verbatim>\<open>-ro\<close> of \<^verbatim>\<open>audit\<close>.\<close>

lemma ro_flag: "tool_parse audit_flag_set [''-ro''] default_flags = Ok (default_flags\<lparr>fl_receiveOnly := True\<rparr>)"
  by (simp add: tool_parse.simps(2) tool_parseOne_def name_value_def index_byte_def audit_flag_set_def give_tool_flag_def
      bool_value_def parse_bool_def)

text \<open>
  (C5) The two tools composed, as the documentation of \<^verbatim>\<open>cmd/audit\<close> suggests. \<^verbatim>\<open>audit -ro\<close>, run as root, prints the records that the
  kernel sends until a read fails; messages of other types are dropped, and the records are well-formed. From this text \<^verbatim>\<open>auparse\<close>, for
  every interleaving of its goroutines with enough moves of the main one, and every clock, ends having handed out these records grouped by event:
  for each sequence number those that arrived with it, each once and in the order of arrival, without the end-of-event
  records. The main goroutine has written its share of the events, and the goroutine of the ticker its own, up to the lines for
  which it was too late when the tool ended.
\<close>

theorem audit_pipes_into_auparse:
  assumes "NewMulticastAuditClient K False w = (Ok c, w')" and "receives (netlink_ops K bo) bo (Netlink c) ms n1"
    and "Receive K False (parseNetlinkAuditMessage bo) n1 = (Err e, n2)"
    and "filter audit_record (map raw_of ms) = map record_raw rs" and "list_all record_ok rs"
    and "7 * length rs + 5 \<le> main_moves mvs"
  shows "\<exists>out s em et evs. audit_main K bo getpid 0 openFile [''-ro''] w
      = Some (Err (AuditFatal (ErrClient (ErrWrapped ''receive failed'' e))), out)
    \<and> auparse_main (F\<lparr>af_stdin := out\<rparr>) E [] mvs st = Ok s \<and> tl_main s = Exited
    \<and> evs \<in> shuffles em et \<and> (\<forall>q. handed_out q evs = of_seq q (kept (map record_message rs)))
    \<and> written MainLoop s = concat (map (event_lines \<circ> msgs) em)
    \<and> written Maintainer s @ tl_failed s @ unwritten Maintainer s = concat (map (event_lines \<circ> msgs) et)"
proof -
  let ?out = "line_text (map record_log rs)" and ?fl = "default_flags\<lparr>fl_receiveOnly := True\<rparr>"
  have "\<not> clearPIDOnClose c"
    using assms(1) by (auto simp: NewMulticastAuditClient_def newAuditClient_def split: prod.splits outcome.splits)
  moreover have "op_Receive (netlink_ops K bo) False (parseNetlinkAuditMessage bo) n1 = (Err e, n2)"
    using assms(3) by (simp add: netlink_ops_def)
  ultimately obtain c' where
    "with_client (netlink_ops K bo) bo getpid ?fl c = Some (Err (ErrWrapped ''receive failed'' e), ?out, c')"
    using audit_prints_events [of ?fl, OF _ assms(2), of e n2 getpid] unfolding assms(4) printed_records by auto
  then have audit: "audit_main K bo getpid 0 openFile [''-ro''] w
      = Some (Err (AuditFatal (ErrClient (ErrWrapped ''receive failed'' e))), ?out)"
    using assms(1) unfolding audit_main_def ro_flag by (simp add: read_audit_def default_flags_def)
  let ?F = "F\<lparr>af_stdin := ?out\<rparr>"
  have pre: "tool_parse auparse_flag_set [] auparse_defaults = Ok auparse_defaults" "text_mode auparse_defaults"
    "input_text ?F auparse_defaults = Some ?out" "output_opens ?F auparse_defaults"
    by (simp_all add: text_mode_def auparse_defaults_def input_text_def output_opens_def)
  have lines: "scan_lines ?out = map record_log rs" by (rule record_lines [OF assms(5)])
  then obtain s where s: "auparse_main ?F E [] mvs st = Ok s" "tl_main s = Exited"
    using auparse_main_ends [OF pre, of mvs E st] assms(6) by auto
  have "tool_inv (map record_log rs) s" using auparse_main_run [OF pre, of E mvs st] s(1) lines by auto
  from exited_trace [OF this s(2), unfolded pushed_records [OF assms(5)]] obtain em et evs where
    "evs \<in> shuffles em et" "\<forall>q. handed_out q evs = of_seq q (kept (map record_message rs))"
    "written MainLoop s = lines_of em" "written Maintainer s @ tl_failed s @ unwritten Maintainer s = lines_of et" by blast
  with audit s show ?thesis unfolding lines_of_def by blast
qed

text \<open>A reply to a request between two records of an event.\<close>

definition sample_records :: "kernel_record list" where
  "sample_records = [(AUDIT_CWD, 42, 11, 12, [Plain ''cwd'' ''/root'']), (AUDIT_PATH, 42, 11, 12, [Plain ''item'' ''0''])]"

definition sample_datagrams :: "NetlinkMessage list" where
  "sample_datagrams = [msg AUDIT_CWD 0 (raw_Data (record_raw (sample_records ! 0))), msg 2 0 [0],
     msg AUDIT_PATH 0 (raw_Data (record_raw (sample_records ! 1)))]"

lemma sample_records_ok: "list_all record_ok sample_records"
proof -
  have "log_line AUDIT_CWD 42 11 12 [Plain ''cwd'' ''/root''] = ''type=CWD msg=audit(42.011:12): cwd=/root''"
    "log_line AUDIT_PATH 42 11 12 [Plain ''item'' ''0''] = ''type=PATH msg=audit(42.011:12): item=0''" by code_simp+
  then have "is_line (log_line AUDIT_CWD 42 11 12 [Plain ''cwd'' ''/root''])" "is_line (log_line AUDIT_PATH 42 11 12 [Plain ''item'' ''0''])"
    unfolding is_line_def by simp_all
  then show ?thesis
    by (simp add: sample_records_def record_ok_def key_ok_def isKeyRune_def plain_char_def is_quote_def is_space_def)
qed

theorem audit_pipes_into_auparse_witness:
  "\<forall>F E st. \<exists>out s em et evs.
     audit_main sample_kernel LittleEndian 1 0 (\<lambda>_ w. (None, w)) [''-ro''] (map (datagram LittleEndian) sample_datagrams)
       = Some (Err (AuditFatal (ErrClient (ErrWrapped ''receive failed'' (Errno EAGAIN)))), out)
     \<and> auparse_main (F\<lparr>af_stdin := out\<rparr>) E [] (replicate 19 (MoveMain 0 (\<lambda>_. 0))) st = Ok s \<and> tl_main s = Exited
     \<and> evs \<in> shuffles em et \<and> handed_out 12 evs = map record_message sample_records
     \<and> written MainLoop s = concat (map (event_lines \<circ> msgs) em)"
proof -
  let ?K = sample_kernel and ?bo = LittleEndian and ?w = "map (datagram LittleEndian) sample_datagrams"
  obtain c nc where c: "NewMulticastAuditClient ?K False ?w = (Ok c, ?w)" "Netlink c = (nc, ?w)"
    "nl_respWriter nc = False" "nl_readBuf nc = NLMSG_HDRLEN + AuditMessageMaxLength"
    by (simp add: NewMulticastAuditClient_def newAuditClient_def NewNetlinkClient_def getPortID_def sample_kernel_def)
  have "record_text 42 11 12 [Plain ''cwd'' ''/root''] = ''audit(42.011:12): cwd=/root''"
    "record_text 42 11 12 [Plain ''item'' ''0''] = ''audit(42.011:12): item=0''" by code_simp+
  then have small: "length (datagram ?bo m) \<le> nl_readBuf nc" if "m \<in> set sample_datagrams" for m
    using that c(4) by (auto simp: sample_datagrams_def sample_records_def record_raw_def datagram_def msg_def)
  have 1: "receives (netlink_ops ?K ?bo) ?bo (Netlink c) sample_datagrams (nc, [])"
    using small sample_receive [OF c(3), of ?bo] unfolding c(2) by (simp add: netlink_ops_def sample_datagrams_def)
  have 2: "Receive ?K False (parseNetlinkAuditMessage ?bo) (nc, []) = (Err (Errno EAGAIN), nc, [])"
    by (simp add: Receive_def sample_kernel_def)
  have 3: "filter audit_record (map raw_of sample_datagrams) = map record_raw sample_records"
    by (simp add: sample_datagrams_def sample_records_def audit_record_def raw_of_def msg_def record_raw_def)
  have "of_seq 12 (kept (map record_message sample_records)) = map record_message sample_records"
    by (simp add: sample_records_def record_message_def parsed_record_def of_seq_def kept_def)
  moreover have "7 * length sample_records + 5 \<le> main_moves (replicate 19 (MoveMain 0 (\<lambda>_. 0)))"
    by (simp add: sample_records_def main_moves_def)
  ultimately show ?thesis
    using audit_pipes_into_auparse [OF c(1) 1 2 3 sample_records_ok, of "replicate 19 (MoveMain 0 (\<lambda>_. 0))" 1 "\<lambda>_ w. (None, w)"]
    by metis
qed

end
